(* ===== verification/Prelude.thy ===== *)
theory Prelude
  imports Main "HOL-Library.Word"
begin

text \<open>
  Shared vocabulary of the development: the machine integers, durations and
  instants of the Rust standard library, saturating arithmetic, results, and
  the generic list and option lemmas the component theories use.

  \<^item> \<open>duration\<close> and \<open>instant\<close> are counted in nanoseconds.  Truncated
    subtraction on \<^typ>\<open>nat\<close> is exactly \<open>Instant::saturating_duration_since\<close>
    (and \<open>Instant::elapsed\<close> / \<open>Instant::duration_since\<close>, which saturate too).
  \<^item> Reading the clock (\<open>Instant::now()\<close>) is an input of the operation that
    reads it.  An operation that reads it more than once takes a
    \<open>clock\<close>, which gives every reading its own value.
  \<^item> A panic is the value \<^const>\<open>None\<close> of an option result.
\<close>

section \<open>Machine integers\<close>

type_synonym u8 = "8 word"
type_synonym u16 = "16 word"
type_synonym u32 = "32 word"
type_synonym u64 = "64 word"
type_synonym i32 = "32 word"
type_synonym bytes = "u8 list"

text \<open>\<open>u32::saturating_add\<close>, \<open>u64::saturating_add\<close>.\<close>

definition saturating_add :: "'a::len word \<Rightarrow> 'a word \<Rightarrow> 'a word" where
  "saturating_add a b = (if unat a + unat b < 2 ^ LENGTH('a) then a + b else -1)"

lemma unat_less_2p: "unat w < 2 ^ LENGTH('a)"
  for w :: "'a::len word"
  by (rule unsigned_less)

lemma unat_max_word: "unat (-1 :: 'a::len word) = 2 ^ LENGTH('a) - 1"
  by (simp add: unsigned_minus_1_eq_mask mask_eq_exp_minus_1)

lemma unat_saturating_add:
  "unat (saturating_add a b) = min (unat a + unat b) (2 ^ LENGTH('a) - 1)"
  for a b :: "'a::len word"
proof (cases "unat a + unat b < 2 ^ LENGTH('a)")
  case True
  then have "unat (a + b) = unat a + unat b"
    by (simp add: unat_word_ariths)
  with True show ?thesis
    by (simp add: saturating_add_def)
next
  case False
  then show ?thesis
    by (simp add: saturating_add_def unat_max_word)
qed

lemma saturating_add_zero [simp]: "saturating_add a 0 = a"
  using unat_less_2p [of a] by (simp add: saturating_add_def)

lemma saturating_add_mono: "a \<le> saturating_add a b"
proof -
  have "unat a \<le> unat (saturating_add a b)"
    using unat_less_2p [of a] unfolding unat_saturating_add by arith
  then show ?thesis
    by (simp add: word_le_nat_alt)
qed

lemma saturating_add_one_pos: "saturating_add a 1 \<noteq> 0"
  for a :: "'a::len word"
proof -
  have "0 < unat (saturating_add a (1 :: 'a word))"
    using unat_less_2p [of "1 :: 'a word"] by (simp add: unat_saturating_add)
  then show ?thesis by auto
qed

section \<open>Durations and instants\<close>

type_synonym duration = nat
type_synonym instant = nat
type_synonym clock = "nat \<Rightarrow> instant"

definition from_secs :: "nat \<Rightarrow> duration" where
  "from_secs s = s * 1000000000"

definition from_millis :: "nat \<Rightarrow> duration" where
  "from_millis ms = ms * 1000000"

definition as_micros :: "duration \<Rightarrow> nat" where
  "as_micros d = d div 1000"

definition as_millis :: "duration \<Rightarrow> nat" where
  "as_millis d = d div 1000000"

text \<open>The largest \<open>Duration\<close>: \<open>u64::MAX\<close> seconds and 999999999 nanoseconds.\<close>

definition DURATION_MAX :: duration where
  "DURATION_MAX = (2 ^ 64 - 1) * 1000000000 + 999999999"

definition duration_saturating_mul :: "duration \<Rightarrow> nat \<Rightarrow> duration" where
  "duration_saturating_mul d k = (if d * k \<le> DURATION_MAX then d * k else DURATION_MAX)"

text \<open>\<open>Instant + Duration\<close> panics when the sum is not representable (64-bit signed seconds).\<close>

definition INSTANT_MAX :: instant where
  "INSTANT_MAX = 2 ^ 63 * 1000000000 - 1"

definition instant_add :: "instant \<Rightarrow> duration \<Rightarrow> instant option" where
  "instant_add t d = (if t + d \<le> INSTANT_MAX then Some (t + d) else None)"

text \<open>\<open>Instant::checked_duration_since\<close>.\<close>

definition checked_duration_since :: "instant \<Rightarrow> instant \<Rightarrow> duration option" where
  "checked_duration_since t earlier = (if earlier \<le> t then Some (t - earlier) else None)"

lemma instant_add_SomeD: "instant_add t d = Some u \<Longrightarrow> u = t + d"
  by (auto simp: instant_add_def split: if_splits)

lemma instant_add_eq_Some [simp]:
  "instant_add t d = Some u \<longleftrightarrow> u = t + d \<and> t + d \<le> INSTANT_MAX"
  by (auto simp: instant_add_def)

lemma instant_add_eq_None [simp]: "instant_add t d = None \<longleftrightarrow> INSTANT_MAX < t + d"
  by (auto simp: instant_add_def)

section \<open>Decimal printing\<close>

text \<open>\<open>u64\<close> and \<open>i32\<close> values inside \<open>Display\<close> and \<open>Debug\<close> texts.\<close>

definition digit_char :: "nat \<Rightarrow> char" where
  "digit_char d = char_of (48 + d)"

fun show_nat :: "nat \<Rightarrow> string" where
  "show_nat n = (if n < 10 then [digit_char n] else show_nat (n div 10) @ [digit_char (n mod 10)])"

declare show_nat.simps [simp del]

definition show_int :: "int \<Rightarrow> string" where
  "show_int i = (if i < 0 then ''-'' @ show_nat (nat (- i)) else show_nat (nat i))"

definition show_option :: "('a \<Rightarrow> string) \<Rightarrow> 'a option \<Rightarrow> string" where
  "show_option f x = (case x of None \<Rightarrow> ''None'' | Some v \<Rightarrow> ''Some('' @ f v @ '')'')"

section \<open>Lists\<close>

text \<open>The last \<open>n\<close> elements of a list.\<close>

definition take_last :: "nat \<Rightarrow> 'a list \<Rightarrow> 'a list" where
  "take_last n xs = drop (length xs - n) xs"

lemma length_take_last [simp]: "length (take_last n xs) = min n (length xs)"
  by (simp add: take_last_def)

lemma take_last_all: "length xs \<le> n \<Longrightarrow> take_last n xs = xs"
  by (simp add: take_last_def)

lemma take_last_zero [simp]: "take_last 0 xs = []"
  by (simp add: take_last_def)

lemma take_last_nil [simp]: "take_last n [] = []"
  by (simp add: take_last_def)

lemma take_last_append: "take_last n (take_last n xs @ ys) = take_last n (xs @ ys)"
proof (cases "length xs \<le> n")
  case True
  then show ?thesis by (simp add: take_last_all)
next
  case False
  let ?d = "length xs - n"
  have "take_last n (drop ?d xs @ ys) = drop (length ys) (drop ?d xs @ ys)"
    using False by (simp add: take_last_def)
  also have "\<dots> = drop (length ys) (drop ?d (xs @ ys))"
    using False by simp
  also have "\<dots> = take_last n (xs @ ys)"
    using False by (simp add: take_last_def drop_drop add.commute)
  finally show ?thesis by (simp add: take_last_def)
qed

lemma fold_invariant:
  assumes "P s" and "\<And>x s. P s \<Longrightarrow> P (f x s)"
  shows "P (fold f xs s)"
  using assms(1) by (induction xs arbitrary: s) (auto intro: assms(2))

end
