(* ===== verification/Circular_Buffer.thy ===== *)
theory Circular_Buffer
  imports Prelude "HOL-Library.Multiset"
begin

text \<open>
  The fixed-capacity ring buffer (\<^verbatim>\<open>src/src/core/circular_buffer.rs\<close>).  The
  \<open>VecDeque\<close> is the list of its elements, front first.  The contract its client,
  the health monitor, relies on is the locale \<open>bounded_log\<close>: a buffer holds the
  most recent elements pushed, never more than its limit.
\<close>

section \<open>The interface\<close>

locale bounded_log =
  fixes create :: "nat \<Rightarrow> 'b"
    and append :: "'a \<Rightarrow> 'b \<Rightarrow> 'b"
    and wipe :: "'b \<Rightarrow> 'b"
    and contents :: "'b \<Rightarrow> 'a list"
    and limit :: "'b \<Rightarrow> nat"
    and invar :: "'b \<Rightarrow> bool"
  assumes contents_create: "contents (create n) = []"
    and limit_create: "limit (create n) = n"
    and invar_create: "invar (create n)"
    and contents_append: "invar b \<Longrightarrow> contents (append x b) = take_last (limit b) (contents b @ [x])"
    and limit_append: "limit (append x b) = limit b"
    and invar_append: "invar b \<Longrightarrow> invar (append x b)"
    and contents_wipe: "contents (wipe b) = []"
    and limit_wipe: "limit (wipe b) = limit b"
    and invar_wipe: "invar (wipe b)"
    and invar_bound: "invar b \<Longrightarrow> length (contents b) \<le> limit b"
begin

lemma invar_appends: "invar b \<Longrightarrow> invar (fold append xs b)"
  by (induction xs arbitrary: b) (auto intro: invar_append)

lemma limit_appends: "limit (fold append xs b) = limit b"
  by (induction xs arbitrary: b) (auto simp: limit_append)

lemma contents_appends:
  "invar b \<Longrightarrow> contents (fold append xs b) = take_last (limit b) (contents b @ xs)"
proof (induction xs arbitrary: b)
  case Nil
  then show ?case by (simp add: take_last_all invar_bound)
next
  case (Cons x xs)
  then have "contents (fold append (x # xs) b)
      = take_last (limit b) (take_last (limit b) (contents b @ [x]) @ xs)"
    by (simp add: invar_append limit_append contents_append)
  then show ?case by (simp add: take_last_append)
qed

lemma contents_of_created: "contents (fold append xs (create n)) = take_last n xs"
  by (simp add: contents_appends invar_create limit_create contents_create)

end

section \<open>The buffer\<close>

record 'a CircularBuffer =
  buffer :: "'a list"
  capacity :: nat

definition cb_new :: "nat \<Rightarrow> 'a CircularBuffer" where
  "cb_new cap = \<lparr>buffer = [], capacity = cap\<rparr>"

definition cb_front :: "'a CircularBuffer \<Rightarrow> 'a option" where
  "cb_front cb = (case buffer cb of [] \<Rightarrow> None | x # _ \<Rightarrow> Some x)"

text \<open>\<open>VecDeque::pop_front\<close> then \<open>push_back\<close>.\<close>

definition cb_push :: "'a \<Rightarrow> 'a CircularBuffer \<Rightarrow> 'a CircularBuffer" where
  "cb_push item cb =
     (if capacity cb = 0 then cb
      else
        let buf = (if length (buffer cb) = capacity cb then tl (buffer cb) else buffer cb)
        in cb\<lparr>buffer := buf @ [item]\<rparr>)"

definition cb_len :: "'a CircularBuffer \<Rightarrow> nat" where
  "cb_len cb = length (buffer cb)"

definition cb_iter :: "'a CircularBuffer \<Rightarrow> 'a list" where
  "cb_iter cb = take (cb_len cb) (buffer cb)"

definition cb_is_empty :: "'a CircularBuffer \<Rightarrow> bool" where
  "cb_is_empty cb \<longleftrightarrow> buffer cb = []"

definition cb_is_full :: "'a CircularBuffer \<Rightarrow> bool" where
  "cb_is_full cb \<longleftrightarrow> length (buffer cb) = capacity cb"

definition cb_back :: "'a CircularBuffer \<Rightarrow> 'a option" where
  "cb_back cb = (if buffer cb = [] then None else Some (last (buffer cb)))"

definition cb_get :: "nat \<Rightarrow> 'a CircularBuffer \<Rightarrow> 'a option" where
  "cb_get i cb = (if i < length (buffer cb) then Some (buffer cb ! i) else None)"

definition cb_clear :: "'a CircularBuffer \<Rightarrow> 'a CircularBuffer" where
  "cb_clear cb = cb\<lparr>buffer := []\<rparr>"

definition cb_pop_front :: "'a CircularBuffer \<Rightarrow> 'a option \<times> 'a CircularBuffer" where
  "cb_pop_front cb =
     (case buffer cb of [] \<Rightarrow> (None, cb) | x # xs \<Rightarrow> (Some x, cb\<lparr>buffer := xs\<rparr>))"

definition list_swap :: "nat \<Rightarrow> nat \<Rightarrow> 'a list \<Rightarrow> 'a list" where
  "list_swap i j xs = xs[i := xs ! j, j := xs ! i]"

text \<open>\<open>pop_back(index)\<close>: swap the element at \<open>index\<close> with the last one and pop it.\<close>

definition cb_pop_back :: "nat \<Rightarrow> 'a CircularBuffer \<Rightarrow> 'a option \<times> 'a CircularBuffer" where
  "cb_pop_back index cb =
     (if cb_len cb \<le> index then (None, cb)
      else
        let last_index = cb_len cb - 1;
            buf = list_swap index last_index (buffer cb)
        in (Some (last buf), cb\<lparr>buffer := butlast buf\<rparr>))"

fun position :: "('a \<Rightarrow> bool) \<Rightarrow> 'a list \<Rightarrow> nat option" where
  "position p [] = None"
| "position p (x # xs) = (if p x then Some 0 else map_option Suc (position p xs))"

definition cb_remove :: "'a \<Rightarrow> 'a CircularBuffer \<Rightarrow> 'a option \<times> 'a CircularBuffer" where
  "cb_remove item cb =
     (case position (\<lambda>x. x = item) (buffer cb) of
        Some index \<Rightarrow> cb_pop_back index cb
      | None \<Rightarrow> (None, cb))"

text \<open>
  \<open>retain\<close>: the loop \<open>for i in 0..len\<close> with its counter \<open>del\<close> of elements to drop; the
  predicate is an \<open>FnMut\<close>, so it carries a state.
\<close>

fun retain_loop ::
  "('a \<Rightarrow> 's \<Rightarrow> bool \<times> 's) \<Rightarrow> nat list \<Rightarrow> nat \<Rightarrow> 'a list \<Rightarrow> 's \<Rightarrow> nat \<times> 'a list \<times> 's" where
  "retain_loop f [] del buf s = (del, buf, s)"
| "retain_loop f (i # is) del buf s =
     (let (keep, s') = f (buf ! i) s
      in if \<not> keep then retain_loop f is (del + 1) buf s'
         else if 0 < del then retain_loop f is del (list_swap (i - del) i buf) s'
         else retain_loop f is del buf s')"

definition cb_retain ::
  "('a \<Rightarrow> 's \<Rightarrow> bool \<times> 's) \<Rightarrow> 'a CircularBuffer \<Rightarrow> 's \<Rightarrow> 'a CircularBuffer \<times> 's" where
  "cb_retain f cb s =
     (let len = length (buffer cb);
          (del, buf, s') = retain_loop f [0..<len] 0 (buffer cb) s
      in (cb\<lparr>buffer := (if 0 < del then take (len - del) buf else buf)\<rparr>, s'))"

text \<open>\<open>last(n)\<close>: \<open>as_slices\<close> cuts the elements at a position the ring decides, the
  argument \<open>split_at\<close>.\<close>

definition cb_last :: "nat \<Rightarrow> nat \<Rightarrow> 'a CircularBuffer \<Rightarrow> 'a list option" where
  "cb_last split_at n cb =
     (let len = length (buffer cb)
      in if n = 0 \<or> len < n then None
         else
           let first = take split_at (buffer cb); second = drop split_at (buffer cb); start_idx = len - n
           in if second = [] then Some (drop start_idx first)
              else if length first \<le> start_idx then Some (drop (start_idx - length first) second)
              else None)"

definition cb_second_to_last :: "'a CircularBuffer \<Rightarrow> 'a option" where
  "cb_second_to_last cb = (if 2 \<le> cb_len cb then cb_get (cb_len cb - 2) cb else None)"

text \<open>\<open>Index\<close> panics out of range.\<close>

definition cb_index :: "nat \<Rightarrow> 'a CircularBuffer \<Rightarrow> 'a option" where
  "cb_index i cb = (if i < length (buffer cb) then Some (buffer cb ! i) else None)"

text \<open>What a caller does through \<open>iter_mut\<close>, \<open>back_mut\<close> and \<open>front_mut\<close> is the argument \<open>f\<close>.\<close>

definition cb_iter_mut :: "('a \<Rightarrow> 'a) \<Rightarrow> 'a CircularBuffer \<Rightarrow> 'a CircularBuffer" where
  "cb_iter_mut f cb = cb\<lparr>buffer := map f (buffer cb)\<rparr>"

definition cb_back_mut :: "('a \<Rightarrow> 'a) \<Rightarrow> 'a CircularBuffer \<Rightarrow> 'a CircularBuffer" where
  "cb_back_mut f cb =
     (if buffer cb = [] then cb else cb\<lparr>buffer := butlast (buffer cb) @ [f (last (buffer cb))]\<rparr>)"

definition cb_front_mut :: "('a \<Rightarrow> 'a) \<Rightarrow> 'a CircularBuffer \<Rightarrow> 'a CircularBuffer" where
  "cb_front_mut f cb = (case buffer cb of [] \<Rightarrow> cb | x # xs \<Rightarrow> cb\<lparr>buffer := f x # xs\<rparr>)"

definition cb_ref_into_iter :: "'a CircularBuffer \<Rightarrow> 'a list" where
  "cb_ref_into_iter cb = take (cb_len cb) (buffer cb)"

definition cb_into_iter :: "'a CircularBuffer \<Rightarrow> 'a list" where
  "cb_into_iter cb = buffer cb"

lemma cb_views: "cb_iter cb = cb_into_iter cb" "cb_ref_into_iter cb = cb_into_iter cb"
  by (simp_all add: cb_iter_def cb_into_iter_def cb_ref_into_iter_def cb_len_def)

section \<open>Boundedness\<close>

definition cb_wf :: "'a CircularBuffer \<Rightarrow> bool" where
  "cb_wf cb \<longleftrightarrow> length (buffer cb) \<le> capacity cb"

lemma cb_push_contents:
  "cb_wf cb \<Longrightarrow> buffer (cb_push x cb) = take_last (capacity cb) (buffer cb @ [x])"
  by (cases "buffer cb") (auto simp: cb_wf_def cb_push_def take_last_def)

lemma cb_push_capacity [simp]: "capacity (cb_push x cb) = capacity cb"
  by (simp add: cb_push_def Let_def)

lemma cb_wf_push [intro]: "cb_wf cb \<Longrightarrow> cb_wf (cb_push x cb)"
  by (simp add: cb_wf_def [of "cb_push x cb"] cb_push_contents)

lemma cb_wf_new [simp]: "cb_wf (cb_new n)"
  by (simp add: cb_wf_def cb_new_def)

lemma cb_wf_clear [simp]: "cb_wf (cb_clear cb)"
  by (simp add: cb_wf_def cb_clear_def)

lemma cb_new_fields [simp]: "buffer (cb_new n) = []" "capacity (cb_new n) = n"
  by (simp_all add: cb_new_def)

lemma cb_clear_fields [simp]: "buffer (cb_clear cb) = []" "capacity (cb_clear cb) = capacity cb"
  by (simp_all add: cb_clear_def)

interpretation cb: bounded_log cb_new cb_push cb_clear buffer capacity cb_wf
  by unfold_locales (auto simp: cb_push_contents cb_wf_def [THEN iffD1])

lemma cb_wf_pop_front: "cb_wf cb \<Longrightarrow> cb_wf (snd (cb_pop_front cb))"
  by (auto simp: cb_wf_def cb_pop_front_def split: list.splits)

lemma cb_wf_pop_back: "cb_wf cb \<Longrightarrow> cb_wf (snd (cb_pop_back i cb))"
  by (auto simp: cb_wf_def cb_pop_back_def list_swap_def Let_def)

lemma cb_wf_remove [intro]: "cb_wf cb \<Longrightarrow> cb_wf (snd (cb_remove x cb))"
  by (auto simp: cb_remove_def cb_wf_pop_back split: option.splits)

lemma cb_wf_mut:
  "cb_wf cb \<Longrightarrow> cb_wf (cb_iter_mut f cb)" "cb_wf cb \<Longrightarrow> cb_wf (cb_back_mut f cb)"
  "cb_wf cb \<Longrightarrow> cb_wf (cb_front_mut f cb)"
  by (auto simp: cb_wf_def cb_iter_mut_def cb_back_mut_def cb_front_mut_def split: list.splits)

lemma cb_mut_ends:
  "cb_back (cb_back_mut f cb) = map_option f (cb_back cb)"
  "cb_front (cb_front_mut f cb) = map_option f (cb_front cb)"
  by (auto simp: cb_back_def cb_back_mut_def cb_front_def cb_front_mut_def split: list.splits)

section \<open>Removal\<close>

lemma position_Some:
  "position p xs = Some i \<Longrightarrow> i < length xs \<and> p (xs ! i) \<and> (\<forall>j<i. \<not> p (xs ! j))"
proof (induction xs arbitrary: i)
  case (Cons x xs)
  then show ?case
    by (auto split: if_splits simp: nth_Cons split: nat.splits)
qed simp

lemma position_None: "position p xs = None \<longleftrightarrow> (\<forall>x \<in> set xs. \<not> p x)"
  by (induction xs) auto

lemma list_swap_length [simp]: "length (list_swap i j xs) = length xs"
  by (simp add: list_swap_def)

lemma mset_list_swap: "i < length xs \<Longrightarrow> j < length xs \<Longrightarrow> mset (list_swap i j xs) = mset xs"
  unfolding list_swap_def by (rule mset_swap)

lemma cb_pop_back_spec:
  assumes "i < cb_len cb"
  shows "fst (cb_pop_back i cb) = Some (buffer cb ! i)"
    and "mset (buffer (snd (cb_pop_back i cb))) = mset (buffer cb) - {#buffer cb ! i#}"
proof -
  let ?xs = "buffer cb" and ?l = "length (buffer cb) - 1"
  let ?ys = "list_swap i ?l ?xs"
  have i: "i < length ?xs" using assms by (simp add: cb_len_def)
  then have ne: "?ys \<noteq> []" by (metis length_0_conv list_swap_length not_less_zero)
  have last: "last ?ys = ?xs ! i"
    using i ne by (simp add: last_conv_nth list_swap_def)
  show "fst (cb_pop_back i cb) = Some (?xs ! i)"
    using i last by (simp add: cb_pop_back_def cb_len_def Let_def)
  have "mset ?ys = add_mset (last ?ys) (mset (butlast ?ys))"
    using ne by (metis append_butlast_last_id mset.simps(2) mset_append mset.simps(1)
        add_mset_add_single union_commute)
  moreover have "mset ?ys = mset ?xs"
    using i by (intro mset_list_swap) auto
  ultimately have "mset (butlast ?ys) = mset ?xs - {#?xs ! i#}"
    using last by (metis add_mset_remove_trivial)
  then show "mset (buffer (snd (cb_pop_back i cb))) = mset ?xs - {#?xs ! i#}"
    using i by (simp add: cb_pop_back_def cb_len_def Let_def)
qed

section \<open>Retaining\<close>

text \<open>The reference: a left-to-right filter that threads the predicate's state.\<close>

fun filter_state :: "('a \<Rightarrow> 's \<Rightarrow> bool \<times> 's) \<Rightarrow> 'a list \<Rightarrow> 's \<Rightarrow> 'a list \<times> 's" where
  "filter_state f [] s = ([], s)"
| "filter_state f (x # xs) s =
     (let (keep, s') = f x s; (ys, t) = filter_state f xs s'
      in (if keep then x # ys else ys, t))"

lemma filter_state_pure: "filter_state (\<lambda>x s. (p x, s)) xs s = (filter p xs, s)"
  by (induction xs) auto

lemma length_filter_state: "length (fst (filter_state f xs s)) \<le> length xs"
proof (induction xs arbitrary: s)
  case (Cons x xs)
  from Cons.IH [of "snd (f x s)"] show ?case
    by (auto simp: Let_def split: prod.splits)
qed simp

lemma list_swap_keep:
  assumes "k < i" and "i < length buf"
  shows "take (Suc k) (list_swap k i buf) = take k buf @ [buf ! i]"
    and "drop (Suc i) (list_swap k i buf) = drop (Suc i) buf"
  using assms by (simp_all add: list_swap_def take_Suc_conv_app_nth)

lemma retain_loop_filter:
  assumes "del \<le> i" and "i \<le> length buf"
    and "filter_state f (drop i buf) s = (ys, t)"
    and "retain_loop f [i..<length buf] del buf s = (del', buf', s')"
  shows "s' = t \<and> length buf' = length buf \<and> del' + (i - del) + length ys = length buf
    \<and> take (i - del + length ys) buf' = take (i - del) buf @ ys"
  using assms
proof (induction "length buf - i" arbitrary: i del buf s ys)
  case 0
  then have "i = length buf" by simp
  with 0 show ?case by simp
next
  case (Suc n)
  then have i: "i < length buf" by simp
  obtain keep s1 where f: "f (buf ! i) s = (keep, s1)" by (cases "f (buf ! i) s")
  obtain zs where zs: "filter_state f (drop (Suc i) buf) s1 = (zs, t)"
    and ys: "ys = (if keep then buf ! i # zs else zs)"
    using Suc.prems(3) f i
    by (auto simp: Cons_nth_drop_Suc [symmetric] Let_def split: prod.splits if_splits)
  have upt: "[i..<length buf] = i # [Suc i..<length buf]"
    using i by (simp add: upt_conv_Cons)
  consider (dropped) "\<not> keep" | (moved) "keep" "0 < del" | (stays) "keep" "del = 0" by auto
  then show ?case
  proof cases
    case dropped
    with Suc.prems(4) f upt have "retain_loop f [Suc i..<length buf] (del + 1) buf s1 = (del', buf', s')"
      by simp
    from Suc.hyps(1) [OF _ _ _ zs this] Suc.hyps(2) Suc.prems(1) i dropped ys
    show ?thesis by auto
  next
    case moved
    let ?buf = "list_swap (i - del) i buf"
    from moved Suc.prems(4) f upt
    have loop: "retain_loop f [Suc i..<length ?buf] del ?buf s1 = (del', buf', s')"
      by simp
    have lt: "i - del < i" using moved Suc.prems(1) by simp
    have "filter_state f (drop (Suc i) ?buf) s1 = (zs, t)"
      using zs list_swap_keep(2) [OF lt i] by simp
    from Suc.hyps(1) [OF _ _ _ this loop] Suc.hyps(2) Suc.prems(1) i list_swap_keep(1) [OF lt i]
    show ?thesis using moved ys by (auto simp: Suc_diff_le)
  next
    case stays
    with Suc.prems(4) f upt have "retain_loop f [Suc i..<length buf] del buf s1 = (del', buf', s')"
      by simp
    from Suc.hyps(1) [OF _ _ _ zs this] Suc.hyps(2) i stays ys
    show ?thesis by (auto simp: take_Suc_conv_app_nth)
  qed
qed

lemma cb_retain_filter:
  "cb_retain f cb s =
     (cb\<lparr>buffer := fst (filter_state f (buffer cb) s)\<rparr>, snd (filter_state f (buffer cb) s))"
proof -
  let ?xs = "buffer cb"
  obtain ys t where ref: "filter_state f ?xs s = (ys, t)" by (cases "filter_state f ?xs s")
  obtain del buf s' where loop: "retain_loop f [0..<length ?xs] 0 ?xs s = (del, buf, s')"
    by (cases "retain_loop f [0..<length ?xs] 0 ?xs s")
  have *: "s' = t \<and> length buf = length ?xs \<and> del + length ys = length ?xs
      \<and> take (length ys) buf = ys"
    using retain_loop_filter [of 0 0 ?xs f s ys t del buf s'] ref loop by simp
  then have "length ?xs - del = length ys" by linarith
  with * have "(if 0 < del then take (length ?xs - del) buf else buf) = ys"
    by auto
  with * ref loop show ?thesis by (simp add: cb_retain_def Let_def)
qed

end
