(* ===== verification/Connection_Policy.thy ===== *)
theory Connection_Policy
  imports Prelude
begin

text \<open>
  The connection-attempt guard (\<^verbatim>\<open>src/src/core/connection_policy.rs\<close>): a circuit
  breaker with \<open>u32\<close> saturating counters.  Its abstract specification counts down
  with unbounded naturals; the refinement lemmas show the detailed breaker implements
  it, so saturation never changes a decision.
\<close>

section \<open>The breaker\<close>

datatype CircuitState = Closed | Open instant | HalfOpen

record WsCircuitBreaker =
  state :: CircuitState
  failure_threshold :: u32
  success_threshold :: u32
  timeout :: duration
  failures :: u32
  successes :: u32

definition breaker_new :: "u32 \<Rightarrow> u32 \<Rightarrow> duration \<Rightarrow> WsCircuitBreaker" where
  "breaker_new ft st t =
     \<lparr>state = Closed, failure_threshold = max ft 1, success_threshold = max st 1,
      timeout = t, failures = 0, successes = 0\<rparr>"

definition can_proceed :: "instant \<Rightarrow> WsCircuitBreaker \<Rightarrow> bool \<times> WsCircuitBreaker" where
  "can_proceed now b =
     (case state b of
        Closed \<Rightarrow> (True, b)
      | Open until \<Rightarrow>
          if until \<le> now then (True, b\<lparr>state := HalfOpen, failures := 0, successes := 0\<rparr>)
          else (False, b)
      | HalfOpen \<Rightarrow> (True, b))"

definition record_success :: "WsCircuitBreaker \<Rightarrow> WsCircuitBreaker" where
  "record_success b =
     (case state b of
        HalfOpen \<Rightarrow>
          let b = b\<lparr>successes := saturating_add (successes b) 1\<rparr>
          in if success_threshold b \<le> successes b
             then b\<lparr>state := Closed, failures := 0, successes := 0\<rparr> else b
      | Closed \<Rightarrow> b\<lparr>failures := 0\<rparr>
      | Open _ \<Rightarrow> b)"

text \<open>\<open>Instant::now() + self.timeout\<close> panics on overflow.\<close>

definition open_circuit :: "instant \<Rightarrow> WsCircuitBreaker \<Rightarrow> WsCircuitBreaker option" where
  "open_circuit now b =
     map_option (\<lambda>until. b\<lparr>state := Open until, failures := 0, successes := 0\<rparr>)
       (instant_add now (timeout b))"

definition record_failure :: "instant \<Rightarrow> WsCircuitBreaker \<Rightarrow> WsCircuitBreaker option" where
  "record_failure now b =
     (let b = b\<lparr>failures := saturating_add (failures b) 1\<rparr>
      in case state b of
           Closed \<Rightarrow> if failure_threshold b \<le> failures b then open_circuit now b else Some b
         | HalfOpen \<Rightarrow> open_circuit now b
         | Open _ \<Rightarrow> Some b)"

definition time_until_retry :: "instant \<Rightarrow> WsCircuitBreaker \<Rightarrow> duration option" where
  "time_until_retry now b =
     (case state b of
        Open until \<Rightarrow> checked_duration_since until now
      | _ \<Rightarrow> None)"

named_theorems breaker_defs
lemmas [breaker_defs] =
  can_proceed_def record_success_def open_circuit_def record_failure_def Let_def

section \<open>Invariant\<close>

definition breaker_wf :: "WsCircuitBreaker \<Rightarrow> bool" where
  "breaker_wf b \<longleftrightarrow> 1 \<le> failure_threshold b \<and> 1 \<le> success_threshold b \<and>
     (case state b of
        Closed \<Rightarrow> failures b < failure_threshold b \<and> successes b = 0
      | Open _ \<Rightarrow> successes b = 0
      | HalfOpen \<Rightarrow> failures b = 0 \<and> successes b < success_threshold b)"

lemma one_le_word_max: "(1 :: 'a::len word) \<le> max w 1"
  by simp

lemma zero_less_word_max: "(0 :: 'a::len word) < max w 1"
  by (rule less_le_trans [OF _ one_le_word_max]) simp

lemma breaker_wf_new [simp]: "breaker_wf (breaker_new ft st t)"
  by (simp add: breaker_wf_def breaker_new_def zero_less_word_max)

lemma one_le_word_pos: "(1 :: 'a::len word) \<le> w \<Longrightarrow> 0 < w"
  by (rule less_le_trans) simp_all

lemma breaker_wf_can_proceed: "breaker_wf b \<Longrightarrow> breaker_wf (snd (can_proceed now b))"
  by (auto simp: breaker_wf_def can_proceed_def one_le_word_pos split: CircuitState.splits)

lemma breaker_wf_record_success: "breaker_wf b \<Longrightarrow> breaker_wf (record_success b)"
  by (auto simp: breaker_wf_def record_success_def Let_def one_le_word_pos not_le
      split: CircuitState.splits)

lemma breaker_wf_record_failure:
  "breaker_wf b \<Longrightarrow> record_failure now b = Some b' \<Longrightarrow> breaker_wf b'"
  by (auto simp: breaker_wf_def breaker_defs not_le split: CircuitState.splits if_splits)

section \<open>Abstract specification\<close>

text \<open>
  \<open>Allowing n\<close>: \<open>n\<close> more consecutive failures trip the breaker.  \<open>Probing n\<close>: \<open>n\<close> more
  successes close it.
\<close>

datatype guard_state = Allowing nat | Blocked instant | Probing nat

fun guard_proceed :: "nat \<Rightarrow> instant \<Rightarrow> guard_state \<Rightarrow> bool \<times> guard_state" where
  "guard_proceed needed now (Blocked until) =
     (if until \<le> now then (True, Probing needed) else (False, Blocked until))"
| "guard_proceed needed now g = (True, g)"

fun guard_success :: "nat \<Rightarrow> guard_state \<Rightarrow> guard_state" where
  "guard_success allowed (Allowing n) = Allowing allowed"
| "guard_success allowed (Blocked u) = Blocked u"
| "guard_success allowed (Probing n) = (if n \<le> 1 then Allowing allowed else Probing (n - 1))"

fun guard_failure :: "instant \<Rightarrow> guard_state \<Rightarrow> guard_state" where
  "guard_failure until (Allowing n) = (if n \<le> 1 then Blocked until else Allowing (n - 1))"
| "guard_failure until (Blocked u) = Blocked u"
| "guard_failure until (Probing n) = Blocked until"

definition guard_of :: "WsCircuitBreaker \<Rightarrow> guard_state" where
  "guard_of b =
     (case state b of
        Closed \<Rightarrow> Allowing (unat (failure_threshold b) - unat (failures b))
      | Open u \<Rightarrow> Blocked u
      | HalfOpen \<Rightarrow> Probing (unat (success_threshold b) - unat (successes b)))"

lemma unat_saturating_Suc:
  assumes "w < (t :: 'a::len word)"
  shows "unat (saturating_add w 1) = Suc (unat w)"
proof -
  have "unat w < unat t" using assms by (simp add: word_less_nat_alt)
  moreover have "unat t < 2 ^ LENGTH('a)" by (rule unat_less_2p)
  ultimately have "Suc (unat w) \<le> 2 ^ LENGTH('a) - 1" by linarith
  then show ?thesis by (simp add: unat_saturating_add)
qed

lemma guard_of_can_proceed:
  assumes "breaker_wf b"
  shows "guard_proceed (unat (success_threshold b)) now (guard_of b)
    = (fst (can_proceed now b), guard_of (snd (can_proceed now b)))"
  by (auto simp: can_proceed_def guard_of_def split: CircuitState.splits)

lemma guard_of_record_success:
  assumes "breaker_wf b"
  shows "guard_of (record_success b) = guard_success (unat (failure_threshold b)) (guard_of b)"
proof (cases "state b")
  case HalfOpen
  with assms have lt: "successes b < success_threshold b" by (simp add: breaker_wf_def)
  then have "unat (successes b) < unat (success_threshold b)" by (simp add: word_less_nat_alt)
  with HalfOpen lt show ?thesis
    by (auto simp: record_success_def guard_of_def Let_def word_le_nat_alt unat_saturating_Suc)
qed (simp_all add: record_success_def guard_of_def)

lemma guard_of_record_failure:
  assumes "breaker_wf b" and "record_failure now b = Some b'"
  shows "guard_of b' = guard_failure (now + timeout b) (guard_of b)"
proof (cases "state b")
  case Closed
  with assms have lt: "failures b < failure_threshold b" by (simp add: breaker_wf_def)
  then have "unat (failures b) < unat (failure_threshold b)" by (simp add: word_less_nat_alt)
  with Closed lt assms(2) show ?thesis
    by (auto simp: breaker_defs guard_of_def word_le_nat_alt unat_saturating_Suc split: if_splits)
qed (use assms(2) in \<open>auto simp: breaker_defs guard_of_def\<close>)

lemma breaker_config_preserved:
  "failure_threshold (record_success b) = failure_threshold b"
  "success_threshold (record_success b) = success_threshold b"
  "timeout (record_success b) = timeout b"
  "failure_threshold (snd (can_proceed now b)) = failure_threshold b"
  "success_threshold (snd (can_proceed now b)) = success_threshold b"
  "timeout (snd (can_proceed now b)) = timeout b"
  by (auto simp: breaker_defs split: CircuitState.splits)

lemma breaker_config_failure:
  "record_failure now b = Some b' \<Longrightarrow>
     failure_threshold b' = failure_threshold b \<and> success_threshold b' = success_threshold b
     \<and> timeout b' = timeout b"
  by (auto simp: breaker_defs split: CircuitState.splits if_splits)

section \<open>Runs\<close>

datatype breaker_op = AskProceed instant | Success | Failure instant

fun breaker_step :: "breaker_op \<Rightarrow> WsCircuitBreaker \<Rightarrow> (bool list \<times> WsCircuitBreaker) option" where
  "breaker_step (AskProceed now) b = (let (ok, b') = can_proceed now b in Some ([ok], b'))"
| "breaker_step Success b = Some ([], record_success b)"
| "breaker_step (Failure now) b = map_option (\<lambda>b'. ([], b')) (record_failure now b)"

fun breaker_run :: "breaker_op list \<Rightarrow> WsCircuitBreaker \<Rightarrow> (bool list \<times> WsCircuitBreaker) option" where
  "breaker_run [] b = Some ([], b)"
| "breaker_run (x # xs) b =
     (case breaker_step x b of
        None \<Rightarrow> None
      | Some (out, b') \<Rightarrow> map_option (\<lambda>(outs, b''). (out @ outs, b'')) (breaker_run xs b'))"

text \<open>The specification's run, for thresholds \<open>allowed\<close>, \<open>needed\<close> and cool-down \<open>t\<close>.\<close>

fun guard_run :: "nat \<Rightarrow> nat \<Rightarrow> duration \<Rightarrow> breaker_op list \<Rightarrow> guard_state \<Rightarrow> bool list \<times> guard_state" where
  "guard_run allowed needed t [] g = ([], g)"
| "guard_run allowed needed t (AskProceed now # xs) g =
     (let (ok, g') = guard_proceed needed now g; (outs, g'') = guard_run allowed needed t xs g'
      in (ok # outs, g''))"
| "guard_run allowed needed t (Success # xs) g =
     guard_run allowed needed t xs (guard_success allowed g)"
| "guard_run allowed needed t (Failure now # xs) g =
     guard_run allowed needed t xs (guard_failure (now + t) g)"

lemma breaker_run_refines:
  assumes "breaker_wf b" and "breaker_run ops b = Some (outs, b')"
  shows "breaker_wf b' \<and>
    guard_run (unat (failure_threshold b)) (unat (success_threshold b)) (timeout b) ops (guard_of b)
      = (outs, guard_of b')"
  using assms
proof (induction ops arbitrary: b outs)
  case (Cons x xs)
  from Cons.prems(2) obtain out b1 outs1 where
    st: "breaker_step x b = Some (out, b1)" and run: "breaker_run xs b1 = Some (outs1, b')"
    and outs: "outs = out @ outs1"
    by (auto split: option.splits)
  show ?case
  proof (cases x)
    case (AskProceed now)
    with st have b1: "b1 = snd (can_proceed now b)" and out: "out = [fst (can_proceed now b)]"
      by (auto simp: Let_def split: prod.splits)
    then have "breaker_wf b1" using Cons.prems(1) by (simp add: breaker_wf_can_proceed)
    from Cons.IH [OF this run] show ?thesis
      using AskProceed outs out b1
      by (simp add: guard_of_can_proceed [OF Cons.prems(1)] breaker_config_preserved)
  next
    case Success
    with st have b1: "b1 = record_success b" and out: "out = []" by auto
    then have "breaker_wf b1" using Cons.prems(1) by (simp add: breaker_wf_record_success)
    from Cons.IH [OF this run] show ?thesis
      using Success outs out b1
      by (simp add: guard_of_record_success [OF Cons.prems(1)] breaker_config_preserved)
  next
    case (Failure now)
    with st have b1: "record_failure now b = Some b1" and out: "out = []" by auto
    have "breaker_wf b1" using breaker_wf_record_failure [OF Cons.prems(1) b1] .
    from Cons.IH [OF this run] show ?thesis
      using Failure outs out b1 breaker_config_failure [OF b1]
      by (simp add: guard_of_record_failure [OF Cons.prems(1) b1])
  qed
qed simp

text \<open>A run panics only by an instant overflow: with every failure early enough it returns.\<close>

lemma record_failure_total:
  "now + timeout b \<le> INSTANT_MAX \<Longrightarrow> \<exists>b'. record_failure now b = Some b'"
  by (auto simp: breaker_defs instant_add_def split: CircuitState.splits)

lemma breaker_run_total:
  assumes "\<forall>now. Failure now \<in> set ops \<longrightarrow> now + timeout b \<le> INSTANT_MAX"
  shows "\<exists>outs b'. breaker_run ops b = Some (outs, b')"
  using assms
proof (induction ops arbitrary: b)
  case (Cons x xs)
  have "\<exists>out b1. breaker_step x b = Some (out, b1) \<and> timeout b1 = timeout b"
  proof (cases x)
    case (Failure now)
    with Cons.prems obtain b1 where "record_failure now b = Some b1"
      using record_failure_total [of now b] by auto
    with Failure show ?thesis by (auto dest: breaker_config_failure)
  qed (simp_all add: split_beta breaker_config_preserved)
  then obtain out b1 where st: "breaker_step x b = Some (out, b1)" and "timeout b1 = timeout b"
    by blast
  with Cons.prems Cons.IH [of b1] show ?case by auto
qed simp

end
