(* ===== verification/Utf8.thy ===== *)
theory Utf8
  imports Prelude
begin

text \<open>
  UTF-8 as the standard library checks it (\<open>std::str::from_utf8\<close>,
  \<open>str::is_char_boundary\<close>): the well-formed byte sequences of the Unicode
  standard, which the frame layer and the health monitor rely on.  The lemmas
  show that validity is compositional and that cutting a valid text at a
  character boundary keeps it valid.
\<close>

section \<open>Validation\<close>

definition is_cont :: "u8 \<Rightarrow> bool" where
  "is_cont b \<longleftrightarrow> 0x80 \<le> b \<and> b \<le> 0xBF"

definition second_of_three :: "u8 \<Rightarrow> u8 \<Rightarrow> bool" where
  "second_of_three b c \<longleftrightarrow>
     (if b = 0xE0 then 0xA0 \<le> c \<and> c \<le> 0xBF
      else if b = 0xED then 0x80 \<le> c \<and> c \<le> 0x9F
      else is_cont c)"

definition second_of_four :: "u8 \<Rightarrow> u8 \<Rightarrow> bool" where
  "second_of_four b c \<longleftrightarrow>
     (if b = 0xF0 then 0x90 \<le> c \<and> c \<le> 0xBF
      else if b = 0xF4 then 0x80 \<le> c \<and> c \<le> 0x8F
      else is_cont c)"

text \<open>The length of the well-formed character a byte sequence starts with.\<close>

fun utf8_char_len :: "bytes \<Rightarrow> nat option" where
  "utf8_char_len [] = None"
| "utf8_char_len (b # r) =
     (if b < 0x80 then Some 1
      else if 0xC2 \<le> b \<and> b \<le> 0xDF then
        (case r of c # _ \<Rightarrow> if is_cont c then Some 2 else None | [] \<Rightarrow> None)
      else if 0xE0 \<le> b \<and> b \<le> 0xEF then
        (case r of c # d # _ \<Rightarrow> if second_of_three b c \<and> is_cont d then Some 3 else None
         | _ \<Rightarrow> None)
      else if 0xF0 \<le> b \<and> b \<le> 0xF4 then
        (case r of c # d # e # _ \<Rightarrow>
           if second_of_four b c \<and> is_cont d \<and> is_cont e then Some 4 else None
         | _ \<Rightarrow> None)
      else None)"

lemma utf8_char_len_bounds:
  "utf8_char_len bs = Some n \<Longrightarrow> 0 < n \<and> n \<le> 4 \<and> n \<le> length bs"
  by (cases bs) (auto split: if_splits list.splits)

function utf8_valid :: "bytes \<Rightarrow> bool" where
  "utf8_valid bs =
     (if bs = [] then True
      else case utf8_char_len bs of None \<Rightarrow> False | Some n \<Rightarrow> utf8_valid (drop n bs))"
  by pat_completeness auto
termination
  by (relation "measure length") (auto dest: utf8_char_len_bounds)

declare utf8_valid.simps [simp del]

lemma utf8_valid_Nil [simp]: "utf8_valid []"
  by (simp add: utf8_valid.simps)

lemma utf8_valid_step:
  "utf8_char_len bs = Some n \<Longrightarrow> utf8_valid bs = utf8_valid (drop n bs)"
  using utf8_char_len_bounds [of bs n] by (subst utf8_valid.simps) auto

lemma utf8_valid_charD:
  assumes "utf8_valid bs" and "bs \<noteq> []"
  obtains n where "utf8_char_len bs = Some n" and "utf8_valid (drop n bs)"
  using assms utf8_valid.simps [of bs] by (auto split: option.splits)

lemma utf8_valid_Cons_ascii [simp]: "b < 0x80 \<Longrightarrow> utf8_valid (b # bs) = utf8_valid bs"
  by (simp add: utf8_valid.simps [of "b # bs"])

lemma second_is_cont:
  "second_of_three b c \<Longrightarrow> is_cont c" "second_of_four b c \<Longrightarrow> is_cont c"
  using order_trans [of c "0x9F" "0xBF"] order_trans [of c "0x8F" "0xBF"]
    order_trans [of "0x80" "0xA0" c] order_trans [of "0x80" "0x90" c]
  by (auto simp: second_of_three_def second_of_four_def is_cont_def split: if_splits)

section \<open>Concatenation\<close>

lemma utf8_char_len_append:
  "utf8_char_len bs = Some n \<Longrightarrow> utf8_char_len (bs @ cs) = Some n"
  by (cases bs) (auto split: if_splits list.splits)

lemma utf8_valid_append: "utf8_valid bs \<Longrightarrow> utf8_valid (bs @ cs) = utf8_valid cs"
proof (induction bs rule: utf8_valid.induct)
  case (1 bs)
  show ?case
  proof (cases "bs = []")
    case False
    with "1.prems" obtain n where n: "utf8_char_len bs = Some n" and v: "utf8_valid (drop n bs)"
      by (rule utf8_valid_charD)
    from n have "n \<le> length bs" by (auto dest: utf8_char_len_bounds)
    then have "utf8_valid (bs @ cs) = utf8_valid (drop n bs @ cs)"
      using utf8_valid_step [OF utf8_char_len_append [OF n, of cs]] by simp
    with "1.IH" [OF False n v] show ?thesis by simp
  qed simp
qed

section \<open>Character boundaries\<close>

definition is_char_boundary :: "bytes \<Rightarrow> nat \<Rightarrow> bool" where
  "is_char_boundary bs i \<longleftrightarrow>
     (if i = 0 then True
      else if length bs \<le> i then i = length bs
      else \<not> is_cont (bs ! i))"

lemma utf8_char_len_cont:
  "utf8_char_len bs = Some n \<Longrightarrow> 0 < i \<Longrightarrow> i < n \<Longrightarrow> is_cont (bs ! i)"
  by (cases bs)
     (auto split: if_splits list.splits simp: less_Suc_eq nth_Cons' numeral_eq_Suc
       dest: second_is_cont)

lemma utf8_char_len_head: "utf8_char_len (b # r) = Some n \<Longrightarrow> \<not> is_cont b"
  by (auto simp: is_cont_def word_le_nat_alt word_less_nat_alt split: if_splits)

lemma utf8_char_len_take:
  "utf8_char_len bs = Some n \<Longrightarrow> n \<le> i \<Longrightarrow> utf8_char_len (take i bs) = Some n"
proof -
  assume n: "utf8_char_len bs = Some n" and "n \<le> i"
  obtain b r where bs: "bs = b # r" using n by (cases bs) auto
  have "0 < n" using n by (auto dest: utf8_char_len_bounds)
  with \<open>n \<le> i\<close> obtain j where j: "i = Suc j" by (cases i) auto
  show ?thesis
    using n \<open>n \<le> i\<close> unfolding bs j
    by (auto split: if_splits list.splits simp: take_Cons' )
qed

lemma is_char_boundary_drop:
  assumes "is_char_boundary bs i" and "n \<le> i" and "n \<le> length bs"
  shows "is_char_boundary (drop n bs) (i - n)"
  using assms by (auto simp: is_char_boundary_def split: if_splits)

lemma utf8_valid_take:
  assumes "utf8_valid bs" and "is_char_boundary bs i"
  shows "utf8_valid (take i bs)"
  using assms
proof (induction bs arbitrary: i rule: utf8_valid.induct)
  case (1 bs)
  show ?case
  proof (cases "bs = [] \<or> i = 0")
    case False
    then have ne: "bs \<noteq> []" and i: "0 < i" by auto
    from "1.prems"(1) ne obtain n where n: "utf8_char_len bs = Some n"
      and v: "utf8_valid (drop n bs)" by (rule utf8_valid_charD)
    from n have nb: "0 < n" "n \<le> length bs" by (auto dest: utf8_char_len_bounds)
    have "n \<le> i"
    proof (rule ccontr)
      assume "\<not> n \<le> i"
      with i n have "is_cont (bs ! i)" by (auto intro: utf8_char_len_cont)
      with \<open>\<not> n \<le> i\<close> i nb "1.prems"(2) show False
        by (auto simp: is_char_boundary_def)
    qed
    have "utf8_valid (take (i - n) (drop n bs))"
      using "1.IH" [OF ne n v] is_char_boundary_drop [OF "1.prems"(2) \<open>n \<le> i\<close> nb(2)] by simp
    then show ?thesis
      using utf8_valid_step [OF utf8_char_len_take [OF n \<open>n \<le> i\<close>]] by (simp add: drop_take)
  qed auto
qed

text \<open>Going back from any index, a boundary is at most three bytes away.\<close>

lemma utf8_boundary_near:
  assumes "utf8_valid bs" and "i \<le> length bs"
  shows "\<exists>j. is_char_boundary bs j \<and> j \<le> i \<and> i \<le> j + 3"
  using assms
proof (induction bs arbitrary: i rule: utf8_valid.induct)
  case (1 bs)
  show ?case
  proof (cases "i \<le> 3")
    case True
    then show ?thesis by (intro exI [of _ 0]) (auto simp: is_char_boundary_def)
  next
    case False
    with "1.prems"(2) have ne: "bs \<noteq> []" by auto
    from "1.prems"(1) ne obtain n where n: "utf8_char_len bs = Some n"
      and v: "utf8_valid (drop n bs)" by (rule utf8_valid_charD)
    from n have nb: "0 < n" "n \<le> 4" "n \<le> length bs" by (auto dest: utf8_char_len_bounds)
    with False have "n \<le> i" by simp
    have "i - n \<le> length (drop n bs)" using "1.prems"(2) by simp
    with "1.IH" [OF ne n v]
    obtain j where j: "is_char_boundary (drop n bs) j" "j \<le> i - n" "i - n \<le> j + 3"
      by blast
    show ?thesis
    proof (cases "j = 0")
      case True
      with j \<open>n \<le> i\<close> have "i \<le> n + 3" by simp
      moreover have "is_char_boundary bs n"
      proof (cases "n = length bs")
        case False
        with nb have "drop n bs \<noteq> []" by simp
        with v obtain m where m: "utf8_char_len (drop n bs) = Some m" by (rule utf8_valid_charD)
        then have "\<not> is_cont (drop n bs ! 0)"
          by (cases "drop n bs") (auto simp del: utf8_char_len.simps(2) dest: utf8_char_len_head)
        with False nb show ?thesis by (simp add: is_char_boundary_def)
      qed (simp add: is_char_boundary_def)
      ultimately show ?thesis using \<open>n \<le> i\<close> by blast
    next
      case False
      with j(1) nb have "is_char_boundary bs (n + j)"
        by (auto simp: is_char_boundary_def split: if_splits)
      with j \<open>n \<le> i\<close> show ?thesis by (intro exI [of _ "n + j"]) auto
    qed
  qed
qed

section \<open>Strings as bytes\<close>

text \<open>A Rust \<open>str\<close> is modelled by its UTF-8 bytes, one \<^typ>\<open>char\<close> per byte.\<close>

definition str_bytes :: "string \<Rightarrow> bytes" where
  "str_bytes s = map of_char s"

lemma length_str_bytes [simp]: "length (str_bytes s) = length s"
  by (simp add: str_bytes_def)

lemma str_bytes_append [simp]: "str_bytes (s @ t) = str_bytes s @ str_bytes t"
  by (simp add: str_bytes_def)

lemma str_bytes_take: "str_bytes (take n s) = take n (str_bytes s)"
  by (simp add: str_bytes_def take_map)

end
