(* ===== verification/Frame.thy ===== *)
theory Frame
  imports Utf8
begin

text \<open>
  The transport-neutral wire surface (\<^verbatim>\<open>src/src/core/frame.rs\<close>): \<open>WsText\<close>,
  \<open>WsFrame\<close>, \<open>WsCloseFrame\<close> and the conversions between owned bytes and frames.
  \<open>frame_ok\<close> is the invariant the type \<open>WsText\<close> stands for: the payload of a
  text frame is valid UTF-8.
\<close>

datatype WsText = WsText bytes

record WsCloseFrame =
  close_code :: u16
  close_reason :: bytes

datatype WsFrame =
    Text WsText
  | Binary bytes
  | Ping bytes
  | Pong bytes
  | Close "WsCloseFrame option"

section \<open>Text payloads\<close>

fun as_bytes :: "WsText \<Rightarrow> bytes" where
  "as_bytes (WsText b) = b"

definition from_static :: "string \<Rightarrow> WsText" where
  "from_static s = WsText (str_bytes s)"

text \<open>\<open>Utf8Error\<close> is opaque to the callers, so the error carries no data.\<close>

definition try_from_bytes :: "bytes \<Rightarrow> WsText option" where
  "try_from_bytes b = (if utf8_valid b then Some (WsText b) else None)"

definition from_bytes_unchecked :: "bytes \<Rightarrow> WsText" where
  "from_bytes_unchecked b = WsText b"

section \<open>Frames\<close>

definition text_static :: "string \<Rightarrow> WsFrame" where
  "text_static s = Text (from_static s)"

definition binary_static :: "bytes \<Rightarrow> WsFrame" where
  "binary_static b = Binary b"

definition close_frame :: "u16 \<Rightarrow> bytes \<Rightarrow> WsFrame" where
  "close_frame code reason = Close (Some \<lparr>close_code = code, close_reason = reason\<rparr>)"

fun frame_bytes :: "WsFrame \<Rightarrow> bytes option" where
  "frame_bytes (Text t) = Some (as_bytes t)"
| "frame_bytes (Binary b) = Some b"
| "frame_bytes (Ping b) = Some b"
| "frame_bytes (Pong b) = Some b"
| "frame_bytes (Close _) = None"

definition into_ws_frame :: "bytes \<Rightarrow> WsFrame" where
  "into_ws_frame payload =
     (if utf8_valid payload then Text (from_bytes_unchecked payload) else Binary payload)"

definition into_ws_message :: "bytes \<Rightarrow> WsFrame" where
  "into_ws_message b = into_ws_frame b"

definition message_bytes :: "WsFrame \<Rightarrow> bytes option" where
  "message_bytes f = frame_bytes f"

section \<open>The UTF-8 invariant of text frames\<close>

fun text_ok :: "WsText \<Rightarrow> bool" where
  "text_ok (WsText b) = utf8_valid b"

fun frame_ok :: "WsFrame \<Rightarrow> bool" where
  "frame_ok (Text t) = text_ok t"
| "frame_ok _ = True"

lemma try_from_bytes_Some: "try_from_bytes b = Some t \<longleftrightarrow> t = WsText b \<and> text_ok t"
  by (auto simp: try_from_bytes_def)

lemma frame_ok_into_ws_frame [simp, intro]: "frame_ok (into_ws_frame b)"
  by (simp add: into_ws_frame_def from_bytes_unchecked_def)

lemma frame_bytes_into_ws_frame [simp]: "frame_bytes (into_ws_frame b) = Some b"
  by (simp add: into_ws_frame_def from_bytes_unchecked_def)

lemma into_ws_frame_data: "into_ws_frame b \<in> {Text (WsText b), Binary b}"
  by (simp add: into_ws_frame_def from_bytes_unchecked_def)

lemma into_ws_frame_cases:
  obtains "into_ws_frame b = Text (WsText b)" and "utf8_valid b"
  | "into_ws_frame b = Binary b" and "\<not> utf8_valid b"
  by (auto simp: into_ws_frame_def from_bytes_unchecked_def)

lemma into_ws_frame_inj: "into_ws_frame a = into_ws_frame b \<longleftrightarrow> a = b"
  by (metis frame_bytes_into_ws_frame option.inject)

text \<open>A data frame that satisfies the invariant is recovered from its bytes, up to the
  text/binary choice, which the bytes alone decide.\<close>

lemma into_ws_frame_text_roundtrip:
  "frame_ok f \<Longrightarrow> f = Text t \<Longrightarrow> into_ws_frame (as_bytes t) = f"
  by (cases t) (auto simp: into_ws_frame_def from_bytes_unchecked_def)

lemmas frame_simps =
  into_ws_message_def message_bytes_def frame_bytes_into_ws_frame frame_ok_into_ws_frame

end
