(* ===== verification/Core_Types.thy ===== *)
theory Core_Types
  imports Complex_Main Frame
begin

text \<open>
  The shared vocabulary of the client side (\<^verbatim>\<open>src/src/core/types.rs\<close>): the error
  surface with its \<open>Display\<close> text, buffer limits, disconnect causes and actions,
  parse outcomes, subscription actions, and the endpoint and reconnect traits.

  A trait the application implements is a record of functions over the
  implementor's own state: every model definition that calls the trait takes the
  record as an argument.  An application error is represented by its
  \<open>to_string()\<close>, the only thing the library reads of it; a \<open>sonic_rs::Value\<close> is
  the type parameter \<open>'v\<close>, since the library only passes it on.
\<close>

section \<open>Errors\<close>

datatype WebSocketError =
    ConnectionFailed string
  | AuthenticationFailed string "i32 option"
  | SubscriptionFailed string string
  | TransportError string string
  | ParseFailed string
  | ActorError string
  | Timeout string
  | StaleConnection u64
  | ServerError "i32 option" string
  | InvalidState string
  | EndpointSpecific string
  | OutboundQueueFull
  | RateLimited string "duration option"

definition show_i32 :: "i32 \<Rightarrow> string" where
  "show_i32 c = show_int (sint c)"

fun ws_error_to_string :: "WebSocketError \<Rightarrow> string" where
  "ws_error_to_string (ConnectionFailed m) = ''Connection failed: '' @ m"
| "ws_error_to_string (AuthenticationFailed m c) = ''Authentication failed: '' @ m"
| "ws_error_to_string (SubscriptionFailed m ch) = ''Subscription failed: '' @ m @ '', channel='' @ ch"
| "ws_error_to_string (TransportError ctx e) = ''Transport error ('' @ ctx @ ''): '' @ e"
| "ws_error_to_string (ParseFailed m) = ''Parse failed: '' @ m"
| "ws_error_to_string (ActorError m) = ''Actor error: '' @ m"
| "ws_error_to_string (Timeout ctx) = ''Timeout: '' @ ctx"
| "ws_error_to_string (StaleConnection s) = ''Stale connection: no data for '' @ show_nat (unat s) @ ''s''"
| "ws_error_to_string (ServerError c m) =
     ''Server error: code='' @ show_option show_i32 c @ '', message='' @ m"
| "ws_error_to_string (InvalidState m) = ''Invalid state: '' @ m"
| "ws_error_to_string (EndpointSpecific m) = ''Endpoint error: '' @ m"
| "ws_error_to_string OutboundQueueFull = ''Backpressure: outbound queue full''"
| "ws_error_to_string (RateLimited m r) = ''Rate limited: '' @ m"

section \<open>Buffer limits\<close>

record WebSocketBufferConfig =
  write_buffer_bytes :: nat
  max_write_buffer_bytes :: nat
  max_message_bytes :: nat
  max_frame_bytes :: nat

definition default_buffer_config :: WebSocketBufferConfig where
  "default_buffer_config =
     \<lparr>write_buffer_bytes = 128 * 2 ^ 10, max_write_buffer_bytes = 256 * 2 ^ 10,
      max_message_bytes = 16 * 1024 * 1024, max_frame_bytes = 16 * 1024 * 1024\<rparr>"

section \<open>Statuses, causes and actions\<close>

datatype WsConnectionStatus = Connecting | Connected | Disconnected

datatype WsDisconnectAction = ImmediateReconnect | BackoffReconnect | Abort

datatype WsErrorAction = Continue | Reconnect | Fatal

datatype WsSessionMode = Public | AuthGated

datatype WsDisconnectCause =
    StaleData
  | PongTimeout
  | RemoteClosed
  | ReadFailure string
  | EndpointRequested string
  | ServerError "i32 option" string
  | InternalError string string
  | HandshakeFailed "u16 option" string
  | HighLatency rat u64

datatype 'm WsIngressAction =
    Ignore
  | Emit 'm
  | EmitBatch "'m list"
  | Forward WsFrame
  | ReconnectWith string
  | ShutdownWith string

definition forward_all_on_frame :: "WsFrame \<Rightarrow> 'm WsIngressAction" where
  "forward_all_on_frame f = Forward f"

text \<open>The trait \<open>WsIngress\<close>; its two callbacks do nothing by default.\<close>

record ('i, 'm) WsIngress =
  ingress_on_open :: "'i \<Rightarrow> 'i"
  ingress_on_frame :: "WsFrame \<Rightarrow> 'i \<Rightarrow> 'm WsIngressAction \<times> 'i"
  ingress_on_disconnect :: "WsDisconnectCause \<Rightarrow> 'i \<Rightarrow> 'i"

definition forward_all_ingress :: "(unit, 'm) WsIngress" where
  "forward_all_ingress =
     \<lparr>ingress_on_open = (\<lambda>i. i), ingress_on_frame = (\<lambda>f i. (forward_all_on_frame f, i)),
      ingress_on_disconnect = (\<lambda>_ i. i)\<rparr>"

datatype 'm WsMessageAction =
    Continue
  | SessionAuthenticated
  | Send bytes
  | Process 'm
  | Reconnect string
  | Shutdown

datatype ('m, 'v) WsParseOutcome =
    ServerError "i32 option" string "'v option"
  | Message "'m WsMessageAction"

datatype 's WsSubscriptionAction =
    Add "'s list"
  | Remove "'s list"
  | Replace "'s list"
  | Clear

datatype WsSubscriptionStatus =
    Acknowledged bool "string option"
  | NotSubscriptionResponse

datatype WsLatencyPercentile = P50 | P99

fun percentile_as_f64 :: "WsLatencyPercentile \<Rightarrow> rat" where
  "percentile_as_f64 P50 = 50"
| "percentile_as_f64 P99 = 99"

record WsLatencyPolicy =
  latency_percentile :: WsLatencyPercentile
  latency_threshold :: duration
  latency_min_samples :: u64
  latency_consecutive_breaches :: u32

record WsActorRegistration =
  actor_name :: string

definition actor_registration_new :: "string \<Rightarrow> WsActorRegistration" where
  "actor_registration_new name = \<lparr>actor_name = name\<rparr>"

record WsConnectionStats =
  uptime :: duration
  messages :: u64
  errors :: u64
  connect_attempts :: u64
  connect_successes :: u64
  reconnects :: u64
  last_message_age :: duration
  recent_server_errors :: nat
  recent_internal_errors :: nat
  p50_latency_us :: u64
  p99_latency_us :: u64
  latency_samples :: u64
  rtt_clamped_samples :: u64

section \<open>Delegated-request matching data\<close>

record WsRateLimitFeedback =
  retry_after :: "duration option"
  hint :: "string option"

record WsRequestMatch =
  request_id :: u64
  match_result :: "string + unit"
  rate_limit_feedback :: "WsRateLimitFeedback option"

record WsPayloadLatencySamplingConfig =
  sampling_interval :: duration

text \<open>\<open>now_epoch_us\<close>: the argument is \<open>SystemTime::now().duration_since(UNIX_EPOCH).ok()\<close>;
  the result is an \<open>i64\<close>.\<close>

definition now_epoch_us :: "duration option \<Rightarrow> 64 word option" where
  "now_epoch_us since_epoch =
     map_option (\<lambda>dur. word_of_nat (min (as_micros dur) (2 ^ 63 - 1))) since_epoch"

section \<open>The endpoint trait\<close>

record ('h, 'm, 's, 'v) WsEndpointHandler =
  initial_subscriptions :: "'h \<Rightarrow> 's list \<times> 'h"
  update_subscriptions :: "'s WsSubscriptionAction \<Rightarrow> 'h \<Rightarrow> (string + 's list) \<times> 'h"
  serialize_subscription :: "'s \<Rightarrow> 'h \<Rightarrow> bytes \<times> 'h"
  generate_auth :: "'h \<Rightarrow> bytes option"
  parse_frame :: "WsFrame \<Rightarrow> 'h \<Rightarrow> (string + ('m, 'v) WsParseOutcome) \<times> 'h"
  handle_message :: "'m \<Rightarrow> 'h \<Rightarrow> (string + unit) \<times> 'h"
  handle_server_error :: "i32 option \<Rightarrow> string \<Rightarrow> 'v option \<Rightarrow> 'h \<Rightarrow> WsErrorAction \<times> 'h"
  reset_state :: "'h \<Rightarrow> 'h"
  classify_disconnect :: "'h \<Rightarrow> WsDisconnectCause \<Rightarrow> WsDisconnectAction"
  session_mode :: "'h \<Rightarrow> WsSessionMode"
  on_open :: "'h \<Rightarrow> 'h"
  on_connection_opened :: "bool \<Rightarrow> 'h \<Rightarrow> 'm option \<times> 'h"
  on_connection_disconnected :: "WsDisconnectCause \<Rightarrow> bool \<Rightarrow> 'h \<Rightarrow> 'm option \<times> 'h"
  on_inbound_frame :: "WsFrame \<Rightarrow> 'h \<Rightarrow> 'h"
  on_outbound_frame :: "WsFrame \<Rightarrow> 'h \<Rightarrow> 'h"

text \<open>The provided methods of the trait: \<open>parse_text\<close> and \<open>parse_frame\<close> in terms of \<open>parse\<close>.\<close>

definition default_parse_text ::
  "(bytes \<Rightarrow> 'h \<Rightarrow> (string + ('m, 'v) WsParseOutcome) \<times> 'h) \<Rightarrow> WsText \<Rightarrow> 'h
     \<Rightarrow> (string + ('m, 'v) WsParseOutcome) \<times> 'h" where
  "default_parse_text parse t h = parse (as_bytes t) h"

definition default_parse_frame ::
  "(WsText \<Rightarrow> 'h \<Rightarrow> (string + ('m, 'v) WsParseOutcome) \<times> 'h)
     \<Rightarrow> (bytes \<Rightarrow> 'h \<Rightarrow> (string + ('m, 'v) WsParseOutcome) \<times> 'h)
     \<Rightarrow> WsFrame \<Rightarrow> 'h \<Rightarrow> (string + ('m, 'v) WsParseOutcome) \<times> 'h" where
  "default_parse_frame parse_text parse f h =
     (case f of
        Text t \<Rightarrow> parse_text t h
      | _ \<Rightarrow> (case frame_bytes f of
               None \<Rightarrow> (Inr (Message WsMessageAction.Continue), h)
             | Some b \<Rightarrow> parse b h))"

lemma default_parse_frame_bytes:
  "default_parse_frame (default_parse_text parse) parse f h =
     (case frame_bytes f of
        None \<Rightarrow> (Inr (Message WsMessageAction.Continue), h)
      | Some b \<Rightarrow> parse b h)"
  by (cases f) (auto simp: default_parse_frame_def default_parse_text_def)

section \<open>The reconnect trait\<close>

text \<open>\<open>next_delay\<close> may panic (\<open>ExponentialBackoffReconnect\<close> converts a float back to a
  \<open>Duration\<close>): \<^const>\<open>None\<close> is the panic.\<close>

record 'r WsReconnectStrategy =
  next_delay :: "'r \<Rightarrow> (duration \<times> 'r) option"
  reset_delay :: "'r \<Rightarrow> 'r"
  should_retry :: "'r \<Rightarrow> bool"

end
