(* ===== verification/Health.thy ===== *)
theory Health
  imports Core_Types Circular_Buffer
begin

text \<open>
  The connection health monitor (\<^verbatim>\<open>src/src/core/health.rs\<close>).  The latency histogram
  is the third-party \<open>hdrhistogram::Histogram<u64>\<close>: a record of operations over an
  abstract type, the argument \<open>ops\<close> of the definitions that use it; \<open>hist_laws\<close> states
  the documented behaviour the monitor relies on.  The two error logs are
  \<open>CircularBuffer\<close>s, and their facts come from the interpretation of \<open>bounded_log\<close>.
\<close>

section \<open>Constants and the histogram parameter\<close>

definition MAX_RECENT_ERRORS :: nat where
  "MAX_RECENT_ERRORS = 100"

definition MAX_ERROR_TEXT_BYTES :: nat where
  "MAX_ERROR_TEXT_BYTES = 1024"

definition MIN_RTT_US :: u64 where
  "MIN_RTT_US = 1"

definition MAX_RTT_US :: u64 where
  "MAX_RTT_US = 60000000"

record 'g histogram_ops =
  hist_new_with_bounds :: "u64 \<Rightarrow> u64 \<Rightarrow> u8 \<Rightarrow> 'g option"
  hist_record :: "u64 \<Rightarrow> 'g \<Rightarrow> 'g"
  hist_len :: "'g \<Rightarrow> u64"
  hist_value_at_percentile :: "rat \<Rightarrow> 'g \<Rightarrow> u64"

text \<open>\<open>expect\<close> panics when the bounds are rejected.\<close>

definition new_latency_histogram :: "'g histogram_ops \<Rightarrow> 'g option" where
  "new_latency_histogram ops = hist_new_with_bounds ops MIN_RTT_US MAX_RTT_US 3"

text \<open>
  What the documentation of \<open>hdrhistogram\<close> promises for a histogram with the bounds
  above (\<open>good\<close>): the bounds are accepted and give an empty histogram; recording a value
  inside the bounds counts one sample; a percentile of a non-empty histogram is at least
  the lowest trackable value.
\<close>

definition hist_laws :: "'g histogram_ops \<Rightarrow> ('g \<Rightarrow> bool) \<Rightarrow> bool" where
  "hist_laws ops good \<longleftrightarrow>
     (\<exists>g. hist_new_with_bounds ops 1 60000000 3 = Some g \<and> good g \<and> hist_len ops g = 0)
   \<and> (\<forall>v g. good g \<and> 1 \<le> v \<and> v \<le> 60000000 \<longrightarrow>
        good (hist_record ops v g)
        \<and> hist_len ops (hist_record ops v g) = saturating_add (hist_len ops g) 1)
   \<and> (\<forall>p g. good g \<and> hist_len ops g \<noteq> 0 \<longrightarrow> 1 \<le> hist_value_at_percentile ops p g)"

section \<open>Error texts\<close>

text \<open>The loop \<open>while end > 0 && !s.is_char_boundary(end) { end -= 1 }\<close>.\<close>

fun floor_boundary :: "bytes \<Rightarrow> nat \<Rightarrow> nat" where
  "floor_boundary s 0 = 0"
| "floor_boundary s (Suc n) =
     (if is_char_boundary s (Suc n) then Suc n else floor_boundary s n)"

definition truncate_string :: "string \<Rightarrow> string" where
  "truncate_string s =
     (if length s \<le> MAX_ERROR_TEXT_BYTES then s
      else take (floor_boundary (str_bytes s) MAX_ERROR_TEXT_BYTES) s)"

record ServerErrorRec =
  se_timestamp :: instant
  se_code :: "i32 option"
  se_message :: string

record InternalErrorRec =
  ie_timestamp :: instant
  ie_context :: string
  ie_error :: string

section \<open>The monitor\<close>

record 'g WsHealthMonitor =
  connection_started :: instant
  last_message_received :: instant
  last_message_sent :: instant
  stale_threshold :: duration
  message_count :: u64
  error_count :: u64
  hm_connect_attempts :: u64
  hm_connect_successes :: u64
  reconnect_count :: u64
  server_errors :: "ServerErrorRec CircularBuffer"
  internal_errors :: "InternalErrorRec CircularBuffer"
  latency_histogram :: 'g
  hm_rtt_clamped_samples :: u64

definition health_new :: "'g histogram_ops \<Rightarrow> instant \<Rightarrow> duration \<Rightarrow> 'g WsHealthMonitor option" where
  "health_new ops now threshold =
     map_option (\<lambda>g.
       \<lparr>connection_started = now, last_message_received = now, last_message_sent = now,
        stale_threshold = threshold, message_count = 0, error_count = 0,
        hm_connect_attempts = 0, hm_connect_successes = 0, reconnect_count = 0,
        server_errors = cb_new MAX_RECENT_ERRORS, internal_errors = cb_new MAX_RECENT_ERRORS,
        latency_histogram = g, hm_rtt_clamped_samples = 0\<rparr>)
       (new_latency_histogram ops)"

definition reset_connection ::
  "'g histogram_ops \<Rightarrow> instant \<Rightarrow> 'g WsHealthMonitor \<Rightarrow> 'g WsHealthMonitor option" where
  "reset_connection ops now m =
     map_option (\<lambda>g.
       m\<lparr>connection_started := now, last_message_received := now, last_message_sent := now,
         message_count := 0, error_count := 0,
         server_errors := cb_clear (server_errors m),
         internal_errors := cb_clear (internal_errors m),
         latency_histogram := g, hm_rtt_clamped_samples := 0\<rparr>)
       (new_latency_histogram ops)"

definition record_connect_attempt :: "'g WsHealthMonitor \<Rightarrow> 'g WsHealthMonitor" where
  "record_connect_attempt m = m\<lparr>hm_connect_attempts := saturating_add (hm_connect_attempts m) 1\<rparr>"

definition record_connect_success :: "'g WsHealthMonitor \<Rightarrow> 'g WsHealthMonitor" where
  "record_connect_success m = m\<lparr>hm_connect_successes := saturating_add (hm_connect_successes m) 1\<rparr>"

definition record_message :: "instant \<Rightarrow> 'g WsHealthMonitor \<Rightarrow> 'g WsHealthMonitor" where
  "record_message now m =
     m\<lparr>last_message_received := now, message_count := saturating_add (message_count m) 1\<rparr>"

definition record_inbound_frames :: "instant \<Rightarrow> u64 \<Rightarrow> 'g WsHealthMonitor \<Rightarrow> 'g WsHealthMonitor" where
  "record_inbound_frames now frames m =
     (if frames = 0 then m
      else m\<lparr>last_message_received := now,
             message_count := saturating_add (message_count m) frames\<rparr>)"

definition record_sent :: "instant \<Rightarrow> 'g WsHealthMonitor \<Rightarrow> 'g WsHealthMonitor" where
  "record_sent now m = m\<lparr>last_message_sent := now\<rparr>"

definition record_error :: "'g WsHealthMonitor \<Rightarrow> 'g WsHealthMonitor" where
  "record_error m = m\<lparr>error_count := saturating_add (error_count m) 1\<rparr>"

definition record_server_error ::
  "instant \<Rightarrow> i32 option \<Rightarrow> string \<Rightarrow> 'g WsHealthMonitor \<Rightarrow> 'g WsHealthMonitor" where
  "record_server_error now code message m =
     (let m = record_error m
      in m\<lparr>server_errors :=
             cb_push \<lparr>se_timestamp = now, se_code = code, se_message = truncate_string message\<rparr>
               (server_errors m)\<rparr>)"

definition record_internal_error ::
  "instant \<Rightarrow> string \<Rightarrow> string \<Rightarrow> 'g WsHealthMonitor \<Rightarrow> 'g WsHealthMonitor" where
  "record_internal_error now context err m =
     (let m = record_error m
      in m\<lparr>internal_errors :=
             cb_push \<lparr>ie_timestamp = now, ie_context = truncate_string context,
                      ie_error = truncate_string err\<rparr>
               (internal_errors m)\<rparr>)"

definition record_rtt :: "'g histogram_ops \<Rightarrow> duration \<Rightarrow> 'g WsHealthMonitor \<Rightarrow> 'g WsHealthMonitor" where
  "record_rtt ops latency m =
     (let micros = word_of_nat (min (as_micros latency) (2 ^ 64 - 1)) :: u64;
          clamped = False;
          (micros, clamped) = (if micros < MIN_RTT_US then (MIN_RTT_US, True) else (micros, clamped));
          (micros, clamped) = (if MAX_RTT_US < micros then (MAX_RTT_US, True) else (micros, clamped));
          m = (if clamped
               then m\<lparr>hm_rtt_clamped_samples := saturating_add (hm_rtt_clamped_samples m) 1\<rparr>
               else m)
      in m\<lparr>latency_histogram := hist_record ops micros (latency_histogram m)\<rparr>)"

definition increment_reconnect :: "'g WsHealthMonitor \<Rightarrow> 'g WsHealthMonitor" where
  "increment_reconnect m = m\<lparr>reconnect_count := saturating_add (reconnect_count m) 1\<rparr>"

definition health_is_stale :: "instant \<Rightarrow> 'g WsHealthMonitor \<Rightarrow> bool" where
  "health_is_stale now m \<longleftrightarrow> stale_threshold m < now - last_message_received m"

definition clear_error_buffers :: "'g WsHealthMonitor \<Rightarrow> 'g WsHealthMonitor" where
  "clear_error_buffers m =
     m\<lparr>server_errors := cb_clear (server_errors m), internal_errors := cb_clear (internal_errors m)\<rparr>"

definition get_stats :: "'g histogram_ops \<Rightarrow> clock \<Rightarrow> 'g WsHealthMonitor \<Rightarrow> WsConnectionStats" where
  "get_stats ops clk m =
     (let samples = hist_len ops (latency_histogram m);
          (p50, p99) =
            (if samples = 0 then (0, 0)
             else (min (hist_value_at_percentile ops 50 (latency_histogram m)) MAX_RTT_US,
                   min (hist_value_at_percentile ops 99 (latency_histogram m)) MAX_RTT_US))
      in \<lparr>uptime = clk 0 - connection_started m,
          messages = message_count m,
          errors = error_count m,
          connect_attempts = hm_connect_attempts m,
          connect_successes = hm_connect_successes m,
          reconnects = reconnect_count m,
          last_message_age = clk 1 - last_message_received m,
          recent_server_errors = cb_len (server_errors m),
          recent_internal_errors = cb_len (internal_errors m),
          p50_latency_us = p50,
          p99_latency_us = p99,
          latency_samples = samples,
          rtt_clamped_samples = hm_rtt_clamped_samples m\<rparr>)"

named_theorems health_defs
lemmas [health_defs] =
  record_connect_attempt_def record_connect_success_def record_message_def
  record_inbound_frames_def record_sent_def record_error_def record_server_error_def
  record_internal_error_def increment_reconnect_def clear_error_buffers_def Let_def

section \<open>Truncation\<close>

lemma floor_boundary_le: "floor_boundary s n \<le> n"
  by (induction n) (auto intro: le_SucI)

lemma floor_boundary_is_boundary: "is_char_boundary s (floor_boundary s n)"
  by (induction n) (auto simp: is_char_boundary_def)

lemma floor_boundary_greatest: "is_char_boundary s j \<Longrightarrow> j \<le> n \<Longrightarrow> j \<le> floor_boundary s n"
  by (induction n) (auto simp: le_Suc_eq)

lemma truncate_string_length: "length (truncate_string s) \<le> MAX_ERROR_TEXT_BYTES"
  using floor_boundary_le [of "str_bytes s" MAX_ERROR_TEXT_BYTES]
  by (simp add: truncate_string_def)

lemma truncate_string_prefix: "\<exists>k. truncate_string s = take k s"
  by (auto simp: truncate_string_def intro: exI [of _ "length s"])

lemma truncate_string_valid:
  "utf8_valid (str_bytes s) \<Longrightarrow> utf8_valid (str_bytes (truncate_string s))"
  by (simp add: truncate_string_def str_bytes_take utf8_valid_take floor_boundary_is_boundary)

lemma truncate_string_loss:
  assumes "utf8_valid (str_bytes s)"
  shows "min (length s) (MAX_ERROR_TEXT_BYTES - 3) \<le> length (truncate_string s)"
proof (cases "length s \<le> MAX_ERROR_TEXT_BYTES")
  case False
  then obtain j where "is_char_boundary (str_bytes s) j" "j \<le> MAX_ERROR_TEXT_BYTES"
      "MAX_ERROR_TEXT_BYTES \<le> j + 3"
    using utf8_boundary_near [OF assms, of MAX_ERROR_TEXT_BYTES] by auto
  then have "MAX_ERROR_TEXT_BYTES - 3 \<le> floor_boundary (str_bytes s) MAX_ERROR_TEXT_BYTES"
    by (fastforce dest: floor_boundary_greatest)
  with False show ?thesis
    by (simp add: truncate_string_def min_def)
qed (simp add: truncate_string_def)

section \<open>Invariant\<close>

definition server_rec_ok :: "ServerErrorRec \<Rightarrow> bool" where
  "server_rec_ok r \<longleftrightarrow> length (se_message r) \<le> MAX_ERROR_TEXT_BYTES"

definition internal_rec_ok :: "InternalErrorRec \<Rightarrow> bool" where
  "internal_rec_ok r \<longleftrightarrow>
     length (ie_context r) \<le> MAX_ERROR_TEXT_BYTES \<and> length (ie_error r) \<le> MAX_ERROR_TEXT_BYTES"

definition log_ok :: "('a \<Rightarrow> bool) \<Rightarrow> 'a CircularBuffer \<Rightarrow> bool" where
  "log_ok p cb \<longleftrightarrow> cb_wf cb \<and> capacity cb = MAX_RECENT_ERRORS \<and> list_all p (buffer cb)"

text \<open>Both logs hold at most \<open>MAX_RECENT_ERRORS\<close> records of bounded size.\<close>

definition health_wf :: "'g WsHealthMonitor \<Rightarrow> bool" where
  "health_wf m \<longleftrightarrow>
     log_ok server_rec_ok (server_errors m) \<and> log_ok internal_rec_ok (internal_errors m)"

lemma list_all_take_last: "list_all p xs \<Longrightarrow> list_all p (take_last n xs)"
  by (auto simp: list_all_iff take_last_def dest: in_set_dropD)

lemma log_ok_new [simp]: "log_ok p (cb_new MAX_RECENT_ERRORS)"
  by (simp add: log_ok_def)

lemma log_ok_clear [simp]: "log_ok p cb \<Longrightarrow> log_ok p (cb_clear cb)"
  by (simp add: log_ok_def)

lemma log_ok_push [simp]: "log_ok p cb \<Longrightarrow> p x \<Longrightarrow> log_ok p (cb_push x cb)"
  by (auto simp: log_ok_def cb.contents_append intro: list_all_take_last)

lemma rec_ok_truncated [simp]:
  "server_rec_ok \<lparr>se_timestamp = t, se_code = c, se_message = truncate_string s\<rparr>"
  "internal_rec_ok \<lparr>ie_timestamp = t, ie_context = truncate_string s, ie_error = truncate_string s'\<rparr>"
  by (simp_all add: server_rec_ok_def internal_rec_ok_def truncate_string_length)

lemma health_wf_new: "health_new ops now th = Some m \<Longrightarrow> health_wf m"
  by (auto simp: health_new_def health_wf_def)

lemma health_wf_reset: "health_wf m \<Longrightarrow> reset_connection ops now m = Some m' \<Longrightarrow> health_wf m'"
  by (auto simp: reset_connection_def health_wf_def)

lemma health_wf_ops [simp]:
  assumes "health_wf m"
  shows "health_wf (record_connect_attempt m)" "health_wf (record_connect_success m)"
    "health_wf (record_message now m)" "health_wf (record_inbound_frames now n m)"
    "health_wf (record_sent now m)" "health_wf (record_error m)"
    "health_wf (record_server_error now c s m)" "health_wf (record_internal_error now s s' m)"
    "health_wf (increment_reconnect m)" "health_wf (clear_error_buffers m)"
  using assms by (auto simp: health_wf_def health_defs)

lemma record_rtt_fields [simp]:
  "server_errors (record_rtt ops d m) = server_errors m"
  "internal_errors (record_rtt ops d m) = internal_errors m"
  "error_count (record_rtt ops d m) = error_count m"
  "message_count (record_rtt ops d m) = message_count m"
  "last_message_received (record_rtt ops d m) = last_message_received m"
  by (auto simp: record_rtt_def Let_def split: if_splits prod.splits)

lemma health_wf_rtt [simp]: "health_wf m \<Longrightarrow> health_wf (record_rtt ops d m)"
  by (simp add: health_wf_def)

section \<open>Round-trip samples\<close>

definition clamp_rtt :: "duration \<Rightarrow> u64" where
  "clamp_rtt d = word_of_nat (max 1 (min (as_micros d) 60000000))"

definition rtt_out_of_range :: "duration \<Rightarrow> bool" where
  "rtt_out_of_range d \<longleftrightarrow> as_micros d < 1 \<or> 60000000 < as_micros d"

lemma unat_word_of_nat_u64: "n < 2 ^ 64 \<Longrightarrow> unat (word_of_nat n :: u64) = n"
  by (simp add: unat_of_nat take_bit_nat_eq_self)

lemma record_rtt_clamps:
  "record_rtt ops d m =
     m\<lparr>hm_rtt_clamped_samples :=
          (if rtt_out_of_range d then saturating_add (hm_rtt_clamped_samples m) 1
           else hm_rtt_clamped_samples m),
       latency_histogram := hist_record ops (clamp_rtt d) (latency_histogram m)\<rparr>"
proof -
  let ?n = "min (as_micros d) (2 ^ 64 - 1)"
  let ?w = "word_of_nat ?n :: u64"
  have u: "unat ?w = ?n" by (rule unat_word_of_nat_u64) simp
  have lo: "?w < MIN_RTT_US \<longleftrightarrow> as_micros d < 1"
    using u by (auto simp: word_less_nat_alt MIN_RTT_US_def)
  have hi: "MAX_RTT_US < ?w \<longleftrightarrow> 60000000 < as_micros d"
    using u by (auto simp: word_less_nat_alt MAX_RTT_US_def)
  have one: "\<not> MAX_RTT_US < MIN_RTT_US" by (simp add: MAX_RTT_US_def MIN_RTT_US_def)
  consider "as_micros d < 1" | "60000000 < as_micros d" | "1 \<le> as_micros d" "as_micros d \<le> 60000000"
    by linarith
  then show ?thesis
  proof cases
    case 1
    then show ?thesis
      using lo hi one
      by (simp add: record_rtt_def Let_def rtt_out_of_range_def clamp_rtt_def MIN_RTT_US_def)
  next
    case 2
    then show ?thesis
      using lo hi
      by (simp add: record_rtt_def Let_def rtt_out_of_range_def clamp_rtt_def MAX_RTT_US_def)
  next
    case 3
    then have "?w = clamp_rtt d" by (simp add: clamp_rtt_def min_def max_def)
    with 3 show ?thesis
      using lo hi
      by (auto simp: record_rtt_def Let_def rtt_out_of_range_def)
  qed
qed

lemma clamp_rtt_range: "1 \<le> clamp_rtt d" "clamp_rtt d \<le> 60000000"
proof -
  have "unat (clamp_rtt d) = max 1 (min (as_micros d) 60000000)"
    unfolding clamp_rtt_def by (rule unat_word_of_nat_u64) simp
  then show "1 \<le> clamp_rtt d" "clamp_rtt d \<le> 60000000"
    by (simp_all add: word_le_nat_alt)
qed

end
