(* ===== verification/Heartbeat.thy ===== *)
theory Heartbeat
  imports Frame "HOL-Library.AList"
begin

text \<open>
  The ping/pong strategies (\<^verbatim>\<open>src/src/core/ping.rs\<close>): the trait
  \<open>WsPingPongStrategy\<close>, \<open>ProtocolPingPong\<close>, \<open>ServerDrivenProtocolPingPong\<close> and
  \<open>WsApplicationPingPong\<close>.  The locale \<open>ping_strategy\<close> states the contract the
  health-checked loop relies on; the three strategies of the crate interpret it.
\<close>

section \<open>The trait\<close>

datatype WsPongResult =
    NotPong
  | PongReceived "duration option"
  | InvalidPong
  | Reply WsFrame

record 'p WsPingPongStrategy =
  create_ping :: "clock \<Rightarrow> 'p \<Rightarrow> WsFrame option \<times> 'p"
  handle_inbound :: "clock \<Rightarrow> WsFrame \<Rightarrow> 'p \<Rightarrow> WsPongResult \<times> 'p"
  ping_is_stale :: "instant \<Rightarrow> 'p \<Rightarrow> bool"
  ping_reset :: "'p \<Rightarrow> 'p"
  ping_interval :: "'p \<Rightarrow> duration"
  ping_timeout :: "'p \<Rightarrow> duration"

text \<open>
  The contract.  \<open>inv\<close> is the strategy's own invariant and \<open>stamp\<close> the latest instant a
  ping was sent at.
\<close>

locale ping_strategy =
  fixes P :: "'p WsPingPongStrategy"
    and inv :: "'p \<Rightarrow> bool"
    and stamp :: "'p \<Rightarrow> instant"
  assumes inv_create: "inv p \<Longrightarrow> inv (snd (create_ping P clk p))"
    and inv_inbound: "inv p \<Longrightarrow> inv (snd (handle_inbound P clk f p))"
    and inv_reset: "inv (ping_reset P p)"
    and stamp_inbound: "stamp (snd (handle_inbound P clk f p)) = stamp p"
    and stamp_reset: "stamp (ping_reset P p) = 0"
    and fresh_after_reset: "\<not> ping_is_stale P now (ping_reset P p)"
    and reply_echoes: "fst (handle_inbound P clk f p) = Reply r \<Longrightarrow> \<exists>b. f = Ping b \<and> r = Pong b"
    and not_pong_frame: "fst (handle_inbound P clk f p) = NotPong \<Longrightarrow> snd (handle_inbound P clk f p) = p"
    and inbound_never_stales:
      "inv p \<Longrightarrow> stamp p \<le> clk 0 \<Longrightarrow> \<not> ping_is_stale P now p
         \<Longrightarrow> \<not> ping_is_stale P now (snd (handle_inbound P clk f p))"
    and interval_create: "ping_interval P (snd (create_ping P clk p)) = ping_interval P p"
    and interval_inbound: "ping_interval P (snd (handle_inbound P clk f p)) = ping_interval P p"
    and interval_reset: "ping_interval P (ping_reset P p) = ping_interval P p"
begin

text \<open>A sequence of inbound frames, each with the clock it is handled at.\<close>

definition inbound_run :: "(clock \<times> WsFrame) list \<Rightarrow> 'p \<Rightarrow> 'p" where
  "inbound_run fs p = fold (\<lambda>(clk, f) p. snd (handle_inbound P clk f p)) fs p"

lemma inbound_run_simps [simp]:
  "inbound_run [] p = p"
  "inbound_run ((clk, f) # fs) p = inbound_run fs (snd (handle_inbound P clk f p))"
  by (simp_all add: inbound_run_def)

lemma inbound_run_not_stale:
  assumes "inv p" and "\<not> ping_is_stale P now p" and "\<forall>(clk, f) \<in> set fs. stamp p \<le> clk 0"
  shows "\<not> ping_is_stale P now (inbound_run fs p)"
  using assms
proof (induction fs arbitrary: p)
  case (Cons x fs)
  obtain clk f where x: "x = (clk, f)" by (cases x)
  let ?p = "snd (handle_inbound P clk f p)"
  have "stamp p \<le> clk 0" using Cons.prems(3) x by simp
  then have "\<not> ping_is_stale P now ?p" using Cons.prems(1,2) by (simp add: inbound_never_stales)
  moreover have "\<forall>(clk', f') \<in> set fs. stamp ?p \<le> clk' 0"
    using Cons.prems(3) by (simp add: stamp_inbound)
  ultimately have "\<not> ping_is_stale P now (inbound_run fs ?p)"
    using Cons.prems(1) by (intro Cons.IH) (simp_all add: inv_inbound)
  then show ?case using x by simp
qed simp

text \<open>Between a reset and the next ping no inbound traffic makes the strategy stale.\<close>

lemma unprobed_not_stale: "\<not> ping_is_stale P now (inbound_run fs (ping_reset P p))"
  by (rule inbound_run_not_stale) (auto simp: inv_reset fresh_after_reset stamp_reset)

end

section \<open>Protocol-level ping/pong\<close>

record ProtocolPingPong =
  interval :: duration
  timeout :: duration
  last_ping :: "instant option"
  last_pong :: "instant option"

definition protocol_new :: "duration \<Rightarrow> duration \<Rightarrow> ProtocolPingPong" where
  "protocol_new i t = \<lparr>interval = i, timeout = t, last_ping = None, last_pong = None\<rparr>"

definition protocol_create_ping :: "clock \<Rightarrow> ProtocolPingPong \<Rightarrow> WsFrame option \<times> ProtocolPingPong" where
  "protocol_create_ping clk p = (Some (Ping []), p\<lparr>last_ping := Some (clk 0)\<rparr>)"

definition protocol_handle_inbound ::
  "clock \<Rightarrow> WsFrame \<Rightarrow> ProtocolPingPong \<Rightarrow> WsPongResult \<times> ProtocolPingPong" where
  "protocol_handle_inbound clk message p =
     (case message of
        Pong _ \<Rightarrow>
          let now = clk 0; rtt = map_option (\<lambda>sent. now - sent) (last_ping p)
          in (PongReceived rtt, p\<lparr>last_pong := Some now\<rparr>)
      | Ping payload \<Rightarrow> (Reply (Pong payload), p)
      | _ \<Rightarrow> (NotPong, p))"

definition protocol_is_stale :: "instant \<Rightarrow> ProtocolPingPong \<Rightarrow> bool" where
  "protocol_is_stale now p =
     (case last_ping p of
        None \<Rightarrow> False
      | Some ping \<Rightarrow>
          if now - ping \<le> timeout p then False
          else (case last_pong p of Some pong \<Rightarrow> pong < ping | None \<Rightarrow> True))"

definition protocol_reset :: "ProtocolPingPong \<Rightarrow> ProtocolPingPong" where
  "protocol_reset p = p\<lparr>last_ping := None, last_pong := None\<rparr>"

definition protocol_ping_pong :: "ProtocolPingPong WsPingPongStrategy" where
  "protocol_ping_pong =
     \<lparr>create_ping = protocol_create_ping, handle_inbound = protocol_handle_inbound,
      ping_is_stale = protocol_is_stale, ping_reset = protocol_reset,
      ping_interval = interval, ping_timeout = timeout\<rparr>"

named_theorems heartbeat_defs
lemmas [heartbeat_defs] =
  protocol_ping_pong_def protocol_create_ping_def protocol_handle_inbound_def
  protocol_is_stale_def protocol_reset_def Let_def

definition protocol_stamp :: "ProtocolPingPong \<Rightarrow> instant" where
  "protocol_stamp p = (case last_ping p of None \<Rightarrow> 0 | Some t \<Rightarrow> t)"

interpretation protocol: ping_strategy protocol_ping_pong "\<lambda>_. True" protocol_stamp
  by unfold_locales
     (auto simp: heartbeat_defs protocol_stamp_def split: WsFrame.splits option.splits if_splits)

section \<open>Server-driven ping/pong\<close>

record ServerDrivenProtocolPingPong =
  check_interval :: duration

definition server_driven_handle_inbound ::
  "clock \<Rightarrow> WsFrame \<Rightarrow> ServerDrivenProtocolPingPong \<Rightarrow> WsPongResult \<times> ServerDrivenProtocolPingPong" where
  "server_driven_handle_inbound clk message p =
     (case message of
        Ping payload \<Rightarrow> (Reply (Pong payload), p)
      | Pong _ \<Rightarrow> (PongReceived None, p)
      | _ \<Rightarrow> (NotPong, p))"

definition server_driven_ping_pong :: "ServerDrivenProtocolPingPong WsPingPongStrategy" where
  "server_driven_ping_pong =
     \<lparr>create_ping = (\<lambda>clk p. (None, p)), handle_inbound = server_driven_handle_inbound,
      ping_is_stale = (\<lambda>now p. False), ping_reset = (\<lambda>p. p),
      ping_interval = check_interval, ping_timeout = check_interval\<rparr>"

lemmas [heartbeat_defs] = server_driven_ping_pong_def server_driven_handle_inbound_def

interpretation server_driven: ping_strategy server_driven_ping_pong "\<lambda>_. True" "\<lambda>_. 0"
  by unfold_locales (auto simp: heartbeat_defs split: WsFrame.splits)

section \<open>Application-level ping/pong\<close>

text \<open>
  \<open>pending_pings\<close> is a \<open>HashMap<String, Instant>\<close>: an association list with distinct
  keys.  The closure \<open>create_message\<close> may have interior state, which the strategy
  carries as \<open>gen\<close>; \<open>cf\<close> is one call of it.  \<open>pf\<close> is \<open>parse_pong\<close>.
\<close>

record 'c WsApplicationPingPong =
  app_interval :: duration
  app_timeout :: duration
  pending_pings :: "(string \<times> instant) list"
  max_pending :: nat
  oldest_pending :: "instant option"
  gen :: 'c

definition app_new :: "duration \<Rightarrow> duration \<Rightarrow> 'c \<Rightarrow> 'c WsApplicationPingPong" where
  "app_new i t c =
     \<lparr>app_interval = i, app_timeout = t, pending_pings = [], max_pending = 10,
      oldest_pending = None, gen = c\<rparr>"

definition with_max_pending :: "nat \<Rightarrow> 'c WsApplicationPingPong \<Rightarrow> 'c WsApplicationPingPong" where
  "with_max_pending n p = p\<lparr>max_pending := n\<rparr>"

text \<open>\<open>values().copied().min()\<close>.\<close>

fun values_min :: "(string \<times> instant) list \<Rightarrow> instant option" where
  "values_min [] = None"
| "values_min ((k, t) # xs) =
     (case values_min xs of None \<Rightarrow> Some t | Some u \<Rightarrow> Some (min t u))"

definition touch_oldest_on_insert :: "instant \<Rightarrow> 'c WsApplicationPingPong \<Rightarrow> 'c WsApplicationPingPong" where
  "touch_oldest_on_insert t p =
     p\<lparr>oldest_pending := Some (case oldest_pending p of Some old \<Rightarrow> min old t | None \<Rightarrow> t)\<rparr>"

definition cleanup_stale :: "instant \<Rightarrow> 'c WsApplicationPingPong \<Rightarrow> 'c WsApplicationPingPong" where
  "cleanup_stale now p =
     (let kept = filter (\<lambda>(k, sent). now - sent \<le> app_timeout p) (pending_pings p)
      in p\<lparr>pending_pings := kept, oldest_pending := values_min kept\<rparr>)"

definition process_application ::
  "(bytes \<Rightarrow> string option) \<Rightarrow> instant \<Rightarrow> bytes \<Rightarrow> 'c WsApplicationPingPong
     \<Rightarrow> WsPongResult \<times> 'c WsApplicationPingPong" where
  "process_application pf now payload p =
     (case pf payload of
        None \<Rightarrow> (NotPong, p)
      | Some key \<Rightarrow>
          (case map_of (pending_pings p) key of
             None \<Rightarrow> (NotPong, p)
           | Some sent_at \<Rightarrow>
               let p = p\<lparr>pending_pings := AList.delete key (pending_pings p)\<rparr>;
                   p = (if oldest_pending p = Some sent_at
                        then p\<lparr>oldest_pending := values_min (pending_pings p)\<rparr> else p)
               in (PongReceived (Some (now - sent_at)), p)))"

definition app_create_ping ::
  "('c \<Rightarrow> (bytes \<times> string) \<times> 'c) \<Rightarrow> clock \<Rightarrow> 'c WsApplicationPingPong
     \<Rightarrow> WsFrame option \<times> 'c WsApplicationPingPong" where
  "app_create_ping cf clk p =
     (let p = cleanup_stale (clk 0) p
      in if max_pending p \<le> length (pending_pings p) then (None, p)
         else
           let ((payload, key), c) = cf (gen p);
               now = clk 1;
               p = p\<lparr>gen := c, pending_pings := AList.update key now (pending_pings p)\<rparr>;
               p = touch_oldest_on_insert now p
           in (Some (into_ws_frame payload), p))"

definition app_handle_inbound ::
  "(bytes \<Rightarrow> string option) \<Rightarrow> clock \<Rightarrow> WsFrame \<Rightarrow> 'c WsApplicationPingPong
     \<Rightarrow> WsPongResult \<times> 'c WsApplicationPingPong" where
  "app_handle_inbound pf clk message p =
     (case message of
        Text t \<Rightarrow> process_application pf (clk 0) (as_bytes t) p
      | Binary b \<Rightarrow> process_application pf (clk 0) b p
      | _ \<Rightarrow> (NotPong, p))"

definition app_is_stale :: "instant \<Rightarrow> 'c WsApplicationPingPong \<Rightarrow> bool" where
  "app_is_stale now p =
     (case oldest_pending p of
        Some oldest \<Rightarrow> app_timeout p < now - oldest
      | None \<Rightarrow> False)"

definition app_reset :: "'c WsApplicationPingPong \<Rightarrow> 'c WsApplicationPingPong" where
  "app_reset p = p\<lparr>pending_pings := [], oldest_pending := None\<rparr>"

definition application_ping_pong ::
  "('c \<Rightarrow> (bytes \<times> string) \<times> 'c) \<Rightarrow> (bytes \<Rightarrow> string option)
     \<Rightarrow> 'c WsApplicationPingPong WsPingPongStrategy" where
  "application_ping_pong cf pf =
     \<lparr>create_ping = app_create_ping cf, handle_inbound = app_handle_inbound pf,
      ping_is_stale = app_is_stale, ping_reset = app_reset,
      ping_interval = app_interval, ping_timeout = app_timeout\<rparr>"

lemmas [heartbeat_defs] =
  application_ping_pong_def app_create_ping_def app_handle_inbound_def app_is_stale_def
  app_reset_def process_application_def cleanup_stale_def touch_oldest_on_insert_def

section \<open>What the bookkeeping of pending pings guarantees\<close>

lemma values_min_None [simp]: "values_min xs = None \<longleftrightarrow> xs = []"
  by (cases xs rule: values_min.cases) (auto split: option.splits)

lemma values_min_Some:
  "values_min xs = Some t \<Longrightarrow> t \<in> snd ` set xs \<and> (\<forall>u \<in> snd ` set xs. t \<le> u)"
proof (induction xs arbitrary: t rule: values_min.induct)
  case (2 k s xs)
  then show ?case
    by (cases "values_min xs") (auto simp: min_def split: if_splits)
qed simp

lemma values_minI:
  "t \<in> snd ` set xs \<Longrightarrow> (\<And>u. u \<in> snd ` set xs \<Longrightarrow> t \<le> u) \<Longrightarrow> values_min xs = Some t"
  by (cases "values_min xs") (auto dest!: values_min_Some intro: antisym)

text \<open>
  Always true: keys are distinct and \<open>oldest_pending\<close> is a lower bound of the send times
  still pending.
\<close>

definition app_inv :: "'c WsApplicationPingPong \<Rightarrow> bool" where
  "app_inv p \<longleftrightarrow>
     distinct (map fst (pending_pings p))
   \<and> (\<forall>t \<in> snd ` set (pending_pings p). \<exists>o'. oldest_pending p = Some o' \<and> o' \<le> t)"

text \<open>True as long as a key is not reused while it is pending: the bound is attained.\<close>

definition app_exact :: "'c WsApplicationPingPong \<Rightarrow> bool" where
  "app_exact p \<longleftrightarrow>
     distinct (map fst (pending_pings p)) \<and> oldest_pending p = values_min (pending_pings p)"

lemma app_exact_inv: "app_exact p \<Longrightarrow> app_inv p"
  by (cases "values_min (pending_pings p)")
     (auto simp: app_exact_def app_inv_def dest!: values_min_Some)

lemma app_exact_reset [simp]: "app_exact (app_reset p)"
  by (simp add: app_exact_def app_reset_def)

lemma distinct_filter_fst: "distinct (map fst xs) \<Longrightarrow> distinct (map fst (filter q xs))"
  by (rule distinct_map_filter)

lemma app_exact_cleanup: "distinct (map fst (pending_pings p)) \<Longrightarrow> app_exact (cleanup_stale now p)"
  by (simp add: app_exact_def cleanup_stale_def Let_def distinct_filter_fst)

lemma set_update_subset: "set (AList.update k v xs) \<subseteq> insert (k, v) (set xs)"
  by (induction xs) (auto split: if_splits)

lemma set_delete_subset: "set (AList.delete k xs) \<subseteq> set xs"
  by (auto simp: AList.delete_eq)

lemma app_inv_insert:
  assumes "app_inv p"
  shows "app_inv (touch_oldest_on_insert t
    (p\<lparr>gen := c, pending_pings := AList.update k t (pending_pings p)\<rparr>))"
proof -
  let ?xs = "AList.update k t (pending_pings p)"
  let ?old = "case oldest_pending p of Some old \<Rightarrow> min old t | None \<Rightarrow> t"
  have "?old \<le> u" if "(k', u) \<in> set ?xs" for k' u
  proof -
    from that set_update_subset have "u = t \<or> (k', u) \<in> set (pending_pings p)" by fastforce
    then show ?thesis
    proof
      assume "(k', u) \<in> set (pending_pings p)"
      with assms obtain o' where "oldest_pending p = Some o'" "o' \<le> u"
        by (force simp: app_inv_def)
      then show ?thesis by simp
    qed (simp split: option.split)
  qed
  with assms show ?thesis
    by (auto simp: app_inv_def touch_oldest_on_insert_def distinct_update)
qed

lemma app_inv_create:
  assumes "app_inv p"
  shows "app_inv (snd (app_create_ping cf clk p))"
proof -
  let ?p = "cleanup_stale (clk 0) p"
  have inv: "app_inv ?p"
    using assms by (intro app_exact_inv app_exact_cleanup) (simp add: app_inv_def)
  obtain payload key c where "cf (gen ?p) = ((payload, key), c)"
    by (metis prod.exhaust)
  then show ?thesis
    using inv by (simp add: app_create_ping_def Let_def app_inv_insert)
qed

lemma app_inv_process:
  assumes "app_inv p"
  shows "app_inv (snd (process_application pf now b p))"
proof -
  have "app_inv (p\<lparr>pending_pings := AList.delete key (pending_pings p)\<rparr>)"
    "app_inv (p\<lparr>pending_pings := AList.delete key (pending_pings p),
               oldest_pending := values_min (AList.delete key (pending_pings p))\<rparr>)" for key
  proof -
    let ?rest = "AList.delete key (pending_pings p)"
    have d: "distinct (map fst ?rest)" using assms by (simp add: app_inv_def distinct_delete)
    from assms show "app_inv (p\<lparr>pending_pings := ?rest\<rparr>)"
      using d set_delete_subset [of key "pending_pings p"] by (auto simp: app_inv_def)
    from d show "app_inv (p\<lparr>pending_pings := ?rest, oldest_pending := values_min ?rest\<rparr>)"
      by (intro app_exact_inv) (simp add: app_exact_def)
  qed
  then show ?thesis
    using assms by (auto simp: process_application_def Let_def split: option.splits)
qed

lemma process_application_not_stale:
  assumes "app_inv p" and "\<not> app_is_stale now p"
  shows "\<not> app_is_stale now (snd (process_application pf t b p))"
proof -
  have "app_timeout p < now - o' \<Longrightarrow> False"
    if "map_of (pending_pings p) key = Some sent" "oldest_pending p = Some sent"
       "values_min (AList.delete key (pending_pings p)) = Some o'" for key sent o'
  proof -
    assume late: "app_timeout p < now - o'"
    from that(3) have "o' \<in> snd ` set (pending_pings p)"
      using set_delete_subset [of key "pending_pings p"] by (fastforce dest: values_min_Some)
    with assms(1) that(2) have "sent \<le> o'" by (auto simp: app_inv_def)
    with assms(2) that(2) late show False by (simp add: app_is_stale_def)
  qed
  with assms(2) show ?thesis
    by (auto simp: process_application_def app_is_stale_def Let_def split: option.splits)
qed

lemma process_application_fields:
  "app_interval (snd (process_application pf t b p)) = app_interval p"
  "fst (process_application pf t b p) = NotPong \<Longrightarrow> snd (process_application pf t b p) = p"
  "fst (process_application pf t b p) \<noteq> Reply r"
  by (auto simp: process_application_def Let_def split: option.splits if_splits)

interpretation application: ping_strategy "application_ping_pong cf pf" app_inv "\<lambda>_. 0"
proof unfold_locales
  fix p :: "'a WsApplicationPingPong" and clk :: clock and f :: WsFrame and r :: WsFrame
    and now :: instant
  let ?A = "application_ping_pong cf pf"
  show "app_inv p \<Longrightarrow> app_inv (snd (create_ping ?A clk p))"
    by (simp add: application_ping_pong_def app_inv_create)
  show "app_inv p \<Longrightarrow> app_inv (snd (handle_inbound ?A clk f p))"
    by (simp add: application_ping_pong_def app_handle_inbound_def app_inv_process
        split: WsFrame.splits)
  show "app_inv (ping_reset ?A p)"
    by (simp add: application_ping_pong_def app_exact_inv)
  show "\<not> ping_is_stale ?A now (ping_reset ?A p)"
    by (simp add: heartbeat_defs)
  show "\<exists>b. f = Ping b \<and> r = Pong b" if "fst (handle_inbound ?A clk f p) = Reply r"
    using that
    by (auto simp: application_ping_pong_def app_handle_inbound_def process_application_fields(3)
        split: WsFrame.splits)
  show "snd (handle_inbound ?A clk f p) = p" if "fst (handle_inbound ?A clk f p) = NotPong"
    using that process_application_fields(2)
    by (auto simp: application_ping_pong_def app_handle_inbound_def split: WsFrame.splits)
  show "\<not> ping_is_stale ?A now (snd (handle_inbound ?A clk f p))"
    if "app_inv p" "\<not> ping_is_stale ?A now p"
    using that
    by (simp add: application_ping_pong_def app_handle_inbound_def process_application_not_stale
        split: WsFrame.splits)
  show "ping_interval ?A (snd (create_ping ?A clk p)) = ping_interval ?A p"
    by (auto simp: heartbeat_defs split: prod.splits)
  show "ping_interval ?A (snd (handle_inbound ?A clk f p)) = ping_interval ?A p"
    by (simp add: application_ping_pong_def app_handle_inbound_def process_application_fields(1)
        split: WsFrame.splits)
  show "ping_interval ?A (ping_reset ?A p) = ping_interval ?A p"
    by (simp add: heartbeat_defs)
qed simp_all

section \<open>Runs of the application-level strategy\<close>

datatype app_op = AppPing clock | AppInbound clock WsFrame | AppReset

fun app_step ::
  "('c \<Rightarrow> (bytes \<times> string) \<times> 'c) \<Rightarrow> (bytes \<Rightarrow> string option) \<Rightarrow> app_op
     \<Rightarrow> 'c WsApplicationPingPong \<Rightarrow> 'c WsApplicationPingPong" where
  "app_step cf pf (AppPing clk) p = snd (app_create_ping cf clk p)"
| "app_step cf pf (AppInbound clk f) p = snd (app_handle_inbound pf clk f p)"
| "app_step cf pf AppReset p = app_reset p"

text \<open>No ping of the run takes a key that is still pending when it is sent.\<close>

fun app_key_fresh ::
  "('c \<Rightarrow> (bytes \<times> string) \<times> 'c) \<Rightarrow> app_op \<Rightarrow> 'c WsApplicationPingPong \<Rightarrow> bool" where
  "app_key_fresh cf (AppPing clk) p =
     (let q = cleanup_stale (clk 0) p
      in snd (fst (cf (gen q))) \<notin> fst ` set (pending_pings q))"
| "app_key_fresh cf _ p = True"

fun app_keys_fresh ::
  "('c \<Rightarrow> (bytes \<times> string) \<times> 'c) \<Rightarrow> (bytes \<Rightarrow> string option) \<Rightarrow> app_op list
     \<Rightarrow> 'c WsApplicationPingPong \<Rightarrow> bool" where
  "app_keys_fresh cf pf [] p = True"
| "app_keys_fresh cf pf (x # xs) p =
     (app_key_fresh cf x p \<and> app_keys_fresh cf pf xs (app_step cf pf x p))"

definition app_run ::
  "('c \<Rightarrow> (bytes \<times> string) \<times> 'c) \<Rightarrow> (bytes \<Rightarrow> string option) \<Rightarrow> app_op list
     \<Rightarrow> 'c WsApplicationPingPong \<Rightarrow> 'c WsApplicationPingPong" where
  "app_run cf pf xs p = fold (app_step cf pf) xs p"

lemma app_run_simps [simp]:
  "app_run cf pf [] p = p"
  "app_run cf pf (x # xs) p = app_run cf pf xs (app_step cf pf x p)"
  by (simp_all add: app_run_def)

lemma values_min_snoc:
  "values_min (xs @ [(k, t)]) = Some (case values_min xs of None \<Rightarrow> t | Some u \<Rightarrow> min u t)"
  by (induction xs rule: values_min.induct) (auto split: option.splits simp: min.assoc)

lemma update_fresh: "k \<notin> fst ` set xs \<Longrightarrow> AList.update k t xs = xs @ [(k, t)]"
  by (induction xs) auto

lemma app_exact_insert:
  assumes "app_exact p" and "k \<notin> fst ` set (pending_pings p)"
  shows "app_exact (touch_oldest_on_insert t
    (p\<lparr>gen := c, pending_pings := AList.update k t (pending_pings p)\<rparr>))"
  using assms
  by (auto simp: app_exact_def touch_oldest_on_insert_def update_fresh values_min_snoc
      split: option.splits)

lemma app_exact_delete:
  assumes "app_exact p" and "map_of (pending_pings p) k = Some sent"
    and "oldest_pending p \<noteq> Some sent"
  shows "values_min (AList.delete k (pending_pings p)) = oldest_pending p"
proof -
  let ?xs = "pending_pings p"
  have "(k, sent) \<in> set ?xs" using assms(2) by (rule map_of_SomeD)
  then obtain m where m: "values_min ?xs = Some m" by (cases "values_min ?xs") auto
  then obtain k' where k': "(k', m) \<in> set ?xs" by (auto dest: values_min_Some)
  have "k' \<noteq> k"
  proof
    assume "k' = k"
    with k' assms(1) have "map_of ?xs k = Some m" by (simp add: app_exact_def map_of_is_SomeI)
    with assms m show False by (simp add: app_exact_def)
  qed
  with k' have mem: "m \<in> snd ` set (AList.delete k ?xs)"
    by (force simp: AList.delete_eq)
  have "m \<le> u" if "u \<in> snd ` set (AList.delete k ?xs)" for u
    using that values_min_Some [OF m] set_delete_subset [of k ?xs] by blast
  with mem have "values_min (AList.delete k ?xs) = Some m" by (rule values_minI)
  with m assms(1) show ?thesis by (simp add: app_exact_def)
qed

lemma app_exact_process:
  assumes "app_exact p"
  shows "app_exact (snd (process_application pf now b p))"
  using assms app_exact_delete [OF assms]
  by (auto simp: process_application_def app_exact_def Let_def distinct_delete split: option.splits)

lemma app_exact_step:
  assumes "app_exact p" and "app_key_fresh cf x p"
  shows "app_exact (app_step cf pf x p)"
proof (cases x)
  case (AppPing clk)
  let ?p = "cleanup_stale (clk 0) p"
  have ex: "app_exact ?p" using assms(1) by (intro app_exact_cleanup) (simp add: app_exact_def)
  obtain payload key c where cf: "cf (gen ?p) = ((payload, key), c)"
    by (metis prod.exhaust)
  with assms(2) AppPing have "key \<notin> fst ` set (pending_pings ?p)" by (simp add: Let_def)
  with AppPing cf ex show ?thesis by (simp add: app_create_ping_def Let_def app_exact_insert)
next
  case (AppInbound clk f)
  with assms show ?thesis
    by (simp add: app_handle_inbound_def app_exact_process split: WsFrame.splits)
qed simp

lemma app_run_exact:
  "app_exact p \<Longrightarrow> app_keys_fresh cf pf xs p \<Longrightarrow> app_exact (app_run cf pf xs p)"
  by (induction xs arbitrary: p) (auto intro: app_exact_step)

lemma app_is_stale_exact:
  assumes "app_exact p"
  shows "app_is_stale now p \<longleftrightarrow> (\<exists>k t. (k, t) \<in> set (pending_pings p) \<and> app_timeout p < now - t)"
proof (cases "values_min (pending_pings p)")
  case (Some m)
  from values_min_Some [OF Some] obtain k where k: "(k, m) \<in> set (pending_pings p)" by auto
  have le: "now - t \<le> now - m" if "(k', t) \<in> set (pending_pings p)" for k' t
    using values_min_Some [OF Some] that by (intro diff_le_mono2) force
  from Some assms have "app_is_stale now p \<longleftrightarrow> app_timeout p < now - m"
    by (simp add: app_is_stale_def app_exact_def)
  with k le show ?thesis by (meson less_le_trans)
qed (use assms in \<open>simp add: app_is_stale_def app_exact_def\<close>)

subsection \<open>The cap on pending pings\<close>

lemma length_update_le: "length (AList.update k v xs) \<le> Suc (length xs)"
  by (induction xs) auto

lemma app_step_bounded:
  "length (pending_pings p) \<le> max_pending p \<Longrightarrow>
     length (pending_pings (app_step cf pf x p)) \<le> max_pending (app_step cf pf x p)
     \<and> max_pending (app_step cf pf x p) = max_pending p"
proof (induction cf pf x p rule: app_step.induct)
  case (1 cf pf clk p)
  let ?p = "cleanup_stale (clk 0) p"
  have "length (pending_pings ?p) \<le> max_pending p" "max_pending ?p = max_pending p"
    using "1.prems" by (auto simp: cleanup_stale_def Let_def intro: le_trans length_filter_le)
  then show ?case
    using length_update_le [of _ "clk 1" "pending_pings ?p"]
    by (auto simp: app_create_ping_def touch_oldest_on_insert_def Let_def not_le split: prod.splits)
       (metis Suc_leI le_neq_implies_less le_trans)
next
  case (2 cf pf clk f p)
  have "length (AList.delete k (pending_pings p)) \<le> length (pending_pings p)" for k
    by (simp add: AList.delete_eq)
  with 2 show ?case
    by (auto simp: app_handle_inbound_def process_application_def Let_def
        split: WsFrame.splits option.splits intro: le_trans)
qed (simp add: app_reset_def)

lemma app_run_bounded:
  "length (pending_pings p) \<le> max_pending p \<Longrightarrow>
     length (pending_pings (app_run cf pf xs p)) \<le> max_pending p"
proof (induction xs arbitrary: p)
  case (Cons x xs)
  from Cons.IH [of "app_step cf pf x p"] app_step_bounded [OF Cons.prems, of cf pf x]
  show ?case by simp
qed simp

end
