(* ===== verification/Core_Properties.thy ===== *)
theory Core_Properties
  imports Circular_Buffer Connection_Policy Health Heartbeat
begin

text \<open>
  The properties of the core library under \<^verbatim>\<open>src/src/core\<close>: payload frames, the ring
  buffer, the circuit breaker, the health monitor and the heartbeat strategies.
\<close>

section \<open>Runs of the health monitor\<close>

datatype health_op =
    OpReset instant
  | OpAttempt
  | OpConnected
  | OpMessage instant
  | OpInbound instant u64
  | OpSent instant
  | OpError
  | OpServerError instant "i32 option" string
  | OpInternalError instant string string
  | OpRtt duration
  | OpReconnect
  | OpClear

fun health_step :: "'g histogram_ops \<Rightarrow> health_op \<Rightarrow> 'g WsHealthMonitor \<Rightarrow> 'g WsHealthMonitor option" where
  "health_step ops (OpReset now) m = reset_connection ops now m"
| "health_step ops OpAttempt m = Some (record_connect_attempt m)"
| "health_step ops OpConnected m = Some (record_connect_success m)"
| "health_step ops (OpMessage now) m = Some (record_message now m)"
| "health_step ops (OpInbound now n) m = Some (record_inbound_frames now n m)"
| "health_step ops (OpSent now) m = Some (record_sent now m)"
| "health_step ops OpError m = Some (record_error m)"
| "health_step ops (OpServerError now c msg) m = Some (record_server_error now c msg m)"
| "health_step ops (OpInternalError now c e) m = Some (record_internal_error now c e m)"
| "health_step ops (OpRtt d) m = Some (record_rtt ops d m)"
| "health_step ops OpReconnect m = Some (increment_reconnect m)"
| "health_step ops OpClear m = Some (clear_error_buffers m)"

fun health_run :: "'g histogram_ops \<Rightarrow> health_op list \<Rightarrow> 'g WsHealthMonitor \<Rightarrow> 'g WsHealthMonitor option" where
  "health_run ops [] m = Some m"
| "health_run ops (x # xs) m =
     (case health_step ops x m of None \<Rightarrow> None | Some m' \<Rightarrow> health_run ops xs m')"

text \<open>A histogram that meets the documented behaviour: the number of samples and the largest.\<close>

definition max_histogram :: "(u64 \<times> u64) histogram_ops" where
  "max_histogram =
     \<lparr>hist_new_with_bounds = (\<lambda>lo hi digits. Some (0, 0)),
      hist_record = (\<lambda>v (n, m). (saturating_add n 1, max m v)),
      hist_len = fst, hist_value_at_percentile = (\<lambda>p. snd)\<rparr>"

definition max_histogram_good :: "u64 \<times> u64 \<Rightarrow> bool" where
  "max_histogram_good g \<longleftrightarrow> fst g = 0 \<or> 1 \<le> snd g"

lemma max_histogram_laws: "hist_laws max_histogram max_histogram_good"
proof -
  have "1 \<le> v \<Longrightarrow> 1 \<le> max m v" for v m :: u64 by (simp add: le_max_iff_disj)
  then show ?thesis
    by (auto simp: hist_laws_def max_histogram_def max_histogram_good_def)
qed

definition health_inv :: "'g histogram_ops \<Rightarrow> ('g \<Rightarrow> bool) \<Rightarrow> 'g WsHealthMonitor \<Rightarrow> bool" where
  "health_inv ops good m \<longleftrightarrow> health_wf m \<and> good (latency_histogram m)"

lemma health_step_total:
  assumes "hist_laws ops good" and "health_inv ops good m"
  shows "\<exists>m'. health_step ops x m = Some m' \<and> health_inv ops good m'"
proof (cases x)
  case (OpReset now)
  obtain g where "new_latency_histogram ops = Some g" "good g"
    using assms(1) by (auto simp: hist_laws_def new_latency_histogram_def MIN_RTT_US_def MAX_RTT_US_def)
  then obtain m' where m': "reset_connection ops now m = Some m'" "good (latency_histogram m')"
    by (auto simp: reset_connection_def)
  then show ?thesis
    using OpReset assms(2) health_wf_reset [OF _ m'(1)] by (simp add: health_inv_def)
next
  case (OpRtt d)
  have "good (hist_record ops (clamp_rtt d) (latency_histogram m))"
    using assms clamp_rtt_range [of d] by (simp add: hist_laws_def health_inv_def)
  then show ?thesis
    using OpRtt assms(2) by (simp add: health_inv_def record_rtt_clamps [of ops d m] health_wf_def)
qed (use assms(2) in \<open>simp_all add: health_inv_def\<close>, simp_all add: health_defs)

lemma health_run_total:
  assumes "hist_laws ops good" and "health_inv ops good m"
  shows "\<exists>m'. health_run ops xs m = Some m' \<and> health_inv ops good m'"
  using assms(2)
proof (induction xs arbitrary: m)
  case (Cons x xs)
  from health_step_total [OF assms(1) Cons.prems, of x] Cons.IH show ?case by fastforce
qed simp

lemma health_new_total:
  assumes "hist_laws ops good"
  shows "\<exists>m. health_new ops now th = Some m \<and> health_inv ops good m"
proof -
  obtain g where g: "new_latency_histogram ops = Some g" "good g"
    using assms by (auto simp: hist_laws_def new_latency_histogram_def MIN_RTT_US_def MAX_RTT_US_def)
  then obtain m where "health_new ops now th = Some m" "latency_histogram m = g"
    by (auto simp: health_new_def)
  then show ?thesis using g health_wf_new by (auto simp: health_inv_def)
qed

section \<open>Payload frames\<close>

text \<open>
  Turning bytes into a frame loses nothing and never makes an ill-formed one: the bytes
  are read back from the frame, the frame is a text frame exactly when they are valid UTF-8,
  and different payloads give different frames.
\<close>

theorem payload_frame_roundtrip:
  "message_bytes (into_ws_message b) = Some b
     \<and> into_ws_message b = (if utf8_valid b then Text (WsText b) else Binary b)
     \<and> (into_ws_message b = into_ws_message b') = (b = b')"
  by (simp add: frame_simps into_ws_frame_inj)
     (simp add: into_ws_frame_def from_bytes_unchecked_def)

section \<open>The ring buffer\<close>

text \<open>
  A ring buffer of capacity \<open>n\<close> that has been pushed the elements \<open>xs\<close> holds exactly the
  last \<open>n\<close> of them, in order.
\<close>

theorem buffer_keeps_most_recent:
  "buffer (fold cb_push xs (cb_new n)) = take_last n xs"
  by (rule cb.contents_of_created)

text \<open>
  C35. The in-place swapping loop of \<open>retain\<close> computes the order-preserving filter: for every
  stateful predicate it keeps the elements, and makes the calls, that filtering from front to
  back does.
\<close>

theorem retain_is_filter:
  "cb_retain f cb s =
     (cb\<lparr>buffer := fst (filter_state f (buffer cb) s)\<rparr>, snd (filter_state f (buffer cb) s))"
  by (rule cb_retain_filter)

text \<open>
  Removing an element that is in the buffer returns it and takes exactly one occurrence of
  it out; removing one that is not there changes nothing.
\<close>

theorem remove_takes_one:
  "cb_remove x cb =
     (if x \<in> set (buffer cb) then (Some x, snd (cb_remove x cb)) else (None, cb))
   \<and> mset (buffer (snd (cb_remove x cb))) = mset (buffer cb) - {#x#}"
proof (cases "position (\<lambda>y. y = x) (buffer cb)")
  case None
  then have "x \<notin> set (buffer cb)" by (auto simp: position_None)
  then show ?thesis using None by (simp add: cb_remove_def diff_single_trivial)
next
  case (Some i)
  then have i: "i < cb_len cb" and x: "buffer cb ! i = x"
    by (auto dest!: position_Some simp: cb_len_def)
  then have "x \<in> set (buffer cb)" by (auto simp: cb_len_def)
  then show ?thesis
    using Some x cb_pop_back_spec [OF i] by (simp add: cb_remove_def prod_eq_iff)
qed

section \<open>The circuit breaker\<close>

text \<open>
  C10. From its creation, every sequence of calls to the circuit breaker whose failures come
  early enough for the retry instant to be representable returns, and answers each
  \<open>can_proceed\<close> as the abstract guard with unbounded counters does: saturation at \<open>u32\<close> never
  changes a decision.
\<close>

theorem breaker_implements_guard:
  assumes "\<forall>now. Failure now \<in> set ops \<longrightarrow> now + t \<le> INSTANT_MAX"
  shows "\<exists>outs b. breaker_run ops (breaker_new ft st t) = Some (outs, b)
           \<and> guard_run (unat (max ft 1)) (unat (max st 1)) t ops (Allowing (unat (max ft 1)))
               = (outs, guard_of b)"
proof -
  let ?b = "breaker_new ft st t"
  obtain outs b where run: "breaker_run ops ?b = Some (outs, b)"
    using breaker_run_total [of ops ?b] assms by (auto simp: breaker_new_def)
  have "guard_of ?b = Allowing (unat (max ft 1))" by (simp add: guard_of_def breaker_new_def)
  then show ?thesis
    using run breaker_run_refines [OF breaker_wf_new run] by (simp add: breaker_new_def)
qed

theorem breaker_implements_guard_witness:
  "\<exists>outs b. breaker_run [Failure 5, AskProceed 10, AskProceed 105, Success, AskProceed 106]
       (breaker_new 1 2 100) = Some (outs, b)
     \<and> guard_run (unat (max (1 :: u32) 1)) (unat (max (2 :: u32) 1)) 100
         [Failure 5, AskProceed 10, AskProceed 105, Success, AskProceed 106]
         (Allowing (unat (max (1 :: u32) 1))) = (outs, guard_of b)"
  by (rule breaker_implements_guard) (simp add: INSTANT_MAX_def)

section \<open>The health monitor\<close>

text \<open>
  C28. With a histogram that behaves as documented no sequence of monitor calls panics, and
  the statistics it reports are always in range: at most 100 records in each error log, none
  with a text over 1024 bytes, and latency percentiles that are 0 before the first sample and
  between 1 microsecond and 60 seconds afterwards.
\<close>

theorem monitor_never_panics_and_is_bounded:
  assumes "hist_laws ops good"
  shows "\<exists>m m'. health_new ops now th = Some m \<and> health_run ops xs m = Some m'
     \<and> health_wf m'
     \<and> recent_server_errors (get_stats ops clk m') \<le> 100
     \<and> recent_internal_errors (get_stats ops clk m') \<le> 100
     \<and> (if latency_samples (get_stats ops clk m') = 0
        then p50_latency_us (get_stats ops clk m') = 0 \<and> p99_latency_us (get_stats ops clk m') = 0
        else p50_latency_us (get_stats ops clk m') \<in> {1..60000000}
           \<and> p99_latency_us (get_stats ops clk m') \<in> {1..60000000})"
proof -
  obtain m where m: "health_new ops now th = Some m" "health_inv ops good m"
    using health_new_total [OF assms] by blast
  obtain m' where m': "health_run ops xs m = Some m'" "health_inv ops good m'"
    using health_run_total [OF assms m(2)] by blast
  have wf: "health_wf m'" and g: "good (latency_histogram m')" using m'(2) by (simp_all add: health_inv_def)
  have len: "cb_len (server_errors m') \<le> 100" "cb_len (internal_errors m') \<le> 100"
    using wf cb.invar_bound [of "server_errors m'"] cb.invar_bound [of "internal_errors m'"]
    by (simp_all add: health_wf_def log_ok_def cb_len_def MAX_RECENT_ERRORS_def)
  have "1 \<le> hist_value_at_percentile ops p (latency_histogram m')"
    if "hist_len ops (latency_histogram m') \<noteq> 0" for p
    using assms g that by (simp add: hist_laws_def)
  then show ?thesis
    using m(1) m'(1) wf len
    by (cases "hist_len ops (latency_histogram m') = 0") (simp_all add: get_stats_def Let_def MAX_RTT_US_def)
qed

theorem monitor_never_panics_and_is_bounded_witness:
  "\<exists>m m'. health_new max_histogram 0 1000 = Some m
     \<and> health_run max_histogram [OpMessage 3, OpRtt 5000, OpInternalError 4 ''ping'' ''invalid pong''] m = Some m'
     \<and> health_wf m'
     \<and> recent_server_errors (get_stats max_histogram (\<lambda>_. 9) m') \<le> 100
     \<and> recent_internal_errors (get_stats max_histogram (\<lambda>_. 9) m') \<le> 100
     \<and> (if latency_samples (get_stats max_histogram (\<lambda>_. 9) m') = 0
        then p50_latency_us (get_stats max_histogram (\<lambda>_. 9) m') = 0
           \<and> p99_latency_us (get_stats max_histogram (\<lambda>_. 9) m') = 0
        else p50_latency_us (get_stats max_histogram (\<lambda>_. 9) m') \<in> {1..60000000}
           \<and> p99_latency_us (get_stats max_histogram (\<lambda>_. 9) m') \<in> {1..60000000})"
  by (rule monitor_never_panics_and_is_bounded [OF max_histogram_laws])

text \<open>
  Truncating an error text keeps a prefix of at most 1024 bytes that ends on a character
  boundary, so it is valid UTF-8 again, and drops at most the three bytes of a cut character
  more than it has to.
\<close>

theorem truncation_keeps_utf8:
  assumes "utf8_valid (str_bytes s)"
  shows "utf8_valid (str_bytes (truncate_string s)) \<and> (\<exists>k. truncate_string s = take k s)
     \<and> length (truncate_string s) \<le> 1024 \<and> min (length s) 1021 \<le> length (truncate_string s)"
  using truncate_string_valid [OF assms] truncate_string_prefix [of s] truncate_string_length [of s]
    truncate_string_loss [OF assms] by (simp add: MAX_ERROR_TEXT_BYTES_def)

theorem truncation_keeps_utf8_witness:
  "utf8_valid (str_bytes (truncate_string ''boom'')) \<and> (\<exists>k. truncate_string ''boom'' = take k ''boom'')
     \<and> length (truncate_string ''boom'') \<le> 1024
     \<and> min (length ''boom'') 1021 \<le> length (truncate_string ''boom'')"
  by (rule truncation_keeps_utf8) code_simp

text \<open>
  Every round-trip time is recorded as the microseconds clamped to the range of the
  histogram, 1 microsecond to 60 seconds, and counted as clamped exactly when it was outside;
  nothing else of the monitor changes.
\<close>

theorem rtt_recorded_clamped:
  "record_rtt ops d m =
     m\<lparr>hm_rtt_clamped_samples :=
          (if rtt_out_of_range d then saturating_add (hm_rtt_clamped_samples m) 1
           else hm_rtt_clamped_samples m),
       latency_histogram := hist_record ops (clamp_rtt d) (latency_histogram m)\<rparr>
   \<and> 1 \<le> clamp_rtt d \<and> clamp_rtt d \<le> 60000000"
  using record_rtt_clamps clamp_rtt_range by blast

section \<open>Heartbeats\<close>




text \<open>
  The application-level strategy never has more than \<open>max_pending\<close> (10 by default)
  unanswered pings, after any sequence of pings, inbound frames and resets.
\<close>

theorem app_pending_bounded:
  "length (pending_pings (app_run cf pf ops (app_new i t c))) \<le> 10"
  using app_run_bounded [of "app_new i t c" cf pf ops] by (simp add: app_new_def)

end
