(* ===== verification/Float64.thy ===== *)
theory Float64
  imports Complex_Main Prelude "HOL-Library.Log_Nat"
begin

text \<open>
  Binary64 arithmetic as far as the crate uses it: rounding to nearest with ties to even,
  multiplication, addition, division and \<open>f64::min\<close>, and the conversions between \<open>Duration\<close>
  and seconds in floating point.  A finite number is its rational value; the sign of zero plays
  no role in the operations used.
\<close>

datatype f64 = NaN | PosInf | NegInf | Fin rat

section \<open>Rounding to an integer\<close>

definition round_even :: "rat \<Rightarrow> int" where
  "round_even x =
     (let f = \<lfloor>x\<rfloor>; r = x - of_int f
      in if r < 1 / 2 then f else if 1 / 2 < r then f + 1 else if even f then f else f + 1)"

lemma round_even_of_int [simp]: "round_even (of_int n) = n"
  by (simp add: round_even_def)

lemma round_even_error: "\<bar>of_int (round_even x) - x\<bar> \<le> 1 / 2"
proof -
  have "of_int \<lfloor>x\<rfloor> \<le> x" "x < of_int \<lfloor>x\<rfloor> + 1" by linarith+
  then show ?thesis by (auto simp: round_even_def Let_def abs_le_iff)
qed

lemma round_even_mono: "x \<le> y \<Longrightarrow> round_even x \<le> round_even y"
proof (cases "\<lfloor>x\<rfloor> = \<lfloor>y\<rfloor>")
  case True
  assume "x \<le> y"
  with True show ?thesis by (auto simp: round_even_def Let_def)
next
  case False
  assume "x \<le> y"
  with False have "\<lfloor>x\<rfloor> + 1 \<le> \<lfloor>y\<rfloor>" using floor_mono [of x y] by linarith
  moreover have "round_even x \<le> \<lfloor>x\<rfloor> + 1" "\<lfloor>y\<rfloor> \<le> round_even y"
    by (auto simp: round_even_def Let_def)
  ultimately show ?thesis by linarith
qed

lemma round_even_le: "x \<le> of_int n \<Longrightarrow> round_even x \<le> n"
  using round_even_mono [of x "of_int n"] by simp

lemma round_even_ge: "of_int n \<le> x \<Longrightarrow> n \<le> round_even x"
  using round_even_mono [of "of_int n" x] by simp

lemma round_even_near: "\<bar>x - of_int n\<bar> < 1 / 2 \<Longrightarrow> round_even x = n"
proof -
  assume "\<bar>x - of_int n\<bar> < 1 / 2"
  with round_even_error [of x]
  have "of_int (round_even x) < (of_int n + 1 :: rat)" "(of_int n :: rat) < of_int (round_even x) + 1"
    by linarith+
  then show ?thesis by linarith
qed

section \<open>The binade of a number\<close>

definition floor_log2 :: "rat \<Rightarrow> int" where
  "floor_log2 x =
     (let (p, q) = quotient_of x;
          e = int (floorlog 2 (nat p)) - int (floorlog 2 (nat q))
      in if 2 powi e \<le> x then e else e - 1)"

lemma floorlog2_bounds:
  assumes "0 < p"
  shows "2 powi (int (floorlog 2 (nat p)) - 1) \<le> (of_int p :: rat)"
    and "(of_int p :: rat) < 2 powi int (floorlog 2 (nat p))"
proof -
  let ?n = "nat p" and ?f = "floorlog 2 (nat p)"
  have b: "2 ^ (?f - 1) \<le> ?n \<and> ?n < 2 ^ ?f"
    using assms by (intro floorlog_bounds) auto
  have f: "0 < ?f" using assms b by (cases ?f) auto
  have low: "(of_nat (2 ^ (?f - 1)) :: rat) \<le> of_nat ?n" and up: "(of_nat ?n :: rat) < of_nat (2 ^ ?f)"
    using b by (simp_all only: of_nat_le_iff of_nat_less_iff)
  have "int ?f - 1 = int (?f - 1)" using f by simp
  then have e: "(2::rat) powi (int ?f - 1) = of_nat (2 ^ (?f - 1))" by (simp only: power_int_of_nat) simp
  have e': "(2::rat) powi int ?f = of_nat (2 ^ ?f)" by (simp only: power_int_of_nat) simp
  have p: "(of_int p :: rat) = of_nat ?n" using assms by simp
  show "2 powi (int ?f - 1) \<le> (of_int p :: rat)" unfolding e p by (rule low)
  show "(of_int p :: rat) < 2 powi int ?f" unfolding e' p by (rule up)
qed

lemma floor_log2_bounds:
  assumes "0 < x"
  shows "2 powi floor_log2 x \<le> x" and "x < 2 powi (floor_log2 x + 1)"
proof -
  obtain p q where pq: "quotient_of x = (p, q)" by fastforce
  have q: "0 < q" using quotient_of_denom_pos [OF pq] .
  have x: "x = of_int p / of_int q" using quotient_of_div [OF pq] .
  have p: "0 < p" using assms q by (simp add: x zero_less_divide_iff)
  let ?a = "int (floorlog 2 (nat p))" and ?b = "int (floorlog 2 (nat q))"
  note P = floorlog2_bounds [OF p] and Q = floorlog2_bounds [OF q]
  have "x < 2 powi ?a / 2 powi (?b - 1)"
    unfolding x using P(2) Q(1) p q by (intro frac_less) auto
  also have "\<dots> = 2 powi (?a - ?b + 1)" by (simp add: power_int_diff power_int_add)
  finally have up: "x < 2 powi (?a - ?b + 1)" .
  have "2 powi (?a - 1) / 2 powi ?b \<le> x"
    unfolding x using P(1) Q(2) p q by (intro frac_le) auto
  then have low: "2 powi (?a - ?b - 1) \<le> x" by (simp add: power_int_diff)
  show "2 powi floor_log2 x \<le> x" "x < 2 powi (floor_log2 x + 1)"
    using up low by (auto simp: floor_log2_def pq Let_def)
qed

lemma powi2_mono: "a \<le> b \<Longrightarrow> (2::rat) powi a \<le> 2 powi b"
  by (rule power_int_increasing) simp_all

lemma powi2_less: "(2::rat) powi a < 2 powi b \<Longrightarrow> a < b"
  by (rule ccontr) (use powi2_mono [of b a] in simp)

lemma floor_log2_less: "0 < x \<Longrightarrow> x < 2 powi k \<Longrightarrow> floor_log2 x < k"
  using floor_log2_bounds(1) [of x] by (intro powi2_less) simp

lemma floor_log2_le: "0 < x \<Longrightarrow> x \<le> 2 powi k \<Longrightarrow> floor_log2 x \<le> k"
  using floor_log2_less [of x "k + 1"] power_int_strict_increasing [of k "k + 1" "2 :: rat"] by simp

section \<open>Rounding to binary64\<close>

text \<open>The exponent of the last place: 52 below the binade, at least the subnormal one.\<close>

definition ulp_exp :: "rat \<Rightarrow> int" where
  "ulp_exp x = max (floor_log2 x) (- 1022) - 52"

definition rnd_pos :: "rat \<Rightarrow> rat" where
  "rnd_pos x =
     (if x = 0 then 0
      else of_int (round_even (x / 2 powi ulp_exp x)) * 2 powi ulp_exp x)"

definition rnd :: "rat \<Rightarrow> f64" where
  "rnd x =
     (let v = rnd_pos \<bar>x\<bar>
      in if 2 powi 1024 \<le> v then if 0 < x then PosInf else NegInf
         else Fin (if 0 \<le> x then v else - v))"

lemma rnd_pos_zero [simp]: "rnd_pos 0 = 0"
  by (simp add: rnd_pos_def)

lemma powi2_int: "0 \<le> k \<Longrightarrow> (2::rat) powi k = of_int (2 ^ nat k)"
  by (simp add: power_int_def)

lemma rnd_pos_le_pow:
  assumes "0 < x" and "x \<le> 2 powi k" and "ulp_exp x \<le> k"
  shows "rnd_pos x \<le> 2 powi k"
proof -
  let ?g = "2 powi ulp_exp x :: rat"
  have "x / ?g \<le> 2 powi k / ?g" using assms(2) by (intro divide_right_mono) auto
  also have "\<dots> = of_int (2 ^ nat (k - ulp_exp x))"
    using assms(3) by (simp add: power_int_diff [symmetric] powi2_int)
  finally have "round_even (x / ?g) \<le> 2 ^ nat (k - ulp_exp x)" by (rule round_even_le)
  then have "of_int (round_even (x / ?g)) * ?g \<le> of_int (2 ^ nat (k - ulp_exp x)) * ?g"
    by (intro mult_right_mono) (simp_all only: of_int_le_iff, simp)
  also have "\<dots> = 2 powi k"
    using assms(3) by (simp only: powi2_int [symmetric]) (simp add: power_int_add [symmetric])
  finally show ?thesis using assms(1) by (simp add: rnd_pos_def)
qed

lemma rnd_pos_ge_pow:
  assumes "2 powi k \<le> x" and "ulp_exp x \<le> k"
  shows "2 powi k \<le> rnd_pos x"
proof -
  let ?g = "2 powi ulp_exp x :: rat"
  have pos: "0 < x" using assms(1) by (rule less_le_trans [rotated]) simp
  have eq: "2 powi k / ?g = of_int (2 ^ nat (k - ulp_exp x))"
    using assms(2) by (simp add: power_int_diff [symmetric] powi2_int)
  have "2 powi k / ?g \<le> x / ?g" using assms(1) by (intro divide_right_mono) auto
  then have "2 ^ nat (k - ulp_exp x) \<le> round_even (x / ?g)" unfolding eq by (rule round_even_ge)
  then have "of_int (2 ^ nat (k - ulp_exp x)) * ?g \<le> of_int (round_even (x / ?g)) * ?g"
    by (intro mult_right_mono) (simp_all only: of_int_le_iff, simp)
  then have "2 powi k \<le> of_int (round_even (x / ?g)) * ?g" unfolding eq [symmetric] by simp
  then show ?thesis using pos by (simp add: rnd_pos_def)
qed

lemma ulp_exp_mono_cases:
  assumes "0 < x" and "x \<le> y"
  obtains "ulp_exp x = ulp_exp y"
  | "ulp_exp x < ulp_exp y" and "- 1022 < floor_log2 y" and "floor_log2 x < floor_log2 y"
proof -
  have "0 < y" using assms by simp
  have "2 powi floor_log2 x < (2 :: rat) powi (floor_log2 y + 1)"
    using floor_log2_bounds(1) [OF assms(1)] floor_log2_bounds(2) [OF \<open>0 < y\<close>] assms(2) by linarith
  then have "floor_log2 x \<le> floor_log2 y" using powi2_less by fastforce
  then show ?thesis using that unfolding ulp_exp_def by linarith
qed

lemma rnd_pos_nonneg [simp]: "0 \<le> x \<Longrightarrow> 0 \<le> rnd_pos x"
  using round_even_ge [of 0 "x / 2 powi ulp_exp x"] by (simp add: rnd_pos_def)

lemma rnd_pos_mono: "0 \<le> x \<Longrightarrow> x \<le> y \<Longrightarrow> rnd_pos x \<le> rnd_pos y"
proof (cases "x = 0")
  case False
  assume "0 \<le> x" and le: "x \<le> y"
  with False have x: "0 < x" and y: "0 < y" by simp_all
  from x le show ?thesis
  proof (cases rule: ulp_exp_mono_cases)
    case 1
    let ?g = "2 powi ulp_exp y :: rat"
    have "x / ?g \<le> y / ?g" using le by (intro divide_right_mono) auto
    then have "of_int (round_even (x / ?g)) * ?g \<le> of_int (round_even (y / ?g)) * ?g"
      by (intro mult_right_mono) (simp_all only: of_int_le_iff round_even_mono, simp)
    then show ?thesis using x y 1 by (simp add: rnd_pos_def)
  next
    case 2
    let ?k = "floor_log2 y"
    have "(2 :: rat) powi (floor_log2 x + 1) \<le> 2 powi ?k" using 2 by (intro powi2_mono) simp
    then have "x \<le> 2 powi ?k" using floor_log2_bounds(2) [OF x] by linarith
    then have "rnd_pos x \<le> 2 powi ?k" using x 2 by (intro rnd_pos_le_pow) (auto simp: ulp_exp_def)
    also have "\<dots> \<le> rnd_pos y"
      using floor_log2_bounds(1) [OF y] 2 by (intro rnd_pos_ge_pow) (auto simp: ulp_exp_def)
    finally show ?thesis .
  qed
qed simp

lemma rnd_pos_exact:
  assumes "0 < x" and "x = of_int n * 2 powi e" and "ulp_exp x \<le> e"
  shows "rnd_pos x = x"
proof -
  let ?g = "2 powi ulp_exp x :: rat"
  have "x / ?g = of_int n * (2 powi e / ?g)" by (subst assms(2)) simp
  also have "\<dots> = of_int (n * 2 ^ nat (e - ulp_exp x))"
    using assms(3) by (simp add: power_int_diff [symmetric] powi2_int)
  finally have "of_int (round_even (x / ?g)) = x / ?g" by (simp only: round_even_of_int)
  then show ?thesis using assms(1) by (simp add: rnd_pos_def)
qed

lemma rnd_pos_error: "0 < x \<Longrightarrow> \<bar>rnd_pos x - x\<bar> \<le> 2 powi ulp_exp x / 2"
proof -
  assume x: "0 < x"
  let ?g = "2 powi ulp_exp x :: rat"
  have "rnd_pos x - x = (of_int (round_even (x / ?g)) - x / ?g) * ?g"
    using x by (simp add: rnd_pos_def left_diff_distrib)
  then have "\<bar>rnd_pos x - x\<bar> = \<bar>of_int (round_even (x / ?g)) - x / ?g\<bar> * ?g"
    by (simp add: abs_mult)
  also have "\<dots> \<le> 1 / 2 * ?g" by (intro mult_right_mono round_even_error) simp
  finally show ?thesis by simp
qed

lemma rnd_pos_error_below:
  assumes "0 \<le> x" and "x < 2 powi k" and "- 1022 < k"
  shows "\<bar>rnd_pos x - x\<bar> \<le> 2 powi (k - 54)"
proof (cases "x = 0")
  case False
  with assms(1) have x: "0 < x" by simp
  have "ulp_exp x \<le> k - 53"
    using floor_log2_less [OF x assms(2)] assms(3) by (auto simp: ulp_exp_def)
  then have "(2 :: rat) powi ulp_exp x \<le> 2 powi (k - 53)" by (rule powi2_mono)
  also have "(2 :: rat) powi (k - 53) = 2 powi (k - 54) * 2"
    using power_int_add_1 [of "2 :: rat" "k - 54"] by (simp add: algebra_simps)
  finally show ?thesis using rnd_pos_error [OF x] by linarith
qed simp

text \<open>Rounding again changes nothing.\<close>

lemma rnd_pos_idem:
  assumes "0 \<le> x"
  shows "rnd_pos (rnd_pos x) = rnd_pos x"
proof (cases "rnd_pos x = 0")
  case False
  with assms have z: "0 < rnd_pos x" and x: "0 < x"
    using rnd_pos_nonneg [of x] by (auto simp: order_less_le)
  let ?k = "max (floor_log2 x) (- 1022) + 1"
  have "x \<le> 2 powi ?k"
    using floor_log2_bounds(2) [OF x] powi2_mono [of "floor_log2 x + 1" ?k] by simp
  then have le: "rnd_pos x \<le> 2 powi ?k" using x by (intro rnd_pos_le_pow) (auto simp: ulp_exp_def)
  show ?thesis
  proof (cases "rnd_pos x = 2 powi ?k")
    case True
    then have "floor_log2 (rnd_pos x) \<le> ?k" using z by (intro floor_log2_le) simp_all
    then show ?thesis
      using True z by (intro rnd_pos_exact [where n = 1 and e = ?k]) (auto simp: ulp_exp_def)
  next
    case False
    then have "floor_log2 (rnd_pos x) < ?k" using le z by (intro floor_log2_less) simp_all
    then have "ulp_exp (rnd_pos x) \<le> ulp_exp x" by (auto simp: ulp_exp_def)
    then show ?thesis
      using z x by (intro rnd_pos_exact [where e = "ulp_exp x"]) (simp_all add: rnd_pos_def)
  qed
qed simp

lemma rnd_pos_of_nat:
  assumes "n < 2 ^ 53"
  shows "rnd_pos (of_nat n) = of_nat n"
proof (cases "n = 0")
  case False
  have "(of_nat n :: rat) < of_nat (2 ^ 53)" using assms by (simp only: of_nat_less_iff)
  then have "(of_nat n :: rat) < 2 powi 53" by simp
  then have "floor_log2 (of_nat n) < 53" using False by (intro floor_log2_less) simp_all
  then show ?thesis
    using False by (intro rnd_pos_exact [where n = "int n" and e = 0]) (auto simp: ulp_exp_def)
qed simp

section \<open>Operations\<close>

definition is_finite :: "f64 \<Rightarrow> bool" where
  "is_finite a = (case a of Fin _ \<Rightarrow> True | _ \<Rightarrow> False)"

text \<open>The comparison \<open>a > b\<close>, which is false on \<open>NaN\<close>.\<close>

fun f64_gt :: "f64 \<Rightarrow> f64 \<Rightarrow> bool" where
  "f64_gt (Fin x) (Fin y) = (y < x)"
| "f64_gt PosInf b = (case b of Fin _ \<Rightarrow> True | NegInf \<Rightarrow> True | _ \<Rightarrow> False)"
| "f64_gt (Fin x) NegInf = True"
| "f64_gt _ _ = False"

fun f64_add :: "f64 \<Rightarrow> f64 \<Rightarrow> f64" where
  "f64_add (Fin x) (Fin y) = rnd (x + y)"
| "f64_add PosInf b = (case b of Fin _ \<Rightarrow> PosInf | PosInf \<Rightarrow> PosInf | _ \<Rightarrow> NaN)"
| "f64_add NegInf b = (case b of Fin _ \<Rightarrow> NegInf | NegInf \<Rightarrow> NegInf | _ \<Rightarrow> NaN)"
| "f64_add NaN b = NaN"
| "f64_add (Fin x) b = b"

definition inf_times :: "bool \<Rightarrow> rat \<Rightarrow> f64" where
  "inf_times positive x =
     (if x = 0 then NaN else if (0 < x) = positive then PosInf else NegInf)"

fun f64_mul :: "f64 \<Rightarrow> f64 \<Rightarrow> f64" where
  "f64_mul (Fin x) (Fin y) = rnd (x * y)"
| "f64_mul (Fin x) PosInf = inf_times True x"
| "f64_mul (Fin x) NegInf = inf_times False x"
| "f64_mul PosInf (Fin y) = inf_times True y"
| "f64_mul NegInf (Fin y) = inf_times False y"
| "f64_mul PosInf PosInf = PosInf"
| "f64_mul NegInf NegInf = PosInf"
| "f64_mul PosInf NegInf = NegInf"
| "f64_mul NegInf PosInf = NegInf"
| "f64_mul _ _ = NaN"

text \<open>\<open>f64::min\<close> ignores a \<open>NaN\<close>.\<close>

fun f64_min :: "f64 \<Rightarrow> f64 \<Rightarrow> f64" where
  "f64_min NaN b = b"
| "f64_min a NaN = a"
| "f64_min (Fin x) (Fin y) = Fin (min x y)"
| "f64_min PosInf b = b"
| "f64_min a PosInf = a"
| "f64_min NegInf b = NegInf"
| "f64_min a NegInf = NegInf"

section \<open>Durations in floating-point seconds\<close>

text \<open>\<open>Duration::as_secs_f64\<close>: the seconds plus the nanoseconds divided by \<open>1e9\<close>, each
  operation rounded.\<close>

definition as_secs_f64 :: "duration \<Rightarrow> f64" where
  "as_secs_f64 d =
     f64_add (rnd (of_nat (d div 1000000000))) (rnd (of_nat (d mod 1000000000) / 1000000000))"

text \<open>\<open>Duration::from_secs_f64\<close> rounds to the nearest nanosecond, ties to even, and panics on
  a negative, non-finite or too large number of seconds.\<close>

definition from_secs_f64 :: "f64 \<Rightarrow> duration option" where
  "from_secs_f64 a =
     (case a of
        Fin x \<Rightarrow> if 0 \<le> x \<and> x < 2 ^ 64 then Some (nat (round_even (x * 1000000000))) else None
      | _ \<Rightarrow> None)"

text \<open>The seconds of a duration below \<open>2^22\<close> seconds (more than 48 days): the range in which
  the two conversions are inverse to each other.\<close>

definition SECS_F64_EXACT :: duration where
  "SECS_F64_EXACT = 2 ^ 22 * 1000000000"

definition secs_value :: "duration \<Rightarrow> rat" where
  "secs_value d =
     rnd_pos (of_nat (d div 1000000000) + rnd_pos (of_nat (d mod 1000000000) / 1000000000))"

lemma rnd_nonneg: "0 \<le> x \<Longrightarrow> rnd x = (if 2 powi 1024 \<le> rnd_pos x then PosInf else Fin (rnd_pos x))"
proof -
  assume "0 \<le> x"
  moreover have "\<not> (2 :: rat) powi 1024 \<le> 0" by (simp add: not_le)
  ultimately show ?thesis by (cases "x = 0") (simp_all add: rnd_def Let_def)
qed

lemma rnd_small:
  assumes "0 \<le> x" and "x \<le> 2 powi k" and "- 1022 \<le> k" and "k < 1024"
  shows "rnd x = Fin (rnd_pos x)" and "rnd_pos x \<le> 2 powi k"
proof -
  show le: "rnd_pos x \<le> 2 powi k"
  proof (cases "x = 0")
    case False
    with assms have x: "0 < x" by simp
    have "floor_log2 x \<le> k" using x assms(2) by (rule floor_log2_le)
    then show ?thesis using assms x by (intro rnd_pos_le_pow) (auto simp: ulp_exp_def)
  qed simp
  have "(2 :: rat) powi k < 2 powi 1024" using assms(4) by (intro power_int_strict_increasing) simp_all
  with le show "rnd x = Fin (rnd_pos x)" using assms(1) by (simp add: rnd_nonneg)
qed

lemma powi2_values: "(2 :: rat) powi 0 = 1" "(2 :: rat) powi 22 = 4194304"
    "(2 :: rat) powi - 54 = 1 / 18014398509481984" "(2 :: rat) powi - 32 = 1 / 4294967296"
  by (simp_all add: power_int_def field_simps)

lemma nanos_fraction:
  fixes n :: nat
  assumes "n < 1000000000"
  defines "x \<equiv> of_nat n / 1000000000 :: rat"
  shows "rnd x = Fin (rnd_pos x)" and "0 \<le> rnd_pos x" and "rnd_pos x \<le> 1"
    and "\<bar>rnd_pos x - x\<bar> \<le> 1 / 18014398509481984"
proof -
  have "(of_nat n :: rat) < of_nat 1000000000" using assms(1) by (simp only: of_nat_less_iff)
  then have x: "0 \<le> x" "x < 2 powi 0" by (simp_all add: x_def)
  show "rnd x = Fin (rnd_pos x)" "rnd_pos x \<le> 1"
    using rnd_small [of x 0] x by simp_all
  show "0 \<le> rnd_pos x" using x by simp
  show "\<bar>rnd_pos x - x\<bar> \<le> 1 / 18014398509481984"
    using rnd_pos_error_below [OF x] by (simp add: powi2_values)
qed

lemma secs_sum:
  assumes "d < SECS_F64_EXACT"
  defines "y \<equiv> of_nat (d div 1000000000) + rnd_pos (of_nat (d mod 1000000000) / 1000000000) :: rat"
  shows "as_secs_f64 d = Fin (rnd_pos y)" and "0 \<le> y" and "y \<le> 4194304"
    and "\<bar>rnd_pos y - of_nat d / 1000000000\<bar> < 1 / 2 / 1000000000"
proof -
  let ?s = "d div 1000000000" and ?n = "d mod 1000000000"
  have s: "?s < 2 ^ 22" using assms(1) by (simp add: SECS_F64_EXACT_def less_mult_imp_div_less)
  then have "(of_nat (?s + 1) :: rat) \<le> of_nat (2 ^ 22)" by (simp only: of_nat_le_iff)
  then have s': "(of_nat ?s :: rat) + 1 \<le> 4194304" by simp
  have "?n < 1000000000" by simp
  note frac = nanos_fraction [OF this]
  have "(of_nat d :: rat) = of_nat (?s * 1000000000 + ?n)" by (simp only: div_mult_mod_eq)
  then have exact: "(of_nat d :: rat) / 1000000000 = of_nat ?s + of_nat ?n / 1000000000"
    unfolding of_nat_add of_nat_mult by (simp add: field_simps)
  show y: "0 \<le> y" "y \<le> 4194304" using frac s' by (simp_all add: y_def)
  have "rnd (of_nat ?s) = Fin (of_nat ?s)"
    using rnd_small(1) [of "of_nat ?s" 22] s s' rnd_pos_of_nat [of ?s] by (simp add: powi2_values)
  moreover have "rnd y = Fin (rnd_pos y)" using rnd_small(1) [of y 22] y by (simp add: powi2_values)
  ultimately show "as_secs_f64 d = Fin (rnd_pos y)" by (simp add: as_secs_f64_def frac(1) y_def)
  have lt: "y < 2 powi 22"
  proof -
    have "?n \<le> 999999999" by simp
    then have "(of_nat ?n :: rat) \<le> of_nat 999999999" by (rule of_nat_mono)
    then have "(of_nat ?n :: rat) / 1000000000 \<le> of_nat 999999999 / 1000000000"
      by (rule divide_right_mono) simp
    then show ?thesis using frac(4) s' unfolding powi2_values y_def of_nat_numeral by linarith
  qed
  have "\<bar>rnd_pos y - y\<bar> \<le> 1 / 4294967296"
    using rnd_pos_error_below [OF y(1) lt] by (simp add: powi2_values)
  moreover have "\<bar>y - of_nat d / 1000000000\<bar> \<le> 1 / 18014398509481984"
    using frac(4) by (simp add: exact y_def)
  ultimately show "\<bar>rnd_pos y - of_nat d / 1000000000\<bar> < 1 / 2 / 1000000000" by linarith
qed

text \<open>The conversions are inverse to each other on this range, and order preserving.\<close>

lemma as_secs_f64_value: "d < SECS_F64_EXACT \<Longrightarrow> as_secs_f64 d = Fin (secs_value d)"
  using secs_sum(1) [of d] by (simp add: secs_value_def)

lemma secs_value_range: "d < SECS_F64_EXACT \<Longrightarrow> 0 \<le> secs_value d \<and> secs_value d \<le> 4194304"
  using secs_sum(2,3) [of d] rnd_small(2) [of _ 22] by (simp add: secs_value_def powi2_values)

lemma from_as_secs_f64:
  assumes "d < SECS_F64_EXACT"
  shows "from_secs_f64 (Fin (secs_value d)) = Some d"
proof -
  have "\<bar>secs_value d * 1000000000 - of_int (int d)\<bar> < 1 / 2"
    using secs_sum(4) [OF assms] unfolding secs_value_def by (simp add: abs_if field_simps split: if_splits)
  then have "round_even (secs_value d * 1000000000) = int d" by (rule round_even_near)
  then show ?thesis using secs_value_range [OF assms] by (simp add: from_secs_f64_def)
qed

lemma secs_value_idem: "d < SECS_F64_EXACT \<Longrightarrow> rnd_pos (secs_value d) = secs_value d"
  using secs_sum(2) [of d] by (simp add: secs_value_def rnd_pos_idem)

lemma secs_value_mono:
  assumes "d \<le> d'" and "d' < SECS_F64_EXACT"
  shows "secs_value d \<le> secs_value d'"
proof -
  let ?f = "\<lambda>d. rnd_pos (of_nat (d mod 1000000000) / 1000000000)"
  have f: "0 \<le> ?f d" "?f d \<le> 1" "0 \<le> ?f d'" using nanos_fraction [of "_ mod 1000000000"] by simp_all
  have "of_nat (d div 1000000000) + ?f d \<le> of_nat (d' div 1000000000) + ?f d'"
  proof (cases "d div 1000000000 = d' div 1000000000")
    case True
    with assms(1) have "d mod 1000000000 \<le> d' mod 1000000000"
      by (metis div_mult_mod_eq nat_add_left_cancel_le)
    then show ?thesis using True by (intro add_mono rnd_pos_mono divide_right_mono) simp_all
  next
    case False
    then have "d div 1000000000 + 1 \<le> d' div 1000000000"
      using div_le_mono [OF assms(1), of 1000000000] by simp
    then have "(of_nat (d div 1000000000 + 1) :: rat) \<le> of_nat (d' div 1000000000)"
      by (simp only: of_nat_le_iff)
    then have "of_nat (d div 1000000000) + 1 \<le> (of_nat (d' div 1000000000) :: rat)" by simp
    then show ?thesis using f by linarith
  qed
  then show ?thesis using f unfolding secs_value_def by (intro rnd_pos_mono) simp_all
qed

end
