(* ===== verification/Reconnect.thy ===== *)
theory Reconnect
  imports Core_Types Float64
begin

text \<open>
  Delays between connection attempts: \<open>ExponentialBackoffReconnect\<close>
  (\<^verbatim>\<open>src/src/core/reconnect.rs\<close>) and \<open>jitter_delay\<close>
  (\<^verbatim>\<open>src/src/core/connection_policy.rs\<close>), over binary64 seconds.  The locale
  \<open>reconnect_strategy\<close> is what a managed loop needs of a strategy in order never to panic.
\<close>

section \<open>Exponential backoff\<close>

record ExponentialBackoffReconnect =
  base :: duration
  max_delay :: duration
  factor :: f64
  current :: duration
  retry :: bool

definition backoff_new :: "duration \<Rightarrow> duration \<Rightarrow> f64 \<Rightarrow> ExponentialBackoffReconnect" where
  "backoff_new b m fac =
     \<lparr>base = b, max_delay = m,
      factor = (if is_finite fac \<and> f64_gt fac (Fin 1) then fac else Fin (3 / 2)),
      current = b, retry = True\<rparr>"

definition backoff_abort :: "ExponentialBackoffReconnect \<Rightarrow> ExponentialBackoffReconnect" where
  "backoff_abort s = s\<lparr>retry := False\<rparr>"

definition backoff_default :: ExponentialBackoffReconnect where
  "backoff_default = backoff_new (from_secs 1) (from_secs 30) (Fin (3 / 2))"

definition backoff_next_delay ::
  "ExponentialBackoffReconnect \<Rightarrow> (duration \<times> ExponentialBackoffReconnect) option" where
  "backoff_next_delay s =
     (let delay = current s;
          next = f64_min (f64_mul (as_secs_f64 (current s)) (factor s)) (as_secs_f64 (max_delay s))
      in case from_secs_f64 next of
           None \<Rightarrow> None
         | Some c \<Rightarrow> Some (delay, s\<lparr>current := c\<rparr>))"

definition backoff_reset :: "ExponentialBackoffReconnect \<Rightarrow> ExponentialBackoffReconnect" where
  "backoff_reset s = s\<lparr>current := base s\<rparr>"

definition backoff_should_retry :: "ExponentialBackoffReconnect \<Rightarrow> bool" where
  "backoff_should_retry s = retry s"

definition exponential_backoff :: "ExponentialBackoffReconnect WsReconnectStrategy" where
  "exponential_backoff =
     \<lparr>next_delay = backoff_next_delay, reset_delay = backoff_reset, should_retry = backoff_should_retry\<rparr>"

section \<open>Jitter\<close>

text \<open>The random factor is an argument; \<open>gen_range(0.5..=1.0)\<close> draws it from that range.  The
  cast to \<open>u128\<close> truncates.\<close>

definition jitter_delay :: "rat \<Rightarrow> duration \<Rightarrow> duration" where
  "jitter_delay jitter d =
     (if d = 0 then d
      else case f64_mul (rnd (of_nat d)) (Fin jitter) of
             Fin x \<Rightarrow> min (nat \<lfloor>x\<rfloor>) (2 ^ 64 - 1)
           | PosInf \<Rightarrow> 2 ^ 64 - 1
           | _ \<Rightarrow> 0)"

section \<open>What a loop needs of a strategy\<close>

text \<open>The first \<open>n\<close> delays a strategy gives, and its state after them.\<close>

fun strategy_delays ::
  "'r WsReconnectStrategy \<Rightarrow> nat \<Rightarrow> 'r \<Rightarrow> (duration list \<times> 'r) option" where
  "strategy_delays R 0 r = Some ([], r)"
| "strategy_delays R (Suc n) r =
     (case next_delay R r of
        None \<Rightarrow> None
      | Some (d, r) \<Rightarrow> map_option (\<lambda>(ds, r). (d # ds, r)) (strategy_delays R n r))"

locale reconnect_strategy =
  fixes R :: "'r WsReconnectStrategy"
    and ok :: "'r \<Rightarrow> bool"
  assumes next_returns: "ok r \<Longrightarrow> \<exists>d r'. next_delay R r = Some (d, r')"
    and next_ok: "ok r \<Longrightarrow> next_delay R r = Some (d, r') \<Longrightarrow> ok r'"
    and reset_ok: "ok r \<Longrightarrow> ok (reset_delay R r)"
    and next_retry: "ok r \<Longrightarrow> next_delay R r = Some (d, r') \<Longrightarrow> should_retry R r' = should_retry R r"
    and reset_retry: "ok r \<Longrightarrow> should_retry R (reset_delay R r) = should_retry R r"
begin

lemma delays_return:
  "ok r \<Longrightarrow> \<exists>ds r'. strategy_delays R n r = Some (ds, r') \<and> ok r' \<and> length ds = n
     \<and> should_retry R r' = should_retry R r"
proof (induction n arbitrary: r)
  case (Suc n)
  obtain d r1 where n: "next_delay R r = Some (d, r1)" using next_returns [OF Suc.prems] by blast
  with Suc.IH [OF next_ok [OF Suc.prems n]] next_retry [OF Suc.prems n] show ?case by fastforce
qed simp

end

section \<open>One step of the backoff\<close>

text \<open>A usable configuration: a growing factor and delays within the exact range.\<close>

definition backoff_ok :: "ExponentialBackoffReconnect \<Rightarrow> bool" where
  "backoff_ok s \<longleftrightarrow>
     (case factor s of Fin f \<Rightarrow> 1 < f | _ \<Rightarrow> False)
       \<and> base s < SECS_F64_EXACT \<and> max_delay s < SECS_F64_EXACT \<and> current s < SECS_F64_EXACT"

lemma backoff_new_ok:
  assumes "b < SECS_F64_EXACT" and "m < SECS_F64_EXACT"
  shows "backoff_ok (backoff_new b m fac)"
  using assms by (cases fac) (auto simp: backoff_ok_def backoff_new_def is_finite_def)

text \<open>The next delay in seconds, before the conversion.\<close>

lemma backoff_next_value:
  assumes "backoff_ok s" and "factor s = Fin f"
  obtains v where
    "f64_min (f64_mul (as_secs_f64 (current s)) (factor s)) (as_secs_f64 (max_delay s)) = Fin v"
    and "v \<le> secs_value (max_delay s)" "0 \<le> v"
    and "\<And>z. z \<le> secs_value (current s) * f \<Longrightarrow> rnd_pos z = z \<Longrightarrow> 0 \<le> z
           \<Longrightarrow> z \<le> secs_value (max_delay s) \<Longrightarrow> z \<le> v"
proof -
  let ?c = "secs_value (current s)" and ?m = "secs_value (max_delay s)"
  have c: "as_secs_f64 (current s) = Fin ?c" "0 \<le> ?c" and m: "as_secs_f64 (max_delay s) = Fin ?m" "0 \<le> ?m"
    and f: "1 < f"
    using assms as_secs_f64_value secs_value_range by (auto simp: backoff_ok_def)
  have p: "0 \<le> ?c * f" using c f by simp
  have mul: "f64_mul (as_secs_f64 (current s)) (factor s) = rnd (?c * f)" by (simp add: c assms(2))
  show ?thesis
  proof (cases "2 powi 1024 \<le> rnd_pos (?c * f)")
    case True
    then show ?thesis using that [of ?m] mul m p by (simp add: rnd_nonneg)
  next
    case False
    have "z \<le> rnd_pos (?c * f)" if "z \<le> ?c * f" "rnd_pos z = z" "0 \<le> z" for z
      using rnd_pos_mono [OF that(3,1)] that(2) by simp
    with False show ?thesis
      using that [of "min (rnd_pos (?c * f)) ?m"] mul m p by (simp add: rnd_nonneg)
  qed
qed

lemma backoff_next:
  assumes "backoff_ok s" and "factor s = Fin f"
  obtains c where "backoff_next_delay s = Some (current s, s\<lparr>current := c\<rparr>)" and "c \<le> max_delay s"
    and "\<And>d. d \<le> max_delay s \<Longrightarrow> secs_value d \<le> secs_value (current s) * f \<Longrightarrow> d \<le> c"
proof -
  obtain v where v: "f64_min (f64_mul (as_secs_f64 (current s)) (factor s)) (as_secs_f64 (max_delay s)) = Fin v"
    "v \<le> secs_value (max_delay s)" "0 \<le> v"
    and low: "\<And>z. z \<le> secs_value (current s) * f \<Longrightarrow> rnd_pos z = z \<Longrightarrow> 0 \<le> z
           \<Longrightarrow> z \<le> secs_value (max_delay s) \<Longrightarrow> z \<le> v"
    using backoff_next_value [OF assms] by blast
  let ?c = "nat (round_even (v * 1000000000))"
  have m: "max_delay s < SECS_F64_EXACT" using assms(1) by (simp add: backoff_ok_def)
  have exact: "nat (round_even (secs_value d * 1000000000)) = d" if "d < SECS_F64_EXACT" for d
    using from_as_secs_f64 [OF that] by (auto simp: from_secs_f64_def split: if_splits)
  have "v < 2 ^ 64" using v(2) secs_value_range [OF m] by simp
  then have "backoff_next_delay s = Some (current s, s\<lparr>current := ?c\<rparr>)"
    using v by (simp add: backoff_next_delay_def from_secs_f64_def)
  moreover have "?c \<le> max_delay s"
    using nat_mono [OF round_even_mono, of "v * 1000000000" "secs_value (max_delay s) * 1000000000"]
      v(2) exact [OF m] by simp
  moreover have "d \<le> ?c" if "d \<le> max_delay s" "secs_value d \<le> secs_value (current s) * f" for d
  proof -
    have d: "d < SECS_F64_EXACT" using that(1) m by simp
    have "secs_value d \<le> v"
      using low [OF that(2)] secs_value_idem [OF d] secs_value_range [OF d]
        secs_value_mono [OF that(1) m] by simp
    then show ?thesis
      using nat_mono [OF round_even_mono, of "secs_value d * 1000000000" "v * 1000000000"] exact [OF d] by simp
  qed
  ultimately show ?thesis using that by blast
qed

interpretation backoff: reconnect_strategy exponential_backoff backoff_ok
proof
  fix r :: ExponentialBackoffReconnect assume ok: "backoff_ok r"
  then obtain f where f: "factor r = Fin f" by (auto simp: backoff_ok_def split: f64.splits)
  obtain c where c: "backoff_next_delay r = Some (current r, r\<lparr>current := c\<rparr>)" "c \<le> max_delay r"
    using backoff_next [OF ok f] by blast
  show "\<exists>d r'. next_delay exponential_backoff r = Some (d, r')" using c by (simp add: exponential_backoff_def)
  show "backoff_ok r'" "should_retry exponential_backoff r' = should_retry exponential_backoff r"
    if "next_delay exponential_backoff r = Some (d, r')" for d r'
    using that c ok by (auto simp: exponential_backoff_def backoff_ok_def backoff_should_retry_def)
  show "backoff_ok (reset_delay exponential_backoff r)"
      "should_retry exponential_backoff (reset_delay exponential_backoff r) = should_retry exponential_backoff r"
    using ok by (auto simp: exponential_backoff_def backoff_ok_def backoff_reset_def backoff_should_retry_def)
qed

section \<open>The schedule\<close>

lemma backoff_step_mono:
  assumes "backoff_ok s" and "current s \<le> max_delay s"
  obtains c where "next_delay exponential_backoff s = Some (current s, s\<lparr>current := c\<rparr>)"
    and "current s \<le> c" "c \<le> max_delay s" "backoff_ok (s\<lparr>current := c\<rparr>)"
proof -
  obtain f where f: "factor s = Fin f" "1 < f" using assms(1) by (auto simp: backoff_ok_def split: f64.splits)
  obtain c where c: "backoff_next_delay s = Some (current s, s\<lparr>current := c\<rparr>)" "c \<le> max_delay s"
    and low: "\<And>d. d \<le> max_delay s \<Longrightarrow> secs_value d \<le> secs_value (current s) * f \<Longrightarrow> d \<le> c"
    using backoff_next [OF assms(1) f(1)] by blast
  have "0 \<le> secs_value (current s)" using assms(1) secs_value_range by (auto simp: backoff_ok_def)
  then have "secs_value (current s) * 1 \<le> secs_value (current s) * f" using f(2) by (intro mult_left_mono) simp_all
  then have "current s \<le> c" using low [OF assms(2)] by simp
  with c that show ?thesis
    using backoff.next_ok [OF assms(1)] by (simp add: exponential_backoff_def)
qed

lemma backoff_schedule:
  assumes "backoff_ok s" and "current s \<le> max_delay s"
  shows "\<exists>ds c. strategy_delays exponential_backoff n s = Some (ds, s\<lparr>current := c\<rparr>) \<and> length ds = n
    \<and> sorted (current s # ds @ [c]) \<and> c \<le> max_delay s"
  using assms
proof (induction n arbitrary: s)
  case (Suc n)
  obtain c where c: "next_delay exponential_backoff s = Some (current s, s\<lparr>current := c\<rparr>)"
    "current s \<le> c" "c \<le> max_delay s" "backoff_ok (s\<lparr>current := c\<rparr>)"
    using backoff_step_mono [OF Suc.prems] by blast
  with Suc.IH [of "s\<lparr>current := c\<rparr>"] obtain ds e where
    "strategy_delays exponential_backoff n (s\<lparr>current := c\<rparr>) = Some (ds, s\<lparr>current := e\<rparr>)"
    "length ds = n" "sorted (c # ds @ [e])" "e \<le> max_delay s" by auto
  then show ?case using c by (intro exI [of _ "current s # ds"] exI [of _ e]) auto
next
  case 0
  then show ?case by (intro exI [of _ "[]"] exI [of _ "current s"]) simp
qed

text \<open>With a factor of at least one and a half every delay of five nanoseconds or more grows,
  until it is the largest one.\<close>

lemma grow_arith:
  fixes x y z w :: rat
  assumes "x / 1000000000 - 1 / 2 / 1000000000 \<le> y" and "z \<le> (x + 1) / 1000000000 + 1 / 2 / 1000000000"
    and "y * (3 / 2) \<le> w" and "5 \<le> x"
  shows "z \<le> w"
  using assms by (simp add: add_divide_distrib)

lemma backoff_step_grows:
  assumes "backoff_ok s" and "factor s = Fin f" "3 / 2 \<le> f" and "5 \<le> current s" "current s < max_delay s"
  obtains c where "next_delay exponential_backoff s = Some (current s, s\<lparr>current := c\<rparr>)" and "current s < c"
proof -
  obtain c where c: "backoff_next_delay s = Some (current s, s\<lparr>current := c\<rparr>)"
    and low: "\<And>d. d \<le> max_delay s \<Longrightarrow> secs_value d \<le> secs_value (current s) * f \<Longrightarrow> d \<le> c"
    using backoff_next [OF assms(1,2)] by blast
  have lt: "current s < SECS_F64_EXACT" "current s + 1 < SECS_F64_EXACT"
    using assms by (auto simp: backoff_ok_def)
  let ?x = "of_nat (current s) :: rat"
  have five: "5 \<le> ?x" using of_nat_mono [OF assms(4), where 'a = rat] by simp
  have a: "?x / 1000000000 - 1 / 2 / 1000000000 \<le> secs_value (current s)"
      "secs_value (current s + 1) \<le> (?x + 1) / 1000000000 + 1 / 2 / 1000000000"
    using secs_sum(4) [OF lt(1)] secs_sum(4) [OF lt(2)] unfolding secs_value_def of_nat_add of_nat_1
    by linarith+
  have "secs_value (current s) * (3 / 2) \<le> secs_value (current s) * f"
    using assms(3) secs_value_range [OF lt(1)] by (intro mult_left_mono) simp_all
  then have "secs_value (current s + 1) \<le> secs_value (current s) * f" using grow_arith [OF a] five by blast
  then have "current s + 1 \<le> c" using low [of "current s + 1"] assms(5) by simp
  with c that show ?thesis by (simp add: exponential_backoff_def)
qed

lemma backoff_reaches_max:
  assumes "backoff_ok s" and "factor s = Fin f" "3 / 2 \<le> f" and "5 \<le> current s" "current s \<le> max_delay s"
    and "max_delay s - current s \<le> n"
  shows "\<exists>ds. strategy_delays exponential_backoff n s = Some (ds, s\<lparr>current := max_delay s\<rparr>)"
  using assms
proof (induction n arbitrary: s)
  case 0
  then show ?case by (cases s) simp
next
  case (Suc n)
  obtain c where c: "next_delay exponential_backoff s = Some (current s, s\<lparr>current := c\<rparr>)"
    "current s \<le> c" "c \<le> max_delay s" "backoff_ok (s\<lparr>current := c\<rparr>)"
    using backoff_step_mono [OF Suc.prems(1,5)] by blast
  have "current s = max_delay s \<or> current s < c"
  proof (rule disjCI)
    assume "\<not> current s < c"
    moreover have "current s < c" if less: "current s < max_delay s"
    proof -
      obtain c' where "next_delay exponential_backoff s = Some (current s, s\<lparr>current := c'\<rparr>)" "current s < c'"
        using backoff_step_grows [OF Suc.prems(1-4) less] .
      moreover from this c(1) have "current (s\<lparr>current := c'\<rparr>) = current (s\<lparr>current := c\<rparr>)" by simp
      ultimately show ?thesis by simp
    qed
    ultimately show "current s = max_delay s" using Suc.prems(5) by linarith
  qed
  then have "max_delay s - c \<le> n" using Suc.prems(6) c(2,3) by auto
  then have "\<exists>ds. strategy_delays exponential_backoff n (s\<lparr>current := c\<rparr>)
      = Some (ds, s\<lparr>current := c, current := max_delay s\<rparr>)"
    using Suc.IH [of "s\<lparr>current := c\<rparr>"] Suc.prems(2-4) c(2-4) by simp
  then show ?case using c(1) by auto
qed

section \<open>Bounds of the jitter\<close>

lemma jitter_delay_bounds:
  assumes "d < 2 ^ 53" and "1 / 2 \<le> j" "j \<le> 1"
  shows "d div 2 \<le> jitter_delay j d \<and> jitter_delay j d \<le> d"
proof (cases "d = 0")
  case False
  let ?x = "of_nat d :: rat"
  have x: "0 < ?x" "?x < 2 powi 53"
    using False assms(1) of_nat_less_iff [of d "2 ^ 53", where 'a = rat] by simp_all
  have prod: "?x / 2 \<le> ?x * j" "?x * j \<le> ?x" "0 \<le> ?x * j"
    using assms(2,3) x(1) mult_left_mono [of "1 / 2" j ?x] mult_left_le [of j ?x] by simp_all
  have "floor_log2 (?x / 2) < 52" using x by (intro floor_log2_less) simp_all
  then have half: "rnd_pos (?x / 2) = ?x / 2"
    using x(1) by (intro rnd_pos_exact [where n = "int d" and e = "- 1"]) (auto simp: ulp_exp_def)
  have le: "?x / 2 \<le> rnd_pos (?x * j)" "rnd_pos (?x * j) \<le> ?x"
    using rnd_pos_mono [of "?x / 2" "?x * j"] rnd_pos_mono [OF prod(3,2)] half prod x(1)
      rnd_pos_of_nat [OF assms(1)] by simp_all
  have "?x * j \<le> 2 powi 53" using prod(2) x(2) by linarith
  then have "rnd ?x = Fin ?x" "rnd (?x * j) = Fin (rnd_pos (?x * j))"
    using rnd_small(1) [of ?x 53] rnd_small(1) [of "?x * j" 53] x prod rnd_pos_of_nat [OF assms(1)]
    by simp_all
  then have eq: "jitter_delay j d = min (nat \<lfloor>rnd_pos (?x * j)\<rfloor>) (2 ^ 64 - 1)"
    using False by (simp add: jitter_delay_def)
  have "\<lfloor>?x / 2\<rfloor> = int (d div 2)" using floor_divide_of_nat_eq [of d 2, where 'a = rat] by simp
  then have "d div 2 \<le> nat \<lfloor>rnd_pos (?x * j)\<rfloor>" using floor_mono [OF le(1)] by simp
  moreover have "nat \<lfloor>rnd_pos (?x * j)\<rfloor> \<le> d" using floor_mono [OF le(2)] by simp
  ultimately show ?thesis using assms(1) by (simp add: eq)
qed (simp add: jitter_delay_def)

end
