(* ===== verification/Reconnect_Properties.thy ===== *)
theory Reconnect_Properties
  imports Reconnect
begin

text \<open>
  The properties of the delays between connection attempts.
\<close>



text \<open>
  With a factor of at least one and a half and a base of at least five nanoseconds, the
  backoff reaches its largest delay and stays there: after as many requests as the two delays
  are nanoseconds apart, and after any larger number, the next delay is the largest one.
\<close>

theorem backoff_reaches_cap:
  assumes "3 / 2 \<le> f" and "5 \<le> b" "b \<le> m" "m < SECS_F64_EXACT" and "m - b \<le> n"
  shows "\<exists>ds s. strategy_delays exponential_backoff n (backoff_new b m (Fin f)) = Some (ds, s)
    \<and> map_option fst (next_delay exponential_backoff s) = Some m"
proof -
  let ?s = "backoff_new b m (Fin f)"
  have s: "backoff_ok ?s" "factor ?s = Fin f" "current ?s = b" "max_delay ?s = m"
    using assms backoff_new_ok [of b m "Fin f"] by (auto simp: backoff_new_def is_finite_def)
  obtain ds where ds: "strategy_delays exponential_backoff n ?s = Some (ds, ?s\<lparr>current := m\<rparr>)"
    using backoff_reaches_max [OF s(1,2) assms(1), of n] assms s(3,4) by auto
  moreover have ok: "backoff_ok (?s\<lparr>current := m\<rparr>)" using s assms(4) by (simp add: backoff_ok_def)
  ultimately show ?thesis
    using backoff.next_returns [OF ok]
    by (auto simp: exponential_backoff_def backoff_next_delay_def split: option.splits)
qed

theorem backoff_reaches_cap_witness:
  "\<exists>ds s. strategy_delays exponential_backoff 29000000000 backoff_default = Some (ds, s)
    \<and> map_option fst (next_delay exponential_backoff s) = Some (from_secs 30)"
  unfolding backoff_default_def
  by (rule backoff_reaches_cap) (simp_all add: from_secs_def SECS_F64_EXACT_def)

text \<open>
  For every random factor the generator can draw, and every delay below \<open>2^53\<close> nanoseconds
  (104 days), the jittered delay is at least half of the delay and at most the delay.
\<close>

theorem jitter_within_half:
  assumes "d < 2 ^ 53" and "1 / 2 \<le> j" and "j \<le> 1"
  shows "d div 2 \<le> jitter_delay j d \<and> jitter_delay j d \<le> d"
  using assms by (rule jitter_delay_bounds)

theorem jitter_within_half_witness:
  "100000000 div 2 \<le> jitter_delay (3 / 4) 100000000 \<and> jitter_delay (3 / 4) 100000000 \<le> 100000000"
  by (rule jitter_within_half) simp_all

end
