(* ===== verification/Channels.thy ===== *)
theory Channels
  imports Prelude
begin

text \<open>
  The unbounded channels (\<open>tokio::sync::mpsc\<close>) that connect the mock transports with their
  servers and the managed loops with their handles.  A channel is the list of its undelivered
  elements together with what is left of its two ends.  The locale \<open>fifo_channel\<close> is the
  contract its users rely on.
\<close>

section \<open>Polling\<close>

text \<open>The result of polling a stream or a sink once.\<close>

datatype 'a Poll = Ready 'a | Pending

fun poll_map :: "('a \<Rightarrow> 'b) \<Rightarrow> 'a Poll \<Rightarrow> 'b Poll" where
  "poll_map f (Ready x) = Ready (f x)"
| "poll_map f Pending = Pending"

section \<open>Channels\<close>

record 'a channel =
  queue :: "'a list"
  rx_alive :: bool
  tx_count :: nat

text \<open>\<open>UnboundedSender::send\<close> fails exactly when the receiver is gone.\<close>

definition channel_send :: "'a \<Rightarrow> 'a channel \<Rightarrow> bool \<times> 'a channel" where
  "channel_send x c = (if rx_alive c then (True, c\<lparr>queue := queue c @ [x]\<rparr>) else (False, c))"

definition channel_new :: "'a channel" where
  "channel_new = \<lparr>queue = [], rx_alive = True, tx_count = 1\<rparr>"

text \<open>\<open>poll_recv\<close>: the oldest element, the end when every sender is gone, or pending.\<close>

definition channel_recv :: "'a channel \<Rightarrow> 'a option Poll \<times> 'a channel" where
  "channel_recv c =
     (case queue c of
        x # xs \<Rightarrow> (Ready (Some x), c\<lparr>queue := xs\<rparr>)
      | [] \<Rightarrow> if tx_count c = 0 then (Ready None, c) else (Pending, c))"

definition clone_sender :: "'a channel \<Rightarrow> 'a channel" where
  "clone_sender c = c\<lparr>tx_count := tx_count c + 1\<rparr>"

definition drop_sender :: "'a channel \<Rightarrow> 'a channel" where
  "drop_sender c = c\<lparr>tx_count := tx_count c - 1\<rparr>"

definition drop_receiver :: "'a channel \<Rightarrow> 'a channel" where
  "drop_receiver c = c\<lparr>queue := [], rx_alive := False\<rparr>"

text \<open>\<open>tokio::time::timeout(t, rx.recv()).await.unwrap_or_default()\<close>, at the moment it
  returns: pending there means that the time has run out.\<close>

definition recv_or_timeout :: "'a channel \<Rightarrow> 'a option \<times> 'a channel" where
  "recv_or_timeout c =
     (case channel_recv c of (Ready r, c) \<Rightarrow> (r, c) | (Pending, c) \<Rightarrow> (None, c))"

section \<open>First in, first out\<close>

text \<open>The contract of an unbounded channel, stated with the elements it holds: what is
  accepted leaves in the order of acceptance.\<close>

locale fifo_channel =
  fixes put :: "'x \<Rightarrow> 'c \<Rightarrow> bool \<times> 'c"
    and get :: "'c \<Rightarrow> 'x option Poll \<times> 'c"
    and content :: "'c \<Rightarrow> 'x list"
  assumes put_accepts: "put x c = (True, c') \<Longrightarrow> content c' = content c @ [x]"
    and put_refuses: "put x c = (False, c') \<Longrightarrow> content c' = content c"
    and get_element: "get c = (Ready (Some x), c') \<Longrightarrow> content c = x # content c'"
    and get_nothing: "get c = (p, c') \<Longrightarrow> \<forall>x. p \<noteq> Ready (Some x) \<Longrightarrow> content c' = content c"
begin

text \<open>Everything accepted has been delivered or is still held, in order.\<close>

definition flows :: "'x list \<Rightarrow> 'x list \<Rightarrow> 'c \<Rightarrow> bool" where
  "flows accepted delivered c \<longleftrightarrow> accepted = delivered @ content c"

lemma flows_put:
  "flows acc del c \<Longrightarrow> put x c = (ok, c') \<Longrightarrow> flows (if ok then acc @ [x] else acc) del c'"
  by (cases ok) (auto simp: flows_def dest: put_accepts put_refuses)

lemma flows_get_element:
  "flows acc del c \<Longrightarrow> get c = (Ready (Some x), c') \<Longrightarrow> flows acc (del @ [x]) c'"
  by (auto simp: flows_def dest: get_element)

lemma flows_get_nothing:
  "flows acc del c \<Longrightarrow> get c = (p, c') \<Longrightarrow> \<forall>x. p \<noteq> Ready (Some x) \<Longrightarrow> flows acc del c'"
  by (auto simp: flows_def dest: get_nothing)

lemma flows_get:
  assumes "flows acc del c" and "get c = (p, c')"
  shows "flows acc (case p of Ready (Some x) \<Rightarrow> del @ [x] | _ \<Rightarrow> del) c'"
  using assms
  by (auto split: Poll.split option.split intro: flows_get_element flows_get_nothing)

lemma flows_prefix: "flows acc del c \<Longrightarrow> \<exists>rest. acc = del @ rest"
  by (auto simp: flows_def)

end

interpretation chan: fifo_channel channel_send channel_recv queue
  by unfold_locales
     (auto simp: channel_send_def channel_recv_def split: if_splits list.splits)

lemma flows_sender_count [simp]:
  "chan.flows acc del (clone_sender c) = chan.flows acc del c"
  "chan.flows acc del (drop_sender c) = chan.flows acc del c"
  by (simp_all add: chan.flows_def clone_sender_def drop_sender_def)

definition taken :: "'a option Poll \<Rightarrow> 'a list" where
  "taken p = (case p of Ready (Some x) \<Rightarrow> [x] | _ \<Rightarrow> [])"

lemma flows_taken:
  "chan.flows acc del c \<Longrightarrow> channel_recv c = (p, c') \<Longrightarrow> chan.flows acc (del @ taken p) c'"
  using chan.flows_get [of acc del c p c'] by (auto simp: taken_def split: Poll.splits option.splits)

end
