(* ===== verification/Transport.thy ===== *)
theory Transport
  imports Core_Types Channels
begin

text \<open>
  The transport boundary (\<^verbatim>\<open>src/src/transport/mod.rs\<close>).  A connection's writer is a
  \<open>Sink<WsFrame, Error = WebSocketError>\<close>: one completed \<open>send\<close> either accepts the frame
  or fails with an error.  A failed \<open>send\<close> may or may not have
  handed the frame to the socket (\<open>start_send\<close> can succeed and \<open>poll_flush\<close> fail).  The
  locale \<open>ws_sink\<close> is the contract the managed loops rely on, stated with the log of the
  frames a writer has accepted.  It speaks of the frames a socket carries unchanged: a close
  reason that is not UTF-8 has no place on the wire.
\<close>

type_synonym 'w sink = "WsFrame \<Rightarrow> 'w \<Rightarrow> (WebSocketError + unit) \<times> 'w"

definition carried :: "WsFrame \<Rightarrow> bool" where
  "carried f = (case f of Close (Some c) \<Rightarrow> utf8_valid (close_reason c) | _ \<Rightarrow> True)"

lemma carried_simps [simp]:
  "carried (Text t)" "carried (Binary b)" "carried (Ping b)" "carried (Pong b)" "carried (Close None)"
  "carried (Close (Some c)) = utf8_valid (close_reason c)"
  by (simp_all add: carried_def)

lemma carried_payload [simp]: "carried (into_ws_message p)"
  by (cases rule: into_ws_frame_cases [of p]) (simp_all add: into_ws_message_def)

locale ws_sink =
  fixes send :: "'w sink"
    and log :: "'w \<Rightarrow> WsFrame list"
  assumes send_accepts: "carried f \<Longrightarrow> send f w = (Inr u, w') \<Longrightarrow> log w' = log w @ [f]"
    and send_rejects: "carried f \<Longrightarrow> send f w = (Inl e, w') \<Longrightarrow> log w' = log w \<or> log w' = log w @ [f]"
begin

lemma send_log: "carried f \<Longrightarrow> log (snd (send f w)) = log w \<or> log (snd (send f w)) = log w @ [f]"
  using send_accepts [of f w] send_rejects [of f w]
  by (cases "send f w"; cases "fst (send f w)") auto

end

end
