(* ===== verification/Managed.thy ===== *)
theory Managed
  imports Transport "HOL-Library.Sublist"
begin

text \<open>
  The managed client loop (\<^verbatim>\<open>src/src/ws/managed.rs\<close>): commands, status encoding,
  reconnect decisions, the send helpers and \<open>run_managed_ws_loop\<close>.

  The loop is one asynchronous task.  It only interacts with its environment where it
  awaits: \<open>transport.connect\<close>, the \<open>select!\<close> over the command channel and the reader, and
  the reconnect delay.  The model is the state between two such awaits and one step
  function per completed await; an event the loop does not poll in its current phase
  leaves it unchanged.  A writer's \<open>send\<close> is the argument \<open>send\<close>, the endpoint and the
  reconnect strategy are the records \<open>H\<close> and \<open>R\<close>.
\<close>

section \<open>Commands and status\<close>

datatype 's ManagedWsCommand =
    Send bytes
  | UpdateSubscriptions "'s WsSubscriptionAction"
  | ForceReconnect string
  | Shutdown

fun ws_status_to_u8 :: "WsConnectionStatus \<Rightarrow> u8" where
  "ws_status_to_u8 Connecting = 0"
| "ws_status_to_u8 Connected = 1"
| "ws_status_to_u8 Disconnected = 2"

definition ws_status_from_u8 :: "u8 \<Rightarrow> WsConnectionStatus" where
  "ws_status_from_u8 raw = (if raw = 0 then Connecting else if raw = 1 then Connected else Disconnected)"

section \<open>Expected disconnects\<close>

definition to_ascii_lowercase :: "string \<Rightarrow> string" where
  "to_ascii_lowercase s =
     map (\<lambda>c. if 65 \<le> (of_char c :: nat) \<and> (of_char c :: nat) \<le> 90
              then char_of ((of_char c :: nat) + 32) else c) s"

fun contains :: "string \<Rightarrow> string \<Rightarrow> bool" where
  "contains hay needle =
     (prefix needle hay \<or> (case hay of [] \<Rightarrow> False | _ # rest \<Rightarrow> contains rest needle))"

declare contains.simps [simp del]

definition is_expected_ws_disconnect :: "string \<Rightarrow> bool" where
  "is_expected_ws_disconnect error =
     (let normalized = to_ascii_lowercase error
      in contains normalized ''close_notify''
       \<or> contains normalized ''unexpected-eof''
       \<or> contains normalized ''connection reset by peer''
       \<or> contains normalized ''connection reset without closing handshake''
       \<or> contains normalized ''connection closed''
       \<or> contains normalized ''closed connection''
       \<or> contains normalized ''broken pipe''
       \<or> contains normalized ''trying to work with closed connection''
       \<or> contains normalized ''already closed'')"

section \<open>Reconnect decisions\<close>

text \<open>The outer \<^const>\<open>None\<close> is a panic of \<open>next_delay\<close>.\<close>

fun reconnect_delay ::
  "'r WsReconnectStrategy \<Rightarrow> WsDisconnectAction \<Rightarrow> 'r \<Rightarrow> (duration option \<times> 'r) option" where
  "reconnect_delay R Abort r = Some (None, r)"
| "reconnect_delay R ImmediateReconnect r = Some (Some 0, r)"
| "reconnect_delay R BackoffReconnect r =
     (if should_retry R r then map_option (\<lambda>(d, r'). (Some d, r')) (next_delay R r)
      else Some (None, r))"

definition notify_disconnect ::
  "('h, 'm, 's, 'v) WsEndpointHandler \<Rightarrow> WsDisconnectCause \<Rightarrow> bool \<Rightarrow> 'h \<Rightarrow> (string + unit) \<times> 'h" where
  "notify_disconnect H cause will_reconnect h =
     (let (message, h) = on_connection_disconnected H cause will_reconnect h
      in case message of
           Some m \<Rightarrow> handle_message H m h
         | None \<Rightarrow> (Inr (), h))"

section \<open>Sending\<close>

definition send_payload ::
  "('h, 'm, 's, 'v) WsEndpointHandler \<Rightarrow> 'w sink \<Rightarrow> bytes \<Rightarrow> 'h \<times> 'w
     \<Rightarrow> (WebSocketError + unit) \<times> 'h \<times> 'w" where
  "send_payload H send payload hw =
     (let (h, w) = hw;
          frame = into_ws_message payload;
          h = on_outbound_frame H frame h;
          (res, w) = send frame w
      in (res, h, w))"

text \<open>The loop \<open>for subscription in subscriptions\<close> shared by the next two functions.\<close>

fun send_subscriptions ::
  "('h, 'm, 's, 'v) WsEndpointHandler \<Rightarrow> 'w sink \<Rightarrow> 's list \<Rightarrow> 'h \<times> 'w
     \<Rightarrow> (WebSocketError + unit) \<times> 'h \<times> 'w" where
  "send_subscriptions H send [] hw = (Inr (), hw)"
| "send_subscriptions H send (sub # subs) (h, w) =
     (let (payload, h) = serialize_subscription H sub h
      in case send_payload H send payload (h, w) of
           (Inl e, hw) \<Rightarrow> (Inl e, hw)
         | (Inr _, hw) \<Rightarrow> send_subscriptions H send subs hw)"

definition replay_subscriptions ::
  "('h, 'm, 's, 'v) WsEndpointHandler \<Rightarrow> 'w sink \<Rightarrow> 'h \<times> 'w
     \<Rightarrow> (WebSocketError + unit) \<times> 'h \<times> 'w" where
  "replay_subscriptions H send hw =
     (let (h, w) = hw; (subscriptions, h) = initial_subscriptions H h
      in send_subscriptions H send subscriptions (h, w))"

definition send_subscription_updates ::
  "('h, 'm, 's, 'v) WsEndpointHandler \<Rightarrow> 'w sink \<Rightarrow> 's WsSubscriptionAction \<Rightarrow> 'h \<times> 'w
     \<Rightarrow> (WebSocketError + unit) \<times> 'h \<times> 'w" where
  "send_subscription_updates H send action hw =
     (let (h, w) = hw; (res, h) = update_subscriptions H action h
      in case res of
           Inl message \<Rightarrow> (Inl (EndpointSpecific message), h, w)
         | Inr subscriptions \<Rightarrow> send_subscriptions H send subscriptions (h, w))"

fun command_requires_auth :: "'s ManagedWsCommand \<Rightarrow> bool" where
  "command_requires_auth (Send _) = True"
| "command_requires_auth (UpdateSubscriptions _) = True"
| "command_requires_auth _ = False"

fun apply_command ::
  "('h, 'm, 's, 'v) WsEndpointHandler \<Rightarrow> 'w sink \<Rightarrow> 's ManagedWsCommand \<Rightarrow> 'h \<times> 'w
     \<Rightarrow> (WebSocketError + unit) \<times> 'h \<times> 'w" where
  "apply_command H send (Send payload) hw = send_payload H send payload hw"
| "apply_command H send (UpdateSubscriptions action) hw = send_subscription_updates H send action hw"
| "apply_command H send (ForceReconnect _) hw = (Inr (), hw)"
| "apply_command H send Shutdown hw = (Inr (), hw)"

text \<open>\<open>while let Some(command) = pop_front()\<close>: an error leaves the rest of the queue.\<close>

fun apply_pending_auth_commands ::
  "('h, 'm, 's, 'v) WsEndpointHandler \<Rightarrow> 'w sink \<Rightarrow> 's ManagedWsCommand list \<Rightarrow> 'h \<times> 'w
     \<Rightarrow> (WebSocketError + unit) \<times> 's ManagedWsCommand list \<times> 'h \<times> 'w" where
  "apply_pending_auth_commands H send [] hw = (Inr (), [], hw)"
| "apply_pending_auth_commands H send (c # cs) hw =
     (case apply_command H send c hw of
        (Inl e, hw) \<Rightarrow> (Inl e, cs, hw)
      | (Inr _, hw) \<Rightarrow> apply_pending_auth_commands H send cs hw)"

section \<open>One open connection\<close>

text \<open>The variables of the inner loop: \<open>session_authenticated\<close> and \<open>writer\<close> live as long as
  the connection, the handler and the queue of gated commands outlive it.\<close>

record ('h, 'w, 's) connection =
  conn_handler :: 'h
  conn_writer :: 'w
  session_authenticated :: bool
  pending_auth_commands :: "'s ManagedWsCommand list"

text \<open>What an arm of the \<open>select!\<close> does with the inner loop: go round, \<open>break cause\<close>, \<open>return\<close>.\<close>

datatype loop_control = Stay | Break WsDisconnectCause | Return

abbreviation hw_of :: "('h, 'w, 's) connection \<Rightarrow> 'h \<times> 'w" where
  "hw_of c \<equiv> (conn_handler c, conn_writer c)"

definition set_hw :: "'h \<times> 'w \<Rightarrow> ('h, 'w, 's) connection \<Rightarrow> ('h, 'w, 's) connection" where
  "set_hw hw c = c\<lparr>conn_handler := fst hw, conn_writer := snd hw\<rparr>"

definition internal :: "string \<Rightarrow> WebSocketError \<Rightarrow> WsDisconnectCause" where
  "internal context error = InternalError context (ws_error_to_string error)"

definition on_command ::
  "('h, 'm, 's, 'v) WsEndpointHandler \<Rightarrow> 'w sink \<Rightarrow> 's ManagedWsCommand option
     \<Rightarrow> ('h, 'w, 's) connection \<Rightarrow> loop_control \<times> ('h, 'w, 's) connection" where
  "on_command H send command c =
     (case command of
        None \<Rightarrow> (Return, c)
      | Some Shutdown \<Rightarrow> (Return, c)
      | Some (ForceReconnect reason) \<Rightarrow> (Break (EndpointRequested reason), c)
      | Some command \<Rightarrow>
          if \<not> session_authenticated c \<and> command_requires_auth command
          then (Stay, c\<lparr>pending_auth_commands := pending_auth_commands c @ [command]\<rparr>)
          else
            case apply_command H send command (hw_of c) of
              (Inl error, hw) \<Rightarrow> (Break (internal ''command'' error), set_hw hw c)
            | (Inr _, hw) \<Rightarrow> (Stay, set_hw hw c))"

definition on_session_authenticated ::
  "('h, 'm, 's, 'v) WsEndpointHandler \<Rightarrow> 'w sink
     \<Rightarrow> ('h, 'w, 's) connection \<Rightarrow> loop_control \<times> ('h, 'w, 's) connection" where
  "on_session_authenticated H send c =
     (let c = c\<lparr>session_authenticated := True\<rparr>
      in case replay_subscriptions H send (hw_of c) of
           (Inl error, hw) \<Rightarrow> (Break (internal ''subscription_replay_after_auth'' error), set_hw hw c)
         | (Inr _, hw) \<Rightarrow>
             (case apply_pending_auth_commands H send (pending_auth_commands c) hw of
                (Inl error, rest, hw) \<Rightarrow>
                  (Break (internal ''pending_auth_command'' error),
                   set_hw hw c\<lparr>pending_auth_commands := rest\<rparr>)
              | (Inr _, rest, hw) \<Rightarrow> (Stay, set_hw hw c\<lparr>pending_auth_commands := rest\<rparr>)))"

definition on_message_action ::
  "('h, 'm, 's, 'v) WsEndpointHandler \<Rightarrow> 'w sink \<Rightarrow> 'm WsMessageAction
     \<Rightarrow> ('h, 'w, 's) connection \<Rightarrow> loop_control \<times> ('h, 'w, 's) connection" where
  "on_message_action H send action c =
     (case action of
        WsMessageAction.Continue \<Rightarrow> (Stay, c)
      | SessionAuthenticated \<Rightarrow> on_session_authenticated H send c
      | WsMessageAction.Send payload \<Rightarrow>
          (case send_payload H send payload (hw_of c) of
             (Inl error, hw) \<Rightarrow> (Break (internal ''message_send'' error), set_hw hw c)
           | (Inr _, hw) \<Rightarrow> (Stay, set_hw hw c))
      | Process message \<Rightarrow>
          (case handle_message H message (conn_handler c) of
             (Inl error, h) \<Rightarrow> (Break (InternalError ''handle_message'' error), c\<lparr>conn_handler := h\<rparr>)
           | (Inr _, h) \<Rightarrow> (Stay, c\<lparr>conn_handler := h\<rparr>))
      | WsMessageAction.Reconnect reason \<Rightarrow> (Break (EndpointRequested reason), c)
      | WsMessageAction.Shutdown \<Rightarrow> (Return, c))"

definition on_frame ::
  "('h, 'm, 's, 'v) WsEndpointHandler \<Rightarrow> 'w sink \<Rightarrow> WsFrame
     \<Rightarrow> ('h, 'w, 's) connection \<Rightarrow> loop_control \<times> ('h, 'w, 's) connection" where
  "on_frame H send frame c =
     (let h = on_inbound_frame H frame (conn_handler c);
          (outcome, h) = parse_frame H frame h;
          c = c\<lparr>conn_handler := h\<rparr>
      in case outcome of
           Inr (Message action) \<Rightarrow> on_message_action H send action c
         | Inr (WsParseOutcome.ServerError code message data) \<Rightarrow>
             (let (action, h) = handle_server_error H code message data h;
                  c = c\<lparr>conn_handler := h\<rparr>
              in if action = WsErrorAction.Reconnect \<or> action = Fatal
                 then (Break (WsDisconnectCause.ServerError code message), c)
                 else (Stay, c))
         | Inl error \<Rightarrow> (Stay, c))"

definition on_read ::
  "('h, 'm, 's, 'v) WsEndpointHandler \<Rightarrow> 'w sink \<Rightarrow> (WebSocketError + WsFrame) option
     \<Rightarrow> ('h, 'w, 's) connection \<Rightarrow> loop_control \<times> ('h, 'w, 's) connection" where
  "on_read H send maybe_frame c =
     (case maybe_frame of
        Some (Inr frame) \<Rightarrow> on_frame H send frame c
      | Some (Inl error) \<Rightarrow> (Break (ReadFailure (ws_error_to_string error)), c)
      | None \<Rightarrow> (Break RemoteClosed, c))"

section \<open>The whole loop\<close>

datatype 'w loop_phase =
    AwaitConnect
  | AwaitEvent 'w bool
  | AwaitDelay
  | Returned
  | Panicked

record ('h, 'r, 'w, 's) managed_loop =
  phase :: "'w loop_phase"
  handler :: 'h
  reconnect :: 'r
  status :: u8
  is_reconnect :: bool
  pending_commands :: "'s ManagedWsCommand list"

datatype ('w, 's) loop_event =
    ConnectResult "WebSocketError + 'w"
  | Command "'s ManagedWsCommand option"
  | Read "(WebSocketError + WsFrame) option"
  | DelayElapsed

text \<open>The top of the outer loop: publish \<open>Connecting\<close> and call \<open>transport.connect\<close>.\<close>

definition enter_connect ::
  "('h, 'r, 'w, 's, 'z) managed_loop_scheme \<Rightarrow> ('h, 'r, 'w, 's, 'z) managed_loop_scheme" where
  "enter_connect s = s\<lparr>status := ws_status_to_u8 Connecting, phase := AwaitConnect\<rparr>"

definition start_managed_ws_loop :: "'h \<Rightarrow> 'r \<Rightarrow> ('h, 'r, 'w, 's) managed_loop" where
  "start_managed_ws_loop h r =
     enter_connect
       \<lparr>phase = AwaitConnect, handler = h, reconnect = r,
        status = ws_status_to_u8 Disconnected, is_reconnect = False, pending_commands = []\<rparr>"

definition retry_connect ::
  "('h, 'r, 'w, 's, 'z) managed_loop_scheme \<Rightarrow> ('h, 'r, 'w, 's, 'z) managed_loop_scheme" where
  "retry_connect s = enter_connect (s\<lparr>is_reconnect := True\<rparr>)"

text \<open>The tail every disconnect path shares: classify, ask the reconnect strategy and notify
  the endpoint (\<^const>\<open>None\<close> is a panic of \<open>next_delay\<close>), then return, go round at once, or
  start \<open>wait_reconnect_delay_or_shutdown\<close>.\<close>

definition decide_reconnect ::
  "('h, 'm, 's, 'v) WsEndpointHandler \<Rightarrow> 'r WsReconnectStrategy \<Rightarrow> WsDisconnectCause
     \<Rightarrow> ('h, 'r, 'w, 's, 'z) managed_loop_scheme
     \<Rightarrow> (duration option \<times> ('h, 'r, 'w, 's, 'z) managed_loop_scheme) option" where
  "decide_reconnect H R cause s =
     (case reconnect_delay R (classify_disconnect H (handler s) cause) (reconnect s) of
        None \<Rightarrow> None
      | Some (delay, r) \<Rightarrow>
          (let h = snd (notify_disconnect H cause (delay \<noteq> None) (handler s))
           in Some (delay, s\<lparr>reconnect := r, handler := h\<rparr>)))"

definition act_on_delay ::
  "(('h, 'r, 'w, 's, 'z) managed_loop_scheme \<Rightarrow> ('h, 'r, 'w, 's, 'z) managed_loop_scheme)
     \<Rightarrow> duration option \<Rightarrow> ('h, 'r, 'w, 's, 'z) managed_loop_scheme
     \<Rightarrow> ('h, 'r, 'w, 's, 'z) managed_loop_scheme" where
  "act_on_delay retry delay s =
     (case delay of
        None \<Rightarrow> s\<lparr>phase := Returned\<rparr>
      | Some d \<Rightarrow> if d = 0 then retry s else s\<lparr>phase := AwaitDelay\<rparr>)"

text \<open>After a failed \<open>connect\<close> and after the inner loop the status is published first.\<close>

definition disconnect ::
  "('h, 'm, 's, 'v) WsEndpointHandler \<Rightarrow> 'r WsReconnectStrategy \<Rightarrow> WsDisconnectCause
     \<Rightarrow> ('h, 'r, 'w, 's) managed_loop \<Rightarrow> ('h, 'r, 'w, 's) managed_loop" where
  "disconnect H R cause s =
     (let s = s\<lparr>status := ws_status_to_u8 Disconnected\<rparr>
      in case decide_reconnect H R cause s of
           None \<Rightarrow> s\<lparr>phase := Panicked\<rparr>
         | Some (delay, s) \<Rightarrow> act_on_delay retry_connect delay s)"

text \<open>When the auth payload or the replay fails it is published after the decision.\<close>

definition disconnect_setup ::
  "('h, 'm, 's, 'v) WsEndpointHandler \<Rightarrow> 'r WsReconnectStrategy \<Rightarrow> WsDisconnectCause
     \<Rightarrow> ('h, 'r, 'w, 's) managed_loop \<Rightarrow> ('h, 'r, 'w, 's) managed_loop" where
  "disconnect_setup H R cause s =
     (case decide_reconnect H R cause s of
        None \<Rightarrow> s\<lparr>phase := Panicked\<rparr>
      | Some (delay, s) \<Rightarrow>
          act_on_delay retry_connect delay (s\<lparr>status := ws_status_to_u8 Disconnected\<rparr>))"

text \<open>The part of an iteration between a successful \<open>connect\<close> and the inner loop.\<close>

definition announce_open ::
  "('h, 'm, 's, 'v) WsEndpointHandler \<Rightarrow> bool \<Rightarrow> 'h \<Rightarrow> 'h" where
  "announce_open H reconnected h =
     (let h = on_open H (reset_state H h);
          (message, h) = on_connection_opened H reconnected h
      in case message of
           Some m \<Rightarrow> snd (handle_message H m h)
         | None \<Rightarrow> h)"

definition send_auth ::
  "('h, 'm, 's, 'v) WsEndpointHandler \<Rightarrow> 'w sink \<Rightarrow> 'h \<times> 'w
     \<Rightarrow> (WebSocketError + unit) \<times> 'h \<times> 'w" where
  "send_auth H send hw =
     (case generate_auth H (fst hw) of
        Some payload \<Rightarrow> send_payload H send payload hw
      | None \<Rightarrow> (Inr (), hw))"

definition on_connected ::
  "('h, 'm, 's, 'v) WsEndpointHandler \<Rightarrow> 'r WsReconnectStrategy \<Rightarrow> 'w sink \<Rightarrow> 'w
     \<Rightarrow> ('h, 'r, 'w, 's) managed_loop \<Rightarrow> ('h, 'r, 'w, 's) managed_loop" where
  "on_connected H R send w s =
     (let s = s\<lparr>reconnect := reset_delay R (reconnect s), status := ws_status_to_u8 Connected\<rparr>;
          h = announce_open H (is_reconnect s) (handler s)
      in case send_auth H send (h, w) of
           (Inl error, h, w) \<Rightarrow> disconnect_setup H R (internal ''auth_send'' error) (s\<lparr>handler := h\<rparr>)
         | (Inr _, h, w) \<Rightarrow>
             (let authenticated = (session_mode H h = Public)
              in if authenticated
                 then (case replay_subscriptions H send (h, w) of
                         (Inl error, h, w) \<Rightarrow>
                           disconnect_setup H R (internal ''subscription_replay'' error) (s\<lparr>handler := h\<rparr>)
                       | (Inr _, h, w) \<Rightarrow>
                           s\<lparr>handler := h, phase := AwaitEvent w authenticated\<rparr>)
                 else s\<lparr>handler := h, phase := AwaitEvent w authenticated\<rparr>))"

text \<open>Running one arm of the inner \<open>select!\<close> and acting on its outcome.\<close>

definition in_connection ::
  "('h, 'm, 's, 'v) WsEndpointHandler \<Rightarrow> 'r WsReconnectStrategy
     \<Rightarrow> (('h, 'w, 's) connection \<Rightarrow> loop_control \<times> ('h, 'w, 's) connection) \<Rightarrow> 'w \<Rightarrow> bool
     \<Rightarrow> ('h, 'r, 'w, 's) managed_loop \<Rightarrow> ('h, 'r, 'w, 's) managed_loop" where
  "in_connection H R arm w auth s =
     (let (ctl, c) = arm \<lparr>conn_handler = handler s, conn_writer = w,
                          session_authenticated = auth, pending_auth_commands = pending_commands s\<rparr>;
          s = s\<lparr>handler := conn_handler c, pending_commands := pending_auth_commands c\<rparr>
      in case ctl of
           Stay \<Rightarrow> s\<lparr>phase := AwaitEvent (conn_writer c) (session_authenticated c)\<rparr>
         | Break cause \<Rightarrow> disconnect H R cause s
         | Return \<Rightarrow> s\<lparr>status := ws_status_to_u8 Disconnected, phase := Returned\<rparr>)"

text \<open>\<open>wait_reconnect_delay_or_shutdown\<close> for a non-zero delay: a command ends the wait, and
  only \<open>Shutdown\<close> or a closed channel ends the loop.\<close>

definition ends_loop :: "'s ManagedWsCommand option \<Rightarrow> bool" where
  "ends_loop command \<longleftrightarrow> (case command of None \<Rightarrow> True | Some Shutdown \<Rightarrow> True | _ \<Rightarrow> False)"

fun managed_step ::
  "('h, 'm, 's, 'v) WsEndpointHandler \<Rightarrow> 'r WsReconnectStrategy \<Rightarrow> 'w sink
     \<Rightarrow> ('w, 's) loop_event \<Rightarrow> ('h, 'r, 'w, 's) managed_loop \<Rightarrow> ('h, 'r, 'w, 's) managed_loop" where
  "managed_step H R send ev s =
     (case (phase s, ev) of
        (AwaitConnect, ConnectResult (Inl err)) \<Rightarrow> disconnect H R (internal ''connect'' err) s
      | (AwaitConnect, ConnectResult (Inr w)) \<Rightarrow> on_connected H R send w s
      | (AwaitEvent w auth, Command command) \<Rightarrow>
          in_connection H R (on_command H send command) w auth s
      | (AwaitEvent w auth, Read maybe_frame) \<Rightarrow>
          in_connection H R (on_read H send maybe_frame) w auth s
      | (AwaitDelay, Command command) \<Rightarrow>
          if ends_loop command then s\<lparr>phase := Returned\<rparr> else retry_connect s
      | (AwaitDelay, DelayElapsed) \<Rightarrow> retry_connect s
      | _ \<Rightarrow> s)"

declare managed_step.simps [simp del]

definition managed_run ::
  "('h, 'm, 's, 'v) WsEndpointHandler \<Rightarrow> 'r WsReconnectStrategy \<Rightarrow> 'w sink
     \<Rightarrow> ('w, 's) loop_event list \<Rightarrow> ('h, 'r, 'w, 's) managed_loop \<Rightarrow> ('h, 'r, 'w, 's) managed_loop" where
  "managed_run H R send evs s = fold (managed_step H R send) evs s"

end
