(* ===== verification/Managed_Safety.thy ===== *)
theory Managed_Safety
  imports Managed
begin

text \<open>
  What \<open>run_managed_ws_loop\<close> guarantees over every sequence of environment events: the
  published status, the authentication gate, the order of the frames on the wire, shutdown.
\<close>

section \<open>Runs\<close>

lemma managed_run_simps [simp]:
  "managed_run H R send [] s = s"
  "managed_run H R send (ev # evs) s = managed_run H R send evs (managed_step H R send ev s)"
  by (simp_all add: managed_run_def)

lemma managed_run_append:
  "managed_run H R send (evs @ evs') s = managed_run H R send evs' (managed_run H R send evs s)"
  by (simp add: managed_run_def)

lemma managed_run_invariant:
  assumes "\<And>ev s. I s \<Longrightarrow> I (managed_step H R send ev s)" and "I s"
  shows "I (managed_run H R send evs s)"
  using assms by (induction evs arbitrary: s) auto

text \<open>Unfolding one step at a known phase.\<close>

lemma step_connect [simp]:
  "phase s = AwaitConnect \<Longrightarrow>
     managed_step H R send (ConnectResult r) s =
       (case r of Inl err \<Rightarrow> disconnect H R (internal ''connect'' err) s
                | Inr w \<Rightarrow> on_connected H R send w s)"
  by (simp add: managed_step.simps split: sum.split)

lemma step_open:
  "phase s = AwaitEvent w a \<Longrightarrow>
     managed_step H R send (Command c) s = in_connection H R (on_command H send c) w a s"
  "phase s = AwaitEvent w a \<Longrightarrow>
     managed_step H R send (Read m) s = in_connection H R (on_read H send m) w a s"
  by (simp_all add: managed_step.simps)

lemma step_delay [simp]:
  "phase s = AwaitDelay \<Longrightarrow>
     managed_step H R send (Command c) s = (if ends_loop c then s\<lparr>phase := Returned\<rparr> else retry_connect s)"
  "phase s = AwaitDelay \<Longrightarrow> managed_step H R send DelayElapsed s = retry_connect s"
  by (simp_all add: managed_step.simps)

lemma step_halted [simp]:
  "phase s = Returned \<Longrightarrow> managed_step H R send ev s = s"
  "phase s = Panicked \<Longrightarrow> managed_step H R send ev s = s"
  by (simp_all add: managed_step.simps)

lemma step_unpolled [simp]:
  "phase s = AwaitConnect \<Longrightarrow> managed_step H R send (Command c) s = s"
  "phase s = AwaitConnect \<Longrightarrow> managed_step H R send (Read m) s = s"
  "phase s = AwaitConnect \<Longrightarrow> managed_step H R send DelayElapsed s = s"
  "phase s = AwaitEvent w a \<Longrightarrow> managed_step H R send (ConnectResult r) s = s"
  "phase s = AwaitEvent w a \<Longrightarrow> managed_step H R send DelayElapsed s = s"
  "phase s = AwaitDelay \<Longrightarrow> managed_step H R send (ConnectResult r) s = s"
  "phase s = AwaitDelay \<Longrightarrow> managed_step H R send (Read m) s = s"
  by (simp_all add: managed_step.simps)

text \<open>Case analysis over what a step does.\<close>

lemma managed_step_cases:
  obtains (connect_failed) err where "phase s = AwaitConnect" "ev = ConnectResult (Inl err)"
      "managed_step H R send ev s = disconnect H R (internal ''connect'' err) s"
    | (connected) w where "phase s = AwaitConnect" "ev = ConnectResult (Inr w)"
      "managed_step H R send ev s = on_connected H R send w s"
    | (command) w a c where "phase s = AwaitEvent w a" "ev = Command c"
      "managed_step H R send ev s = in_connection H R (on_command H send c) w a s"
    | (read) w a m where "phase s = AwaitEvent w a" "ev = Read m"
      "managed_step H R send ev s = in_connection H R (on_read H send m) w a s"
    | (stop) "phase s = AwaitDelay" "managed_step H R send ev s = s\<lparr>phase := Returned\<rparr>"
    | (retry) "phase s = AwaitDelay" "managed_step H R send ev s = retry_connect s"
    | (ignored) "managed_step H R send ev s = s"
proof (cases "phase s")
  case AwaitConnect
  then show ?thesis
  proof (cases ev)
    case (ConnectResult r)
    then show ?thesis using that(1,2) AwaitConnect by (cases r) auto
  qed (use that(7) AwaitConnect in auto)
next
  case AwaitEvent
  then show ?thesis using that(3,4,7) by (cases ev) (auto simp: step_open)
next
  case AwaitDelay
  then show ?thesis
  proof (cases ev)
    case (Command c)
    then show ?thesis using that(5,6) AwaitDelay by (cases "ends_loop c") auto
  qed (use that(6,7) AwaitDelay in auto)
qed (use that(7) in auto)

section \<open>The published status\<close>

definition phase_status :: "'w loop_phase \<Rightarrow> WsConnectionStatus option" where
  "phase_status p =
     (case p of
        AwaitConnect \<Rightarrow> Some Connecting
      | AwaitEvent _ _ \<Rightarrow> Some Connected
      | AwaitDelay \<Rightarrow> Some Disconnected
      | Returned \<Rightarrow> Some Disconnected
      | Panicked \<Rightarrow> None)"

lemma phase_status_simps [simp]:
  "phase_status AwaitConnect = Some Connecting"
  "phase_status (AwaitEvent w a) = Some Connected"
  "phase_status AwaitDelay = Some Disconnected"
  "phase_status Returned = Some Disconnected"
  "phase_status Panicked = None"
  by (simp_all add: phase_status_def)

definition status_ok :: "('h, 'r, 'w, 's) managed_loop \<Rightarrow> bool" where
  "status_ok s \<longleftrightarrow> (\<forall>st. phase_status (phase s) = Some st \<longrightarrow> status s = ws_status_to_u8 st)"

lemma decide_reconnect_keeps:
  "decide_reconnect H R cause s = Some (d, s') \<Longrightarrow>
     status s' = status s \<and> phase s' = phase s \<and> is_reconnect s' = is_reconnect s
       \<and> pending_commands s' = pending_commands s"
  by (auto simp: decide_reconnect_def Let_def split: option.splits)

lemma retry_connect_fields [simp]:
  "phase (retry_connect s) = AwaitConnect"
  "status (retry_connect s) = ws_status_to_u8 Connecting"
  "is_reconnect (retry_connect s) = True"
  "pending_commands (retry_connect s) = pending_commands s"
  "handler (retry_connect s) = handler s"
  "reconnect (retry_connect s) = reconnect s"
  by (simp_all add: retry_connect_def enter_connect_def)

lemma status_ok_act:
  "status s = ws_status_to_u8 Disconnected \<Longrightarrow> status_ok (act_on_delay retry_connect d s)"
  by (auto simp: act_on_delay_def status_ok_def split: option.splits)

lemma status_ok_disconnect [simp]: "status_ok (disconnect H R cause s)"
  by (auto simp: disconnect_def Let_def status_ok_def [of "_\<lparr>phase := Panicked\<rparr>"]
           dest!: decide_reconnect_keeps split: option.splits intro!: status_ok_act)

lemma status_ok_disconnect_setup [simp]: "status_ok (disconnect_setup H R cause s)"
  by (auto simp: disconnect_setup_def status_ok_def [of "_\<lparr>phase := Panicked\<rparr>"]
           split: option.splits intro!: status_ok_act)

lemma status_ok_on_connected [simp]: "status_ok (on_connected H R send w s)"
  unfolding on_connected_def Let_def
  by (auto simp: status_ok_def [of "_\<lparr>handler := _, phase := _\<rparr>"] split: prod.splits sum.splits)

lemma status_ok_in_connection:
  "status_ok s \<Longrightarrow> phase s = AwaitEvent w a \<Longrightarrow> status_ok (in_connection H R arm w a s)"
  by (auto simp: in_connection_def Let_def status_ok_def [of "_\<lparr>phase := _\<rparr>"] status_ok_def [of s]
           split: prod.splits loop_control.splits)

lemma status_ok_step: "status_ok s \<Longrightarrow> status_ok (managed_step H R send ev s)"
  by (cases rule: managed_step_cases [of s ev H R send])
     (auto simp: status_ok_in_connection, auto simp: status_ok_def)

lemma status_ok_start: "status_ok (start_managed_ws_loop h r)"
  by (simp add: status_ok_def start_managed_ws_loop_def enter_connect_def)

lemma ws_status_from_to [simp]: "ws_status_from_u8 (ws_status_to_u8 st) = st"
  by (cases st) (simp_all add: ws_status_from_u8_def)

lemma disconnect_not_open:
  "phase (disconnect H R cause s) \<noteq> AwaitEvent w a"
  "phase (disconnect_setup H R cause s) \<noteq> AwaitEvent w a"
  by (auto simp: disconnect_def disconnect_setup_def Let_def act_on_delay_def split: option.splits)

section \<open>Ending the loop\<close>

definition polls_commands :: "'w loop_phase \<Rightarrow> bool" where
  "polls_commands p = (case p of AwaitEvent _ _ \<Rightarrow> True | AwaitDelay \<Rightarrow> True | _ \<Rightarrow> False)"

lemma managed_run_returned: "phase s = Returned \<Longrightarrow> managed_run H R send evs s = s"
  by (induction evs) simp_all

lemma step_shutdown:
  assumes "polls_commands (phase s)" and "ends_loop c"
  shows "phase (managed_step H R send (Command c) s) = Returned"
proof (cases "phase s")
  case (AwaitEvent w a)
  then show ?thesis
    using assms(2)
    by (auto simp: step_open in_connection_def on_command_def ends_loop_def
             split: option.splits ManagedWsCommand.splits)
qed (use assms in \<open>simp_all add: polls_commands_def\<close>)

text \<open>An endpoint that always wants to reconnect at once never leaves a failing connect.\<close>

lemma immediate_step_connecting:
  assumes "\<forall>h cause. classify_disconnect H h cause = ImmediateReconnect"
    and "phase s = AwaitConnect" and "\<forall>w. ev \<noteq> ConnectResult (Inr w)"
  shows "phase (managed_step H R send ev s) = AwaitConnect"
proof (cases ev)
  case (ConnectResult r)
  then obtain err where "r = Inl err" using assms(3) by (cases r) auto
  then show ?thesis
    using ConnectResult assms(1,2)
    by (simp add: disconnect_def decide_reconnect_def act_on_delay_def Let_def)
qed (use assms(2) in simp_all)

section \<open>The authentication gate\<close>

definition gated_event :: "('w, 's) loop_event \<Rightarrow> bool" where
  "gated_event ev = (case ev of Command (Some c) \<Rightarrow> command_requires_auth c | _ \<Rightarrow> False)"

definition gated_commands :: "('w, 's) loop_event list \<Rightarrow> 's ManagedWsCommand list" where
  "gated_commands evs =
     concat (map (\<lambda>ev. case ev of Command (Some c) \<Rightarrow> if command_requires_auth c then [c] else []
                              | _ \<Rightarrow> []) evs)"

lemma gated_commands_simps [simp]:
  "gated_commands [] = []"
  "gated_commands (ev # evs) =
     (if gated_event ev then (case ev of Command (Some c) \<Rightarrow> [c] | _ \<Rightarrow> []) else []) @ gated_commands evs"
  by (auto simp: gated_commands_def gated_event_def split: loop_event.splits option.splits)

definition unauthenticated :: "('h, 'r, 'w, 's) managed_loop \<Rightarrow> bool" where
  "unauthenticated s = (case phase s of AwaitEvent _ a \<Rightarrow> \<not> a | _ \<Rightarrow> False)"

lemma unauthenticated_iff: "unauthenticated s \<longleftrightarrow> (\<exists>w. phase s = AwaitEvent w False)"
  by (auto simp: unauthenticated_def split: loop_phase.splits)

lemma step_gated:
  assumes "unauthenticated s" and "gated_event (Command (Some c))"
  shows "managed_step H R send (Command (Some c)) s = s\<lparr>pending_commands := pending_commands s @ [c]\<rparr>"
proof -
  obtain w where "phase s = AwaitEvent w False" using assms(1) by (auto simp: unauthenticated_iff)
  then show ?thesis
    using assms(2) by (cases s; cases c)
       (simp_all add: managed_step.simps in_connection_def on_command_def gated_event_def)
qed

text \<open>An arm that neither queues nor authenticates does not look at the queue.\<close>

definition queue_blind ::
  "(('h, 'w, 's) connection \<Rightarrow> loop_control \<times> ('h, 'w, 's) connection) \<Rightarrow> ('h, 'w, 's) connection \<Rightarrow> bool" where
  "queue_blind arm c \<longleftrightarrow>
     (\<forall>q. \<not> session_authenticated (snd (arm c)) \<longrightarrow>
        arm (c\<lparr>pending_auth_commands := q\<rparr>)
          = (fst (arm c), snd (arm c)\<lparr>pending_auth_commands := q\<rparr>))"

lemma queue_blind_command:
  "\<not> gated_event (Command cmd) \<Longrightarrow> queue_blind (on_command H send cmd) c"
  by (auto simp: queue_blind_def on_command_def gated_event_def
           split: option.splits ManagedWsCommand.splits)

lemma on_session_authenticated_sets:
  "session_authenticated (snd (on_session_authenticated H send c))"
  by (simp add: on_session_authenticated_def set_hw_def Let_def split: prod.split sum.split)

lemma queue_blind_action: "queue_blind (on_message_action H send action) c"
  by (cases action)
     (auto simp: queue_blind_def on_message_action_def on_session_authenticated_sets set_hw_def
           split: prod.split sum.split)

lemma queue_blind_handler:
  assumes "queue_blind arm (c\<lparr>conn_handler := h\<rparr>)"
  shows "queue_blind (\<lambda>c. arm (c\<lparr>conn_handler := h\<rparr>)) c"
proof -
  have swap: "c\<lparr>pending_auth_commands := q, conn_handler := h\<rparr> = c\<lparr>conn_handler := h, pending_auth_commands := q\<rparr>"
    for q by simp
  show ?thesis using assms unfolding queue_blind_def swap .
qed

lemma queue_blind_cong:
  "queue_blind arm c \<Longrightarrow> (\<And>q. arm' (c\<lparr>pending_auth_commands := q\<rparr>) = arm (c\<lparr>pending_auth_commands := q\<rparr>))
     \<Longrightarrow> queue_blind arm' c"
  by (metis (full_types) connection.surjective connection.update_convs(4) queue_blind_def)

lemma queue_blind_frame: "queue_blind (on_frame H send f) c"
proof -
  obtain outcome h where p: "parse_frame H f (on_inbound_frame H f (conn_handler c)) = (outcome, h)"
    by (cases "parse_frame H f (on_inbound_frame H f (conn_handler c))")
  show ?thesis
  proof (cases "\<exists>action. outcome = Inr (Message action)")
    case True
    then obtain action where "outcome = Inr (Message action)" by blast
    then show ?thesis
      using p by (intro queue_blind_cong [OF queue_blind_handler [OF queue_blind_action [of H send action]]])
                 (simp add: on_frame_def)
  next
    case False
    then show ?thesis
      using p by (auto simp: queue_blind_def on_frame_def Let_def
                       split: sum.split prod.split WsParseOutcome.split)
  qed
qed

lemma queue_blind_read: "queue_blind (on_read H send m) c"
  using queue_blind_frame [of H send _ c]
  by (auto simp: on_read_def queue_blind_def split: option.split sum.split)

lemma in_connection_blind:
  assumes u: "unauthenticated (in_connection H R arm w False s)"
    and blind: "\<And>c. queue_blind arm c"
  shows "in_connection H R arm w False (s\<lparr>pending_commands := q\<rparr>)
           = in_connection H R arm w False s\<lparr>pending_commands := q\<rparr>"
proof -
  let ?c = "\<lambda>q. \<lparr>conn_handler = handler s, conn_writer = w, session_authenticated = False,
                pending_auth_commands = q\<rparr>"
  obtain ctl c where a: "arm (?c (pending_commands s)) = (ctl, c)" by (cases "arm (?c (pending_commands s))")
  have "ctl = Stay \<and> \<not> session_authenticated c"
    using u a by (cases ctl) (auto simp: in_connection_def unauthenticated_iff disconnect_not_open)
  moreover from this have "arm (?c q) = (Stay, c\<lparr>pending_auth_commands := q\<rparr>)"
    using blind [of "?c (pending_commands s)"] a by (auto simp: queue_blind_def)
  ultimately show ?thesis using a by (simp add: in_connection_def)
qed

lemma step_blind:
  assumes "unauthenticated s" and "\<not> gated_event ev" and "unauthenticated (managed_step H R send ev s)"
  shows "managed_step H R send ev (s\<lparr>pending_commands := q\<rparr>)
           = managed_step H R send ev s\<lparr>pending_commands := q\<rparr>"
proof -
  obtain w where w: "phase s = AwaitEvent w False" using assms(1) by (auto simp: unauthenticated_iff)
  show ?thesis
  proof (cases ev)
    case (Command c)
    then show ?thesis
      using assms(2,3) w by (simp add: step_open [of _ w False] in_connection_blind queue_blind_command)
  next
    case (Read m)
    then show ?thesis
      using assms(3) w by (simp add: step_open [of _ w False] in_connection_blind queue_blind_read)
  qed (use w in \<open>simp_all add: managed_step.simps\<close>)
qed

lemma unauthenticated_pending [simp]:
  "unauthenticated (s\<lparr>pending_commands := q\<rparr>) = unauthenticated s"
  by (simp add: unauthenticated_def)

lemma gated_run_queue:
  assumes "\<forall>n \<le> length evs. unauthenticated (managed_run H R send (take n evs) (s\<lparr>pending_commands := q\<rparr>))"
  shows "managed_run H R send evs (s\<lparr>pending_commands := q\<rparr>)
           = managed_run H R send (filter (\<lambda>ev. \<not> gated_event ev) evs) s
               \<lparr>pending_commands := q @ gated_commands evs\<rparr>"
  using assms
proof (induction evs arbitrary: s q)
  case (Cons ev evs)
  let ?s = "s\<lparr>pending_commands := q\<rparr>"
  have u: "unauthenticated ?s" using Cons.prems [rule_format, of 0] by simp
  have u': "unauthenticated (managed_step H R send ev ?s)" using Cons.prems [rule_format, of 1] by simp
  have rest: "\<forall>n \<le> length evs. unauthenticated (managed_run H R send (take n evs) (managed_step H R send ev ?s))"
  proof (intro allI impI)
    fix n assume "n \<le> length evs"
    then show "unauthenticated (managed_run H R send (take n evs) (managed_step H R send ev ?s))"
      using Cons.prems [rule_format, of "Suc n"] by simp
  qed
  show ?case
  proof (cases "gated_event ev")
    case True
    then obtain c where ev: "ev = Command (Some c)"
      by (auto simp: gated_event_def split: loop_event.splits option.splits)
    then have "managed_step H R send ev ?s = s\<lparr>pending_commands := q @ [c]\<rparr>"
      using step_gated [OF u, of c H R send] True by simp
    then show ?thesis using Cons.IH [where s = s and q = "q @ [c]"] rest True ev by simp
  next
    case False
    note blind = step_blind [OF u False u']
    have "managed_step H R send ev ?s = managed_step H R send ev s\<lparr>pending_commands := q\<rparr>"
      using blind [of q] blind [of "pending_commands s"] by simp
    then show ?thesis using Cons.IH [where s = "managed_step H R send ev s" and q = q] rest False by simp
  qed
qed simp

section \<open>What goes on the wire\<close>

text \<open>The payloads an operation produces when every send succeeds, with the handler's own
  state threaded through: the specification the send loops are compared with.\<close>

fun subscription_payloads ::
  "('h, 'm, 's, 'v) WsEndpointHandler \<Rightarrow> 's list \<Rightarrow> 'h \<Rightarrow> bytes list \<times> 'h" where
  "subscription_payloads H [] h = ([], h)"
| "subscription_payloads H (sub # subs) h =
     (let (p, h) = serialize_subscription H sub h;
          (ps, h) = subscription_payloads H subs (on_outbound_frame H (into_ws_message p) h)
      in (p # ps, h))"

definition replay_payloads ::
  "('h, 'm, 's, 'v) WsEndpointHandler \<Rightarrow> 'h \<Rightarrow> bytes list \<times> 'h" where
  "replay_payloads H h =
     (let (subs, h) = initial_subscriptions H h in subscription_payloads H subs h)"

fun command_payloads ::
  "('h, 'm, 's, 'v) WsEndpointHandler \<Rightarrow> 's ManagedWsCommand \<Rightarrow> 'h \<Rightarrow> bytes list \<times> 'h" where
  "command_payloads H (Send p) h = ([p], on_outbound_frame H (into_ws_message p) h)"
| "command_payloads H (UpdateSubscriptions a) h =
     (case update_subscriptions H a h of
        (Inl _, h) \<Rightarrow> ([], h)
      | (Inr subs, h) \<Rightarrow> subscription_payloads H subs h)"
| "command_payloads H _ h = ([], h)"

fun pending_payloads ::
  "('h, 'm, 's, 'v) WsEndpointHandler \<Rightarrow> 's ManagedWsCommand list \<Rightarrow> 'h \<Rightarrow> bytes list \<times> 'h" where
  "pending_payloads H [] h = ([], h)"
| "pending_payloads H (c # cs) h =
     (let (ps, h) = command_payloads H c h; (qs, h) = pending_payloads H cs h in (ps @ qs, h))"

text \<open>A frame the loop may write: a text frame holding UTF-8, or a binary frame.\<close>

definition data_frame :: "WsFrame \<Rightarrow> bool" where
  "data_frame f = (case f of Text t \<Rightarrow> text_ok t | Binary _ \<Rightarrow> True | _ \<Rightarrow> False)"

lemma data_frame_carried: "data_frame f \<Longrightarrow> carried f"
  by (auto simp: data_frame_def split: WsFrame.splits)

lemma data_frame_payload [simp]: "data_frame (into_ws_message p)"
  by (auto simp: data_frame_def into_ws_message_def into_ws_frame_def from_bytes_unchecked_def
           try_from_bytes_Some split: option.split)

text \<open>A predicate on writers that sending a data frame preserves, whether the send succeeds or
  not, is preserved by everything the loop does with its writer.\<close>

locale writer_invariant =
  fixes send :: "'w sink"
    and P :: "'w \<Rightarrow> bool"
  assumes send_keeps: "P w \<Longrightarrow> data_frame f \<Longrightarrow> P (snd (send f w))"
begin

lemma send_payload_keeps: "P (snd hw) \<Longrightarrow> P (snd (snd (send_payload H send p hw)))"
  using send_keeps [of "snd hw" "into_ws_message p"] by (simp add: send_payload_def split_beta Let_def)

lemma send_payload_keepsD:
  "send_payload H send p hw = (r, h', w') \<Longrightarrow> P (snd hw) \<Longrightarrow> P w'"
  using send_payload_keeps [of hw H p] by simp

lemma send_subscriptions_keeps:
  "P (snd hw) \<Longrightarrow> P (snd (snd (send_subscriptions H send subs hw)))"
proof (induction subs arbitrary: hw)
  case (Cons sub subs)
  obtain h w where hw: "hw = (h, w)" by (cases hw)
  obtain p h1 where p: "serialize_subscription H sub h = (p, h1)" by (cases "serialize_subscription H sub h")
  obtain res hw2 where s: "send_payload H send p (h1, w) = (res, hw2)" by (cases "send_payload H send p (h1, w)")
  then have "P (snd hw2)" using send_payload_keeps [of "(h1, w)" H p] Cons.prems hw by simp
  then show ?case using Cons.IH [of hw2] hw p s by (cases res) simp_all
qed simp

lemma replay_keeps: "P (snd hw) \<Longrightarrow> P (snd (snd (replay_subscriptions H send hw)))"
  by (simp add: replay_subscriptions_def split_beta Let_def send_subscriptions_keeps)

lemma apply_command_keeps: "P (snd hw) \<Longrightarrow> P (snd (snd (apply_command H send c hw)))"
  by (cases c)
     (simp_all add: send_payload_keeps send_subscription_updates_def split_beta Let_def
                    send_subscriptions_keeps split: sum.split)

lemma apply_pending_keeps:
  "P (snd hw) \<Longrightarrow> P (snd (snd (snd (apply_pending_auth_commands H send cs hw))))"
proof (induction cs arbitrary: hw)
  case (Cons c cs)
  then show ?case using apply_command_keeps [of hw H c] by (auto split: prod.split sum.split)
qed simp

lemma on_command_keeps:
  "P (conn_writer c) \<Longrightarrow> P (conn_writer (snd (on_command H send cmd c)))"
  using apply_command_keeps [of "hw_of c" H "the cmd"]
  by (auto simp: on_command_def set_hw_def split: option.split ManagedWsCommand.split prod.split sum.split)

lemma on_session_authenticated_keeps:
  "P (conn_writer c) \<Longrightarrow> P (conn_writer (snd (on_session_authenticated H send c)))"
  using replay_keeps [of "hw_of c" H] apply_pending_keeps [of _ H "pending_auth_commands c"]
  by (fastforce simp: on_session_authenticated_def set_hw_def Let_def split: prod.split sum.split)

lemma on_message_action_keeps:
  "P (conn_writer c) \<Longrightarrow> P (conn_writer (snd (on_message_action H send a c)))"
  by (cases a)
     (auto simp: on_message_action_def set_hw_def on_session_authenticated_keeps
           split: prod.split sum.split dest: send_payload_keepsD)

lemma on_read_keeps:
  "P (conn_writer c) \<Longrightarrow> P (conn_writer (snd (on_read H send m c)))"
  by (auto simp: on_read_def on_frame_def Let_def on_message_action_keeps
           split: option.split sum.split prod.split WsParseOutcome.split)

definition wire_ok :: "('h, 'r, 'w, 's) managed_loop \<Rightarrow> bool" where
  "wire_ok s = (case phase s of AwaitEvent w _ \<Rightarrow> P w | _ \<Rightarrow> True)"

lemma wire_ok_disconnect:
  "wire_ok (disconnect H R cause s)" "wire_ok (disconnect_setup H R cause s)"
  by (auto simp: wire_ok_def disconnect_not_open split: loop_phase.split)

lemma wire_ok_in_connection:
  assumes "P (conn_writer (snd (arm \<lparr>conn_handler = handler s, conn_writer = w,
             session_authenticated = a, pending_auth_commands = pending_commands s\<rparr>)))"
  shows "wire_ok (in_connection H R arm w a s)"
  using assms wire_ok_disconnect
  by (auto simp: in_connection_def Let_def split_beta split: loop_control.split) (simp_all add: wire_ok_def)

lemma wire_ok_connected:
  assumes "P w"
  shows "wire_ok (on_connected H R send w s)"
proof -
  let ?h = "announce_open H (is_reconnect s) (handler s)"
  obtain r h2 w2 where a: "send_auth H send (?h, w) = (r, h2, w2)" by (cases "send_auth H send (?h, w)")
  have d: "P w2"
    using assms a by (auto simp: send_auth_def split: option.splits dest: send_payload_keepsD)
  obtain r3 h3 w3 where b: "replay_subscriptions H send (h2, w2) = (r3, h3, w3)"
    by (cases "replay_subscriptions H send (h2, w2)")
  have "P w3" using d b replay_keeps [of "(h2, w2)" H] by simp
  then show ?thesis
    using a b d wire_ok_disconnect
    by (auto simp: on_connected_def Let_def split: sum.split) (simp_all add: wire_ok_def)
qed

lemma wire_ok_step:
  assumes "wire_ok s" and "\<And>w. ev = ConnectResult (Inr w) \<Longrightarrow> P w"
  shows "wire_ok (managed_step H R send ev s)"
  using assms
  by (cases rule: managed_step_cases [of s ev H R send])
     (auto simp: wire_ok_disconnect wire_ok_connected intro!: wire_ok_in_connection,
      auto simp: wire_ok_def on_command_keeps on_read_keeps)

lemma wire_ok_run:
  assumes "wire_ok s" and "\<forall>w. ConnectResult (Inr w) \<in> set evs \<longrightarrow> P w"
  shows "wire_ok (managed_run H R send evs s)"
  using assms by (induction evs arbitrary: s) (auto simp: wire_ok_step)

lemma run_open:
  assumes "\<forall>w. ConnectResult (Inr w) \<in> set evs \<longrightarrow> P w"
    and "phase (managed_run H R send evs (start_managed_ws_loop h r)) = AwaitEvent w a"
  shows "P w"
proof -
  have "wire_ok (start_managed_ws_loop h r)"
    by (simp add: wire_ok_def start_managed_ws_loop_def enter_connect_def)
  from wire_ok_run [OF this assms(1), of H R] show ?thesis using assms(2) by (simp add: wire_ok_def)
qed

end

text \<open>The client's side of the writer contract: what each operation adds to the log.\<close>

context ws_sink
begin

lemma send_payload_writes:
  "send_payload H send p (h, w) = (Inr u, h', w') \<Longrightarrow>
     log w' = log w @ [into_ws_message p] \<and> h' = on_outbound_frame H (into_ws_message p) h"
  by (auto simp: send_payload_def Let_def split: prod.splits dest: send_accepts [OF carried_payload])

lemma send_subscriptions_writes:
  "send_subscriptions H send subs (h, w) = (Inr u, h', w') \<Longrightarrow>
     log w' = log w @ map into_ws_message (fst (subscription_payloads H subs h))
       \<and> h' = snd (subscription_payloads H subs h)"
proof (induction subs arbitrary: h w)
  case (Cons sub subs)
  obtain p h1 where p: "serialize_subscription H sub h = (p, h1)" by (cases "serialize_subscription H sub h")
  with Cons.prems obtain u2 h2 w2 where s: "send_payload H send p (h1, w) = (Inr u2, h2, w2)"
    and r: "send_subscriptions H send subs (h2, w2) = (Inr u, h', w')"
    by (auto split: prod.splits sum.splits)
  show ?case using Cons.IH [OF r] send_payload_writes [OF s] p by (simp add: split_beta)
qed simp

lemma replay_writes:
  "replay_subscriptions H send (h, w) = (Inr u, h', w') \<Longrightarrow>
     log w' = log w @ map into_ws_message (fst (replay_payloads H h)) \<and> h' = snd (replay_payloads H h)"
  by (auto simp: replay_subscriptions_def replay_payloads_def Let_def split: prod.splits
           dest: send_subscriptions_writes)

lemma apply_command_writes:
  "apply_command H send c (h, w) = (Inr u, h', w') \<Longrightarrow>
     log w' = log w @ map into_ws_message (fst (command_payloads H c h))
       \<and> h' = snd (command_payloads H c h)"
  by (cases c)
     (auto simp: send_subscription_updates_def Let_def split: prod.splits sum.splits
           dest: send_payload_writes send_subscriptions_writes)

lemma apply_pending_writes:
  "apply_pending_auth_commands H send cs (h, w) = (Inr u, rest, h', w') \<Longrightarrow>
     log w' = log w @ map into_ws_message (fst (pending_payloads H cs h))
       \<and> h' = snd (pending_payloads H cs h) \<and> rest = []"
proof (induction cs arbitrary: h w)
  case (Cons c cs)
  then obtain u2 h2 w2 where a: "apply_command H send c (h, w) = (Inr u2, h2, w2)"
    and r: "apply_pending_auth_commands H send cs (h2, w2) = (Inr u, rest, h', w')"
    by (auto split: prod.splits sum.splits)
  show ?case using Cons.IH [OF r] apply_command_writes [OF a] by (simp add: split_beta)
qed simp

lemma authenticated_writes:
  assumes "on_session_authenticated H send c = (Stay, c')"
  shows "log (conn_writer c') = log (conn_writer c)
           @ map into_ws_message (fst (replay_payloads H (conn_handler c))
               @ fst (pending_payloads H (pending_auth_commands c) (snd (replay_payloads H (conn_handler c)))))"
    and "pending_auth_commands c' = []" and "session_authenticated c'"
  using assms
  by (auto simp: on_session_authenticated_def set_hw_def Let_def
           split: prod.splits sum.splits dest!: replay_writes apply_pending_writes)

lemma connected_writes:
  assumes "phase (on_connected H R send w s) = AwaitEvent w' a"
  shows "let h = announce_open H (is_reconnect s) (handler s);
             auth = (case generate_auth H h of Some p \<Rightarrow> [p] | None \<Rightarrow> []);
             h' = (case generate_auth H h of
                     Some p \<Rightarrow> on_outbound_frame H (into_ws_message p) h | None \<Rightarrow> h)
         in log w' = log w @ map into_ws_message
                       (auth @ (if session_mode H h' = Public then fst (replay_payloads H h') else []))
            \<and> a = (session_mode H h' = Public)"
  using assms
  by (auto simp: on_connected_def send_auth_def Let_def disconnect_not_open
           split: prod.splits sum.splits option.splits if_splits
           dest!: replay_writes send_payload_writes)

end

sublocale ws_sink \<subseteq> data: writer_invariant send "\<lambda>w. list_all data_frame (log w)"
proof
  fix w f
  assume "list_all data_frame (log w)" and "data_frame f"
  then show "list_all data_frame (log (snd (send f w)))"
    using send_log [OF data_frame_carried, of f w] by auto
qed

context ws_sink
begin

lemmas data_on_wire = data.run_open

end

end
