(* ===== verification/Mock_Transport.thy ===== *)
theory Mock_Transport
  imports Transport
begin

text \<open>
  The writer of the in-memory transports of \<^verbatim>\<open>src/src/testing.rs\<close>, an instance of the
  sink contract.
\<close>

section \<open>The writer\<close>

datatype MockServerError = SocketDropped | ChannelClosed

record MockWriter =
  sent_tx :: "WsFrame channel"

definition mock_writer_send :: "MockWriter sink" where
  "mock_writer_send f w =
     (let (ok, c) = channel_send f (sent_tx w)
      in if ok then (Inr (), w\<lparr>sent_tx := c\<rparr>)
         else (Inl (TransportError ''mock_transport_write'' ''mock outbound channel closed''),
               w\<lparr>sent_tx := c\<rparr>))"

definition mock_writer_log :: "MockWriter \<Rightarrow> WsFrame list" where
  "mock_writer_log w = queue (sent_tx w)"

interpretation mock: ws_sink mock_writer_send mock_writer_log
  by unfold_locales
     (auto simp: mock_writer_send_def mock_writer_log_def channel_send_def Let_def split: if_splits)

end
