(* ===== verification/Managed_Fixture.thy ===== *)
theory Managed_Fixture
  imports Managed Mock_Transport
begin

text \<open>
  The endpoint, subscription manager and reconnect strategy that the module's own tests run
  the managed loops with (\<^verbatim>\<open>src/src/ws/managed.rs\<close>, module \<open>tests\<close>), over the mock
  writer.  They are the concrete instances the witnesses evaluate.
\<close>

datatype Observed = Open bool | Disconnected_obs bool | Message_obs string

definition fast_reconnect :: "unit WsReconnectStrategy" where
  "fast_reconnect =
     \<lparr>next_delay = (\<lambda>r. Some (from_millis 5, r)), reset_delay = (\<lambda>r. r), should_retry = (\<lambda>r. True)\<rparr>"

record TestSubscriptions =
  payload :: "string option"

record TestEndpoint =
  events :: "Observed list"
  subscriptions :: TestSubscriptions
  auth_payload :: "string option"
  auth_gated :: bool

definition test_endpoint_new :: "string option \<Rightarrow> TestEndpoint" where
  "test_endpoint_new subscription_payload =
     \<lparr>events = [], subscriptions = \<lparr>payload = subscription_payload\<rparr>, auth_payload = None,
      auth_gated = False\<rparr>"

definition test_endpoint_auth_gated :: "string \<Rightarrow> TestEndpoint" where
  "test_endpoint_auth_gated p =
     \<lparr>events = [], subscriptions = \<lparr>payload = None\<rparr>, auth_payload = Some p, auth_gated = True\<rparr>"

definition test_initial_subscriptions :: "TestSubscriptions \<Rightarrow> string list" where
  "test_initial_subscriptions t = (case payload t of Some p \<Rightarrow> [p] | None \<Rightarrow> [])"

fun test_update_subscriptions ::
  "string WsSubscriptionAction \<Rightarrow> TestSubscriptions \<Rightarrow> (string + string list) \<times> TestSubscriptions" where
  "test_update_subscriptions (Add items) t =
     (Inr items, t\<lparr>payload := if items = [] then None else Some (last items)\<rparr>)"
| "test_update_subscriptions (Replace items) t =
     (Inr items, t\<lparr>payload := if items = [] then None else Some (last items)\<rparr>)"
| "test_update_subscriptions (Remove _) t = (Inr [], t\<lparr>payload := None\<rparr>)"
| "test_update_subscriptions Clear t = (Inr [], t\<lparr>payload := None\<rparr>)"

definition test_parse ::
  "bytes \<Rightarrow> TestEndpoint \<Rightarrow> (string + (Observed, unit) WsParseOutcome) \<times> TestEndpoint" where
  "test_parse data h =
     (if data = str_bytes ''auth-ok'' then (Inr (Message SessionAuthenticated), h)
      else if data = str_bytes ''reconnect''
      then (Inr (Message (WsMessageAction.Reconnect ''test reconnect'')), h)
      else (Inr (Message (Process (Message_obs ''frame''))), h))"

definition test_endpoint :: "(TestEndpoint, Observed, string, unit) WsEndpointHandler" where
  "test_endpoint =
     \<lparr>initial_subscriptions = (\<lambda>h. (test_initial_subscriptions (subscriptions h), h)),
      update_subscriptions = (\<lambda>a h.
        let (r, t) = test_update_subscriptions a (subscriptions h) in (r, h\<lparr>subscriptions := t\<rparr>)),
      serialize_subscription = (\<lambda>msg h. (str_bytes msg, h)),
      generate_auth = (\<lambda>h. map_option str_bytes (auth_payload h)),
      parse_frame = default_parse_frame (default_parse_text test_parse) test_parse,
      handle_message = (\<lambda>msg h. (Inr (), h\<lparr>events := events h @ [msg]\<rparr>)),
      handle_server_error = (\<lambda>_ _ _ h. (WsErrorAction.Reconnect, h)),
      reset_state = (\<lambda>h. h),
      classify_disconnect = (\<lambda>h cause. BackoffReconnect),
      session_mode = (\<lambda>h. if auth_gated h then AuthGated else Public),
      on_open = (\<lambda>h. h),
      on_connection_opened = (\<lambda>b h. (Some (Open b), h)),
      on_connection_disconnected = (\<lambda>_ b h. (Some (Disconnected_obs b), h)),
      on_inbound_frame = (\<lambda>_ h. h),
      on_outbound_frame = (\<lambda>_ h. h)\<rparr>"

text \<open>A fresh connection of the reconnectable mock transport, as the loop's writer sees it.\<close>

definition fresh_mock_writer :: MockWriter where
  "fresh_mock_writer = \<lparr>sent_tx = \<lparr>queue = [], rx_alive = True, tx_count = 1\<rparr>\<rparr>"

lemmas fixture_defs =
  fast_reconnect_def test_endpoint_def test_endpoint_new_def test_endpoint_auth_gated_def
  test_initial_subscriptions_def test_parse_def fresh_mock_writer_def
  mock_writer_send_def mock_writer_log_def channel_send_def default_parse_frame_def
  default_parse_text_def

lemmas loop_defs =
  managed_run_def managed_step.simps disconnect_def disconnect_setup_def decide_reconnect_def
  act_on_delay_def retry_connect_def enter_connect_def start_managed_ws_loop_def
  on_connected_def announce_open_def send_auth_def in_connection_def on_command_def on_read_def
  on_frame_def on_message_action_def on_session_authenticated_def set_hw_def internal_def
  replay_subscriptions_def send_subscription_updates_def send_payload_def notify_disconnect_def
  ends_loop_def Let_def

end
