(* ===== verification/Managed_Properties.thy ===== *)
theory Managed_Properties
  imports Managed_Safety Managed_Fixture
begin

text \<open>
  The properties of \<open>run_managed_ws_loop\<close> and its helpers, with their witnesses on the
  endpoint of the module's own tests over the mock writer.
\<close>

section \<open>Instances used by the witnesses\<close>

definition gated_session :: "(TestEndpoint, unit, MockWriter, string) managed_loop" where
  "gated_session =
     managed_run test_endpoint fast_reconnect mock_writer_send [ConnectResult (Inr fresh_mock_writer)]
       (start_managed_ws_loop (test_endpoint_auth_gated ''AUTH'') ())"

text \<open>\<open>gated_session\<close> evaluated: the auth payload is on the wire and the session waits.\<close>

lemma gated_session_eval:
  "gated_session =
     \<lparr>phase = AwaitEvent \<lparr>sent_tx = \<lparr>queue = [into_ws_message (str_bytes ''AUTH'')], rx_alive = True,
                                     tx_count = 1\<rparr>\<rparr> False,
      handler = test_endpoint_auth_gated ''AUTH''\<lparr>events := [Open False]\<rparr>, reconnect = (),
      status = 1, is_reconnect = False, pending_commands = []\<rparr>"
  by (simp add: gated_session_def fixture_defs loop_defs)

lemma parse_auth_ok:
  "parse_frame test_endpoint (into_ws_message (str_bytes ''auth-ok'')) h
     = (Inr (Message SessionAuthenticated), h)"
  by code_simp

section \<open>The authentication gate\<close>

text \<open>
  C1. While a session is not authenticated, commands that need authentication have no
  effect but to be queued in the order they arrive: the run ends in the very state it would
  reach without them (same endpoint state, same frames on the wire), plus the queue.
\<close>

theorem auth_gate_isolates:
  assumes "\<forall>n \<le> length evs. unauthenticated (managed_run H R send (take n evs) s)"
  shows "managed_run H R send evs s
           = managed_run H R send (filter (\<lambda>ev. \<not> gated_event ev) evs) s
               \<lparr>pending_commands := pending_commands s @ gated_commands evs\<rparr>"
  using gated_run_queue [where q = "pending_commands s" and s = s] assms by simp

theorem auth_gate_isolates_witness:
  "managed_run test_endpoint fast_reconnect mock_writer_send
     [Command (Some (Send [1])), Read (Some (Inr (Binary [9]))), Command (Some (Send [2]))] gated_session
   = managed_run test_endpoint fast_reconnect mock_writer_send
       (filter (\<lambda>ev. \<not> gated_event ev)
         [Command (Some (Send [1])), Read (Some (Inr (Binary [9]))), Command (Some (Send [2]))]) gated_session
       \<lparr>pending_commands := [Send [1], Send [2]]\<rparr>"
proof -
  let ?evs = "[Command (Some (Send [1])), Read (Some (Inr (Binary [9]))), Command (Some (Send [2]))]
                :: (MockWriter, string) loop_event list"
  have "\<forall>n \<le> length ?evs.
          unauthenticated (managed_run test_endpoint fast_reconnect mock_writer_send (take n ?evs) gated_session)"
    by (simp add: gated_session_eval le_Suc_eq all_conj_distrib unauthenticated_def loop_defs fixture_defs
                  str_bytes_def)
  from auth_gate_isolates [OF this] show ?thesis
    by (simp add: gated_session_eval gated_event_def)
qed

text \<open>
  C2. When the endpoint reports the session authenticated and the connection survives, the
  frames added to the wire are exactly the replayed subscriptions followed by the queued
  commands in the order they were queued; the queue is then empty and the session open.
\<close>

theorem auth_flush_order:
  assumes "ws_sink send wire"
    and "phase s = AwaitEvent w False"
    and "parse_frame H f (on_inbound_frame H f (handler s)) = (Inr (Message SessionAuthenticated), h)"
    and "phase (managed_step H R send (Read (Some (Inr f))) s) = AwaitEvent w' a"
  shows "wire w' = wire w @ map into_ws_message
           (fst (replay_payloads H h)
              @ fst (pending_payloads H (pending_commands s) (snd (replay_payloads H h))))
         \<and> a \<and> pending_commands (managed_step H R send (Read (Some (Inr f))) s) = []"
proof -
  let ?c = "\<lparr>conn_handler = h, conn_writer = w, session_authenticated = False,
             pending_auth_commands = pending_commands s\<rparr>"
  obtain ctl c where r: "on_session_authenticated H send ?c = (ctl, c)"
    by (cases "on_session_authenticated H send ?c")
  then have step: "managed_step H R send (Read (Some (Inr f))) s
      = in_connection H R (\<lambda>_. (ctl, c)) w False s"
    using assms(2,3) 
    by (simp add: step_open [of s w False] in_connection_def on_read_def on_frame_def on_message_action_def)
  then have "ctl = Stay"
    using assms(4) by (cases ctl) (auto simp: in_connection_def disconnect_not_open)
  then show ?thesis
    using step assms(4) ws_sink.authenticated_writes [OF assms(1), of H ?c c] r
    by (simp add: in_connection_def)
qed

theorem auth_flush_order_witness:
  "\<exists>w' a. phase (managed_step test_endpoint fast_reconnect mock_writer_send
         (Read (Some (Inr (into_ws_message (str_bytes ''auth-ok'')))))
         (gated_session\<lparr>pending_commands := [Send [1]]\<rparr>)) = AwaitEvent w' a
     \<and> mock_writer_log w' = [into_ws_message (str_bytes ''AUTH''), into_ws_message [1]] \<and> a
     \<and> pending_commands (managed_step test_endpoint fast_reconnect mock_writer_send
         (Read (Some (Inr (into_ws_message (str_bytes ''auth-ok'')))))
         (gated_session\<lparr>pending_commands := [Send [1]]\<rparr>)) = []"
proof -
  let ?s = "gated_session\<lparr>pending_commands := [Send [1]]\<rparr>"
  let ?f = "into_ws_message (str_bytes ''auth-ok'')"
  let ?h = "on_inbound_frame test_endpoint ?f (handler ?s)"
  have p: "parse_frame test_endpoint ?f ?h = (Inr (Message SessionAuthenticated), ?h)"
    by (rule parse_auth_ok)
  have w: "phase ?s = AwaitEvent \<lparr>sent_tx = \<lparr>queue = [into_ws_message (str_bytes ''AUTH'')],
             rx_alive = True, tx_count = 1\<rparr>\<rparr> False"
    by (simp add: gated_session_eval)
  have step: "phase (managed_step test_endpoint fast_reconnect mock_writer_send (Read (Some (Inr ?f))) ?s)
      = AwaitEvent \<lparr>sent_tx = \<lparr>queue = [into_ws_message (str_bytes ''AUTH''), into_ws_message [1]],
          rx_alive = True, tx_count = 1\<rparr>\<rparr> True"
    by (simp add: loop_defs gated_session_eval parse_auth_ok) (simp add: loop_defs fixture_defs)
  have "fst (replay_payloads test_endpoint ?h) = []"
      "fst (pending_payloads test_endpoint (pending_commands ?s) (snd (replay_payloads test_endpoint ?h))) = [[1]]"
    by (simp_all add: gated_session_eval replay_payloads_def fixture_defs)
  then show ?thesis
    using auth_flush_order [OF mock.ws_sink_axioms w p step] step by (auto simp: mock_writer_log_def)
qed

section \<open>The published status\<close>

text \<open>
  C18. After any sequence of events from the start of the loop, the status a
  \<open>status_snapshot\<close> reads is the one of the phase the loop is in: \<open>Connecting\<close> while it
  waits for \<open>connect\<close>, \<open>Connected\<close> while a connection is open, \<open>Disconnected\<close> during the
  reconnect delay and after the loop has returned.
\<close>

theorem status_tracks_phase:
  assumes "phase_status (phase (managed_run H R send evs (start_managed_ws_loop h r))) = Some st"
  shows "ws_status_from_u8 (status (managed_run H R send evs (start_managed_ws_loop h r))) = st"
proof -
  have "status_ok (managed_run H R send evs (start_managed_ws_loop h r))"
    by (rule managed_run_invariant [of status_ok, OF status_ok_step status_ok_start])
  then show ?thesis using assms by (simp add: status_ok_def)
qed

theorem status_tracks_phase_witness:
  "ws_status_from_u8 (status (managed_run test_endpoint fast_reconnect mock_writer_send
     [ConnectResult (Inr fresh_mock_writer)] (start_managed_ws_loop (test_endpoint_auth_gated ''AUTH'') ())))
   = Connected"
  by (rule status_tracks_phase)
     (use gated_session_eval in \<open>simp add: gated_session_def\<close>)

section \<open>What goes on the wire\<close>

text \<open>
  C26. The first frames of a connection are the auth payload, if the endpoint has one, then
  the replayed subscriptions of a public session and nothing else; a session that is not
  public starts unauthenticated with nothing but the auth payload on the wire.
\<close>

theorem connection_prologue:
  assumes "ws_sink send wire" and "phase s = AwaitConnect"
    and "phase (managed_step H R send (ConnectResult (Inr w)) s) = AwaitEvent w' a"
  shows "let h = announce_open H (is_reconnect s) (handler s);
             auth = (case generate_auth H h of Some p \<Rightarrow> [p] | None \<Rightarrow> []);
             h' = (case generate_auth H h of
                     Some p \<Rightarrow> on_outbound_frame H (into_ws_message p) h | None \<Rightarrow> h)
         in wire w' = wire w @ map into_ws_message
                       (auth @ (if session_mode H h' = Public then fst (replay_payloads H h') else []))
            \<and> a = (session_mode H h' = Public)"
  by (rule ws_sink.connected_writes [OF assms(1)]) (use assms(2,3) in simp)

theorem connection_prologue_witness:
  "\<exists>w'. phase (managed_step test_endpoint fast_reconnect mock_writer_send
         (ConnectResult (Inr fresh_mock_writer))
         (start_managed_ws_loop (test_endpoint_new (Some ''SUB'')) ())) = AwaitEvent w' True
     \<and> mock_writer_log w' = [into_ws_message (str_bytes ''SUB'')]"
proof -
  let ?s = "start_managed_ws_loop (test_endpoint_new (Some ''SUB'')) ()
              :: (TestEndpoint, unit, MockWriter, string) managed_loop"
  have c: "phase ?s = AwaitConnect" by (simp add: loop_defs)
  have step: "phase (managed_step test_endpoint fast_reconnect mock_writer_send
          (ConnectResult (Inr fresh_mock_writer)) ?s)
      = AwaitEvent \<lparr>sent_tx = \<lparr>queue = [into_ws_message (str_bytes ''SUB'')], rx_alive = True,
                              tx_count = 1\<rparr>\<rparr> True"
    by (simp add: loop_defs fixture_defs)
  have "mock_writer_log \<lparr>sent_tx = \<lparr>queue = [into_ws_message (str_bytes ''SUB'')], rx_alive = True,
          tx_count = 1\<rparr>\<rparr> = [into_ws_message (str_bytes ''SUB'')]"
    using connection_prologue [OF mock.ws_sink_axioms c step]
    by (simp add: loop_defs fixture_defs replay_payloads_def)
  then show ?thesis using step by blast
qed

text \<open>
  If every connection starts with a clean wire, then after any sequence of events the
  frames on the open connection are all data frames, text frames holding valid UTF-8 or
  binary frames: the loop itself never writes a control frame.
\<close>

theorem only_data_frames_written:
  assumes "ws_sink send wire"
    and "\<forall>w. ConnectResult (Inr w) \<in> set evs \<longrightarrow> wire w = []"
    and "phase (managed_run H R send evs (start_managed_ws_loop h r)) = AwaitEvent w a"
  shows "list_all data_frame (wire w)"
  using assms(2,3) by (intro ws_sink.data_on_wire [OF assms(1)]) auto

theorem only_data_frames_written_witness:
  "list_all data_frame (mock_writer_log
     \<lparr>sent_tx = \<lparr>queue = [into_ws_message (str_bytes ''AUTH'')], rx_alive = True, tx_count = 1\<rparr>\<rparr>)"
  by (rule only_data_frames_written [OF mock.ws_sink_axioms,
        of "[ConnectResult (Inr fresh_mock_writer)]" test_endpoint fast_reconnect
           "test_endpoint_auth_gated ''AUTH''" "()" _ False])
     (use gated_session_eval in \<open>simp_all add: gated_session_def mock_writer_log_def fresh_mock_writer_def\<close>)

section \<open>Shutdown and the reconnect delay\<close>

text \<open>
  C27. Whenever the loop is polling its command channel, with a connection open or during a
  reconnect delay, a \<open>Shutdown\<close> command or the loss of every sender makes it return with
  status \<open>Disconnected\<close>, and nothing that happens afterwards changes its state.
\<close>

theorem shutdown_returns:
  assumes "polls_commands (phase (managed_run H R send evs (start_managed_ws_loop h r)))"
    and "ends_loop c"
  shows "let s = managed_run H R send (evs @ Command c # evs') (start_managed_ws_loop h r)
         in phase s = Returned \<and> ws_status_from_u8 (status s) = Disconnected"
proof -
  let ?s = "managed_run H R send (evs @ [Command c]) (start_managed_ws_loop h r)"
  have "phase ?s = Returned" using step_shutdown [OF assms] by (simp add: managed_run_append)
  moreover have "status_ok ?s"
    by (rule managed_run_invariant [of status_ok, OF status_ok_step status_ok_start])
  moreover have "managed_run H R send (evs @ Command c # evs') (start_managed_ws_loop h r)
      = managed_run H R send evs' ?s"
    by (simp add: managed_run_append)
  ultimately show ?thesis 
    by (simp add: managed_run_returned status_ok_def ws_status_from_u8_def)
qed

theorem shutdown_returns_witness:
  "let s = managed_run test_endpoint fast_reconnect mock_writer_send
             ([ConnectResult (Inr fresh_mock_writer)] @ Command (Some Shutdown) # [DelayElapsed])
             (start_managed_ws_loop (test_endpoint_auth_gated ''AUTH'') ())
   in phase s = Returned \<and> ws_status_from_u8 (status s) = Disconnected"
  by (rule shutdown_returns)
     (use gated_session_eval in \<open>simp_all add: gated_session_def polls_commands_def ends_loop_def\<close>)

text \<open>
  C37. The command channel is not polled while the loop connects.  An endpoint that answers
  every disconnect with \<open>ImmediateReconnect\<close> keeps a loop whose \<open>connect\<close> fails connecting
  for ever: no command it is sent, \<open>Shutdown\<close> included, is ever received.
\<close>

theorem immediate_reconnect_ignores_shutdown:
  assumes "\<forall>h cause. classify_disconnect H h cause = ImmediateReconnect"
    and "\<forall>ev \<in> set evs. \<forall>w. ev \<noteq> ConnectResult (Inr w)"
  shows "phase (managed_run H R send evs (start_managed_ws_loop h r)) = AwaitConnect"
proof -
  have "phase s = AwaitConnect \<Longrightarrow> phase (managed_run H R send evs s) = AwaitConnect" for s
    using assms(2)
    by (induction evs arbitrary: s) (simp_all add: immediate_step_connecting [OF assms(1)])
  then show ?thesis by (simp add: start_managed_ws_loop_def enter_connect_def)
qed

theorem immediate_reconnect_ignores_shutdown_witness:
  "phase (managed_run (test_endpoint\<lparr>classify_disconnect := \<lambda>_ _. ImmediateReconnect\<rparr>) fast_reconnect
     mock_writer_send [Command (Some Shutdown), ConnectResult (Inl (ConnectionFailed ''refused'')),
                       Command (Some Shutdown)]
     (start_managed_ws_loop (test_endpoint_new None) ())) = AwaitConnect"
  by (rule immediate_reconnect_ignores_shutdown) simp_all

text \<open>
  C38. During the reconnect delay every command but \<open>Shutdown\<close> is taken from the channel and
  discarded, and the delay ends there and then: the loop goes on exactly as if the whole
  delay had passed and the command had never been sent.
\<close>

theorem delay_discards_commands:
  assumes "phase s = AwaitDelay" and "\<not> ends_loop c"
  shows "managed_run H R send (Command c # evs) s = managed_run H R send (DelayElapsed # evs) s"
  using assms by simp

theorem delay_discards_commands_witness:
  "managed_run test_endpoint fast_reconnect mock_writer_send
     [Command (Some (Send [1])), ConnectResult (Inr fresh_mock_writer)]
     (managed_run test_endpoint fast_reconnect mock_writer_send
        [ConnectResult (Inl (ConnectionFailed ''refused''))]
        (start_managed_ws_loop (test_endpoint_new None) ()))
   = managed_run test_endpoint fast_reconnect mock_writer_send
     [DelayElapsed, ConnectResult (Inr fresh_mock_writer)]
     (managed_run test_endpoint fast_reconnect mock_writer_send
        [ConnectResult (Inl (ConnectionFailed ''refused''))]
        (start_managed_ws_loop (test_endpoint_new None) ()))"
  by (rule delay_discards_commands)
     (simp_all add: ends_loop_def loop_defs fixture_defs from_millis_def)

section \<open>The queue of gated commands\<close>

lemma apply_pending_rest:
  "apply_pending_auth_commands H send cs hw = (Inr u, rest, hw') \<Longrightarrow> rest = []"
  by (induction cs arbitrary: hw) (auto split: prod.splits sum.splits)

text \<open>What an arm does to the queue: an authenticated session with an empty queue stays one,
  and a session that becomes authenticated and goes on has emptied it.\<close>

definition keeps_queue ::
  "(('h, 'w, 's) connection \<Rightarrow> loop_control \<times> ('h, 'w, 's) connection) \<Rightarrow> ('h, 'w, 's) connection \<Rightarrow> bool" where
  "keeps_queue arm c \<longleftrightarrow>
     (session_authenticated c \<and> pending_auth_commands c = [] \<longrightarrow>
        session_authenticated (snd (arm c)) \<and> pending_auth_commands (snd (arm c)) = [])
     \<and> (\<not> session_authenticated c \<and> fst (arm c) = Stay \<and> session_authenticated (snd (arm c)) \<longrightarrow>
          pending_auth_commands (snd (arm c)) = [])"

lemma keeps_queue_command: "keeps_queue (on_command H send cmd) c"
  by (auto simp: keeps_queue_def on_command_def set_hw_def
           split: option.split ManagedWsCommand.split prod.split sum.split)

lemma keeps_queue_authenticated: "keeps_queue (on_session_authenticated H send) c"
  by (auto simp: keeps_queue_def on_session_authenticated_def set_hw_def Let_def
           split: prod.split sum.split dest: apply_pending_rest)

lemma keeps_queue_read: "keeps_queue (on_read H send m) c"
proof -
  have "keeps_queue (on_message_action H send a) c'" for a c'
    using keeps_queue_authenticated [of H send c']
    by (cases a) (auto simp: keeps_queue_def on_message_action_def set_hw_def split: prod.split sum.split)
  then show ?thesis
    by (auto simp: keeps_queue_def on_read_def on_frame_def Let_def
             split: option.split sum.split prod.split WsParseOutcome.split)
qed

definition queue_inv :: "WsSessionMode \<Rightarrow> ('h, 'r, 'w, 's) managed_loop \<Rightarrow> bool" where
  "queue_inv mode s \<longleftrightarrow>
     (\<forall>w. phase s = AwaitEvent w True \<longrightarrow> pending_commands s = [])
     \<and> (mode = Public \<longrightarrow> pending_commands s = [] \<and> (\<forall>w. phase s \<noteq> AwaitEvent w False))"

lemma pending_disconnect [simp]:
  "pending_commands (disconnect H R cause s) = pending_commands s"
  "pending_commands (disconnect_setup H R cause s) = pending_commands s"
  by (auto simp: disconnect_def disconnect_setup_def act_on_delay_def Let_def
           split: option.splits dest!: decide_reconnect_keeps)

lemma queue_inv_in_connection:
  assumes "queue_inv mode s" and "phase s = AwaitEvent w a" and "\<And>c. keeps_queue arm c"
  shows "queue_inv mode (in_connection H R arm w a s)"
proof -
  let ?c = "\<lparr>conn_handler = handler s, conn_writer = w, session_authenticated = a,
             pending_auth_commands = pending_commands s\<rparr>"
  obtain ctl c where r: "arm ?c = (ctl, c)" by (cases "arm ?c")
  then show ?thesis
    using assms(1,2) assms(3) [of ?c]
    by (cases ctl; cases a) (auto simp: queue_inv_def keeps_queue_def in_connection_def disconnect_not_open)
qed

lemma queue_inv_connected:
  assumes "\<forall>h. session_mode H h = mode" and "queue_inv mode s" and "mode = AuthGated \<or> pending_commands s = []"
  shows "queue_inv mode (on_connected H R send w s)"
  using assms
  by (auto simp: queue_inv_def on_connected_def Let_def disconnect_not_open split: prod.split sum.split)

lemma queue_inv_step:
  assumes "\<forall>h. session_mode H h = mode" and "queue_inv mode s"
  shows "queue_inv mode (managed_step H R send ev s)"
proof (cases rule: managed_step_cases [of s ev H R send])
  case (connected w)
  moreover have "mode = AuthGated \<or> pending_commands s = []"
    using assms(2) by (cases mode) (auto simp: queue_inv_def)
  ultimately show ?thesis using queue_inv_connected [OF assms] by simp
qed (use assms in \<open>auto simp: queue_inv_in_connection keeps_queue_command keeps_queue_read\<close>,
     use assms(2) in \<open>auto simp: queue_inv_def disconnect_not_open\<close>)

text \<open>
  C17. For an endpoint whose session mode does not change, once a session is authenticated no
  command is left waiting in the queue of gated commands, however many connections came
  before: every command the loop accepted has been handed to the writer or failed the
  connection it was written to.
\<close>

theorem authenticated_queue_empty:
  assumes "\<forall>h. session_mode H h = mode"
    and "phase (managed_run H R send evs (start_managed_ws_loop h r)) = AwaitEvent w True"
  shows "pending_commands (managed_run H R send evs (start_managed_ws_loop h r)) = []"
proof -
  have "queue_inv mode (managed_run H R send evs (start_managed_ws_loop h r))"
    by (rule managed_run_invariant [of "queue_inv mode", OF queue_inv_step [OF assms(1)]])
       (simp_all add: queue_inv_def start_managed_ws_loop_def enter_connect_def)
  then show ?thesis using assms(2) by (simp add: queue_inv_def)
qed

theorem authenticated_queue_empty_witness:
  "pending_commands (managed_run (test_endpoint\<lparr>session_mode := \<lambda>_. Public\<rparr>) fast_reconnect mock_writer_send
     [ConnectResult (Inr fresh_mock_writer), Command (Some (Send [7]))]
     (start_managed_ws_loop (test_endpoint_new None) ())) = []"
  by (rule authenticated_queue_empty [of _ Public _ _ _ _ _
        "\<lparr>sent_tx = \<lparr>queue = [into_ws_message [7]], rx_alive = True, tx_count = 1\<rparr>\<rparr>"])
     (simp_all add: loop_defs fixture_defs)

section \<open>Status encoding and expected disconnects\<close>

text \<open>
  The status byte round-trips: decoding an encoded status gives it back, and encoding a
  decoded byte gives the byte itself, with every byte above 2 read as \<open>Disconnected\<close>.
\<close>

theorem status_byte_roundtrip:
  "ws_status_from_u8 (ws_status_to_u8 st) = st
     \<and> ws_status_to_u8 (ws_status_from_u8 raw) = min raw 2"
proof -
  have "raw = 0 \<or> raw = 1 \<or> 2 \<le> raw"
    by (simp add: word_le_nat_alt word_unat_eq_iff) linarith
  then have "ws_status_to_u8 (ws_status_from_u8 raw) = min raw 2"
    by (auto simp: ws_status_from_u8_def min_def)
  then show ?thesis by simp
qed

lemma contains_sublist: "contains hay needle \<longleftrightarrow> sublist needle hay"
  by (induction hay) (simp_all add: contains.simps [of "_ # _"] contains.simps [of "[]"] sublist_Cons_right)

lemma to_ascii_lowercase_idem [simp]: "to_ascii_lowercase (to_ascii_lowercase s) = to_ascii_lowercase s"
  by (simp add: to_ascii_lowercase_def of_char_of comp_def)

lemma to_ascii_lowercase_append [simp]:
  "to_ascii_lowercase (s @ t) = to_ascii_lowercase s @ to_ascii_lowercase t"
  by (simp add: to_ascii_lowercase_def)

lemma sublist_context: "sublist n s \<Longrightarrow> sublist n (pre @ s @ post)"
  by (metis sublist_append_leftI sublist_append_rightI sublist_order.order_trans)

text \<open>
  Recognising an expected disconnect does not depend on ASCII case, and adding context
  around an error text never hides that it is one.
\<close>

theorem expected_disconnect_stable:
  "is_expected_ws_disconnect (to_ascii_lowercase e) = is_expected_ws_disconnect e
     \<and> (is_expected_ws_disconnect e \<longrightarrow> is_expected_ws_disconnect (pre @ e @ post))"
  by (auto simp: is_expected_ws_disconnect_def contains_sublist Let_def dest: sublist_context)

theorem expected_disconnect_stable_witness:
  "is_expected_ws_disconnect ''Broken pipe''
     \<and> is_expected_ws_disconnect (''IO error: '' @ ''Broken pipe'' @ '' (os error 32)'')"
proof -
  have "is_expected_ws_disconnect ''Broken pipe''" by code_simp
  then show ?thesis using expected_disconnect_stable [of "''Broken pipe''"] by blast
qed

end
