(* ===== verification/Managed_Health.thy ===== *)
theory Managed_Health
  imports Managed_Safety Health Heartbeat
begin

text \<open>
  The health-checked loop (\<open>run_health_checked_managed_ws_loop\<close> of
  \<^verbatim>\<open>src/src/ws/managed.rs\<close>).  Its state extends the one of the plain loop with the
  ping/pong strategy, the health monitor and the deadline of the ping timer.  Each event
  carries the clock of its handling; the \<open>i\<close>-th reading of the clock is \<open>clk i\<close>.
\<close>

section \<open>State\<close>

text \<open>The parameters that are not the crate's: the strategy, the histogram, and tokio's
  \<open>sleep\<close>, as the instant at which a sleep started at \<open>now\<close> for \<open>d\<close> completes.\<close>

record ('p, 'g) health_env =
  strategy :: "'p WsPingPongStrategy"
  hist :: "'g histogram_ops"
  sleep_deadline :: "instant \<Rightarrow> duration \<Rightarrow> instant"

record ('p, 'g) RequiredWsHealth =
  rh_ping_pong :: 'p
  rh_monitor :: "'g WsHealthMonitor"

definition required_health_new ::
  "('p, 'g) health_env \<Rightarrow> instant \<Rightarrow> 'p \<Rightarrow> duration \<Rightarrow> ('p, 'g) RequiredWsHealth option" where
  "required_health_new E now p threshold =
     map_option (\<lambda>m. \<lparr>rh_ping_pong = p, rh_monitor = m\<rparr>) (health_new (hist E) now threshold)"

record ('h, 'w, 's, 'p, 'g) health_connection = "('h, 'w, 's) connection" +
  conn_ping :: 'p
  conn_monitor :: "'g WsHealthMonitor"
  conn_deadline :: instant

text \<open>\<open>session_ended\<close> tells the two places apart the reconnect delay is awaited from: after the
  inner loop, where the reconnect is counted, and after a failed set-up, where it is not.\<close>

record ('h, 'r, 'w, 's, 'p, 'g) health_loop = "('h, 'r, 'w, 's) managed_loop" +
  ping_pong :: 'p
  monitor :: "'g WsHealthMonitor"
  ping_deadline :: instant
  session_ended :: bool

datatype ('w, 's) health_event =
    HConnect clock "WebSocketError + 'w"
  | HCommand clock "'s ManagedWsCommand option"
  | HRead clock "(WebSocketError + WsFrame) option"
  | HPing clock
  | HDelay

definition later :: "nat \<Rightarrow> clock \<Rightarrow> clock" where
  "later k clk = (\<lambda>i. clk (k + i))"

section \<open>The inner loop\<close>

type_synonym ('h, 'w, 's, 'p, 'g) arm_result = "loop_control \<times> ('h, 'w, 's, 'p, 'g) health_connection"

abbreviation hw_pair :: "('h, 'w, 's, 'p, 'g) health_connection \<Rightarrow> 'h \<times> 'w" where
  "hw_pair c \<equiv> (conn_handler c, conn_writer c)"

definition put_hw ::
  "'h \<times> 'w \<Rightarrow> ('h, 'w, 's, 'p, 'g) health_connection \<Rightarrow> ('h, 'w, 's, 'p, 'g) health_connection" where
  "put_hw hw c = c\<lparr>conn_handler := fst hw, conn_writer := snd hw\<rparr>"

text \<open>\<open>record_internal_error\<close> with the error's text, then \<open>break\<close> with the same context.\<close>

definition fail ::
  "instant \<Rightarrow> string \<Rightarrow> string \<Rightarrow> ('h, 'w, 's, 'p, 'g) health_connection
     \<Rightarrow> ('h, 'w, 's, 'p, 'g) arm_result" where
  "fail now context error c =
     (Break (InternalError context error),
      c\<lparr>conn_monitor := record_internal_error now context error (conn_monitor c)\<rparr>)"

definition sent ::
  "instant \<Rightarrow> ('h, 'w, 's, 'p, 'g) health_connection \<Rightarrow> ('h, 'w, 's, 'p, 'g) arm_result" where
  "sent now c = (Stay, c\<lparr>conn_monitor := record_sent now (conn_monitor c)\<rparr>)"

definition health_on_command ::
  "('h, 'm, 's, 'v) WsEndpointHandler \<Rightarrow> 'w sink \<Rightarrow> clock \<Rightarrow> 's ManagedWsCommand option
     \<Rightarrow> ('h, 'w, 's, 'p, 'g) health_connection \<Rightarrow> ('h, 'w, 's, 'p, 'g) arm_result" where
  "health_on_command H send clk command c =
     (case command of
        None \<Rightarrow> (Return, c)
      | Some Shutdown \<Rightarrow> (Return, c)
      | Some (ForceReconnect reason) \<Rightarrow> (Break (EndpointRequested reason), c)
      | Some command \<Rightarrow>
          if \<not> session_authenticated c \<and> command_requires_auth command
          then (Stay, c\<lparr>pending_auth_commands := pending_auth_commands c @ [command]\<rparr>)
          else
            case apply_command H send command (hw_pair c) of
              (Inl error, hw) \<Rightarrow> fail (clk 0) ''command'' (ws_error_to_string error) (put_hw hw c)
            | (Inr _, hw) \<Rightarrow> sent (clk 0) (put_hw hw c))"

text \<open>The ping arm, \<^const>\<open>None\<close> when \<open>Instant::now() + interval\<close> overflows.\<close>

definition health_on_ping ::
  "('h, 'm, 's, 'v) WsEndpointHandler \<Rightarrow> ('p, 'g) health_env \<Rightarrow> 'w sink \<Rightarrow> clock
     \<Rightarrow> ('h, 'w, 's, 'p, 'g) health_connection \<Rightarrow> ('h, 'w, 's, 'p, 'g) arm_result option" where
  "health_on_ping H E send clk c =
     (if ping_is_stale (strategy E) (clk 1) (conn_ping c) then Some (Break PongTimeout, c)
      else if health_is_stale (clk 2) (conn_monitor c) then Some (Break StaleData, c)
      else
        let (ping, p) = create_ping (strategy E) (later 3 clk) (conn_ping c);
            c = c\<lparr>conn_ping := p\<rparr>;
            (ctl, c) =
              (case ping of
                 None \<Rightarrow> (Stay, c)
               | Some frame \<Rightarrow>
                   let h = on_outbound_frame H frame (conn_handler c);
                       (res, w) = send frame (conn_writer c);
                       c = put_hw (h, w) c
                   in case res of
                        Inl error \<Rightarrow> fail (clk 5) ''ping_send'' (ws_error_to_string error) c
                      | Inr _ \<Rightarrow> sent (clk 5) c)
        in if ctl = Stay
           then map_option (\<lambda>d. (Stay, c\<lparr>conn_deadline := d\<rparr>))
                  (instant_add (clk 6) (ping_interval (strategy E) p))
           else Some (ctl, c))"

definition health_on_authenticated ::
  "('h, 'm, 's, 'v) WsEndpointHandler \<Rightarrow> 'w sink \<Rightarrow> clock
     \<Rightarrow> ('h, 'w, 's, 'p, 'g) health_connection \<Rightarrow> ('h, 'w, 's, 'p, 'g) arm_result" where
  "health_on_authenticated H send clk c =
     (let c = c\<lparr>session_authenticated := True\<rparr>
      in case replay_subscriptions H send (hw_pair c) of
           (Inl error, hw) \<Rightarrow>
             fail (clk 3) ''subscription_replay_after_auth'' (ws_error_to_string error) (put_hw hw c)
         | (Inr _, hw) \<Rightarrow>
             (case apply_pending_auth_commands H send (pending_auth_commands c) hw of
                (Inl error, rest, hw) \<Rightarrow>
                  fail (clk 3) ''pending_auth_command'' (ws_error_to_string error)
                    (put_hw hw c\<lparr>pending_auth_commands := rest\<rparr>)
              | (Inr _, rest, hw) \<Rightarrow> sent (clk 3) (put_hw hw c\<lparr>pending_auth_commands := rest\<rparr>)))"

definition health_on_action ::
  "('h, 'm, 's, 'v) WsEndpointHandler \<Rightarrow> 'w sink \<Rightarrow> clock \<Rightarrow> 'm WsMessageAction
     \<Rightarrow> ('h, 'w, 's, 'p, 'g) health_connection \<Rightarrow> ('h, 'w, 's, 'p, 'g) arm_result" where
  "health_on_action H send clk action c =
     (case action of
        WsMessageAction.Continue \<Rightarrow> (Stay, c)
      | SessionAuthenticated \<Rightarrow> health_on_authenticated H send clk c
      | WsMessageAction.Send payload \<Rightarrow>
          (case send_payload H send payload (hw_pair c) of
             (Inl error, hw) \<Rightarrow> fail (clk 3) ''message_send'' (ws_error_to_string error) (put_hw hw c)
           | (Inr _, hw) \<Rightarrow> sent (clk 3) (put_hw hw c))
      | Process message \<Rightarrow>
          (case handle_message H message (conn_handler c) of
             (Inl error, h) \<Rightarrow> fail (clk 3) ''handle_message'' error (c\<lparr>conn_handler := h\<rparr>)
           | (Inr _, h) \<Rightarrow> (Stay, c\<lparr>conn_handler := h\<rparr>))
      | WsMessageAction.Reconnect reason \<Rightarrow> (Break (EndpointRequested reason), c)
      | WsMessageAction.Shutdown \<Rightarrow> (Return, c))"

definition health_on_parse ::
  "('h, 'm, 's, 'v) WsEndpointHandler \<Rightarrow> 'w sink \<Rightarrow> clock \<Rightarrow> WsFrame
     \<Rightarrow> ('h, 'w, 's, 'p, 'g) health_connection \<Rightarrow> ('h, 'w, 's, 'p, 'g) arm_result" where
  "health_on_parse H send clk frame c =
     (let (outcome, h) = parse_frame H frame (conn_handler c);
          c = c\<lparr>conn_handler := h\<rparr>
      in case outcome of
           Inr (Message action) \<Rightarrow> health_on_action H send clk action c
         | Inr (WsParseOutcome.ServerError code message data) \<Rightarrow>
             (let c = c\<lparr>conn_monitor := record_server_error (clk 3) code message (conn_monitor c)\<rparr>;
                  (action, h) = handle_server_error H code message data h;
                  c = c\<lparr>conn_handler := h\<rparr>
              in if action = WsErrorAction.Reconnect \<or> action = Fatal
                 then (Break (WsDisconnectCause.ServerError code message), c)
                 else (Stay, c))
         | Inl error \<Rightarrow>
             (Stay, c\<lparr>conn_monitor := record_internal_error (clk 3) ''parse'' error (conn_monitor c)\<rparr>))"

definition health_on_frame ::
  "('h, 'm, 's, 'v) WsEndpointHandler \<Rightarrow> ('p, 'g) health_env \<Rightarrow> 'w sink \<Rightarrow> clock \<Rightarrow> WsFrame
     \<Rightarrow> ('h, 'w, 's, 'p, 'g) health_connection \<Rightarrow> ('h, 'w, 's, 'p, 'g) arm_result" where
  "health_on_frame H E send clk frame c =
     (let c = c\<lparr>conn_monitor := record_message (clk 0) (conn_monitor c)\<rparr>;
          c = c\<lparr>conn_handler := on_inbound_frame H frame (conn_handler c)\<rparr>;
          (result, p) = handle_inbound (strategy E) (later 1 clk) frame (conn_ping c);
          c = c\<lparr>conn_ping := p\<rparr>
      in case result of
           Reply reply \<Rightarrow>
             (let h = on_outbound_frame H reply (conn_handler c);
                  (res, w) = send reply (conn_writer c);
                  c = put_hw (h, w) c
              in case res of
                   Inl error \<Rightarrow> fail (clk 2) ''pong_reply'' (ws_error_to_string error) c
                 | Inr _ \<Rightarrow> sent (clk 2) c)
         | PongReceived rtt \<Rightarrow>
             (Stay, (case rtt of
                       Some d \<Rightarrow> c\<lparr>conn_monitor := record_rtt (hist E) d (conn_monitor c)\<rparr>
                     | None \<Rightarrow> c))
         | InvalidPong \<Rightarrow>
             (Break PongTimeout,
              c\<lparr>conn_monitor := record_internal_error (clk 2) ''ping'' ''invalid pong'' (conn_monitor c)\<rparr>)
         | NotPong \<Rightarrow> health_on_parse H send clk frame c)"

definition health_on_read ::
  "('h, 'm, 's, 'v) WsEndpointHandler \<Rightarrow> ('p, 'g) health_env \<Rightarrow> 'w sink \<Rightarrow> clock
     \<Rightarrow> (WebSocketError + WsFrame) option
     \<Rightarrow> ('h, 'w, 's, 'p, 'g) health_connection \<Rightarrow> ('h, 'w, 's, 'p, 'g) arm_result" where
  "health_on_read H E send clk maybe_frame c =
     (case maybe_frame of
        Some (Inr frame) \<Rightarrow> health_on_frame H E send clk frame c
      | Some (Inl error) \<Rightarrow>
          (Break (ReadFailure (ws_error_to_string error)),
           c\<lparr>conn_monitor :=
               record_internal_error (clk 0) ''read'' (ws_error_to_string error) (conn_monitor c)\<rparr>)
      | None \<Rightarrow> (Break RemoteClosed, c))"

section \<open>The whole loop\<close>

definition health_enter ::
  "('h, 'r, 'w, 's, 'p, 'g) health_loop \<Rightarrow> ('h, 'r, 'w, 's, 'p, 'g) health_loop" where
  "health_enter s = (enter_connect s)\<lparr>monitor := record_connect_attempt (monitor s)\<rparr>"

definition start_health_loop ::
  "'h \<Rightarrow> 'r \<Rightarrow> ('p, 'g) RequiredWsHealth \<Rightarrow> ('h, 'r, 'w, 's, 'p, 'g) health_loop" where
  "start_health_loop h r health =
     health_enter
       \<lparr>phase = AwaitConnect, handler = h, reconnect = r,
        status = ws_status_to_u8 Disconnected, is_reconnect = False, pending_commands = [],
        ping_pong = rh_ping_pong health, monitor = rh_monitor health, ping_deadline = 0,
        session_ended = False\<rparr>"

definition health_retry ::
  "('h, 'r, 'w, 's, 'p, 'g) health_loop \<Rightarrow> ('h, 'r, 'w, 's, 'p, 'g) health_loop" where
  "health_retry s =
     (let s = (if session_ended s then s\<lparr>monitor := increment_reconnect (monitor s)\<rparr> else s)
      in health_enter (s\<lparr>is_reconnect := True\<rparr>))"

definition log_failure ::
  "instant \<Rightarrow> string \<Rightarrow> WebSocketError \<Rightarrow> ('h, 'r, 'w, 's, 'p, 'g) health_loop
     \<Rightarrow> ('h, 'r, 'w, 's, 'p, 'g) health_loop" where
  "log_failure now context error s =
     s\<lparr>monitor := record_internal_error now context (ws_error_to_string error) (monitor s)\<rparr>"

definition health_disconnect ::
  "('h, 'm, 's, 'v) WsEndpointHandler \<Rightarrow> 'r WsReconnectStrategy \<Rightarrow> bool \<Rightarrow> WsDisconnectCause
     \<Rightarrow> ('h, 'r, 'w, 's, 'p, 'g) health_loop \<Rightarrow> ('h, 'r, 'w, 's, 'p, 'g) health_loop" where
  "health_disconnect H R ended cause s =
     (let s = s\<lparr>status := ws_status_to_u8 Disconnected, session_ended := ended\<rparr>;
          s = (if ended \<and> (cause = PongTimeout \<or> cause = StaleData)
               then s\<lparr>monitor := record_error (monitor s)\<rparr> else s)
      in case decide_reconnect H R cause s of
           None \<Rightarrow> s\<lparr>phase := Panicked\<rparr>
         | Some (delay, s) \<Rightarrow> act_on_delay health_retry delay s)"

definition health_disconnect_setup ::
  "('h, 'm, 's, 'v) WsEndpointHandler \<Rightarrow> 'r WsReconnectStrategy \<Rightarrow> WsDisconnectCause
     \<Rightarrow> ('h, 'r, 'w, 's, 'p, 'g) health_loop \<Rightarrow> ('h, 'r, 'w, 's, 'p, 'g) health_loop" where
  "health_disconnect_setup H R cause s =
     (let s = s\<lparr>session_ended := False\<rparr>
      in case decide_reconnect H R cause s of
           None \<Rightarrow> s\<lparr>phase := Panicked\<rparr>
         | Some (delay, s) \<Rightarrow>
             act_on_delay health_retry delay (s\<lparr>status := ws_status_to_u8 Disconnected\<rparr>))"

definition health_on_connected ::
  "('h, 'm, 's, 'v) WsEndpointHandler \<Rightarrow> 'r WsReconnectStrategy \<Rightarrow> ('p, 'g) health_env \<Rightarrow> 'w sink
     \<Rightarrow> clock \<Rightarrow> 'w \<Rightarrow> ('h, 'r, 'w, 's, 'p, 'g) health_loop \<Rightarrow> ('h, 'r, 'w, 's, 'p, 'g) health_loop" where
  "health_on_connected H R E send clk w s =
     (case reset_connection (hist E) (clk 0) (record_connect_success (monitor s)) of
        None \<Rightarrow> s\<lparr>monitor := record_connect_success (monitor s), phase := Panicked\<rparr>
      | Some m \<Rightarrow>
          (let s = s\<lparr>monitor := m, ping_pong := ping_reset (strategy E) (ping_pong s),
                     reconnect := reset_delay R (reconnect s), status := ws_status_to_u8 Connected\<rparr>;
               h = announce_open H (is_reconnect s) (handler s)
           in case send_auth H send (h, w) of
                (Inl error, h, w) \<Rightarrow>
                  health_disconnect_setup H R (internal ''auth_send'' error)
                    (log_failure (clk 1) ''auth_send'' error (s\<lparr>handler := h\<rparr>))
              | (Inr _, h, w) \<Rightarrow>
                  (let authenticated = (session_mode H h = Public);
                       opened = (\<lambda>h w. s\<lparr>handler := h, phase := AwaitEvent w authenticated,
                                          ping_deadline := sleep_deadline E (clk 2)
                                            (ping_interval (strategy E) (ping_pong s))\<rparr>)
                   in if authenticated
                      then (case replay_subscriptions H send (h, w) of
                              (Inl error, h, w) \<Rightarrow>
                                health_disconnect_setup H R (internal ''subscription_replay'' error)
                                  (log_failure (clk 1) ''subscription_replay'' error (s\<lparr>handler := h\<rparr>))
                            | (Inr _, h, w) \<Rightarrow> opened h w)
                      else opened h w)))"

definition connection_of ::
  "'w \<Rightarrow> bool \<Rightarrow> ('h, 'r, 'w, 's, 'p, 'g) health_loop \<Rightarrow> ('h, 'w, 's, 'p, 'g) health_connection" where
  "connection_of w auth s =
     \<lparr>conn_handler = handler s, conn_writer = w, session_authenticated = auth,
      pending_auth_commands = pending_commands s, conn_ping = ping_pong s,
      conn_monitor = monitor s, conn_deadline = ping_deadline s\<rparr>"

definition health_after_arm ::
  "('h, 'm, 's, 'v) WsEndpointHandler \<Rightarrow> 'r WsReconnectStrategy \<Rightarrow> ('h, 'w, 's, 'p, 'g) arm_result
     \<Rightarrow> ('h, 'r, 'w, 's, 'p, 'g) health_loop \<Rightarrow> ('h, 'r, 'w, 's, 'p, 'g) health_loop" where
  "health_after_arm H R result s =
     (let (ctl, c) = result;
          s = s\<lparr>handler := conn_handler c, pending_commands := pending_auth_commands c,
                ping_pong := conn_ping c, monitor := conn_monitor c, ping_deadline := conn_deadline c\<rparr>
      in case ctl of
           Stay \<Rightarrow> s\<lparr>phase := AwaitEvent (conn_writer c) (session_authenticated c)\<rparr>
         | Break cause \<Rightarrow> health_disconnect H R True cause s
         | Return \<Rightarrow> s\<lparr>status := ws_status_to_u8 Disconnected, phase := Returned\<rparr>)"

fun health_loop_step ::
  "('h, 'm, 's, 'v) WsEndpointHandler \<Rightarrow> 'r WsReconnectStrategy \<Rightarrow> ('p, 'g) health_env \<Rightarrow> 'w sink
     \<Rightarrow> ('w, 's) health_event \<Rightarrow> ('h, 'r, 'w, 's, 'p, 'g) health_loop
     \<Rightarrow> ('h, 'r, 'w, 's, 'p, 'g) health_loop" where
  "health_loop_step H R E send ev s =
     (case (phase s, ev) of
        (AwaitConnect, HConnect clk (Inl err)) \<Rightarrow>
          health_disconnect H R False (internal ''connect'' err) (log_failure (clk 0) ''connect'' err s)
      | (AwaitConnect, HConnect clk (Inr w)) \<Rightarrow> health_on_connected H R E send clk w s
      | (AwaitEvent w auth, HCommand clk command) \<Rightarrow>
          health_after_arm H R (health_on_command H send clk command (connection_of w auth s)) s
      | (AwaitEvent w auth, HRead clk maybe_frame) \<Rightarrow>
          health_after_arm H R (health_on_read H E send clk maybe_frame (connection_of w auth s)) s
      | (AwaitEvent w auth, HPing clk) \<Rightarrow>
          if ping_deadline s \<le> clk 0
          then (case health_on_ping H E send clk (connection_of w auth s) of
                  None \<Rightarrow> s\<lparr>phase := Panicked\<rparr>
                | Some result \<Rightarrow> health_after_arm H R result s)
          else s
      | (AwaitDelay, HCommand clk command) \<Rightarrow>
          if ends_loop command then s\<lparr>phase := Returned\<rparr> else health_retry s
      | (AwaitDelay, HDelay) \<Rightarrow> health_retry s
      | _ \<Rightarrow> s)"

declare health_loop_step.simps [simp del]

definition health_loop_run ::
  "('h, 'm, 's, 'v) WsEndpointHandler \<Rightarrow> 'r WsReconnectStrategy \<Rightarrow> ('p, 'g) health_env \<Rightarrow> 'w sink
     \<Rightarrow> ('w, 's) health_event list \<Rightarrow> ('h, 'r, 'w, 's, 'p, 'g) health_loop
     \<Rightarrow> ('h, 'r, 'w, 's, 'p, 'g) health_loop" where
  "health_loop_run H R E send evs s = fold (health_loop_step H R E send) evs s"

end
