(* ===== verification/Managed_Health_Properties.thy ===== *)
theory Managed_Health_Properties
  imports Managed_Health Managed_Fixture Core_Properties
begin

text \<open>
  The health-checked loop against the plain one: as long as the heartbeat does not intervene
  the two do the same, and what the heartbeat adds when it does.
\<close>

section \<open>Erasing the health state\<close>

definition erase_loop :: "('h, 'r, 'w, 's, 'p, 'g) health_loop \<Rightarrow> ('h, 'r, 'w, 's) managed_loop" where
  "erase_loop s =
     \<lparr>phase = phase s, handler = handler s, reconnect = reconnect s, status = status s,
      is_reconnect = is_reconnect s, pending_commands = pending_commands s\<rparr>"

definition erase_conn :: "('h, 'w, 's, 'p, 'g) health_connection \<Rightarrow> ('h, 'w, 's) connection" where
  "erase_conn c =
     \<lparr>conn_handler = conn_handler c, conn_writer = conn_writer c,
      session_authenticated = session_authenticated c, pending_auth_commands = pending_auth_commands c\<rparr>"

definition erase_result :: "('h, 'w, 's, 'p, 'g) arm_result \<Rightarrow> loop_control \<times> ('h, 'w, 's) connection" where
  "erase_result r = (fst r, erase_conn (snd r))"

fun plain_events :: "('w, 's) health_event \<Rightarrow> ('w, 's) loop_event list" where
  "plain_events (HConnect clk r) = [ConnectResult r]"
| "plain_events (HCommand clk c) = [Command c]"
| "plain_events (HRead clk m) = [Read m]"
| "plain_events (HPing clk) = []"
| "plain_events HDelay = [DelayElapsed]"

text \<open>An event at which the heartbeat does not intervene: an inbound frame the strategy passes
  on, a timer that is early or finds nothing stale and no ping to send.\<close>

definition quiet_event ::
  "('p, 'g) health_env \<Rightarrow> ('w, 's) health_event \<Rightarrow> ('h, 'r, 'w, 's, 'p, 'g) health_loop \<Rightarrow> bool" where
  "quiet_event E ev s =
     (case ev of
        HRead clk (Some (Inr f)) \<Rightarrow> fst (handle_inbound (strategy E) (later 1 clk) f (ping_pong s)) = NotPong
      | HPing clk \<Rightarrow>
          clk 0 < ping_deadline s
          \<or> (\<not> ping_is_stale (strategy E) (clk 1) (ping_pong s) \<and> \<not> health_is_stale (clk 2) (monitor s)
             \<and> fst (create_ping (strategy E) (later 3 clk) (ping_pong s)) = None
             \<and> clk 6 + ping_interval (strategy E) (snd (create_ping (strategy E) (later 3 clk) (ping_pong s)))
                 \<le> INSTANT_MAX)
      | _ \<Rightarrow> True)"

fun quiet_run ::
  "('h, 'm, 's, 'v) WsEndpointHandler \<Rightarrow> 'r WsReconnectStrategy \<Rightarrow> ('p, 'g) health_env \<Rightarrow> 'w sink
     \<Rightarrow> ('w, 's) health_event list \<Rightarrow> ('h, 'r, 'w, 's, 'p, 'g) health_loop \<Rightarrow> bool" where
  "quiet_run H R E send [] s = True"
| "quiet_run H R E send (ev # evs) s =
     (quiet_event E ev s \<and> quiet_run H R E send evs (health_loop_step H R E send ev s))"

lemma health_loop_run_simps [simp]:
  "health_loop_run H R E send [] s = s"
  "health_loop_run H R E send (ev # evs) s = health_loop_run H R E send evs (health_loop_step H R E send ev s)"
  by (simp_all add: health_loop_run_def)

named_theorems erase_simps

lemma erase_fields [erase_simps]:
  "phase (erase_loop s) = phase s" "handler (erase_loop s) = handler s"
  "reconnect (erase_loop s) = reconnect s" "status (erase_loop s) = status s"
  "is_reconnect (erase_loop s) = is_reconnect s" "pending_commands (erase_loop s) = pending_commands s"
  "conn_handler (erase_conn c) = conn_handler c" "conn_writer (erase_conn c) = conn_writer c"
  "session_authenticated (erase_conn c) = session_authenticated c"
  "pending_auth_commands (erase_conn c) = pending_auth_commands c"
  by (simp_all add: erase_loop_def erase_conn_def)

lemma erase_updates [erase_simps]:
  "erase_loop (s\<lparr>phase := a\<rparr>) = erase_loop s\<lparr>phase := a\<rparr>"
  "erase_loop (s\<lparr>handler := b\<rparr>) = erase_loop s\<lparr>handler := b\<rparr>"
  "erase_loop (s\<lparr>reconnect := c\<rparr>) = erase_loop s\<lparr>reconnect := c\<rparr>"
  "erase_loop (s\<lparr>status := d\<rparr>) = erase_loop s\<lparr>status := d\<rparr>"
  "erase_loop (s\<lparr>is_reconnect := e\<rparr>) = erase_loop s\<lparr>is_reconnect := e\<rparr>"
  "erase_loop (s\<lparr>pending_commands := f\<rparr>) = erase_loop s\<lparr>pending_commands := f\<rparr>"
  "erase_loop (s\<lparr>ping_pong := p\<rparr>) = erase_loop s" "erase_loop (s\<lparr>monitor := m\<rparr>) = erase_loop s"
  "erase_loop (s\<lparr>ping_deadline := t\<rparr>) = erase_loop s" "erase_loop (s\<lparr>session_ended := x\<rparr>) = erase_loop s"
  by (simp_all add: erase_loop_def)

lemma erase_conn_updates [erase_simps]:
  "erase_conn (c\<lparr>conn_handler := h\<rparr>) = erase_conn c\<lparr>conn_handler := h\<rparr>"
  "erase_conn (c\<lparr>conn_writer := w\<rparr>) = erase_conn c\<lparr>conn_writer := w\<rparr>"
  "erase_conn (c\<lparr>session_authenticated := a\<rparr>) = erase_conn c\<lparr>session_authenticated := a\<rparr>"
  "erase_conn (c\<lparr>pending_auth_commands := q\<rparr>) = erase_conn c\<lparr>pending_auth_commands := q\<rparr>"
  "erase_conn (c\<lparr>conn_ping := p\<rparr>) = erase_conn c" "erase_conn (c\<lparr>conn_monitor := m\<rparr>) = erase_conn c"
  "erase_conn (c\<lparr>conn_deadline := t\<rparr>) = erase_conn c"
  "erase_conn (put_hw hw c) = set_hw hw (erase_conn c)"
  by (simp_all add: erase_conn_def put_hw_def set_hw_def)

lemma erase_decide:
  "decide_reconnect H R cause (erase_loop s)
     = map_option (\<lambda>(d, s). (d, erase_loop s)) (decide_reconnect H R cause s)"
  by (simp add: decide_reconnect_def erase_simps Let_def split: option.split)

lemma erase_retry [erase_simps]: "erase_loop (health_retry s) = retry_connect (erase_loop s)"
  by (simp add: health_retry_def health_enter_def retry_connect_def enter_connect_def erase_simps Let_def)

lemma erase_act [erase_simps]:
  "erase_loop (act_on_delay health_retry d s) = act_on_delay retry_connect d (erase_loop s)"
  by (simp add: act_on_delay_def erase_simps split: option.split)

lemma erase_disconnect [erase_simps]:
  "erase_loop (health_disconnect H R ended cause s) = disconnect H R cause (erase_loop s)"
proof -
  let ?s = "s\<lparr>status := ws_status_to_u8 Disconnected, session_ended := ended\<rparr>"
  let ?t = "if ended \<and> (cause = PongTimeout \<or> cause = StaleData)
            then ?s\<lparr>monitor := record_error (monitor ?s)\<rparr> else ?s"
  have t: "erase_loop s\<lparr>status := ws_status_to_u8 Disconnected\<rparr> = erase_loop ?t" by (simp add: erase_simps)
  show ?thesis
    unfolding disconnect_def Let_def t erase_decide health_disconnect_def
    by (auto simp: erase_simps split: option.split)
qed

lemma erase_disconnect_setup [erase_simps]:
  "erase_loop (health_disconnect_setup H R cause s) = disconnect_setup H R cause (erase_loop s)"
proof -
  have t: "erase_loop s = erase_loop (s\<lparr>session_ended := False\<rparr>)" by (simp add: erase_simps)
  show ?thesis
    unfolding disconnect_setup_def health_disconnect_setup_def Let_def t erase_decide
    by (auto simp: erase_simps split: option.split)
qed

lemma erase_log_failure [erase_simps]: "erase_loop (log_failure now context e s) = erase_loop s"
  by (simp add: log_failure_def erase_simps)

lemma erase_connected:
  assumes "new_latency_histogram (hist E) \<noteq> None"
  shows "erase_loop (health_on_connected H R E send clk w s) = on_connected H R send w (erase_loop s)"
  using assms
  by (auto simp: health_on_connected_def on_connected_def reset_connection_def erase_simps Let_def
           split: prod.split sum.split)

lemma erase_fail [erase_simps]: "erase_result (fail now ctx e c) = (Break (InternalError ctx e), erase_conn c)"
  by (simp add: erase_result_def fail_def erase_simps)

lemma erase_sent [erase_simps]: "erase_result (sent now c) = (Stay, erase_conn c)"
  by (simp add: erase_result_def sent_def erase_simps)

lemma erase_pair [erase_simps]: "erase_result (ctl, c) = (ctl, erase_conn c)"
  by (simp add: erase_result_def)

lemma erase_command:
  "erase_result (health_on_command H send clk cmd c) = on_command H send cmd (erase_conn c)"
  by (auto simp: health_on_command_def on_command_def erase_simps internal_def
           split: option.split ManagedWsCommand.split prod.split sum.split)

lemma erase_action:
  "erase_result (health_on_action H send clk a c) = on_message_action H send a (erase_conn c)"
  by (cases a)
     (auto simp: health_on_action_def on_message_action_def health_on_authenticated_def
                 on_session_authenticated_def erase_simps internal_def Let_def
           split: prod.split sum.split)

lemma erase_read:
  assumes "\<And>f. m = Some (Inr f) \<Longrightarrow> fst (handle_inbound (strategy E) (later 1 clk) f (conn_ping c)) = NotPong"
  shows "erase_result (health_on_read H E send clk m c) = on_read H send m (erase_conn c)"
  using assms
  by (auto simp: health_on_read_def on_read_def health_on_frame_def health_on_parse_def on_frame_def
                 erase_simps erase_action Let_def
           split: option.split sum.split prod.split WsParseOutcome.split)

lemma erase_connection_of [erase_simps]:
  "erase_conn (connection_of w a s) =
     \<lparr>conn_handler = handler (erase_loop s), conn_writer = w, session_authenticated = a,
      pending_auth_commands = pending_commands (erase_loop s)\<rparr>"
  by (simp add: connection_of_def erase_conn_def erase_loop_def)

lemma erase_after_arm:
  assumes "erase_result result = arm (erase_conn (connection_of w a s))"
  shows "erase_loop (health_after_arm H R result s) = in_connection H R arm w a (erase_loop s)"
proof -
  obtain ctl c where r: "result = (ctl, c)" by (cases result)
  have "arm (erase_conn (connection_of w a s)) = (ctl, erase_conn c)"
    using assms r by (simp add: erase_simps)
  then show ?thesis
    by (cases ctl) (simp_all add: r health_after_arm_def in_connection_def erase_simps Let_def)
qed

lemma quiet_ping_step:
  assumes "quiet_event E (HPing clk) s"
  shows "erase_loop (health_loop_step H R E send (HPing clk) s) = erase_loop s"
proof (cases "phase s")
  case (AwaitEvent w a)
  let ?p = "create_ping (strategy E) (later 3 clk) (ping_pong s)"
  show ?thesis
  proof (cases "ping_deadline s \<le> clk 0")
    case True
    then have "health_on_ping H E send clk (connection_of w a s) =
        Some (Stay, (connection_of w a s)\<lparr>conn_ping := snd ?p,
                conn_deadline := clk 6 + ping_interval (strategy E) (snd ?p)\<rparr>)"
      using assms
      by (simp add: quiet_event_def health_on_ping_def connection_of_def instant_add_def split_beta Let_def)
    then show ?thesis
      using True AwaitEvent
      by (simp add: health_loop_step.simps health_after_arm_def connection_of_def erase_loop_def)
  qed (use AwaitEvent in \<open>simp add: health_loop_step.simps\<close>)
qed (simp_all add: health_loop_step.simps)

lemma quiet_step:
  assumes "new_latency_histogram (hist E) \<noteq> None" and "quiet_event E ev s"
  shows "erase_loop (health_loop_step H R E send ev s)
           = managed_run H R send (plain_events ev) (erase_loop s)"
proof (cases ev)
  case (HConnect clk r)
  then show ?thesis
    by (cases "phase s"; cases r)
       (simp_all add: health_loop_step.simps managed_step.simps erase_simps erase_connected [OF assms(1)])
next
  case (HCommand clk c)
  then show ?thesis
    by (cases "phase s")
       (simp_all add: health_loop_step.simps managed_step.simps erase_fields erase_updates erase_retry
                      erase_after_arm [where arm = "on_command H send c"] erase_command)
next
  case (HRead clk m)
  have "erase_result (health_on_read H E send clk m (connection_of w a s))
      = on_read H send m (erase_conn (connection_of w a s))" for w a
    using assms(2) HRead by (intro erase_read) (simp add: quiet_event_def connection_of_def)
  then show ?thesis
    using HRead
    by (cases "phase s")
       (simp_all add: health_loop_step.simps managed_step.simps erase_fields
                      erase_after_arm [where arm = "on_read H send m"])
next
  case (HPing clk)
  then show ?thesis using quiet_ping_step assms(2) by simp
next
  case HDelay
  then show ?thesis
    by (cases "phase s") (simp_all add: health_loop_step.simps managed_step.simps erase_simps)
qed

lemma quiet_run_erases:
  assumes "new_latency_histogram (hist E) \<noteq> None" and "quiet_run H R E send evs s"
  shows "erase_loop (health_loop_run H R E send evs s)
           = managed_run H R send (concat (map plain_events evs)) (erase_loop s)"
  using assms(2)
  by (induction evs arbitrary: s) (simp_all add: managed_run_append quiet_step [OF assms(1)])

section \<open>Status and monitor\<close>

lemma after_arm_as_plain:
  "erase_loop (health_after_arm H R result s)
     = in_connection H R (\<lambda>_. erase_result result) w a (erase_loop s)"
  by (rule erase_after_arm) simp

lemma health_status_step:
  assumes "status_ok (erase_loop s)"
  shows "status_ok (erase_loop (health_loop_step H R E send ev s))"
proof (cases "phase s")
  case AwaitConnect
  have "status_ok (erase_loop (health_on_connected H R E send clk w s))" for clk w
  proof (cases "new_latency_histogram (hist E)")
    case None
    then show ?thesis
      by (simp add: health_on_connected_def reset_connection_def erase_simps status_ok_def)
  qed (simp add: erase_connected)
  then show ?thesis
    using assms AwaitConnect
    by (cases ev) (auto simp: health_loop_step.simps erase_disconnect split: sum.split)
next
  case (AwaitEvent w a)
  have arm: "status_ok (erase_loop (health_after_arm H R result s))" for result
    unfolding after_arm_as_plain [of H R result s w a]
    using assms AwaitEvent by (intro status_ok_in_connection) (simp_all add: erase_fields)
  have "status_ok (erase_loop (s\<lparr>phase := Panicked\<rparr>))" by (simp add: status_ok_def erase_simps)
  then show ?thesis
    using assms AwaitEvent arm by (cases ev) (auto simp: health_loop_step.simps split: option.split)
next
  case AwaitDelay
  have "status_ok (erase_loop (health_retry s))" unfolding erase_retry by (simp add: status_ok_def)
  moreover have "status_ok (erase_loop (s\<lparr>phase := Returned\<rparr>))"
    using assms AwaitDelay by (simp add: status_ok_def erase_simps)
  ultimately show ?thesis
    using assms AwaitDelay by (cases ev) (auto simp: health_loop_step.simps)
qed (use assms in \<open>simp_all add: health_loop_step.simps\<close>)

lemma health_status_run:
  "status_ok (erase_loop s) \<Longrightarrow> status_ok (erase_loop (health_loop_run H R E send evs s))"
  by (induction evs arbitrary: s) (simp_all add: health_status_step)

lemma health_status_start: "status_ok (erase_loop (start_health_loop h r q))"
  by (simp add: start_health_loop_def health_enter_def enter_connect_def erase_simps status_ok_def)

section \<open>A peer that never answers\<close>

text \<open>Timer events, each due (the first at \<open>d\<close>, the next ones \<open>i\<close> after the one before) and
  handled within \<open>t\<close> of the ping before it (the first of them sent at \<open>tp\<close>).\<close>

fun prompt_ticks :: "duration \<Rightarrow> duration \<Rightarrow> instant \<Rightarrow> instant \<Rightarrow> clock list \<Rightarrow> bool" where
  "prompt_ticks t i d tp [] = True"
| "prompt_ticks t i d tp (clk # clks) =
     (d \<le> clk 0 \<and> clk 1 - tp \<le> t \<and> clk 6 + i \<le> INSTANT_MAX \<and> prompt_ticks t i (clk 6 + i) (clk 3) clks)"

lemma protocol_tick:
  assumes "strategy E = protocol_ping_pong" and "phase s = AwaitEvent w a"
    and "last_ping (ping_pong s) = Some tp" and "clk 1 - tp \<le> Heartbeat.timeout (ping_pong s)"
    and "\<And>f w. isl (fst (send f w)) = False" and "\<not> health_is_stale (clk 2) (monitor s)"
    and "clk 6 + interval (ping_pong s) \<le> INSTANT_MAX" and "ping_deadline s \<le> clk 0"
  shows "\<exists>w' s'. health_loop_step H R E send (HPing clk) s = s' \<and> phase s' = AwaitEvent w' a
     \<and> ping_pong s' = ping_pong s\<lparr>last_ping := Some (clk 3)\<rparr>
     \<and> stale_threshold (monitor s') = stale_threshold (monitor s)
     \<and> last_message_received (monitor s') = last_message_received (monitor s)
     \<and> ping_deadline s' = clk 6 + interval (ping_pong s)"
proof -
  obtain u w' where sd: "send (Ping []) w = (Inr u, w')"
    using assms(5) [of "Ping []" w] by (cases "send (Ping []) w"; cases "fst (send (Ping []) w)") auto
  have "\<not> ping_is_stale (strategy E) (clk 1) (ping_pong s)"
    using assms(1,3,4) by (simp add: heartbeat_defs)
  then show ?thesis
    using assms(1,2,6-8) sd
    by (simp add: health_loop_step.simps health_on_ping_def connection_of_def heartbeat_defs sent_def
                  put_hw_def later_def instant_add_def health_after_arm_def record_sent_def)
qed

lemma silent_peer_ticks:
  assumes "strategy E = protocol_ping_pong" and "\<And>f w. isl (fst (send f w)) = False"
    and "phase s = AwaitEvent w a" and "last_ping (ping_pong s) = Some tp"
    and "prompt_ticks (Heartbeat.timeout (ping_pong s)) (interval (ping_pong s)) (ping_deadline s) tp clks"
    and "\<forall>clk \<in> set clks. \<not> health_is_stale (clk 2) (monitor s)"
  shows "\<exists>w'. phase (health_loop_run H R E send (map HPing clks) s) = AwaitEvent w' a"
  using assms(3-6)
proof (induction clks arbitrary: s w tp)
  case (Cons clk clks)
  let ?s = "health_loop_step H R E send (HPing clk) s"
  obtain w' where s': "phase ?s = AwaitEvent w' a" "ping_pong ?s = ping_pong s\<lparr>last_ping := Some (clk 3)\<rparr>"
      "stale_threshold (monitor ?s) = stale_threshold (monitor s)"
      "last_message_received (monitor ?s) = last_message_received (monitor s)"
      "ping_deadline ?s = clk 6 + interval (ping_pong s)"
    using protocol_tick [OF assms(1) Cons.prems(1,2), of clk send H R] Cons.prems(3,4) assms(2) by auto
  have "\<exists>w'. phase (health_loop_run H R E send (map HPing clks) ?s) = AwaitEvent w' a"
    using Cons.prems(3,4) s' by (intro Cons.IH [of ?s w' "clk 3"]) (simp_all add: health_is_stale_def)
  then show ?case by simp
qed auto

section \<open>The monitor's counters\<close>

text \<open>What everything but a new attempt, a success and a reset does to the monitor.\<close>

definition monitor_grows :: "'g WsHealthMonitor \<Rightarrow> 'g WsHealthMonitor \<Rightarrow> bool" where
  "monitor_grows m m' \<longleftrightarrow>
     (health_wf m \<longrightarrow> health_wf m') \<and> hm_connect_attempts m' = hm_connect_attempts m
     \<and> hm_connect_successes m' = hm_connect_successes m"

lemma monitor_grows_refl [simp]: "monitor_grows m m"
  by (simp add: monitor_grows_def)

lemma monitor_grows_trans: "monitor_grows m m' \<Longrightarrow> monitor_grows m' m'' \<Longrightarrow> monitor_grows m m''"
  by (simp add: monitor_grows_def)

lemma monitor_grows_ops [simp]:
  "monitor_grows m (record_message now m)" "monitor_grows m (record_sent now m)"
  "monitor_grows m (record_error m)" "monitor_grows m (record_server_error now code msg m)"
  "monitor_grows m (record_internal_error now ctx e m)" "monitor_grows m (increment_reconnect m)"
  "monitor_grows m (record_rtt ops d m)"
  by (simp_all add: monitor_grows_def) (simp_all add: health_defs record_rtt_clamps)

lemma monitor_fail [simp]: "conn_monitor (snd (fail now ctx e c)) = record_internal_error now ctx e (conn_monitor c)"
  by (simp add: fail_def)

lemma monitor_sent [simp]: "conn_monitor (snd (sent now c)) = record_sent now (conn_monitor c)"
  by (simp add: sent_def)

lemma monitor_put_hw [simp]: "conn_monitor (put_hw hw c) = conn_monitor c"
  by (simp add: put_hw_def)

lemma monitor_command: "monitor_grows (conn_monitor c) (conn_monitor (snd (health_on_command H send clk cmd c)))"
  by (auto simp: health_on_command_def split: option.split ManagedWsCommand.split prod.split sum.split)

lemma monitor_action: "monitor_grows (conn_monitor c) (conn_monitor (snd (health_on_action H send clk a c)))"
  by (cases a)
     (auto simp: health_on_action_def health_on_authenticated_def Let_def split: prod.split sum.split)

lemma monitor_parse: "monitor_grows (conn_monitor c) (conn_monitor (snd (health_on_parse H send clk f c)))"
  using monitor_action [of "c\<lparr>conn_handler := h\<rparr>" H send clk a for h a]
  by (auto simp: health_on_parse_def Let_def split: prod.split sum.split WsParseOutcome.split)

lemma monitor_read: "monitor_grows (conn_monitor c) (conn_monitor (snd (health_on_read H E send clk m c)))"
proof -
  have "monitor_grows (conn_monitor c) (conn_monitor (snd (health_on_frame H E send clk f c)))" for f
  proof -
    let ?m = "record_message (clk 0) (conn_monitor c)"
    have "monitor_grows ?m (conn_monitor (snd (health_on_frame H E send clk f c)))"
      using monitor_parse [of "c\<lparr>conn_monitor := ?m, conn_handler := h, conn_ping := p\<rparr>" H send clk f for h p]
      by (auto simp: health_on_frame_def Let_def split: prod.split sum.split WsPongResult.split option.split)
    then show ?thesis by (rule monitor_grows_trans [rotated]) simp
  qed
  then show ?thesis by (auto simp: health_on_read_def split: option.split sum.split)
qed

lemma monitor_ping:
  "health_on_ping H E send clk c = Some r \<Longrightarrow> monitor_grows (conn_monitor c) (conn_monitor (snd r))"
  by (auto simp: health_on_ping_def Let_def put_hw_def sent_def fail_def
           split: if_splits prod.splits option.splits sum.splits)

text \<open>The invariant: every success was an attempt, and while connecting one is outstanding
  (unless the counter has saturated).\<close>

definition counted :: "'g WsHealthMonitor \<Rightarrow> bool" where
  "counted m \<longleftrightarrow> health_wf m \<and> hm_connect_successes m \<le> hm_connect_attempts m"

definition counters_ok :: "('h, 'r, 'w, 's, 'p, 'g) health_loop \<Rightarrow> bool" where
  "counters_ok s \<longleftrightarrow> counted (monitor s)
     \<and> (phase s = AwaitConnect \<longrightarrow>
          saturating_add (hm_connect_successes (monitor s)) 1 \<le> hm_connect_attempts (monitor s))"

lemma counted_grows: "counted m \<Longrightarrow> monitor_grows m m' \<Longrightarrow> counted m'"
  by (simp add: counted_def monitor_grows_def)

lemma saturating_add_one_mono: "a \<le> b \<Longrightarrow> saturating_add a 1 \<le> saturating_add (b :: 'a::len word) 1"
  by (simp add: word_le_nat_alt unat_saturating_add)

lemma counters_enter: "counted (monitor s) \<Longrightarrow> counters_ok (health_enter s)"
  using saturating_add_one_mono [of "hm_connect_successes (monitor s)" "hm_connect_attempts (monitor s)"]
    saturating_add_mono [of "hm_connect_attempts (monitor s)" 1]
  by (auto simp: counters_ok_def counted_def health_enter_def record_connect_attempt_def health_wf_def
           intro: order_trans)

lemma counters_retry: "counted (monitor s) \<Longrightarrow> counters_ok (health_retry s)"
  by (auto simp: health_retry_def Let_def intro!: counters_enter elim: counted_grows)

lemma counters_act:
  "counted (monitor s) \<Longrightarrow> counters_ok (act_on_delay health_retry d s)"
  by (auto simp: act_on_delay_def counters_retry split: option.split) (simp_all add: counters_ok_def)

lemma monitor_decide: "decide_reconnect H R cause s = Some (d, s') \<Longrightarrow> monitor s' = monitor s"
  by (auto simp: decide_reconnect_def Let_def split: option.splits)

lemma counters_disconnect:
  "counted (monitor s) \<Longrightarrow> counters_ok (health_disconnect H R ended cause s)"
  "counted (monitor s) \<Longrightarrow> counters_ok (health_disconnect_setup H R cause s)"
  by (auto simp: health_disconnect_def health_disconnect_setup_def Let_def counters_ok_def [of "_\<lparr>phase := Panicked\<rparr>"]
           split: option.split intro!: counters_act dest!: monitor_decide elim: counted_grows)

lemma counters_after_arm:
  assumes "counted (monitor s)" and "monitor_grows (monitor s) (conn_monitor (snd result))"
  shows "counters_ok (health_after_arm H R result s)"
proof -
  obtain ctl c where r: "result = (ctl, c)" by (cases result)
  then have "counted (conn_monitor c)" using counted_grows [OF assms(1)] assms(2) by simp
  then show ?thesis
    by (cases ctl) (auto simp: r health_after_arm_def counters_ok_def counters_disconnect [unfolded counters_ok_def])
qed

lemma counters_connected:
  assumes "counters_ok s" and "phase s = AwaitConnect"
  shows "counters_ok (health_on_connected H R E send clk w s)"
proof -
  let ?m = "record_connect_success (monitor s)"
  have c: "counted ?m" using assms by (simp add: counters_ok_def counted_def record_connect_success_def health_wf_def)
  show ?thesis
  proof (cases "reset_connection (hist E) (clk 0) ?m")
    case None
    then show ?thesis using c by (simp add: health_on_connected_def counters_ok_def)
  next
    case (Some m)
    then have "counted m"
      using c health_wf_reset [OF _ Some] by (auto simp: counted_def reset_connection_def)
    moreover from this have "counted (record_internal_error now ctx e m)" for now ctx e
      by (rule counted_grows) simp
    ultimately show ?thesis
      using Some
      by (auto simp: health_on_connected_def log_failure_def Let_def
               split: prod.split sum.split intro!: counters_disconnect)
         (simp_all add: counters_ok_def)
  qed
qed

lemma counters_step:
  assumes "counters_ok s"
  shows "counters_ok (health_loop_step H R E send ev s)"
proof (cases "phase s")
  case AwaitConnect
  have "counted (monitor (log_failure now ctx e s))" for now ctx e
    using assms by (auto simp: log_failure_def counters_ok_def elim: counted_grows)
  then show ?thesis
    using AwaitConnect assms
    by (cases ev) (auto simp: health_loop_step.simps counters_connected counters_disconnect split: sum.split)
next
  case (AwaitEvent w a)
  have c: "counted (monitor s)" using assms by (simp add: counters_ok_def)
  have m: "conn_monitor (connection_of w a s) = monitor s" by (simp add: connection_of_def)
  have "counters_ok (s\<lparr>phase := Panicked\<rparr>)" using c by (simp add: counters_ok_def)
  then show ?thesis
    using AwaitEvent assms
      monitor_command [of "connection_of w a s"] monitor_read [of "connection_of w a s"]
      monitor_ping [of H E send _ "connection_of w a s"]
    by (cases ev) (auto simp: health_loop_step.simps m intro!: counters_after_arm [OF c] split: option.split)
next
  case AwaitDelay
  have "counted (monitor s)" using assms by (simp add: counters_ok_def)
  then show ?thesis
    using AwaitDelay assms
    by (cases ev) (auto simp: health_loop_step.simps counters_retry, simp add: counters_ok_def)
qed (use assms in \<open>simp_all add: health_loop_step.simps\<close>)

lemma counters_run: "counters_ok s \<Longrightarrow> counters_ok (health_loop_run H R E send evs s)"
  by (induction evs arbitrary: s) (simp_all add: counters_step)

section \<open>Properties\<close>

definition mock_env :: "'p WsPingPongStrategy \<Rightarrow> ('p, u64 \<times> u64) health_env" where
  "mock_env P = \<lparr>strategy = P, hist = max_histogram, sleep_deadline = (+)\<rparr>"

definition accepting :: "(WsFrame list) sink" where
  "accepting f w = (Inr (), w @ [f])"

definition open_health_loop ::
  "'p \<Rightarrow> instant \<Rightarrow> (TestEndpoint, unit, WsFrame list, string, 'p, u64 \<times> u64) health_loop" where
  "open_health_loop p d =
     \<lparr>phase = AwaitEvent [] True, handler = test_endpoint_new None, reconnect = (), status = 1,
      is_reconnect = False, pending_commands = [], ping_pong = p,
      monitor = the (health_new max_histogram 0 1000), ping_deadline = d, session_ended = False\<rparr>"

text \<open>
  C9. As long as the heartbeat does not intervene (every inbound frame is one the strategy
  passes on, every due timer finds nothing stale and no ping to send), the health-checked loop
  does what the plain loop does on the same events: the same endpoint state, frames, queue,
  status and phase.
\<close>

theorem health_loop_refines_plain:
  assumes "new_latency_histogram (hist E) \<noteq> None" and "quiet_run H R E send evs s"
  shows "erase_loop (health_loop_run H R E send evs s)
           = managed_run H R send (concat (map plain_events evs)) (erase_loop s)"
  by (rule quiet_run_erases [OF assms])

theorem health_loop_refines_plain_witness:
  "erase_loop (health_loop_run test_endpoint fast_reconnect (mock_env server_driven_ping_pong) accepting
       [HPing (\<lambda>_. 60), HRead (\<lambda>_. 61) (Some (Inr (Binary [1]))), HCommand (\<lambda>_. 62) (Some (Send [2]))]
       (open_health_loop \<lparr>check_interval = 50\<rparr> 50))
   = managed_run test_endpoint fast_reconnect accepting
       (concat (map plain_events
         [HPing (\<lambda>_. 60), HRead (\<lambda>_. 61) (Some (Inr (Binary [1]))), HCommand (\<lambda>_. 62) (Some (Send [2]))]))
       (erase_loop (open_health_loop \<lparr>check_interval = 50\<rparr> 50))"
  by (rule health_loop_refines_plain)
     (simp_all add: mock_env_def max_histogram_def new_latency_histogram_def quiet_event_def
        open_health_loop_def heartbeat_defs health_is_stale_def health_new_def INSTANT_MAX_def
        health_loop_step.simps health_on_ping_def connection_of_def instant_add_def health_after_arm_def)

text \<open>
  The status published by the health-checked loop is, after any events, the one of the
  phase it is in.
\<close>

theorem health_status_tracks_phase:
  assumes "phase_status (phase (health_loop_run H R E send evs (start_health_loop h r q))) = Some st"
  shows "ws_status_from_u8 (status (health_loop_run H R E send evs (start_health_loop h r q))) = st"
  using health_status_run [OF health_status_start, of H R E send evs h r q] assms
  by (simp add: status_ok_def erase_fields)

theorem health_status_tracks_phase_witness:
  "ws_status_from_u8 (status (health_loop_run test_endpoint fast_reconnect
      (mock_env server_driven_ping_pong) accepting []
      (start_health_loop (test_endpoint_new None) ()
         \<lparr>rh_ping_pong = \<lparr>check_interval = 50\<rparr>, rh_monitor = the (health_new max_histogram 0 1000)\<rparr>)))
   = Connecting"
  by (rule health_status_tracks_phase)
     (simp add: start_health_loop_def health_enter_def enter_connect_def)

text \<open>
  C36. With \<open>ProtocolPingPong\<close> a timer that is never later than the timeout after the ping
  before it (so whenever the ping interval does not exceed the timeout) never finds the
  connection stale: each tick restarts the measurement, and a peer that answers no ping at all
  is not disconnected for it.
\<close>

theorem protocol_silent_peer_undetected:
  assumes "strategy E = protocol_ping_pong" and "\<forall>f w. \<not> isl (fst (send f w))"
    and "phase s = AwaitEvent w a" and "last_ping (ping_pong s) = Some tp"
    and "prompt_ticks (Heartbeat.timeout (ping_pong s)) (interval (ping_pong s)) (ping_deadline s) tp clks"
    and "\<forall>clk \<in> set clks. \<not> health_is_stale (clk 2) (monitor s)"
  shows "\<exists>w'. phase (health_loop_run H R E send (map HPing clks) s) = AwaitEvent w' a"
  using assms by (intro silent_peer_ticks) simp_all

theorem protocol_silent_peer_undetected_witness:
  "\<exists>w'. phase (health_loop_run test_endpoint fast_reconnect (mock_env protocol_ping_pong) accepting
      (map HPing [\<lambda>_. 20, \<lambda>_. 30, \<lambda>_. 40])
      (open_health_loop \<lparr>interval = 10, timeout = 10, last_ping = Some 10, last_pong = None\<rparr> 20))
    = AwaitEvent w' True"
  by (rule protocol_silent_peer_undetected [where tp = 10])
     (simp_all add: mock_env_def accepting_def open_health_loop_def health_is_stale_def
        health_new_def new_latency_histogram_def max_histogram_def INSTANT_MAX_def)

text \<open>
  C30. With \<open>ProtocolPingPong\<close> an inbound ping is answered at once with a pong of the same
  payload and goes no further: it is never parsed, the endpoint only observes the two frames,
  and the queue and the session's authentication are untouched.
\<close>

theorem ping_answered_not_parsed:
  assumes "ws_sink send wire" and "strategy E = protocol_ping_pong" and "phase s = AwaitEvent w a"
    and "phase (health_loop_step H R E send (HRead clk (Some (Inr (Ping b)))) s) = AwaitEvent w' a'"
  shows "wire w' = wire w @ [Pong b] \<and> a' = a
     \<and> handler (health_loop_step H R E send (HRead clk (Some (Inr (Ping b)))) s)
         = on_outbound_frame H (Pong b) (on_inbound_frame H (Ping b) (handler s))
     \<and> pending_commands (health_loop_step H R E send (HRead clk (Some (Inr (Ping b)))) s) = pending_commands s"
proof -
  have no: "phase (health_disconnect H R True cause s') \<noteq> AwaitEvent w' a'" for cause s'
    using disconnect_not_open(1) [of H R cause "erase_loop s'" w' a']
    by (simp add: erase_disconnect [of H R True cause s', symmetric] erase_fields)
  obtain res w2 where sd: "send (Pong b) w = (res, w2)" by (cases "send (Pong b) w")
  show ?thesis
  proof (cases res)
    case (Inl e)
    then show ?thesis
      using assms(2-4) sd
      by (simp add: no health_loop_step.simps health_on_read_def health_on_frame_def connection_of_def
            heartbeat_defs health_after_arm_def fail_def put_hw_def)
  next
    case (Inr u)
    then have "wire w2 = wire w @ [Pong b]" using ws_sink.send_accepts [OF assms(1) carried_simps(4)] sd by simp
    then show ?thesis
      using assms(2-4) sd Inr
      by (simp add: health_loop_step.simps health_on_read_def health_on_frame_def connection_of_def
            heartbeat_defs health_after_arm_def sent_def put_hw_def)
  qed
qed

lemma accepting_sink: "ws_sink accepting (\<lambda>w. w)"
  by unfold_locales (simp_all add: accepting_def)

theorem ping_answered_not_parsed_witness:
  "\<exists>w' a'. phase (health_loop_step test_endpoint fast_reconnect (mock_env protocol_ping_pong) accepting
         (HRead (\<lambda>_. 5) (Some (Inr (Ping [7]))))
         (open_health_loop \<lparr>interval = 10, timeout = 10, last_ping = None, last_pong = None\<rparr> 20))
       = AwaitEvent w' a' \<and> w' = [] @ [Pong [7]] \<and> a'"
proof -
  let ?s = "open_health_loop \<lparr>interval = 10, timeout = 10, last_ping = None, last_pong = None\<rparr> 20"
  have w: "phase ?s = AwaitEvent [] True" by (simp add: open_health_loop_def)
  have step: "phase (health_loop_step test_endpoint fast_reconnect (mock_env protocol_ping_pong) accepting
      (HRead (\<lambda>_. 5) (Some (Inr (Ping [7])))) ?s) = AwaitEvent [Pong [7]] True"
    by (simp add: open_health_loop_def health_loop_step.simps health_on_read_def health_on_frame_def
          connection_of_def heartbeat_defs health_after_arm_def sent_def put_hw_def mock_env_def accepting_def)
  have "strategy (mock_env protocol_ping_pong) = protocol_ping_pong" by (simp add: mock_env_def)
  from ping_answered_not_parsed [OF accepting_sink this w step] show ?thesis using step by blast
qed

text \<open>
  C29. Started with a new monitor, the health-checked loop keeps it well formed through any
  events (both error logs bounded, no record over 1024 bytes per text), and the number of
  successful connects it reports never exceeds the number of attempts.
\<close>

theorem health_counters_consistent:
  assumes "required_health_new E now p th = Some q"
  shows "health_wf (monitor (health_loop_run H R E send evs (start_health_loop h r q)))
     \<and> hm_connect_successes (monitor (health_loop_run H R E send evs (start_health_loop h r q)))
         \<le> hm_connect_attempts (monitor (health_loop_run H R E send evs (start_health_loop h r q)))"
proof -
  have "counted (rh_monitor q)"
    using assms health_wf_new [of "hist E" now th]
    by (auto simp: required_health_new_def counted_def health_new_def)
  then have "counters_ok (start_health_loop h r q)"
    unfolding start_health_loop_def by (intro counters_enter) simp
  then have "counters_ok (health_loop_run H R E send evs (start_health_loop h r q))" by (rule counters_run)
  then show ?thesis by (simp add: counters_ok_def counted_def)
qed

theorem health_counters_consistent_witness:
  "let q = the (required_health_new (mock_env server_driven_ping_pong) 0 \<lparr>check_interval = 50\<rparr> 1000);
       s = health_loop_run test_endpoint fast_reconnect (mock_env server_driven_ping_pong) accepting
             [HConnect (\<lambda>_. 1) (Inl (ConnectionFailed ''refused'')), HDelay, HConnect (\<lambda>_. 9) (Inr [])]
             (start_health_loop (test_endpoint_new None) () q)
   in health_wf (monitor s) \<and> hm_connect_successes (monitor s) \<le> hm_connect_attempts (monitor s)"
proof -
  have "required_health_new (mock_env server_driven_ping_pong) 0 \<lparr>check_interval = 50\<rparr> 1000
      = Some (the (required_health_new (mock_env server_driven_ping_pong) 0 \<lparr>check_interval = 50\<rparr> 1000))"
    by (simp add: required_health_new_def mock_env_def health_new_def new_latency_histogram_def max_histogram_def)
  from health_counters_consistent [OF this] show ?thesis unfolding Let_def .
qed

end
