(* ===== verification/Managed_Handle.thy ===== *)
theory Managed_Handle
  imports Managed_Safety Managed_Health Channels
begin

text \<open>
  The handle of a managed loop (\<^verbatim>\<open>src/src/ws/managed.rs\<close>): spawning the task, the command
  channel between the two, \<open>status_snapshot\<close>, \<open>shutdown_with_timeout\<close> and \<open>Drop\<close>.  The task
  is described by the two loops of \<open>Managed\<close> and \<open>Managed_Health\<close> through the locale
  \<open>managed_body\<close>.  Of the runtime the model uses what tokio documents: an aborted task does
  not run again, a task that ends drops its receiver, and dropping a \<open>JoinHandle\<close> without
  aborting it leaves the task running.
\<close>

section \<open>A loop as the body of a task\<close>

text \<open>What the handle can see of a loop: how it takes an event of its own, how it takes a
  received command (\<^const>\<open>None\<close>: every sender is gone), whether it is polling the channel,
  whether it has ended, and its status byte.  Taking a command may read the clock.\<close>

record ('l, 'c, 'e) loop_body =
  step_event :: "'e \<Rightarrow> 'l \<Rightarrow> 'l"
  step_command :: "'c option \<Rightarrow> clock \<Rightarrow> 'l \<Rightarrow> 'l"
  polls :: "'l \<Rightarrow> bool"
  ended :: "'l \<Rightarrow> bool"
  status_byte :: "'l \<Rightarrow> u8"

locale managed_body =
  fixes B :: "('l, 's ManagedWsCommand, 'e) loop_body"
  assumes shutdown_ends: "polls B l \<Longrightarrow> ended B (step_command B (Some Shutdown) clk l)"
    and disconnected_ends: "polls B l \<Longrightarrow> ended B (step_command B None clk l)"
    and polls_not_ended: "polls B l \<Longrightarrow> \<not> ended B l"
    and ended_stays: "ended B l \<Longrightarrow> step_event B e l = l"

section \<open>The task and its handle\<close>

datatype task_status = Spawned | Running | Finished | Aborted

text \<open>\<open>shared_status\<close>: the status byte both sides hold.  \<open>loop_handle\<close>: the handle still owns
  the task's \<open>JoinHandle\<close>.\<close>

record ('l, 'c) ManagedWsLoopHandle =
  body :: 'l
  cmd :: "'c channel"
  shared_status :: u8
  task :: task_status
  loop_handle :: bool

definition spawn_managed_ws_task :: "'l \<Rightarrow> ('l, 'c) ManagedWsLoopHandle" where
  "spawn_managed_ws_task l =
     \<lparr>body = l, cmd = channel_new, shared_status = ws_status_to_u8 Disconnected, task = Spawned,
      loop_handle = True\<rparr>"

definition status_snapshot :: "('l, 'c) ManagedWsLoopHandle \<Rightarrow> WsConnectionStatus" where
  "status_snapshot t = ws_status_from_u8 (shared_status t)"

text \<open>The steps of a task: its first poll, an event of the loop, or a poll of the command
  channel, which only takes an element when the loop is polling it.  The end of the loop drops
  the receiver.\<close>

definition task_live :: "task_status \<Rightarrow> bool" where
  "task_live st \<longleftrightarrow> st = Spawned \<or> st = Running"

definition publish ::
  "('l, 'c, 'e) loop_body \<Rightarrow> ('l, 'c) ManagedWsLoopHandle \<Rightarrow> ('l, 'c) ManagedWsLoopHandle" where
  "publish B t =
     (let t = t\<lparr>shared_status := status_byte B (body t)\<rparr>
      in if ended B (body t) then t\<lparr>task := Finished, cmd := drop_receiver (cmd t)\<rparr> else t)"

definition task_start ::
  "('l, 'c, 'e) loop_body \<Rightarrow> ('l, 'c) ManagedWsLoopHandle \<Rightarrow> ('l, 'c) ManagedWsLoopHandle" where
  "task_start B t = (if task t = Spawned then publish B (t\<lparr>task := Running\<rparr>) else t)"

definition task_event ::
  "('l, 'c, 'e) loop_body \<Rightarrow> 'e \<Rightarrow> ('l, 'c) ManagedWsLoopHandle \<Rightarrow> ('l, 'c) ManagedWsLoopHandle" where
  "task_event B e t =
     (if task t = Running then publish B (t\<lparr>body := step_event B e (body t)\<rparr>) else t)"

definition task_poll ::
  "('l, 'c, 'e) loop_body \<Rightarrow> clock \<Rightarrow> ('l, 'c) ManagedWsLoopHandle \<Rightarrow> ('l, 'c) ManagedWsLoopHandle" where
  "task_poll B clk t =
     (if task t = Running \<and> polls B (body t)
      then (case channel_recv (cmd t) of
              (Ready r, c) \<Rightarrow> publish B (t\<lparr>body := step_command B r clk (body t), cmd := c\<rparr>)
            | (Pending, c) \<Rightarrow> t)
      else t)"

definition abort_task :: "('l, 'c) ManagedWsLoopHandle \<Rightarrow> ('l, 'c) ManagedWsLoopHandle" where
  "abort_task t =
     (if task_live (task t) then t\<lparr>task := Aborted, cmd := drop_receiver (cmd t)\<rparr> else t)"

text \<open>\<open>Drop\<close>: send \<open>Shutdown\<close>, ignoring a closed channel, and abort the task if its
  \<open>JoinHandle\<close> is still there; then the sender goes away.\<close>

definition drop_handle ::
  "('l, 's ManagedWsCommand) ManagedWsLoopHandle \<Rightarrow> ('l, 's ManagedWsCommand) ManagedWsLoopHandle" where
  "drop_handle t =
     (let t = t\<lparr>cmd := snd (channel_send Shutdown (cmd t))\<rparr>;
          t = (if loop_handle t then abort_task (t\<lparr>loop_handle := False\<rparr>) else t)
      in t\<lparr>cmd := drop_sender (cmd t)\<rparr>)"

text \<open>\<open>shutdown_with_timeout\<close> up to its await, and after it.  The \<open>JoinHandle\<close> moves into the
  timeout and is dropped with it; the rest of the handle is dropped at every return.
  \<open>closed_text\<close> is the text of tokio's send error.\<close>

definition shutdown_begin ::
  "string \<Rightarrow> ('l, 's ManagedWsCommand) ManagedWsLoopHandle
     \<Rightarrow> (string + unit) \<times> ('l, 's ManagedWsCommand) ManagedWsLoopHandle" where
  "shutdown_begin closed_text t =
     (case channel_send Shutdown (cmd t) of
        (False, c) \<Rightarrow> (Inl (''failed to enqueue websocket shutdown: '' @ closed_text),
                       drop_handle (t\<lparr>cmd := c\<rparr>))
      | (True, c) \<Rightarrow> (Inr (), t\<lparr>cmd := c\<rparr>))"

definition shutdown_end ::
  "duration \<Rightarrow> bool \<Rightarrow> ('l, 's ManagedWsCommand) ManagedWsLoopHandle
     \<Rightarrow> (string + unit) \<times> ('l, 's ManagedWsCommand) ManagedWsLoopHandle" where
  "shutdown_end limit elapsed t =
     (let waits = loop_handle t; t = t\<lparr>loop_handle := False\<rparr>
      in (if waits \<and> elapsed
          then Inl (''websocket loop did not stop within '' @ show_nat (as_millis limit) @ '' ms'')
          else Inr (),
          drop_handle t))"

section \<open>The two loops as bodies\<close>

definition halted :: "'w loop_phase \<Rightarrow> bool" where
  "halted p \<longleftrightarrow> p = Returned \<or> p = Panicked"

definition plain_body ::
  "('h, 'm, 's, 'v) WsEndpointHandler \<Rightarrow> 'r WsReconnectStrategy \<Rightarrow> 'w sink
     \<Rightarrow> (('h, 'r, 'w, 's) managed_loop, 's ManagedWsCommand, ('w, 's) loop_event) loop_body" where
  "plain_body H R send =
     \<lparr>step_event = (\<lambda>e l. case e of Command _ \<Rightarrow> l | _ \<Rightarrow> managed_step H R send e l),
      step_command = (\<lambda>c _ l. managed_step H R send (Command c) l),
      polls = (\<lambda>l. polls_commands (phase l)), ended = (\<lambda>l. halted (phase l)), status_byte = status\<rparr>"

definition spawn_managed_ws_loop ::
  "'h \<Rightarrow> 'r \<Rightarrow> (('h, 'r, 'w, 's) managed_loop, 's ManagedWsCommand) ManagedWsLoopHandle" where
  "spawn_managed_ws_loop h r = spawn_managed_ws_task (start_managed_ws_loop h r)"

definition health_body ::
  "('h, 'm, 's, 'v) WsEndpointHandler \<Rightarrow> 'r WsReconnectStrategy \<Rightarrow> ('p, 'g) health_env \<Rightarrow> 'w sink
     \<Rightarrow> (('h, 'r, 'w, 's, 'p, 'g) health_loop, 's ManagedWsCommand, ('w, 's) health_event) loop_body" where
  "health_body H R E send =
     \<lparr>step_event = (\<lambda>e l. case e of HCommand _ _ \<Rightarrow> l | _ \<Rightarrow> health_loop_step H R E send e l),
      step_command = (\<lambda>c clk l. health_loop_step H R E send (HCommand clk c) l),
      polls = (\<lambda>l. polls_commands (phase l)), ended = (\<lambda>l. halted (phase l)), status_byte = status\<rparr>"

definition spawn_health_checked_managed_ws_loop ::
  "'h \<Rightarrow> 'r \<Rightarrow> ('p, 'g) RequiredWsHealth
     \<Rightarrow> (('h, 'r, 'w, 's, 'p, 'g) health_loop, 's ManagedWsCommand) ManagedWsLoopHandle" where
  "spawn_health_checked_managed_ws_loop h r health =
     spawn_managed_ws_task (start_health_loop h r health)"

lemma health_step_shutdown:
  assumes "polls_commands (phase s)" and "ends_loop c"
  shows "phase (health_loop_step H R E send (HCommand clk c) s) = Returned"
proof (cases "phase s")
  case (AwaitEvent w a)
  then show ?thesis
    using assms(2)
    by (auto simp: health_loop_step.simps health_after_arm_def health_on_command_def ends_loop_def
          connection_of_def split: option.splits ManagedWsCommand.splits)
qed (use assms in \<open>simp_all add: health_loop_step.simps polls_commands_def\<close>)

lemmas body_defs = plain_body_def health_body_def halted_def ends_loop_def

interpretation plain: managed_body "plain_body H R send"
  for H :: "('h, 'm, 's, 'v) WsEndpointHandler" and R :: "'r WsReconnectStrategy" and send :: "'w sink"
proof
  show "ended (plain_body H R send) (step_command (plain_body H R send) (Some Shutdown) e l)"
    and "ended (plain_body H R send) (step_command (plain_body H R send) None e l)"
    and "\<not> ended (plain_body H R send) l" if "polls (plain_body H R send) l" for l e
    using that step_shutdown [of l "Some Shutdown" H R send] step_shutdown [of l None H R send]
    by (auto simp: body_defs polls_commands_def)
  show "step_event (plain_body H R send) e l = l" if "ended (plain_body H R send) l" for e l
    using that by (auto simp: body_defs managed_step.simps split: loop_event.split)
qed

interpretation checked: managed_body "health_body H R E send"
  for H :: "('h, 'm, 's, 'v) WsEndpointHandler" and R :: "'r WsReconnectStrategy"
    and E :: "('p, 'g) health_env" and send :: "'w sink"
proof
  show "ended (health_body H R E send) (step_command (health_body H R E send) (Some Shutdown) e l)"
    and "ended (health_body H R E send) (step_command (health_body H R E send) None e l)"
    and "\<not> ended (health_body H R E send) l" if "polls (health_body H R E send) l" for l e
    using that health_step_shutdown [of l "Some Shutdown" H R E send]
      health_step_shutdown [of l None H R E send]
    by (auto simp: body_defs polls_commands_def)
  show "step_event (health_body H R E send) e l = l" if "ended (health_body H R E send) l" for e l
    using that by (auto simp: body_defs health_loop_step.simps split: health_event.split)
qed

section \<open>Runs of a task\<close>

datatype ('e, 'c) task_op = Start | LoopEvent 'e | PollCommands clock | HandleSend 'c

fun task_op_step ::
  "('l, 'c, 'e) loop_body \<Rightarrow> ('e, 'c) task_op \<Rightarrow> ('l, 'c) ManagedWsLoopHandle
     \<Rightarrow> ('l, 'c) ManagedWsLoopHandle" where
  "task_op_step B Start t = task_start B t"
| "task_op_step B (LoopEvent e) t = task_event B e t"
| "task_op_step B (PollCommands clk) t = task_poll B clk t"
| "task_op_step B (HandleSend c) t = t\<lparr>cmd := snd (channel_send c (cmd t))\<rparr>"

definition task_run ::
  "('l, 'c, 'e) loop_body \<Rightarrow> ('e, 'c) task_op list \<Rightarrow> ('l, 'c) ManagedWsLoopHandle
     \<Rightarrow> ('l, 'c) ManagedWsLoopHandle" where
  "task_run B ops t = fold (task_op_step B) ops t"

text \<open>The receiver lives exactly as long as the task may still run, and a task that may still
  run has a loop that has not ended.\<close>

definition task_ok :: "('l, 'c, 'e) loop_body \<Rightarrow> ('l, 'c) ManagedWsLoopHandle \<Rightarrow> bool" where
  "task_ok B t \<longleftrightarrow>
     (rx_alive (cmd t) \<longleftrightarrow> task_live (task t)) \<and> (task_live (task t) \<longrightarrow> \<not> ended B (body t))"

lemma channel_fields [simp]:
  "rx_alive (drop_receiver c) = False" "rx_alive (drop_sender c) = rx_alive c"
  "rx_alive (snd (channel_send x c)) = rx_alive c" "fst (channel_send x c) = rx_alive c"
  "rx_alive channel_new" "queue channel_new = []"
  by (simp_all add: drop_receiver_def drop_sender_def channel_send_def channel_new_def)

lemma channel_recv_rx: "channel_recv c = (p, c') \<Longrightarrow> rx_alive c' = rx_alive c"
  by (auto simp: channel_recv_def split: list.splits if_splits)

lemma task_live_simps [simp]:
  "task_live Spawned" "task_live Running" "\<not> task_live Finished" "\<not> task_live Aborted"
  by (simp_all add: task_live_def)

lemma publish_ok:
  "rx_alive (cmd t) \<Longrightarrow> task t = Running \<Longrightarrow> task_ok B (publish B t)"
  by (simp add: publish_def task_ok_def Let_def)

lemma task_ok_step: "task_ok B t \<Longrightarrow> task_ok B (task_op_step B op t)"
proof (cases op)
  case (PollCommands clk)
  assume "task_ok B t"
  with PollCommands show ?thesis
    by (auto simp: task_poll_def task_ok_def [of B t] intro!: publish_ok
          split: prod.split Poll.split dest: channel_recv_rx)
next
  case (HandleSend c)
  assume "task_ok B t"
  with HandleSend show ?thesis by (simp add: task_ok_def)
qed (auto simp: task_start_def task_event_def task_ok_def [of B t] intro!: publish_ok)

lemma task_ok_run: "task_ok B t \<Longrightarrow> task_ok B (task_run B ops t)"
  unfolding task_run_def by (rule fold_invariant [where P = "task_ok B"]) (simp_all add: task_ok_step)

lemma task_ok_spawn: "\<not> ended B l \<Longrightarrow> task_ok B (spawn_managed_ws_task l)"
  by (simp add: task_ok_def spawn_managed_ws_task_def)

lemma loop_handle_step [simp]: "loop_handle (task_op_step B op t) = loop_handle t"
  by (cases op)
     (auto simp: task_start_def task_event_def task_poll_def publish_def Let_def
        split: prod.split Poll.split)

lemma loop_handle_run [simp]: "loop_handle (task_run B ops t) = loop_handle t"
  unfolding task_run_def by (induction ops arbitrary: t) simp_all

lemma started_run: "task t \<noteq> Spawned \<Longrightarrow> task (task_run B ops t) \<noteq> Spawned"
proof -
  have "task (task_op_step B op t) \<noteq> Spawned" if "task t \<noteq> Spawned" for op t
    using that by (cases op) (auto simp: task_start_def task_event_def task_poll_def publish_def Let_def
      split: prod.split Poll.split)
  then show "task t \<noteq> Spawned \<Longrightarrow> task (task_run B ops t) \<noteq> Spawned"
    unfolding task_run_def by (intro fold_invariant [where P = "\<lambda>t. task t \<noteq> Spawned"]) auto
qed

lemma body_run_invariant:
  assumes "\<And>e l. P l \<Longrightarrow> P (step_event B e l)" and "\<And>c clk l. P l \<Longrightarrow> P (step_command B c clk l)"
    and "P (body t)"
  shows "P (body (task_run B ops t))"
proof -
  have "P (body (task_op_step B op t))" if "P (body t)" for op t
    using that assms(1,2)
    by (cases op) (auto simp: task_start_def task_event_def task_poll_def publish_def Let_def
      split: prod.split Poll.split)
  then show ?thesis
    unfolding task_run_def using assms(3) by (intro fold_invariant [where P = "\<lambda>t. P (body t)"]) auto
qed

lemma plain_status_ok:
  "status_ok (body (task_run (plain_body H R send) ops (spawn_managed_ws_loop h r)))"
  by (rule body_run_invariant)
     (auto simp: plain_body_def status_ok_step spawn_managed_ws_loop_def spawn_managed_ws_task_def
        status_ok_start split: loop_event.split)

section \<open>Shutting down\<close>

lemma drop_handle_aborts:
  "loop_handle t \<Longrightarrow> task_live (task t) \<Longrightarrow> task (drop_handle t) = Aborted \<and> \<not> rx_alive (cmd (drop_handle t))"
  by (simp add: drop_handle_def abort_task_def Let_def)

lemma drop_handle_detached: "\<not> loop_handle t \<Longrightarrow> task (drop_handle t) = task t"
  "body (drop_handle t) = body t"
  by (simp_all add: drop_handle_def abort_task_def Let_def)

lemma shutdown_begin_iff:
  "task_ok B t \<Longrightarrow> (\<exists>u. fst (shutdown_begin closed_text t) = Inr u) \<longleftrightarrow> task_live (task t)"
  by (auto simp: shutdown_begin_def task_ok_def channel_send_def)

context managed_body
begin

lemma poll_shutdown:
  assumes "task_ok B t" and "task t = Running" and "polls B (body t)" and "queue (cmd t) = []"
    and "shutdown_begin closed_text t = (r, t')"
  shows "r = Inr () \<and> task (task_poll B clk t') = Finished
    \<and> shared_status (task_poll B clk t') = status_byte B (step_command B (Some Shutdown) clk (body t))"
proof -
  have "rx_alive (cmd t)" using assms(1,2) by (simp add: task_ok_def)
  then have "r = Inr ()" "t' = t\<lparr>cmd := (cmd t)\<lparr>queue := [Shutdown]\<rparr>\<rparr>"
    using assms(4,5) by (auto simp: shutdown_begin_def channel_send_def)
  then show ?thesis
    using assms(2,3) shutdown_ends [OF assms(3)]
    by (simp add: task_poll_def channel_recv_def publish_def Let_def)
qed

end

lemma shutdown_end_detaches:
  assumes "task t = Running" and "loop_handle t"
  shows "fst (shutdown_end limit True t)
           = Inl (''websocket loop did not stop within '' @ show_nat (as_millis limit) @ '' ms'')"
    and "task (snd (shutdown_end limit True t)) = Running"
    and "\<not> loop_handle (snd (shutdown_end limit True t))"
  using assms by (simp_all add: shutdown_end_def drop_handle_def Let_def)

text \<open>A task whose loop keeps failing to connect, under an endpoint that reconnects at once,
  takes no command and does not end.\<close>

definition keeps_failing :: "(('w, 's) loop_event, 's ManagedWsCommand) task_op \<Rightarrow> bool" where
  "keeps_failing op = (case op of LoopEvent (ConnectResult (Inr _)) \<Rightarrow> False | _ \<Rightarrow> True)"

definition connecting :: "(('h, 'r, 'w, 's) managed_loop, 's ManagedWsCommand) ManagedWsLoopHandle \<Rightarrow> bool" where
  "connecting t \<longleftrightarrow> task_live (task t) \<and> phase (body t) = AwaitConnect"

lemma connecting_step:
  assumes "\<forall>h cause. classify_disconnect H h cause = ImmediateReconnect"
    and "connecting t" and "keeps_failing op"
  shows "connecting (task_op_step (plain_body H R send) op t)"
proof (cases op)
  case (LoopEvent e)
  then have "\<forall>w. e \<noteq> ConnectResult (Inr w)" using assms(3) by (auto simp: keeps_failing_def)
  with assms(2) have "phase (managed_step H R send e (body t)) = AwaitConnect"
    by (intro immediate_step_connecting [OF assms(1)]) (simp_all add: connecting_def)
  then have "phase (step_event (plain_body H R send) e (body t)) = AwaitConnect"
    using assms(2) by (cases e) (simp_all add: plain_body_def connecting_def del: step_connect)
  with LoopEvent assms(2) show ?thesis
    by (auto simp: connecting_def task_event_def publish_def Let_def plain_body_def halted_def)
qed (use assms in \<open>auto simp: connecting_def task_start_def task_poll_def publish_def Let_def
       plain_body_def halted_def polls_commands_def split: prod.split Poll.split\<close>)

lemma connecting_run:
  assumes "\<forall>h cause. classify_disconnect H h cause = ImmediateReconnect" and "list_all keeps_failing ops"
  shows "connecting t \<Longrightarrow> connecting (task_run (plain_body H R send) ops t)"
  using assms(2)
  by (induction ops arbitrary: t) (simp_all add: task_run_def connecting_step [OF assms(1)])

lemma connecting_running:
  assumes "\<forall>h cause. classify_disconnect H h cause = ImmediateReconnect" and "list_all keeps_failing ops"
    and "connecting t" and "task t = Running"
  shows "connecting (task_run (plain_body H R send) ops t)
    \<and> task (task_run (plain_body H R send) ops t) = Running"
proof -
  have "connecting (task_run (plain_body H R send) ops t)"
    using connecting_run [OF assms(1-3)] .
  moreover have "task (task_run (plain_body H R send) ops t) \<noteq> Spawned"
    using assms(4) by (intro started_run) simp
  ultimately show ?thesis by (simp add: connecting_def task_live_def)
qed

lemma plain_task_ok:
  "task_ok (plain_body H R send) (task_run (plain_body H R send) ops (spawn_managed_ws_loop h r))"
  unfolding spawn_managed_ws_loop_def
  by (intro task_ok_run task_ok_spawn)
     (simp add: plain_body_def halted_def start_managed_ws_loop_def enter_connect_def)

lemma plain_started:
  "connecting (task_op_step (plain_body H R send) Start (spawn_managed_ws_loop h r))"
  "task (task_op_step (plain_body H R send) Start (spawn_managed_ws_loop h r)) = Running"
  by (simp_all add: connecting_def task_start_def publish_def Let_def plain_body_def halted_def
        spawn_managed_ws_loop_def spawn_managed_ws_task_def start_managed_ws_loop_def enter_connect_def)

end
