(* ===== verification/Strings.thy ===== *)
theory Strings
  imports Frame "HOL-Library.Sublist"
begin

text \<open>
  The text operations of the Rust standard library that the fixture policy, the JSON-RPC test
  endpoint and the trade logger use: \<open>str::trim\<close>, \<open>str::split\<close> on a character,
  \<open>str::contains\<close>, \<open>slice::windows\<close> and the decimal parsers of \<open>u64\<close> and \<open>i64\<close>.  A
  string is the list of its UTF-8 bytes, written as characters.
\<close>

section \<open>White space\<close>

text \<open>The number of bytes of the \<open>White_Space\<close> character a text starts with (0: none):
  U+0009 to U+000D, U+0020, U+0085, U+00A0, U+1680, U+2000 to U+200A, U+2028, U+2029, U+202F,
  U+205F and U+3000.\<close>

definition byte_of :: "char \<Rightarrow> nat" where
  "byte_of c = of_char c"

fun ws_len :: "nat list \<Rightarrow> nat" where
  "ws_len (a # r) =
     (if (9 \<le> a \<and> a \<le> 13) \<or> a = 32 then 1
      else case r of
        [] \<Rightarrow> 0
      | b # r' \<Rightarrow>
          if a = 0xC2 \<and> (b = 0x85 \<or> b = 0xA0) then 2
          else case r' of
            [] \<Rightarrow> 0
          | c # _ \<Rightarrow>
              if (a = 0xE1 \<and> b = 0x9A \<and> c = 0x80)
               \<or> (a = 0xE2 \<and> b = 0x80 \<and> ((0x80 \<le> c \<and> c \<le> 0x8A) \<or> c = 0xA8 \<or> c = 0xA9 \<or> c = 0xAF))
               \<or> (a = 0xE2 \<and> b = 0x81 \<and> c = 0x9F)
               \<or> (a = 0xE3 \<and> b = 0x80 \<and> c = 0x80) then 3
              else 0)"
| "ws_len [] = 0"

text \<open>The same at the end of a text, given its bytes in reverse.\<close>

definition ws_len_rev :: "nat list \<Rightarrow> nat" where
  "ws_len_rev r =
     (if ws_len (rev (take 1 r)) = 1 then 1
      else if ws_len (rev (take 2 r)) = 2 then 2
      else if ws_len (rev (take 3 r)) = 3 then 3
      else 0)"

function trim_start :: "string \<Rightarrow> string" where
  "trim_start s = (let n = ws_len (map byte_of s) in if n = 0 \<or> s = [] then s else trim_start (drop n s))"
  by pat_completeness auto
termination
  by (relation "measure length") auto

function trim_end_rev :: "string \<Rightarrow> string" where
  "trim_end_rev s =
     (let n = ws_len_rev (map byte_of s) in if n = 0 \<or> s = [] then s else trim_end_rev (drop n s))"
  by pat_completeness auto
termination
  by (relation "measure length") auto

declare trim_start.simps [simp del] trim_end_rev.simps [simp del]

definition trim_end :: "string \<Rightarrow> string" where
  "trim_end s = rev (trim_end_rev (rev s))"

definition trim :: "string \<Rightarrow> string" where
  "trim s = trim_end (trim_start s)"

lemma trim_start_suffix: "suffix (trim_start s) s"
proof (induction s rule: trim_start.induct)
  case (1 s)
  let ?n = "ws_len (map byte_of s)"
  show ?case
  proof (cases "?n = 0 \<or> s = []")
    case True
    then show ?thesis
      by (subst trim_start.simps) (simp add: Let_def)
  next
    case False
    with 1 [OF refl] have "suffix (trim_start (drop ?n s)) (drop ?n s)"
      by blast
    also have "suffix (drop ?n s) s"
      by (rule suffix_drop)
    finally show ?thesis
      using False by (subst trim_start.simps) (simp add: Let_def)
  qed
qed

section \<open>Splitting and searching\<close>

fun split_char :: "char \<Rightarrow> string \<Rightarrow> string list" where
  "split_char sep [] = [[]]"
| "split_char sep (c # cs) =
     (if c = sep then [] # split_char sep cs
      else case split_char sep cs of [] \<Rightarrow> [[c]] | w # ws \<Rightarrow> (c # w) # ws)"

lemma split_char_not_Nil [simp]: "split_char sep s \<noteq> []"
  by (induction s) (auto split: list.splits)

lemma split_char_pieces: "w \<in> set (split_char sep s) \<Longrightarrow> sep \<notin> set w"
  by (induction s arbitrary: w) (fastforce split: list.splits if_splits)+

lemma slice_append: "take (length b) (drop (length a) (a @ b @ c)) = b"
  by simp

lemma sublist_slice: "sublist (take n (drop i xs)) xs"
  by (rule sublist_order.order_trans [OF sublist_take sublist_drop])

text \<open>\<open>slice::windows(n)\<close> for \<open>n > 0\<close>.\<close>

definition windows :: "nat \<Rightarrow> 'a list \<Rightarrow> 'a list list" where
  "windows n xs = map (\<lambda>i. take n (drop i xs)) [0..<length xs + 1 - n]"

lemma set_windows: "set (windows n xs) = {take n (drop i xs) | i. i + n \<le> length xs}"
  by (auto simp: windows_def)

lemma in_windows_sublist:
  "w \<in> set (windows (length w) xs) \<longleftrightarrow> sublist w xs"
proof
  assume "w \<in> set (windows (length w) xs)"
  then obtain i where "w = take (length w) (drop i xs)"
    by (auto simp: set_windows)
  then show "sublist w xs"
    by (metis sublist_slice)
next
  assume "sublist w xs"
  then obtain ps ss where xs: "xs = ps @ w @ ss"
    by (auto simp: sublist_def)
  then have "w = take (length w) (drop (length ps) xs)" "length ps + length w \<le> length xs"
    by simp_all
  then show "w \<in> set (windows (length w) xs)"
    unfolding set_windows by blast
qed

text \<open>\<open>str::contains\<close>.\<close>

definition str_contains :: "string \<Rightarrow> string \<Rightarrow> bool" where
  "str_contains s pat = (pat = [] \<or> pat \<in> set (windows (length pat) s))"

lemma str_contains_sublist: "str_contains s pat \<longleftrightarrow> sublist pat s"
  by (auto simp: str_contains_def in_windows_sublist)

section \<open>Decimal numbers\<close>

definition is_ascii_digit :: "nat \<Rightarrow> bool" where
  "is_ascii_digit b \<longleftrightarrow> 48 \<le> b \<and> b \<le> 57"

fun parse_digits :: "nat \<Rightarrow> string \<Rightarrow> nat option" where
  "parse_digits a [] = Some a"
| "parse_digits a (c # cs) =
     (if is_ascii_digit (byte_of c) then parse_digits (10 * a + (byte_of c - 48)) cs else None)"

text \<open>\<open>str::parse::<u64>()\<close>: an optional plus sign, at least one digit, no overflow.\<close>

definition parse_u64 :: "string \<Rightarrow> u64 option" where
  "parse_u64 s =
     (let d = (case s of c # c' # cs \<Rightarrow> if c = CHR ''+'' then c' # cs else s | _ \<Rightarrow> s)
      in if d = [] then None
         else case parse_digits 0 d of
                None \<Rightarrow> None
              | Some n \<Rightarrow> if n < 2 ^ 64 then Some (word_of_nat n) else None)"

text \<open>\<open>str::parse::<i64>()\<close>: an optional sign, at least one digit, within the range of \<open>i64\<close>.\<close>

definition parse_i64 :: "string \<Rightarrow> int option" where
  "parse_i64 s =
     (let (neg, d) = (case s of
            c # c' # cs \<Rightarrow> if c = CHR ''+'' then (False, c' # cs)
                           else if c = CHR ''-'' then (True, c' # cs) else (False, s)
          | _ \<Rightarrow> (False, s))
      in if d = [] then None
         else case parse_digits 0 d of
                None \<Rightarrow> None
              | Some n \<Rightarrow>
                  let i = (if neg then - int n else int n)
                  in if - (2 ^ 63) \<le> i \<and> i < 2 ^ 63 then Some i else None)"

lemma byte_of_digit_char: "d < 10 \<Longrightarrow> byte_of (digit_char d) = 48 + d"
  by (simp add: byte_of_def digit_char_def)

lemma parse_digits_append:
  "parse_digits a (s @ t) = (case parse_digits a s of None \<Rightarrow> None | Some b \<Rightarrow> parse_digits b t)"
  by (induction a s rule: parse_digits.induct) auto

lemma show_nat_digits: "c \<in> set (show_nat n) \<Longrightarrow> is_ascii_digit (byte_of c)"
proof (induction n arbitrary: c rule: show_nat.induct)
  case (1 n)
  have last_digit: "is_ascii_digit (byte_of (digit_char (n mod 10)))"
    by (simp add: byte_of_digit_char is_ascii_digit_def)
  show ?case
  proof (cases "n < 10")
    case True
    with "1.prems" last_digit show ?thesis
      by (simp add: show_nat.simps [of n])
  next
    case False
    with "1.prems" have "c \<in> set (show_nat (n div 10)) \<or> c = digit_char (n mod 10)"
      by (auto simp: show_nat.simps [of n])
    with "1.IH" [OF False] last_digit show ?thesis by blast
  qed
qed

lemma show_nat_not_Nil [simp]: "show_nat n \<noteq> []"
  by (simp add: show_nat.simps [of n])

lemma parse_digits_show_nat: "parse_digits 0 (show_nat n) = Some n"
proof (induction n rule: show_nat.induct)
  case (1 n)
  show ?case
  proof (cases "n < 10")
    case True
    then show ?thesis
      by (simp add: show_nat.simps [of n] byte_of_digit_char is_ascii_digit_def)
  next
    case False
    with 1 show ?thesis
      by (simp add: show_nat.simps [of n] parse_digits_append byte_of_digit_char is_ascii_digit_def)
  qed
qed

lemma digit_not_sign: "is_ascii_digit (byte_of c) \<Longrightarrow> c \<noteq> CHR ''+'' \<and> c \<noteq> CHR ''-''"
  by (auto simp: is_ascii_digit_def byte_of_def)

lemma parse_u64_digits:
  assumes "d \<noteq> []" and "\<And>c. c \<in> set d \<Longrightarrow> is_ascii_digit (byte_of c)"
  shows "parse_u64 d =
    (case parse_digits 0 d of
       None \<Rightarrow> None | Some n \<Rightarrow> if n < 2 ^ 64 then Some (word_of_nat n) else None)"
proof -
  have "(case d of c # c' # cs \<Rightarrow> if c = CHR ''+'' then c' # cs else d | _ \<Rightarrow> d) = d"
    using assms(2) digit_not_sign by (auto split: list.split)
  with assms(1) show ?thesis
    by (simp add: parse_u64_def Let_def)
qed

lemma parse_u64_show_nat:
  "parse_u64 (show_nat n) = (if n < 2 ^ 64 then Some (word_of_nat n) else None)"
  by (subst parse_u64_digits) (auto dest: show_nat_digits simp: parse_digits_show_nat)

end
