(* ===== verification/Json_Rpc.thy ===== *)
theory Json_Rpc
  imports Core_Types Strings
begin

text \<open>
  The JSON-RPC test endpoint and its byte scanners (\<^verbatim>\<open>src/src/testing.rs\<close>): \<open>memmem\<close>,
  \<open>parse_jsonrpc_id\<close>, \<open>NoSubscriptions\<close>, \<open>NoReconnect\<close> and
  \<open>JsonRpcDelegatedEndpoint\<close>.  The scanner's outer loop moves its index in several places
  and re-enters by \<open>continue\<close>: it is a partial function whose value \<^const>\<open>None\<close> would be
  a loop that never ends, and is shown to always return.
\<close>

section \<open>Searching\<close>

definition memmem :: "bytes \<Rightarrow> bytes \<Rightarrow> bool" where
  "memmem haystack needle =
     (if needle = [] then True
      else if length haystack < length needle then False
      else list_ex (\<lambda>window. window = needle) (windows (length needle) haystack))"

lemma memmem_sublist: "memmem haystack needle \<longleftrightarrow> sublist needle haystack"
proof (cases "length haystack < length needle")
  case True
  then have "\<not> sublist needle haystack" by (auto dest: sublist_length_le)
  with True show ?thesis by (auto simp: memmem_def)
next
  case False
  then show ?thesis
    by (auto simp: memmem_def list_ex_iff in_windows_sublist)
qed

section \<open>The request id scanner\<close>

definition is_ws :: "u8 \<Rightarrow> bool" where
  "is_ws b \<longleftrightarrow> b = 0x20 \<or> b = 0x0A \<or> b = 0x0D \<or> b = 0x09"

definition is_digit :: "u8 \<Rightarrow> bool" where
  "is_digit b \<longleftrightarrow> is_ascii_digit (unat b)"

text \<open>The inner loops: \<open>while i < data.len() && p(data[i]) { i += 1; }\<close>.\<close>

function skip_while :: "(u8 \<Rightarrow> bool) \<Rightarrow> bytes \<Rightarrow> nat \<Rightarrow> nat" where
  "skip_while p data i = (if i < length data \<and> p (data ! i) then skip_while p data (i + 1) else i)"
  by pat_completeness auto
termination
  by (relation "measure (\<lambda>(p, data, i). length data - i)") auto

declare skip_while.simps [simp del]

text \<open>\<open>slice::get\<close>.\<close>

definition slice_get :: "bytes \<Rightarrow> nat \<Rightarrow> u8 option" where
  "slice_get data i = (if i < length data then Some (data ! i) else None)"

definition at_id_key :: "bytes \<Rightarrow> nat \<Rightarrow> bool" where
  "at_id_key data i \<longleftrightarrow>
     data ! i = 0x22 \<and> slice_get data (i + 1) = Some 0x69 \<and> slice_get data (i + 2) = Some 0x64
       \<and> slice_get data (i + 3) = Some 0x22"

text \<open>\<open>std::str::from_utf8(..).ok()?.parse().ok()\<close> on a slice.\<close>

definition parse_slice :: "bytes \<Rightarrow> u64 option" where
  "parse_slice bs = (if utf8_valid bs then parse_u64 (map (char_of \<circ> unat) bs) else None)"

partial_function (option) scan_id :: "bytes \<Rightarrow> nat \<Rightarrow> u64 option option" where
  "scan_id data i =
     (if i + 4 < length data then
        if at_id_key data i then
          (let i = skip_while is_ws data (i + 4)
           in if length data \<le> i \<or> data ! i \<noteq> 0x3A then scan_id data i
              else let start = skip_while is_ws data (i + 1);
                       i = skip_while is_digit data start
                   in if start = i then Some None
                      else Some (parse_slice (take (i - start) (drop start data))))
        else scan_id data (i + 1)
      else Some None)"

definition parse_jsonrpc_id :: "bytes \<Rightarrow> u64 option option" where
  "parse_jsonrpc_id data = scan_id data 0"

definition frame_jsonrpc_id :: "WsFrame \<Rightarrow> u64 option option" where
  "frame_jsonrpc_id f =
     (case frame_bytes f of None \<Rightarrow> Some None | Some b \<Rightarrow> parse_jsonrpc_id b)"

section \<open>Strategies and endpoint\<close>

definition no_reconnect :: "unit WsReconnectStrategy" where
  "no_reconnect =
     \<lparr>next_delay = (\<lambda>r. Some (from_secs (24 * 60 * 60), r)), reset_delay = (\<lambda>r. r),
      should_retry = (\<lambda>r. False)\<rparr>"

definition no_initial_subscriptions :: "unit \<Rightarrow> unit list \<times> unit" where
  "no_initial_subscriptions s = ([], s)"

definition no_update_subscriptions ::
  "unit WsSubscriptionAction \<Rightarrow> unit \<Rightarrow> (string + unit list) \<times> unit" where
  "no_update_subscriptions action s = (Inr [], s)"

definition no_serialize_subscription :: "unit \<Rightarrow> unit \<Rightarrow> bytes \<times> unit" where
  "no_serialize_subscription msg s = ([], s)"

definition no_handle_subscription_response :: "bytes \<Rightarrow> unit \<Rightarrow> WsSubscriptionStatus \<times> unit" where
  "no_handle_subscription_response data s = (NotSubscriptionResponse, s)"

definition jsonrpc_parse :: "bytes \<Rightarrow> unit \<Rightarrow> (string + (unit, 'v) WsParseOutcome) \<times> unit" where
  "jsonrpc_parse data h = (Inr (Message WsMessageAction.Continue), h)"

text \<open>The endpoint's state is its (empty) subscription manager; the methods it does not define
  are the trait's defaults.\<close>

definition jsonrpc_endpoint :: "(unit, unit, unit, 'v) WsEndpointHandler" where
  "jsonrpc_endpoint =
     \<lparr>initial_subscriptions = no_initial_subscriptions,
      update_subscriptions = no_update_subscriptions,
      serialize_subscription = no_serialize_subscription,
      generate_auth = (\<lambda>h. None),
      parse_frame = default_parse_frame (default_parse_text jsonrpc_parse) jsonrpc_parse,
      handle_message = (\<lambda>msg h. (Inr (), h)),
      handle_server_error = (\<lambda>code message data h. (WsErrorAction.Continue, h)),
      reset_state = (\<lambda>h. h),
      classify_disconnect = (\<lambda>h cause. Abort),
      session_mode = (\<lambda>h. Public),
      on_open = (\<lambda>h. h),
      on_connection_opened = (\<lambda>is_reconnect h. (None, h)),
      on_connection_disconnected = (\<lambda>cause will_reconnect h. (None, h)),
      on_inbound_frame = (\<lambda>frame h. h),
      on_outbound_frame = (\<lambda>frame h. h)\<rparr>"

abbreviation id_key :: bytes where "id_key \<equiv> [0x22, 0x69, 0x64, 0x22]"
abbreviation error_key :: bytes where "error_key \<equiv> [0x22, 0x65, 0x72, 0x72, 0x6F, 0x72, 0x22]"
abbreviation result_key :: bytes where
  "result_key \<equiv> [0x22, 0x72, 0x65, 0x73, 0x75, 0x6C, 0x74, 0x22]"

definition maybe_request_response :: "bytes \<Rightarrow> bool" where
  "maybe_request_response data \<longleftrightarrow>
     memmem data id_key \<and> (memmem data result_key \<or> memmem data error_key)"

definition match_request_response :: "bytes \<Rightarrow> WsRequestMatch option option" where
  "match_request_response data =
     Option.bind (parse_jsonrpc_id data) (\<lambda>id.
       Some (Option.bind id (\<lambda>rid.
         if memmem data error_key
         then Some \<lparr>request_id = rid, match_result = Inl ''endpoint rejected'',
                    rate_limit_feedback = None\<rparr>
         else if memmem data result_key
         then Some \<lparr>request_id = rid, match_result = Inr (), rate_limit_feedback = None\<rparr>
         else None)))"

section \<open>The scanner returns\<close>

lemma skip_while_ge: "i \<le> skip_while p data i"
  by (induction p data i rule: skip_while.induct) (subst skip_while.simps, auto)

lemma scan_id_returns: "\<exists>r. scan_id data i = Some r"
proof (induction "length data - i" arbitrary: i rule: less_induct)
  case less
  show ?case
  proof (cases "i + 4 < length data")
    case False
    then show ?thesis by (subst scan_id.simps) simp
  next
    case True
    let ?j = "skip_while is_ws data (i + 4)"
    have "i < ?j" using skip_while_ge [of "i + 4" is_ws data] by simp
    then have "\<exists>r. scan_id data ?j = Some r" "\<exists>r. scan_id data (i + 1) = Some r"
      using less True by simp_all
    then show ?thesis by (subst scan_id.simps) (auto simp: Let_def)
  qed
qed

section \<open>What it returns\<close>

lemma skip_while_stop:
  "skip_while p (a @ b @ c) (length a) = length a + length b"
  if "list_all p b" and "c = [] \<or> \<not> p (hd c)"
  using that
proof (induction b arbitrary: a)
  case Nil
  then show ?case by (cases c) (subst skip_while.simps, simp)+
next
  case (Cons x b)
  have "skip_while p (a @ (x # b) @ c) (length a) = skip_while p ((a @ [x]) @ b @ c) (length (a @ [x]))"
    using Cons.prems by (subst skip_while.simps) simp
  also have "\<dots> = length a + length (x # b)"
    using Cons.IH [of "a @ [x]"] Cons.prems by simp
  finally show ?case .
qed

lemma at_id_key_sublist: "i + 4 < length data \<Longrightarrow> at_id_key data i \<longleftrightarrow> take 4 (drop i data) = id_key"
  by (auto simp: at_id_key_def slice_get_def list_eq_iff_nth_eq nth_Cons' less_Suc_eq eval_nat_numeral)

lemma scan_id_skip:
  assumes "\<forall>j. i \<le> j \<and> j < k \<longrightarrow> j + 4 < length data \<and> \<not> at_id_key data j" and "i \<le> k"
  shows "scan_id data i = scan_id data k"
  using assms(2,1)
proof (induction rule: inc_induct)
  case (step n)
  then have "scan_id data n = scan_id data (n + 1)"
    by (subst scan_id.simps) simp
  with step show ?case by simp
qed simp

lemma digit_not_ws: "is_digit b \<Longrightarrow> \<not> is_ws b"
  by (auto simp: is_digit_def is_ascii_digit_def is_ws_def)

lemma scan_id_at_key:
  assumes data: "data = pre @ id_key @ ws1 @ [0x3A] @ ws2 @ ds @ post"
    and ws: "list_all is_ws ws1" "list_all is_ws ws2"
    and ds: "list_all is_digit ds" "ds \<noteq> []" "post = [] \<or> \<not> is_digit (hd post)"
  shows "scan_id data (length pre) = Some (parse_slice ds)"
proof -
  let ?a = "pre @ id_key" and ?b = "pre @ id_key @ ws1 @ [0x3A]"
  have key: "at_id_key data (length pre)" "length pre + 4 < length data"
    by (simp_all add: data at_id_key_def slice_get_def nth_append)
  have lens: "length ?a = length pre + 4" "length ?b = length pre + 4 + length ws1 + 1"
      "length (?b @ ws2) = length pre + 4 + length ws1 + 1 + length ws2"
    by simp_all
  have "skip_while is_ws data (length ?a) = length ?a + length ws1"
    using skip_while_stop [of is_ws ws1 "[0x3A] @ ws2 @ ds @ post" ?a] ws by (simp add: data is_ws_def)
  note i = this [unfolded lens]
  have colon: "data ! (length pre + 4 + length ws1) = 0x3A"
      "length pre + 4 + length ws1 < length data"
    by (simp_all add: data nth_append)
  have "skip_while is_ws data (length ?b) = length ?b + length ws2"
    using skip_while_stop [of is_ws ws2 "ds @ post" ?b] ws ds digit_not_ws
    by (cases ds) (simp_all add: data)
  note start = this [unfolded lens]
  have "skip_while is_digit data (length (?b @ ws2)) = length (?b @ ws2) + length ds"
    using skip_while_stop [of is_digit ds post "?b @ ws2"] ds by (simp add: data)
  note stop = this [unfolded lens]
  have "take (length ds) (drop (length (?b @ ws2)) data) = ds"
    using slice_append [of ds "?b @ ws2" post] unfolding data append_assoc .
  note slice = this [unfolded lens]
  show ?thesis
    using key i colon start stop slice ds(2) by (subst scan_id.simps) (simp add: Let_def)
qed

text \<open>No key before the first one: the quoted name does not occur in what precedes it, not even
  overlapping its first three bytes.\<close>

lemma no_earlier_key:
  assumes "\<not> sublist id_key (pre @ [0x22, 0x69, 0x64])" and "data = pre @ id_key @ rest"
    and "j < length pre" and "rest \<noteq> []"
  shows "j + 4 < length data \<and> \<not> at_id_key data j"
proof -
  have j: "j + 4 < length data" using assms by simp
  have "4 - (length pre - j) \<in> {0, 1, 2, 3}" using assms(3) by auto
  then have "take (4 - (length pre - j)) (id_key @ rest) = take (4 - (length pre - j)) [0x22, 0x69, 0x64]"
    by (elim insertE) simp_all
  moreover have "take 4 (drop j (pre @ x)) = take 4 (drop j pre) @ take (4 - (length pre - j)) x" for x
    using assms(3) by simp
  ultimately have same: "take 4 (drop j data) = take 4 (drop j (pre @ [0x22, 0x69, 0x64]))"
    by (simp only: assms(2))
  have "sublist (take 4 (drop j (pre @ [0x22, 0x69, 0x64]))) (pre @ [0x22, 0x69, 0x64])"
    by (rule sublist_slice)
  then have "take 4 (drop j data) \<noteq> id_key" using assms(1) unfolding same by metis
  with j show ?thesis by (simp add: at_id_key_sublist)
qed

lemma parse_jsonrpc_id_first:
  assumes "\<not> sublist id_key (pre @ [0x22, 0x69, 0x64])"
    and "list_all is_ws ws1" "list_all is_ws ws2"
    and "list_all is_digit ds" "ds \<noteq> []" "post = [] \<or> \<not> is_digit (hd post)"
  shows "parse_jsonrpc_id (pre @ id_key @ ws1 @ [0x3A] @ ws2 @ ds @ post) = Some (parse_slice ds)"
proof -
  let ?data = "pre @ id_key @ ws1 @ [0x3A] @ ws2 @ ds @ post"
  have "scan_id ?data 0 = scan_id ?data (length pre)"
    by (rule scan_id_skip) (use no_earlier_key [OF assms(1) refl] in auto)
  then show ?thesis
    using scan_id_at_key [OF refl assms(2-)] by (simp add: parse_jsonrpc_id_def)
qed

lemma digits_ascii: "list_all is_digit ds \<Longrightarrow> utf8_valid ds"
  by (induction ds) (auto simp: is_digit_def is_ascii_digit_def word_less_nat_alt)

lemma unat_of_char: "unat (of_char c :: u8) = of_char c"
proof -
  have "unat (word_of_nat (of_char c) :: u8) = of_char c"
    using nat_of_char_less_256 [of c] by (simp only: unat_of_nat) (simp add: take_bit_nat_eq_self)
  then show ?thesis by (simp only: of_nat_of_char)
qed

lemma is_digit_byte: "is_digit (of_char c :: u8) = is_ascii_digit (byte_of c)"
  by (simp add: is_digit_def byte_of_def unat_of_char)

lemma parse_slice_show_nat:
  "parse_slice (str_bytes (show_nat n)) = (if n < 2 ^ 64 then Some (word_of_nat n) else None)"
proof -
  have "utf8_valid (str_bytes (show_nat n))"
    by (rule digits_ascii) (auto simp: str_bytes_def list_all_iff is_digit_byte dest: show_nat_digits)
  moreover have "map (char_of \<circ> unat) (str_bytes (show_nat n)) = show_nat n"
    by (simp add: str_bytes_def unat_of_char o_def)
  ultimately show ?thesis by (simp add: parse_slice_def parse_u64_show_nat)
qed

lemma scan_id_key: "scan_id data i = Some (Some n) \<Longrightarrow> sublist id_key data"
proof (induction "length data - i" arbitrary: i rule: less_induct)
  case less
  have bound: "i + 4 < length data" using less.prems by (subst (asm) scan_id.simps) (auto split: if_splits)
  show ?case
  proof (cases "at_id_key data i")
    case True
    with bound have "id_key = take 4 (drop i data)" by (simp add: at_id_key_sublist)
    then show ?thesis by (simp only: sublist_slice)
  next
    case False
    with less.prems bound have "scan_id data (i + 1) = Some (Some n)"
      by (subst (asm) scan_id.simps) simp
    with less.hyps [of "i + 1"] bound show ?thesis by simp
  qed
qed

end
