(* ===== verification/Server_Types.thy ===== *)
theory Server_Types
  imports Core_Types
begin

text \<open>
  The vocabulary and the static configuration of the managed server
  (\<^verbatim>\<open>src/src/ws/server/types.rs\<close>, \<^verbatim>\<open>src/src/ws/server/config.rs\<close>): lifecycle states,
  events and actions of an endpoint, the inline frame batch, validation, retry backoff.
\<close>

section \<open>Lifecycle and connections\<close>

datatype ManagedWsServerStatus = Starting | Retrying | Listening | ShuttingDown | Stopped | Terminal

definition is_final :: "ManagedWsServerStatus \<Rightarrow> bool" where
  "is_final s \<longleftrightarrow> s = Stopped \<or> s = Terminal"

datatype SocketAddr = V4 u32 u16 | V6 "128 word" u16 u32 u32

record WsServerConnectionContext =
  connection_id :: u64
  peer_addr :: SocketAddr
  local_addr :: SocketAddr

datatype WsServerCloseCause =
    ClientClosed
  | HandlerRequested
  | HandlerError string
  | Lagged u64
  | ServerShutdown
  | TransportError string

datatype 'c WsServerEndpointEvent =
    Connected WsServerConnectionContext
  | Frame WsFrame
  | Command 'c
  | Tick
  | Closed WsServerCloseCause

section \<open>Frame batches\<close>

definition WS_SERVER_FRAME_BATCH_CAPACITY :: nat where
  "WS_SERVER_FRAME_BATCH_CAPACITY = 4"

record WsServerFrameBatch =
  frames :: "WsFrame option list"
  batch_len :: nat

definition batch_new :: WsServerFrameBatch where
  "batch_new = \<lparr>frames = replicate WS_SERVER_FRAME_BATCH_CAPACITY None, batch_len = 0\<rparr>"

definition batch_push :: "WsFrame \<Rightarrow> WsServerFrameBatch \<Rightarrow> (WsFrame + unit) \<times> WsServerFrameBatch" where
  "batch_push frame b =
     (if WS_SERVER_FRAME_BATCH_CAPACITY \<le> batch_len b then (Inl frame, b)
      else (Inr (), b\<lparr>frames := (frames b)[batch_len b := Some frame], batch_len := batch_len b + 1\<rparr>))"

definition batch_is_empty :: "WsServerFrameBatch \<Rightarrow> bool" where
  "batch_is_empty b \<longleftrightarrow> batch_len b = 0"

text \<open>\<open>drain\<close>, consumed to its end: the taken frames and the emptied batch.\<close>

definition batch_drain :: "WsServerFrameBatch \<Rightarrow> WsFrame list \<times> WsServerFrameBatch" where
  "batch_drain b =
     (let n = batch_len b
      in (List.map_filter id (take n (frames b)),
          b\<lparr>frames := map (\<lambda>_. None) (take n (frames b)) @ drop n (frames b), batch_len := 0\<rparr>))"

fun batch_extend :: "WsFrame list \<Rightarrow> WsServerFrameBatch \<Rightarrow> WsServerFrameBatch" where
  "batch_extend [] b = b"
| "batch_extend (f # fs) b =
     (case batch_push f b of
        (Inl _, b) \<Rightarrow> b
      | (Inr _, b) \<Rightarrow> batch_extend fs b)"

definition batch_from_iter :: "WsFrame list \<Rightarrow> WsServerFrameBatch" where
  "batch_from_iter fs = batch_extend fs batch_new"

datatype WsServerEndpointAction =
    NoAction
  | Send WsFrame
  | SendBatch WsServerFrameBatch
  | Close "WsCloseFrame option"

section \<open>The endpoint traits\<close>

text \<open>\<open>on_event\<close> of the handler and \<open>create_endpoint\<close> of the factory; the handler's error is
  its text.\<close>

record ('e, 'c) WsServerEndpoint =
  on_event :: "'c WsServerEndpointEvent \<Rightarrow> 'e \<Rightarrow> (string + WsServerEndpointAction) \<times> 'e"
  create_endpoint :: "WsServerConnectionContext \<Rightarrow> 'e"

section \<open>Errors\<close>

datatype ManagedWsServerStartError =
    InvalidConfig string string
  | RuntimeUnavailable

datatype ManagedWsServerTerminalError =
    BindRetryExhausted SocketAddr u32 string
  | AcceptRetryExhausted SocketAddr u32 string
  | InternalLoopFailure string

datatype ManagedWsServerDispatchError =
    Terminated ManagedWsServerTerminalError
  | StoppedError

datatype ManagedWsServerShutdownError = ShutdownTimeout duration

datatype ManagedWsServerStatusError =
    StatusTimeout ManagedWsServerStatus ManagedWsServerStatus duration
  | Settled ManagedWsServerStatus ManagedWsServerStatus

section \<open>Configuration\<close>

record WsConnectConfig =
  max_message_size :: "nat option"
  max_frame_size :: "nat option"
  write_buffer_size :: nat
  max_write_buffer_size :: nat

definition default_connect_config :: WsConnectConfig where
  "default_connect_config =
     \<lparr>max_message_size = Some (16 * 1024 * 1024), max_frame_size = Some (16 * 1024 * 1024),
      write_buffer_size = 128 * 2 ^ 10, max_write_buffer_size = 256 * 2 ^ 10\<rparr>"

record WsServerConfig =
  bind_addr :: SocketAddr
  backlog :: u32
  max_connections :: nat
  handshake_timeout :: duration
  endpoint_tick_interval :: duration
  shutdown_timeout :: duration
  retained_commands_per_client :: nat
  websocket :: WsConnectConfig

definition server_config_new :: "SocketAddr \<Rightarrow> WsServerConfig" where
  "server_config_new addr =
     \<lparr>bind_addr = addr, backlog = 1024, max_connections = 256, handshake_timeout = from_secs 5,
      endpoint_tick_interval = from_secs 1, shutdown_timeout = from_secs 5,
      retained_commands_per_client = 1, websocket = default_connect_config\<rparr>"

definition config_validate :: "WsServerConfig \<Rightarrow> ManagedWsServerStartError + unit" where
  "config_validate c =
     (if backlog c = 0
      then Inl (InvalidConfig ''backlog'' ''listen backlog must be greater than zero'')
      else if max_connections c = 0
      then Inl (InvalidConfig ''max_connections'' ''connection cap must admit at least one client'')
      else if handshake_timeout c = 0
      then Inl (InvalidConfig ''handshake_timeout'' ''handshake timeout must be greater than zero'')
      else if endpoint_tick_interval c = 0
      then Inl (InvalidConfig ''endpoint_tick_interval'' ''endpoint tick interval must be greater than zero'')
      else if shutdown_timeout c = 0
      then Inl (InvalidConfig ''shutdown_timeout'' ''shutdown timeout must be greater than zero'')
      else if retained_commands_per_client c = 0
      then Inl (InvalidConfig ''retained_commands_per_client''
                  ''at least one managed command must be retained per client'')
      else Inr ())"

record WsServerRetryPolicy =
  initial_backoff :: duration
  max_backoff :: duration
  max_attempts :: "u32 option"

definition default_retry_policy :: WsServerRetryPolicy where
  "default_retry_policy =
     \<lparr>initial_backoff = from_millis 100, max_backoff = from_secs 5, max_attempts = None\<rparr>"

definition retry_validate :: "WsServerRetryPolicy \<Rightarrow> ManagedWsServerStartError + unit" where
  "retry_validate r =
     (if initial_backoff r = 0
      then Inl (InvalidConfig ''initial_backoff'' ''initial bind backoff must be greater than zero'')
      else if max_backoff r < initial_backoff r
      then Inl (InvalidConfig ''max_backoff'' ''maximum bind backoff must not be below the initial backoff'')
      else if max_attempts r = Some 0
      then Inl (InvalidConfig ''max_attempts'' ''retry budget must allow at least one attempt'')
      else Inr ())"

definition next_backoff :: "WsServerRetryPolicy \<Rightarrow> duration \<Rightarrow> duration" where
  "next_backoff r current = min (duration_saturating_mul current 2) (max_backoff r)"

definition is_exhausted :: "WsServerRetryPolicy \<Rightarrow> u32 \<Rightarrow> bool" where
  "is_exhausted r attempts = (case max_attempts r of Some m \<Rightarrow> m \<le> attempts | None \<Rightarrow> False)"

section \<open>Batches hold what was pushed\<close>

text \<open>The batch whose first slots hold \<open>fs\<close> and whose others are empty.\<close>

definition batch_of :: "WsFrame list \<Rightarrow> WsServerFrameBatch" where
  "batch_of fs =
     \<lparr>frames = map Some fs @ replicate (WS_SERVER_FRAME_BATCH_CAPACITY - length fs) None,
      batch_len = length fs\<rparr>"

lemma batch_new_of: "batch_new = batch_of []"
  by (simp add: batch_new_def batch_of_def)

lemma batch_push_of:
  "batch_push f (batch_of fs) =
     (if length fs < WS_SERVER_FRAME_BATCH_CAPACITY then (Inr (), batch_of (fs @ [f]))
      else (Inl f, batch_of fs))"
proof -
  have "replicate (WS_SERVER_FRAME_BATCH_CAPACITY - length fs) None
      = None # replicate (WS_SERVER_FRAME_BATCH_CAPACITY - Suc (length fs)) (None :: WsFrame option)"
    if "length fs < WS_SERVER_FRAME_BATCH_CAPACITY"
    using that by (metis Suc_diff_Suc replicate_Suc)
  then show ?thesis
    by (auto simp: batch_push_def batch_of_def list_update_append)
qed

lemma map_filter_Some: "List.map_filter id (map Some xs) = xs"
  by (induction xs) (simp_all add: List.map_filter_simps)

lemma batch_drain_of:
  "length fs \<le> WS_SERVER_FRAME_BATCH_CAPACITY \<Longrightarrow> batch_drain (batch_of fs) = (fs, batch_new)"
  by (simp add: batch_drain_def batch_of_def batch_new_def Let_def map_filter_Some
        replicate_add [symmetric] map_replicate_const)

lemma batch_extend_of:
  "length fs \<le> WS_SERVER_FRAME_BATCH_CAPACITY \<Longrightarrow>
     batch_extend gs (batch_of fs) = batch_of (take WS_SERVER_FRAME_BATCH_CAPACITY (fs @ gs))"
  by (induction gs arbitrary: fs) (auto simp: batch_push_of take_Cons')

end
