(* ===== verification/Client.thy ===== *)
theory Client
  imports Server_Types Transport
begin

text \<open>
  The websocket client (\<^verbatim>\<open>src/src/client.rs\<close>) and the process-wide TLS set-up
  (\<^verbatim>\<open>src/src/tls.rs\<close>).  The client wraps a tokio-tungstenite stream and converts between
  its messages and the crate's frames.  The stream is a parameter of the definitions: a
  record of its operations, whose errors are their texts.  The close codes of tungstenite are
  the type parameter \<open>'c\<close>, with its two conversions as arguments.
\<close>

section \<open>Messages of the third-party stream\<close>

text \<open>The constructors the source matches on; the payload of a raw frame is never looked at.\<close>

record 'c TungCloseFrame =
  tung_code :: 'c
  tung_reason :: bytes

datatype 'c TungsteniteMessage =
    Text bytes
  | Binary bytes
  | Ping bytes
  | Pong bytes
  | Close "'c TungCloseFrame option"
  | Frame bytes

definition result_map_err :: "('e \<Rightarrow> 'f) \<Rightarrow> 'e + 'a \<Rightarrow> 'f + 'a" where
  "result_map_err f r = (case r of Inl e \<Rightarrow> Inl (f e) | Inr x \<Rightarrow> Inr x)"

lemma result_map_err_simps [simp]:
  "result_map_err f (Inl e) = Inl (f e)" "result_map_err f (Inr x) = Inr x"
  by (simp_all add: result_map_err_def)

section \<open>Conversions\<close>

definition map_ws_error :: "string \<Rightarrow> string \<Rightarrow> WebSocketError" where
  "map_ws_error context err = WebSocketError.TransportError context err"

definition close_to_core ::
  "('c \<Rightarrow> u16) \<Rightarrow> 'c TungCloseFrame option \<Rightarrow> WsCloseFrame option" where
  "close_to_core code_to frame =
     map_option (\<lambda>f. \<lparr>close_code = code_to (tung_code f), close_reason = tung_reason f\<rparr>) frame"

definition core_to_close :: "(u16 \<Rightarrow> 'c) \<Rightarrow> WsCloseFrame \<Rightarrow> 'c TungCloseFrame" where
  "core_to_close code_from frame =
     \<lparr>tung_code = code_from (close_code frame),
      tung_reason = (if utf8_valid (close_reason frame) then close_reason frame else [])\<rparr>"

fun msg_to_frame :: "('c \<Rightarrow> u16) \<Rightarrow> 'c TungsteniteMessage \<Rightarrow> WebSocketError + WsFrame" where
  "msg_to_frame code_to (TungsteniteMessage.Text text) =
     Inr (WsFrame.Text (from_bytes_unchecked text))"
| "msg_to_frame code_to (TungsteniteMessage.Binary b) = Inr (WsFrame.Binary b)"
| "msg_to_frame code_to (TungsteniteMessage.Ping b) = Inr (WsFrame.Ping b)"
| "msg_to_frame code_to (TungsteniteMessage.Pong b) = Inr (WsFrame.Pong b)"
| "msg_to_frame code_to (TungsteniteMessage.Close frame) =
     Inr (WsFrame.Close (close_to_core code_to frame))"
| "msg_to_frame code_to (TungsteniteMessage.Frame _) =
     Inl (map_ws_error ''read'' ''unexpected raw frame'')"

fun frame_to_msg :: "(u16 \<Rightarrow> 'c) \<Rightarrow> WsFrame \<Rightarrow> 'c TungsteniteMessage" where
  "frame_to_msg code_from (WsFrame.Text text) = TungsteniteMessage.Text (as_bytes text)"
| "frame_to_msg code_from (WsFrame.Binary b) = TungsteniteMessage.Binary b"
| "frame_to_msg code_from (WsFrame.Ping b) = TungsteniteMessage.Ping b"
| "frame_to_msg code_from (WsFrame.Pong b) = TungsteniteMessage.Pong b"
| "frame_to_msg code_from (WsFrame.Close frame) =
     TungsteniteMessage.Close (map_option (core_to_close code_from) frame)"

section \<open>The client over a stream\<close>

record ('s, 'c) WebSocketStream =
  stream_send :: "'c TungsteniteMessage \<Rightarrow> 's \<Rightarrow> (string + unit) \<times> 's"
  stream_next :: "'s \<Rightarrow> (string + 'c TungsteniteMessage) option \<times> 's"
  stream_poll_next :: "'s \<Rightarrow> (string + 'c TungsteniteMessage) option Poll \<times> 's"
  stream_poll_ready :: "'s \<Rightarrow> (string + unit) Poll \<times> 's"
  stream_start_send :: "'c TungsteniteMessage \<Rightarrow> 's \<Rightarrow> (string + unit) \<times> 's"
  stream_poll_flush :: "'s \<Rightarrow> (string + unit) Poll \<times> 's"
  stream_poll_close :: "'s \<Rightarrow> (string + unit) Poll \<times> 's"
  close_code_from :: "u16 \<Rightarrow> 'c"
  close_code_into :: "'c \<Rightarrow> u16"

record 's WsClient =
  inner :: 's

definition client_send :: "('s, 'c) WebSocketStream \<Rightarrow> 's WsClient sink" where
  "client_send S msg c =
     (let (r, s) = stream_send S (frame_to_msg (close_code_from S) msg) (inner c)
      in (result_map_err (map_ws_error ''write'') r, c\<lparr>inner := s\<rparr>))"

definition client_next ::
  "('s, 'c) WebSocketStream \<Rightarrow> 's WsClient \<Rightarrow> (WebSocketError + WsFrame) option \<times> 's WsClient" where
  "client_next S c =
     (let (r, s) = stream_next S (inner c)
      in (map_option (\<lambda>res. case result_map_err (map_ws_error ''read'') res of
                               Inl e \<Rightarrow> Inl e
                             | Inr m \<Rightarrow> msg_to_frame (close_code_into S) m) r,
          c\<lparr>inner := s\<rparr>))"

definition client_poll_next ::
  "('s, 'c) WebSocketStream \<Rightarrow> 's WsClient
     \<Rightarrow> (WebSocketError + WsFrame) option Poll \<times> 's WsClient" where
  "client_poll_next S c =
     (let (p, s) = stream_poll_next S (inner c)
      in ((case p of
             Ready (Some (Inr msg)) \<Rightarrow> Ready (Some (msg_to_frame (close_code_into S) msg))
           | Ready (Some (Inl err)) \<Rightarrow> Ready (Some (Inl (map_ws_error ''read'' err)))
           | Ready None \<Rightarrow> Ready None
           | Pending \<Rightarrow> Pending),
          c\<lparr>inner := s\<rparr>))"

definition client_poll_ready ::
  "('s, 'c) WebSocketStream \<Rightarrow> 's WsClient \<Rightarrow> (WebSocketError + unit) Poll \<times> 's WsClient" where
  "client_poll_ready S c =
     (let (p, s) = stream_poll_ready S (inner c)
      in (poll_map (result_map_err (map_ws_error ''write'')) p, c\<lparr>inner := s\<rparr>))"

definition client_start_send :: "('s, 'c) WebSocketStream \<Rightarrow> 's WsClient sink" where
  "client_start_send S item c =
     (let (r, s) = stream_start_send S (frame_to_msg (close_code_from S) item) (inner c)
      in (result_map_err (map_ws_error ''write'') r, c\<lparr>inner := s\<rparr>))"

definition client_poll_flush ::
  "('s, 'c) WebSocketStream \<Rightarrow> 's WsClient \<Rightarrow> (WebSocketError + unit) Poll \<times> 's WsClient" where
  "client_poll_flush S c =
     (let (p, s) = stream_poll_flush S (inner c)
      in (poll_map (result_map_err (map_ws_error ''write'')) p, c\<lparr>inner := s\<rparr>))"

definition client_poll_close ::
  "('s, 'c) WebSocketStream \<Rightarrow> 's WsClient \<Rightarrow> (WebSocketError + unit) Poll \<times> 's WsClient" where
  "client_poll_close S c =
     (let (p, s) = stream_poll_close S (inner c)
      in (poll_map (result_map_err (map_ws_error ''write'')) p, c\<lparr>inner := s\<rparr>))"

section \<open>Connection configuration and connectors\<close>

text \<open>The fields of tungstenite's configuration the source sets; the others are the record's
  extension.  Its \<open>default()\<close> is an argument.\<close>

record WebSocketConfig =
  tung_max_message_size :: "nat option"
  tung_max_frame_size :: "nat option"
  tung_write_buffer_size :: nat
  tung_max_write_buffer_size :: nat

definition config_from_connect_config ::
  "'z WebSocketConfig_scheme \<Rightarrow> WsConnectConfig \<Rightarrow> 'z WebSocketConfig_scheme" where
  "config_from_connect_config dflt cfg =
     dflt\<lparr>tung_max_message_size := max_message_size cfg,
          tung_max_frame_size := max_frame_size cfg,
          tung_write_buffer_size := write_buffer_size cfg,
          tung_max_write_buffer_size := max_write_buffer_size cfg\<rparr>"

text \<open>A connector hides the third-party one, of type \<open>'k\<close>; \<open>rustls_variant\<close> is its
  constructor \<open>Connector::Rustls\<close>.\<close>

record 'k WsConnector =
  connector_inner :: 'k

definition connector_rustls :: "('cfg \<Rightarrow> 'k) \<Rightarrow> 'cfg \<Rightarrow> 'k WsConnector" where
  "connector_rustls rustls_variant config = \<lparr>connector_inner = rustls_variant config\<rparr>"

section \<open>Connecting and accepting\<close>

text \<open>What a connection attempt reads and changes: the once-only TLS set-up with the process's
  crypto provider, and the network.\<close>

record ('p, 'n) world =
  tls_installed :: bool
  crypto_provider :: 'p
  network :: 'n

text \<open>\<open>OnceLock::get_or_init\<close>: the closure runs on the first call only, and the result of
  \<open>install_default\<close> is discarded.\<close>

definition install_rustls_crypto_provider ::
  "('p \<Rightarrow> bool \<times> 'p) \<Rightarrow> ('p, 'n) world \<Rightarrow> ('p, 'n) world" where
  "install_rustls_crypto_provider install_default w =
     (if tls_installed w then w
      else w\<lparr>tls_installed := True, crypto_provider := snd (install_default (crypto_provider w))\<rparr>)"

definition client_of_handshake :: "string + 's \<times> 'resp \<Rightarrow> WebSocketError + 's WsClient" where
  "client_of_handshake r =
     (case r of
        Inl err \<Rightarrow> Inl (ConnectionFailed err)
      | Inr (stream, _) \<Rightarrow> Inr \<lparr>inner = stream\<rparr>)"

definition connect_async ::
  "('p \<Rightarrow> bool \<times> 'p) \<Rightarrow> (string \<Rightarrow> 'n \<Rightarrow> (string + 's \<times> 'resp) \<times> 'n) \<Rightarrow> string
     \<Rightarrow> ('p, 'n) world \<Rightarrow> (WebSocketError + 's WsClient) \<times> ('p, 'n) world" where
  "connect_async install_default tungstenite_connect url w =
     (let w = install_rustls_crypto_provider install_default w;
          (r, n) = tungstenite_connect url (network w)
      in (client_of_handshake r, w\<lparr>network := n\<rparr>))"

definition connect_request ::
  "('p \<Rightarrow> bool \<times> 'p) \<Rightarrow> ('q \<Rightarrow> 'n \<Rightarrow> (string + 's \<times> 'resp) \<times> 'n) \<Rightarrow> 'q
     \<Rightarrow> ('p, 'n) world \<Rightarrow> (WebSocketError + 's WsClient) \<times> ('p, 'n) world" where
  "connect_request install_default tungstenite_connect request w =
     (let w = install_rustls_crypto_provider install_default w;
          (r, n) = tungstenite_connect request (network w)
      in (client_of_handshake r, w\<lparr>network := n\<rparr>))"

definition connect_async_tls_with_config ::
  "('p \<Rightarrow> bool \<times> 'p) \<Rightarrow> 'z WebSocketConfig_scheme
     \<Rightarrow> (string \<Rightarrow> 'z WebSocketConfig_scheme option \<Rightarrow> bool \<Rightarrow> 'k option \<Rightarrow> 'n
           \<Rightarrow> (string + 's \<times> 'resp) \<times> 'n)
     \<Rightarrow> string \<Rightarrow> WsConnectConfig option \<Rightarrow> bool \<Rightarrow> 'k WsConnector option
     \<Rightarrow> ('p, 'n) world \<Rightarrow> (WebSocketError + 's WsClient) \<times> ('p, 'n) world" where
  "connect_async_tls_with_config install_default dflt tungstenite_connect_tls url config
       disable_nagle connector w =
     (let w = install_rustls_crypto_provider install_default w;
          config = map_option (config_from_connect_config dflt) config;
          connector = map_option connector_inner connector;
          (r, n) = tungstenite_connect_tls url config disable_nagle connector (network w)
      in (client_of_handshake r, w\<lparr>network := n\<rparr>))"

definition client_of_accept :: "string + 's \<Rightarrow> WebSocketError + 's WsClient" where
  "client_of_accept r =
     (case r of Inl err \<Rightarrow> Inl (ConnectionFailed err) | Inr ws \<Rightarrow> Inr \<lparr>inner = ws\<rparr>)"

definition accept_async ::
  "('t \<Rightarrow> 'n \<Rightarrow> (string + 's) \<times> 'n) \<Rightarrow> 't \<Rightarrow> ('p, 'n) world
     \<Rightarrow> (WebSocketError + 's WsClient) \<times> ('p, 'n) world" where
  "accept_async tungstenite_accept stream w =
     (let (r, n) = tungstenite_accept stream (network w)
      in (client_of_accept r, w\<lparr>network := n\<rparr>))"

definition accept_async_with_config ::
  "'z WebSocketConfig_scheme
     \<Rightarrow> ('t \<Rightarrow> 'z WebSocketConfig_scheme option \<Rightarrow> 'n \<Rightarrow> (string + 's) \<times> 'n)
     \<Rightarrow> 't \<Rightarrow> WsConnectConfig \<Rightarrow> ('p, 'n) world
     \<Rightarrow> (WebSocketError + 's WsClient) \<times> ('p, 'n) world" where
  "accept_async_with_config dflt tungstenite_accept_with_config stream config w =
     (let (r, n) = tungstenite_accept_with_config stream
            (Some (config_from_connect_config dflt config)) (network w)
      in (client_of_accept r, w\<lparr>network := n\<rparr>))"

section \<open>What the conversions keep\<close>

text \<open>The frame a peer sees when a frame has gone through the conversions: the reason of a
  close frame that is not UTF-8 is dropped.\<close>

fun wire_frame :: "WsFrame \<Rightarrow> WsFrame" where
  "wire_frame (WsFrame.Close (Some f)) =
     WsFrame.Close (Some (f\<lparr>close_reason := if utf8_valid (close_reason f) then close_reason f else []\<rparr>))"
| "wire_frame f = f"

text \<open>The invariant of tungstenite's own types: text payloads and close reasons are \<open>Utf8Bytes\<close>.\<close>

fun msg_ok :: "'c TungsteniteMessage \<Rightarrow> bool" where
  "msg_ok (TungsteniteMessage.Text b) = utf8_valid b"
| "msg_ok (TungsteniteMessage.Close (Some f)) = utf8_valid (tung_reason f)"
| "msg_ok _ = True"

lemma frame_to_msg_ok: "frame_ok f \<Longrightarrow> msg_ok (frame_to_msg code_from f)"
proof (cases f)
  case (Text t)
  moreover assume "frame_ok f"
  ultimately show ?thesis by (cases t) simp
next
  case (Close c)
  then show ?thesis by (cases c) (simp_all add: core_to_close_def)
qed simp_all

lemma msg_to_frame_ok: "msg_ok m \<Longrightarrow> msg_to_frame code_to m = Inr f \<Longrightarrow> frame_ok f"
  by (cases m) (auto simp: from_bytes_unchecked_def)

lemma msg_to_frame_of_frame:
  assumes "\<And>c. code_to (code_from c) = c"
  shows "msg_to_frame code_to (frame_to_msg code_from f) = Inr (wire_frame f)"
proof (cases f)
  case (Text t)
  then show ?thesis by (cases t) (simp add: from_bytes_unchecked_def)
next
  case (Close c)
  with assms show ?thesis by (cases c) (simp_all add: close_to_core_def core_to_close_def)
qed simp_all

lemma frame_to_msg_of_msg:
  assumes "\<And>c. code_from (code_to c) = c" and "msg_ok m" and "msg_to_frame code_to m = Inr f"
  shows "frame_to_msg code_from f = m"
proof (cases m)
  case (Close c)
  with assms show ?thesis
    by (cases c) (auto simp: close_to_core_def core_to_close_def)
qed (use assms in \<open>auto simp: from_bytes_unchecked_def\<close>)

lemma wire_frame_idem [simp]: "wire_frame (wire_frame f) = wire_frame f"
  by (induction f rule: wire_frame.induct) auto

lemma wire_frame_ok [simp]: "frame_ok (wire_frame f) = frame_ok f"
  by (induction f rule: wire_frame.induct) auto

lemma install_once:
  "install_rustls_crypto_provider i (install_rustls_crypto_provider j w) =
   install_rustls_crypto_provider j w"
  by (simp add: install_rustls_crypto_provider_def)

text \<open>\<open>next\<close> and \<open>poll_next\<close> agree on whatever the stream yields.\<close>

lemma client_poll_next_ready:
  assumes "stream_poll_next S s = (Ready r, s')" and "stream_next S s = (r, s')"
  shows "client_poll_next S \<lparr>inner = s\<rparr> = (Ready (fst (client_next S \<lparr>inner = s\<rparr>)), \<lparr>inner = s'\<rparr>)"
  using assms
  by (cases r; cases "the r")
     (auto simp: client_poll_next_def client_next_def split: option.split sum.split)

end
