(* ===== verification/Fixture_Policy.thy ===== *)
theory Fixture_Policy
  imports Core_Types Strings
begin

text \<open>
  The policy that keeps live sockets closed until captured fixtures exist
  (\<^verbatim>\<open>src/src/fixture_policy.rs\<close>).  The process-wide registry is a mutex passed as
  state; the environment variables, the file system (unchanged during one call) and the JSON
  reader of \<open>sonic_rs\<close> are arguments.  A path is its text.  A panic of a call (a poisoned lock)
  is \<^const>\<open>None\<close>.
\<close>

section \<open>The surroundings of a check\<close>

text \<open>\<open>std::env::var(name).ok()\<close>.\<close>

type_synonym environment = "string \<Rightarrow> string option"

record FileSystem =
  read_file :: "string \<Rightarrow> string + bytes"
  path_exists :: "string \<Rightarrow> bool"

text \<open>The reading half of the JSON library: parsing, object lookup and the typed views.\<close>

record 'v JsonReader =
  from_slice :: "bytes \<Rightarrow> string + 'v"
  json_get :: "'v \<Rightarrow> string \<Rightarrow> 'v option"
  json_as_str :: "'v \<Rightarrow> string option"
  json_as_u64 :: "'v \<Rightarrow> u64 option"

definition get_str :: "('v, 'z) JsonReader_scheme \<Rightarrow> 'v \<Rightarrow> string \<Rightarrow> string \<Rightarrow> string" where
  "get_str J doc key dflt =
     (case Option.bind (json_get J doc key) (json_as_str J) of None \<Rightarrow> dflt | Some s \<Rightarrow> s)"

definition get_u64 :: "('v, 'z) JsonReader_scheme \<Rightarrow> 'v \<Rightarrow> string \<Rightarrow> u64" where
  "get_u64 J doc key =
     (case Option.bind (json_get J doc key) (json_as_u64 J) of None \<Rightarrow> 0 | Some n \<Rightarrow> n)"

section \<open>The registry\<close>

definition SHARED_WS_FIXTURE_CAPTURE_MODE_ENV :: string where
  "SHARED_WS_FIXTURE_CAPTURE_MODE_ENV = ''SHARED_WS_FIXTURE_CAPTURE_MODE''"

definition SHARED_WS_ALLOW_LIVE_WITHOUT_FIXTURES_ENV :: string where
  "SHARED_WS_ALLOW_LIVE_WITHOUT_FIXTURES_ENV = ''SHARED_WS_ALLOW_LIVE_WITHOUT_FIXTURES''"

record WsFixtureRequirement =
  contract_id :: string
  success_path :: string
  error_path :: "string option"

record WsFixtureRegistry =
  requirements :: "WsFixtureRequirement list"

text \<open>\<open>Mutex\<close>: the lock is poisoned once a holder has panicked.\<close>

record 'a Mutex =
  poisoned :: bool
  guarded :: 'a

definition registry :: "WsFixtureRegistry Mutex" where
  "registry = \<lparr>poisoned = False, guarded = \<lparr>requirements = []\<rparr>\<rparr>"

text \<open>The caller's iterator runs while the lock is held; \<^const>\<open>None\<close> is an iterator that
  panics, which poisons the lock.\<close>

definition register_required_ws_contracts ::
  "WsFixtureRequirement list option \<Rightarrow> WsFixtureRegistry Mutex
     \<Rightarrow> unit option \<times> WsFixtureRegistry Mutex" where
  "register_required_ws_contracts reqs m =
     (if poisoned m then (None, m)
      else case reqs of
             None \<Rightarrow> (None, m\<lparr>poisoned := True\<rparr>)
           | Some rs \<Rightarrow> (Some (), m\<lparr>guarded := (guarded m)\<lparr>requirements := rs\<rparr>\<rparr>))"

definition required_ws_contracts ::
  "WsFixtureRegistry Mutex \<Rightarrow> WsFixtureRequirement list option" where
  "required_ws_contracts m = (if poisoned m then None else Some (requirements (guarded m)))"

definition clear_required_ws_contracts_for_tests ::
  "WsFixtureRegistry Mutex \<Rightarrow> unit option \<times> WsFixtureRegistry Mutex" where
  "clear_required_ws_contracts_for_tests m =
     (if poisoned m then (None, m)
      else (Some (), m\<lparr>guarded := (guarded m)\<lparr>requirements := []\<rparr>\<rparr>))"

section \<open>Overrides\<close>

definition env_truthy :: "environment \<Rightarrow> string \<Rightarrow> bool" where
  "env_truthy env name =
     (case env name of
        None \<Rightarrow> False
      | Some raw \<Rightarrow> trim raw \<in> {''1'', ''true'', ''TRUE'', ''yes'', ''YES''})"

definition fixture_capture_mode_enabled :: "environment \<Rightarrow> bool" where
  "fixture_capture_mode_enabled env = env_truthy env SHARED_WS_FIXTURE_CAPTURE_MODE_ENV"

definition live_without_fixtures_allowed :: "environment \<Rightarrow> bool" where
  "live_without_fixtures_allowed env = env_truthy env SHARED_WS_ALLOW_LIVE_WITHOUT_FIXTURES_ENV"

section \<open>Checking fixtures\<close>

definition ensure_live_capture_fixture ::
  "('v, 'z) JsonReader_scheme \<Rightarrow> FileSystem \<Rightarrow> string \<Rightarrow> WebSocketError + unit" where
  "ensure_live_capture_fixture J fs path =
     (case read_file fs path of
        Inl err \<Rightarrow> Inl (InvalidState
          (''live websocket blocked: failed to read fixture '' @ path @ '': '' @ err))
      | Inr bs \<Rightarrow>
          (case from_slice J bs of
             Inl err \<Rightarrow> Inl (InvalidState
               (''live websocket blocked: failed to parse fixture '' @ path @ '': '' @ err))
           | Inr doc \<Rightarrow>
               let source = get_str J doc ''source'' [];
                   captured_at_ms = get_u64 J doc ''captured_at_ms'';
                   capture_command = get_str J doc ''capture_command'' [];
                   exchange_env = get_str J doc ''exchange_env'' []
               in if source \<noteq> ''live_capture'' \<or> captured_at_ms = 0
                     \<or> trim capture_command = [] \<or> trim exchange_env = []
                  then Inl (InvalidState (''live websocket blocked: fixture '' @ path @
                         '' is not compliant live-capture provenance''))
                  else Inr ()))"

text \<open>The two callers run the same loop over the requirements; they differ in the first words of
  the error for missing files.\<close>

definition missing_text :: "string \<Rightarrow> WsFixtureRequirement \<Rightarrow> string" where
  "missing_text intro item =
     intro @ '': missing fixture files for contract='' @ contract_id item @
     '' success='' @ success_path item @
     '' error='' @ (case error_path item of None \<Rightarrow> ''<not-required>'' | Some p \<Rightarrow> p)"

fun check_requirements ::
  "string \<Rightarrow> ('v, 'z) JsonReader_scheme \<Rightarrow> FileSystem \<Rightarrow> WsFixtureRequirement list
     \<Rightarrow> WebSocketError + unit" where
  "check_requirements intro J fs [] = Inr ()"
| "check_requirements intro J fs (item # items) =
     (let success_exists = path_exists fs (success_path item);
          error_exists = (case error_path item of None \<Rightarrow> True | Some p \<Rightarrow> path_exists fs p)
      in if \<not> (success_exists \<and> error_exists) then Inl (InvalidState (missing_text intro item))
         else case ensure_live_capture_fixture J fs (success_path item) of
                Inl e \<Rightarrow> Inl e
              | Inr _ \<Rightarrow>
                  (case error_path item of
                     None \<Rightarrow> check_requirements intro J fs items
                   | Some p \<Rightarrow>
                       (case ensure_live_capture_fixture J fs p of
                          Inl e \<Rightarrow> Inl e
                        | Inr _ \<Rightarrow> check_requirements intro J fs items)))"

definition ensure_live_ws_allowed ::
  "environment \<Rightarrow> ('v, 'z) JsonReader_scheme \<Rightarrow> FileSystem \<Rightarrow> WsFixtureRegistry Mutex
     \<Rightarrow> (WebSocketError + unit) option" where
  "ensure_live_ws_allowed env J fs m =
     (if fixture_capture_mode_enabled env \<or> live_without_fixtures_allowed env then Some (Inr ())
      else if poisoned m then None
      else if requirements (guarded m) = []
      then Some (Inl (InvalidState
             ''live websocket blocked: no required fixture contracts registered''))
      else Some (check_requirements ''live websocket blocked'' J fs (requirements (guarded m))))"

definition validate_required_ws_contracts ::
  "('v, 'z) JsonReader_scheme \<Rightarrow> FileSystem \<Rightarrow> WsFixtureRequirement list
     \<Rightarrow> WebSocketError + unit" where
  "validate_required_ws_contracts J fs reqs =
     (if reqs = []
      then Inl (InvalidState
             ''required websocket fixture validation failed: no fixture contracts registered'')
      else check_requirements ''required websocket fixture validation failed'' J fs reqs)"

section \<open>What passing the policy means\<close>

text \<open>The contract of a fixture file, independent of the order in which it is checked.\<close>

definition live_capture :: "('v, 'z) JsonReader_scheme \<Rightarrow> FileSystem \<Rightarrow> string \<Rightarrow> bool" where
  "live_capture J fs path \<longleftrightarrow>
     (\<exists>bs doc. read_file fs path = Inr bs \<and> from_slice J bs = Inr doc
        \<and> get_str J doc ''source'' [] = ''live_capture''
        \<and> get_u64 J doc ''captured_at_ms'' \<noteq> 0
        \<and> trim (get_str J doc ''capture_command'' []) \<noteq> []
        \<and> trim (get_str J doc ''exchange_env'' []) \<noteq> [])"

definition requirement_paths :: "WsFixtureRequirement \<Rightarrow> string list" where
  "requirement_paths item =
     success_path item # (case error_path item of None \<Rightarrow> [] | Some p \<Rightarrow> [p])"

lemma ensure_live_capture_fixture_ok:
  "ensure_live_capture_fixture J fs path = Inr () \<longleftrightarrow> live_capture J fs path"
  by (auto simp: ensure_live_capture_fixture_def live_capture_def Let_def split: sum.splits)

lemma ensure_live_capture_fixture_cases:
  "ensure_live_capture_fixture J fs path = Inr () \<or>
   (\<exists>t. ensure_live_capture_fixture J fs path = Inl (InvalidState (''live websocket blocked: '' @ t)))"
  by (auto simp: ensure_live_capture_fixture_def Let_def split: sum.splits)

lemma check_requirements_ok:
  "check_requirements intro J fs items = Inr () \<longleftrightarrow>
   (\<forall>item\<in>set items. \<forall>p\<in>set (requirement_paths item). path_exists fs p \<and> live_capture J fs p)"
  by (induction items)
     (auto simp: Let_def requirement_paths_def ensure_live_capture_fixture_ok [symmetric]
       split: sum.splits option.splits)

lemma check_requirements_error:
  "check_requirements intro J fs items = Inl e \<Longrightarrow> \<exists>t. e = InvalidState t"
  using ensure_live_capture_fixture_cases [of J fs]
  by (induction items)
     (auto simp: Let_def split: sum.splits option.splits if_splits,
      (metis Inl_Inr_False Inl_inject)+)

text \<open>\<open>live_capture\<close> has an executable form, which the witnesses evaluate.\<close>

lemma live_capture_code [code]:
  "live_capture J fs path =
     (case ensure_live_capture_fixture J fs path of Inl _ \<Rightarrow> False | Inr _ \<Rightarrow> True)"
  by (auto simp: ensure_live_capture_fixture_ok [symmetric] split: sum.splits)

end
