(* ===== verification/Tungstenite_Transport.thy ===== *)
theory Tungstenite_Transport
  imports Client Fixture_Policy
begin

text \<open>
  The live transport (\<^verbatim>\<open>src/src/transport/tungstenite.rs\<close>): its own copies of the message
  conversions, the limits it hands to tungstenite, the reader and the writer around the two
  halves of a split stream, and \<open>connect\<close>, which asks the fixture policy first.  The stream's
  halves and the connect functions are arguments, as in \<open>Client\<close>.
\<close>

section \<open>Conversions\<close>

definition transport_map_ws_error :: "string \<Rightarrow> string \<Rightarrow> WebSocketError" where
  "transport_map_ws_error context err = WebSocketError.TransportError context err"

definition transport_close_to_core ::
  "('c \<Rightarrow> u16) \<Rightarrow> 'c TungCloseFrame option \<Rightarrow> WsCloseFrame option" where
  "transport_close_to_core code_to frame =
     (case frame of
        None \<Rightarrow> None
      | Some f \<Rightarrow> Some \<lparr>close_code = code_to (tung_code f), close_reason = tung_reason f\<rparr>)"

definition transport_core_to_close :: "(u16 \<Rightarrow> 'c) \<Rightarrow> WsCloseFrame \<Rightarrow> 'c TungCloseFrame" where
  "transport_core_to_close code_from frame =
     (let reason = (if utf8_valid (close_reason frame) then close_reason frame else [])
      in \<lparr>tung_code = code_from (close_code frame), tung_reason = reason\<rparr>)"

definition transport_msg_to_frame ::
  "('c \<Rightarrow> u16) \<Rightarrow> 'c TungsteniteMessage \<Rightarrow> WebSocketError + WsFrame" where
  "transport_msg_to_frame code_to msg =
     (case msg of
        TungsteniteMessage.Text text \<Rightarrow> Inr (WsFrame.Text (from_bytes_unchecked text))
      | TungsteniteMessage.Binary b \<Rightarrow> Inr (WsFrame.Binary b)
      | TungsteniteMessage.Ping b \<Rightarrow> Inr (WsFrame.Ping b)
      | TungsteniteMessage.Pong b \<Rightarrow> Inr (WsFrame.Pong b)
      | TungsteniteMessage.Close frame \<Rightarrow> Inr (WsFrame.Close (transport_close_to_core code_to frame))
      | TungsteniteMessage.Frame _ \<Rightarrow> Inl (transport_map_ws_error ''read'' ''unexpected raw frame''))"

definition transport_frame_to_msg :: "(u16 \<Rightarrow> 'c) \<Rightarrow> WsFrame \<Rightarrow> 'c TungsteniteMessage" where
  "transport_frame_to_msg code_from frame =
     (case frame of
        WsFrame.Text text \<Rightarrow> TungsteniteMessage.Text (as_bytes text)
      | WsFrame.Binary b \<Rightarrow> TungsteniteMessage.Binary b
      | WsFrame.Ping b \<Rightarrow> TungsteniteMessage.Ping b
      | WsFrame.Pong b \<Rightarrow> TungsteniteMessage.Pong b
      | WsFrame.Close f \<Rightarrow>
          TungsteniteMessage.Close (map_option (transport_core_to_close code_from) f))"

definition build_ws_config ::
  "'z WebSocketConfig_scheme \<Rightarrow> WebSocketBufferConfig \<Rightarrow> 'z WebSocketConfig_scheme" where
  "build_ws_config dflt buffers =
     (let config = dflt;
          config = config\<lparr>tung_max_message_size := Some (max_message_bytes buffers)\<rparr>;
          config = config\<lparr>tung_max_frame_size := Some (max_frame_bytes buffers)\<rparr>;
          config = config\<lparr>tung_write_buffer_size := write_buffer_bytes buffers\<rparr>
      in config\<lparr>tung_max_write_buffer_size := max_write_buffer_bytes buffers\<rparr>)"

section \<open>Reader and writer\<close>

record 'k TungsteniteTransport =
  transport_connector :: "'k option"

definition default_transport :: "'k TungsteniteTransport" where
  "default_transport = \<lparr>transport_connector = None\<rparr>"

definition with_connector :: "'k \<Rightarrow> 'k TungsteniteTransport" where
  "with_connector connector = \<lparr>transport_connector = Some connector\<rparr>"

definition transport_rustls :: "('cfg \<Rightarrow> 'k) \<Rightarrow> 'cfg \<Rightarrow> 'k TungsteniteTransport" where
  "transport_rustls rustls_variant config = with_connector (rustls_variant config)"

record 'r TungsteniteReader =
  reader_inner :: 'r

record 'w TungsteniteWriter =
  writer_inner :: 'w

definition reader_poll_next ::
  "('c \<Rightarrow> u16) \<Rightarrow> ('r \<Rightarrow> (string + 'c TungsteniteMessage) option Poll \<times> 'r)
     \<Rightarrow> 'r TungsteniteReader \<Rightarrow> (WebSocketError + WsFrame) option Poll \<times> 'r TungsteniteReader" where
  "reader_poll_next code_to inner_poll_next rd =
     (let (p, r) = inner_poll_next (reader_inner rd)
      in ((case p of
             Ready (Some (Inr msg)) \<Rightarrow> Ready (Some (transport_msg_to_frame code_to msg))
           | Ready (Some (Inl err)) \<Rightarrow> Ready (Some (Inl (transport_map_ws_error ''read'' err)))
           | Ready None \<Rightarrow> Ready None
           | Pending \<Rightarrow> Pending),
          rd\<lparr>reader_inner := r\<rparr>))"

definition writer_poll_ready ::
  "('w \<Rightarrow> (string + unit) Poll \<times> 'w)
     \<Rightarrow> 'w TungsteniteWriter \<Rightarrow> (WebSocketError + unit) Poll \<times> 'w TungsteniteWriter" where
  "writer_poll_ready inner_poll_ready wr =
     (let (p, w) = inner_poll_ready (writer_inner wr)
      in (poll_map (result_map_err (transport_map_ws_error ''write'')) p, wr\<lparr>writer_inner := w\<rparr>))"

definition writer_start_send ::
  "(u16 \<Rightarrow> 'c) \<Rightarrow> ('c TungsteniteMessage \<Rightarrow> 'w \<Rightarrow> (string + unit) \<times> 'w)
     \<Rightarrow> 'w TungsteniteWriter sink" where
  "writer_start_send code_from inner_start_send item wr =
     (let (r, w) = inner_start_send (transport_frame_to_msg code_from item) (writer_inner wr)
      in (result_map_err (transport_map_ws_error ''write'') r, wr\<lparr>writer_inner := w\<rparr>))"

definition writer_poll_flush ::
  "('w \<Rightarrow> (string + unit) Poll \<times> 'w)
     \<Rightarrow> 'w TungsteniteWriter \<Rightarrow> (WebSocketError + unit) Poll \<times> 'w TungsteniteWriter" where
  "writer_poll_flush inner_poll_flush wr =
     (let (p, w) = inner_poll_flush (writer_inner wr)
      in (poll_map (result_map_err (transport_map_ws_error ''write'')) p, wr\<lparr>writer_inner := w\<rparr>))"

definition writer_poll_close ::
  "('w \<Rightarrow> (string + unit) Poll \<times> 'w)
     \<Rightarrow> 'w TungsteniteWriter \<Rightarrow> (WebSocketError + unit) Poll \<times> 'w TungsteniteWriter" where
  "writer_poll_close inner_poll_close wr =
     (let (p, w) = inner_poll_close (writer_inner wr)
      in (poll_map (result_map_err (transport_map_ws_error ''write'')) p, wr\<lparr>writer_inner := w\<rparr>))"

section \<open>Connecting\<close>

text \<open>The policy's surroundings, as the connect future finds them when it is first polled.\<close>

record 'v policy_context =
  policy_env :: environment
  policy_json :: "'v JsonReader"
  policy_fs :: FileSystem
  policy_registry :: "WsFixtureRegistry Mutex"

text \<open>\<open>stream.split()\<close> is the argument \<open>split\<close>; it returns the sink half first.  \<^const>\<open>None\<close>
  is the panic of the policy on a poisoned registry.\<close>

definition transport_connect ::
  "'v policy_context \<Rightarrow> ('p \<Rightarrow> bool \<times> 'p) \<Rightarrow> 'z WebSocketConfig_scheme
     \<Rightarrow> (string \<Rightarrow> 'z WebSocketConfig_scheme option \<Rightarrow> bool \<Rightarrow> 'k option \<Rightarrow> 'n
           \<Rightarrow> (string + 's \<times> 'resp) \<times> 'n)
     \<Rightarrow> (string \<Rightarrow> 'z WebSocketConfig_scheme option \<Rightarrow> bool \<Rightarrow> 'n \<Rightarrow> (string + 's \<times> 'resp) \<times> 'n)
     \<Rightarrow> ('s \<Rightarrow> 'w \<times> 'r) \<Rightarrow> 'k TungsteniteTransport \<Rightarrow> string \<Rightarrow> WebSocketBufferConfig
     \<Rightarrow> ('p, 'n) world
     \<Rightarrow> (WebSocketError + 'r TungsteniteReader \<times> 'w TungsteniteWriter) option \<times> ('p, 'n) world" where
  "transport_connect P install_default dflt connect_tls connect_with_config split tr url buffers w =
     (case ensure_live_ws_allowed (policy_env P) (policy_json P) (policy_fs P) (policy_registry P) of
        None \<Rightarrow> (None, w)
      | Some (Inl e) \<Rightarrow> (Some (Inl e), w)
      | Some (Inr _) \<Rightarrow>
          let w = install_rustls_crypto_provider install_default w;
              config = build_ws_config dflt buffers;
              (r, n) = (case transport_connector tr of
                          Some connector \<Rightarrow> connect_tls url (Some config) False (Some connector) (network w)
                        | None \<Rightarrow> connect_with_config url (Some config) False (network w));
              w = w\<lparr>network := n\<rparr>
          in (case r of
                Inl err \<Rightarrow> (Some (Inl (transport_map_ws_error ''connect'' err)), w)
              | Inr (stream, _) \<Rightarrow>
                  let (wr, rd) = split stream
                  in (Some (Inr (\<lparr>reader_inner = rd\<rparr>, \<lparr>writer_inner = wr\<rparr>)), w)))"

definition transport_accept_async ::
  "('t \<Rightarrow> 'n \<Rightarrow> (string + 's) \<times> 'n) \<Rightarrow> 't \<Rightarrow> ('p, 'n) world
     \<Rightarrow> (WebSocketError + 's WsClient) \<times> ('p, 'n) world" where
  "transport_accept_async tungstenite_accept stream w = accept_async tungstenite_accept stream w"

section \<open>Agreement with the client, and the writer as a sink\<close>

lemma transport_conversions_agree:
  "transport_map_ws_error = map_ws_error"
  "transport_close_to_core = close_to_core"
  "transport_core_to_close = core_to_close"
  by (simp_all add: fun_eq_iff transport_map_ws_error_def map_ws_error_def
        transport_close_to_core_def close_to_core_def transport_core_to_close_def core_to_close_def
        split: option.split)

lemma transport_msg_to_frame_eq: "transport_msg_to_frame code_to m = msg_to_frame code_to m"
  by (cases m) (simp_all add: transport_msg_to_frame_def transport_conversions_agree)

lemma transport_frame_to_msg_eq: "transport_frame_to_msg code_from f = frame_to_msg code_from f"
  by (cases f) (simp_all add: transport_frame_to_msg_def transport_conversions_agree)

text \<open>A completed \<open>send\<close> on the writer: the inner half's, with the frame converted by
  \<open>start_send\<close> and an error of any of the three stages mapped the same way.\<close>

definition writer_send ::
  "(u16 \<Rightarrow> 'c) \<Rightarrow> ('c TungsteniteMessage \<Rightarrow> 'w \<Rightarrow> (string + unit) \<times> 'w)
     \<Rightarrow> 'w TungsteniteWriter sink" where
  "writer_send code_from inner_send f wr =
     (let (r, w) = inner_send (transport_frame_to_msg code_from f) (writer_inner wr)
      in (result_map_err (transport_map_ws_error ''write'') r, wr\<lparr>writer_inner := w\<rparr>))"

text \<open>The frames a message log stands for; a raw frame, which no frame converts to, is shown as
  a bare close frame.\<close>

definition socket_frame :: "('c \<Rightarrow> u16) \<Rightarrow> 'c TungsteniteMessage \<Rightarrow> WsFrame" where
  "socket_frame code_to m =
     (case msg_to_frame code_to m of Inl _ \<Rightarrow> WsFrame.Close None | Inr f \<Rightarrow> f)"

definition frames_of_log :: "('c \<Rightarrow> u16) \<Rightarrow> 'c TungsteniteMessage list \<Rightarrow> WsFrame list" where
  "frames_of_log code_to ms = map (socket_frame code_to) ms"

lemma frames_of_log_append [simp]:
  "frames_of_log code_to (xs @ ys) = frames_of_log code_to xs @ frames_of_log code_to ys"
  by (simp add: frames_of_log_def)

lemma wire_frame_carried: "carried f \<Longrightarrow> wire_frame f = f"
  by (induction f rule: wire_frame.induct) auto

lemma frames_of_log_carried:
  assumes "\<And>c. code_to (code_from c) = c" and "carried f"
  shows "frames_of_log code_to [frame_to_msg code_from f] = [f]"
  using assms
  by (simp add: frames_of_log_def socket_frame_def msg_to_frame_of_frame wire_frame_carried)

lemma writer_is_sink:
  assumes codes: "\<And>c. code_to (code_from c) = c"
    and accepts: "\<And>m w u w'. inner_send m w = (Inr u, w') \<Longrightarrow> msgs w' = msgs w @ [m]"
    and rejects: "\<And>m w e w'. inner_send m w = (Inl e, w') \<Longrightarrow> msgs w' = msgs w \<or> msgs w' = msgs w @ [m]"
  shows "ws_sink (writer_send code_from inner_send) (\<lambda>wr. frames_of_log code_to (msgs (writer_inner wr)))"
proof
  fix f wr u wr'
  assume c: "carried f" and s: "writer_send code_from inner_send f wr = (Inr u, wr')"
  obtain r w where i: "inner_send (frame_to_msg code_from f) (writer_inner wr) = (r, w)" by fastforce
  with s obtain u' where "r = Inr u'" "wr' = wr\<lparr>writer_inner := w\<rparr>"
    by (cases r) (auto simp: writer_send_def transport_frame_to_msg_eq)
  with accepts [of _ "writer_inner wr"] i c show
    "frames_of_log code_to (msgs (writer_inner wr')) = frames_of_log code_to (msgs (writer_inner wr)) @ [f]"
    by (simp add: frames_of_log_carried [of code_to code_from, OF codes])
next
  fix f wr e wr'
  assume c: "carried f" and s: "writer_send code_from inner_send f wr = (Inl e, wr')"
  obtain r w where i: "inner_send (frame_to_msg code_from f) (writer_inner wr) = (r, w)" by fastforce
  with s obtain e' where "r = Inl e'" "wr' = wr\<lparr>writer_inner := w\<rparr>"
    by (cases r) (auto simp: writer_send_def transport_frame_to_msg_eq)
  with rejects [of "frame_to_msg code_from f" "writer_inner wr" e' w] i c show
    "frames_of_log code_to (msgs (writer_inner wr')) = frames_of_log code_to (msgs (writer_inner wr))
     \<or> frames_of_log code_to (msgs (writer_inner wr')) = frames_of_log code_to (msgs (writer_inner wr)) @ [f]"
    by (auto simp: frames_of_log_carried [of code_to code_from, OF codes])
qed

end
