(* ===== verification/Managed_Composition.thy ===== *)
theory Managed_Composition
  imports Managed_Handle Managed_Fixture Reconnect Json_Rpc Tungstenite_Transport
begin

text \<open>
  The managed loops composed with the parts they are run with: the reconnect strategies
  (\<^verbatim>\<open>core/reconnect.rs\<close>, \<^verbatim>\<open>testing.rs\<close>), the tungstenite writer and the task's handle.
\<close>

section \<open>Strategies\<close>

interpretation fast: reconnect_strategy fast_reconnect "\<lambda>_. True"
  by unfold_locales (auto simp: fast_reconnect_def)

interpretation never: reconnect_strategy no_reconnect "\<lambda>_. True"
  by unfold_locales (auto simp: no_reconnect_def)

text \<open>With a strategy that keeps its contract the only source of panics in the plain loop, the
  strategy's \<open>next_delay\<close>, never fires.\<close>

context reconnect_strategy
begin

lemma delay_returns:
  assumes "ok r"
  shows "\<exists>delay r'. reconnect_delay R action r = Some (delay, r') \<and> ok r'"
proof (cases action)
  case BackoffReconnect
  obtain d r' where "next_delay R r = Some (d, r')" using next_returns [OF assms] by blast
  with next_ok [OF assms this] assms BackoffReconnect show ?thesis by simp
qed (simp_all add: assms)

definition sound :: "('h, 'r, 'w, 's) managed_loop \<Rightarrow> bool" where
  "sound s \<longleftrightarrow> ok (reconnect s) \<and> phase s \<noteq> Panicked"

lemma decide_returns:
  assumes "ok (reconnect s)"
  shows "\<exists>delay s'. decide_reconnect H R cause s = Some (delay, s') \<and> ok (reconnect s')"
  using delay_returns [OF assms, of "classify_disconnect H (handler s) cause"]
  by (auto simp: decide_reconnect_def Let_def)

lemma act_sound: "ok (reconnect s) \<Longrightarrow> sound (act_on_delay retry_connect delay s)"
  by (simp add: act_on_delay_def sound_def retry_connect_def enter_connect_def split: option.split)

lemma disconnect_sound:
  assumes "ok (reconnect s)"
  shows "sound (disconnect H R cause s)" "sound (disconnect_setup H R cause s)"
  using decide_returns [of "s\<lparr>status := ws_status_to_u8 Disconnected\<rparr>" H cause]
    decide_returns [of s H cause] assms
  by (auto simp: disconnect_def disconnect_setup_def Let_def intro!: act_sound)

lemma connected_sound: "ok (reconnect s) \<Longrightarrow> sound (on_connected H R send w s)"
  using reset_ok [of "reconnect s"]
  by (auto simp: on_connected_def Let_def split: prod.split sum.split intro!: disconnect_sound)
     (auto simp: sound_def)

lemma in_connection_sound: "sound s \<Longrightarrow> sound (in_connection H R arm w a s)"
  by (auto simp: in_connection_def Let_def sound_def [of s] split: prod.split loop_control.split
        intro!: disconnect_sound) (auto simp: sound_def)

lemma step_sound:
  assumes "sound s"
  shows "sound (managed_step H R send ev s)"
proof -
  have ok: "ok (reconnect s)" using assms by (simp add: sound_def)
  show ?thesis
    using assms
    by (cases rule: managed_step_cases [of s ev H R send])
       (auto simp: in_connection_sound disconnect_sound [OF ok] connected_sound [OF ok],
        auto simp: sound_def retry_connect_def enter_connect_def)
qed

lemma start_sound: "ok r \<Longrightarrow> sound (start_managed_ws_loop h r)"
  by (simp add: sound_def start_managed_ws_loop_def enter_connect_def)

lemma run_sound: "ok r \<Longrightarrow> sound (managed_run H R send evs (start_managed_ws_loop h r))"
  by (rule managed_run_invariant [of sound, OF step_sound start_sound])

end

end
