(* ===== verification/Composition_Properties.thy ===== *)
theory Composition_Properties
  imports Managed_Composition
begin

text \<open>
  Properties of the managed loop together with what it is run with: the live writer, the
  exponential backoff and the handle of its task.
\<close>

lemmas task_defs =
  task_run_def task_start_def task_event_def task_poll_def publish_def plain_body_def halted_def
  spawn_managed_ws_loop_def spawn_managed_ws_task_def channel_new_def drop_receiver_def

section \<open>On the live writer\<close>

definition data_message :: "'c TungsteniteMessage \<Rightarrow> bool" where
  "data_message m =
     (case m of TungsteniteMessage.Text b \<Rightarrow> utf8_valid b | TungsteniteMessage.Binary _ \<Rightarrow> True
      | _ \<Rightarrow> False)"

lemma data_frame_of_message: "data_frame (socket_frame code_to m) \<Longrightarrow> data_message m"
  by (cases m) (auto simp: socket_frame_def data_frame_def data_message_def from_bytes_unchecked_def)

text \<open>
  C12. On the tungstenite writer, whose socket half takes a message at its end when \<open>send\<close>
  succeeds and at most that message when it fails, everything a managed loop hands to an open
  connection is a text message of valid UTF-8 or a binary message, after any sequence of events.
\<close>

theorem loop_on_tungstenite:
  fixes msgs :: "'w \<Rightarrow> 'c TungsteniteMessage list"
  assumes codes: "\<And>c. code_to (code_from c) = c"
    and accepts: "\<And>m w u w'. inner_send m w = (Inr u, w') \<Longrightarrow> msgs w' = msgs w @ [m]"
    and rejects: "\<And>m w e w'. inner_send m w = (Inl e, w') \<Longrightarrow> msgs w' = msgs w \<or> msgs w' = msgs w @ [m]"
    and clean: "\<And>wr. ConnectResult (Inr wr) \<in> set evs \<Longrightarrow> msgs (writer_inner wr) = []"
    and opened: "phase (managed_run H R (writer_send code_from inner_send) evs
                   (start_managed_ws_loop h r)) = AwaitEvent wr a"
  shows "list_all data_message (msgs (writer_inner wr))"
proof -
  let ?log = "\<lambda>wr :: 'w TungsteniteWriter. frames_of_log code_to (msgs (writer_inner wr))"
  have sink: "ws_sink (writer_send code_from inner_send) ?log"
    by (rule writer_is_sink [OF codes accepts rejects])
  have "list_all data_frame (?log wr)"
    using clean opened by (intro ws_sink.data_on_wire [OF sink]) (auto simp: frames_of_log_def)
  then show ?thesis
    by (auto simp: frames_of_log_def list_all_iff intro: data_frame_of_message)
qed

lemma auth_message: "into_ws_message (str_bytes ''AUTH'') = WsFrame.Text (WsText (str_bytes ''AUTH''))"
  by code_simp

theorem loop_on_tungstenite_witness:
  "list_all data_message [TungsteniteMessage.Text (str_bytes ''AUTH'') :: u16 TungsteniteMessage]"
proof -
  let ?send = "\<lambda>m w. (Inr (), w @ [m]) :: (string + unit) \<times> u16 TungsteniteMessage list"
  have "list_all data_message (writer_inner
      \<lparr>writer_inner = [TungsteniteMessage.Text (str_bytes ''AUTH'') :: u16 TungsteniteMessage]\<rparr>)"
    by (rule loop_on_tungstenite [of "\<lambda>c. c" "\<lambda>c. c" ?send "\<lambda>w. w"
          "[ConnectResult (Inr \<lparr>writer_inner = []\<rparr>)]" test_endpoint fast_reconnect
          "test_endpoint_auth_gated ''AUTH''" "()" _ False])
       (simp_all add: loop_defs fixture_defs writer_send_def transport_frame_to_msg_def
          auth_message)
  then show ?thesis by simp
qed

section \<open>With the exponential backoff\<close>

text \<open>
  C14. A managed loop that reconnects with the exponential backoff never panics, for every
  endpoint, writer, sequence of events and backoff factor, and every base and largest delay
  within 48 days.
\<close>

theorem backoff_loop_never_panics:
  assumes "b < SECS_F64_EXACT" and "m < SECS_F64_EXACT"
  shows "phase (managed_run H exponential_backoff send evs
           (start_managed_ws_loop h (backoff_new b m fac))) \<noteq> Panicked"
  using backoff.run_sound [OF backoff_new_ok [OF assms, of fac], of H send evs h]
  by (simp add: backoff.sound_def)

theorem backoff_loop_never_panics_witness:
  "phase (managed_run test_endpoint exponential_backoff mock_writer_send
     [ConnectResult (Inl (ConnectionFailed ''refused'')), DelayElapsed]
     (start_managed_ws_loop (test_endpoint_new None) (backoff_new (from_secs 1) (from_secs 30) NaN)))
   \<noteq> Panicked"
  by (rule backoff_loop_never_panics) (simp_all add: from_secs_def SECS_F64_EXACT_def)

section \<open>Through the handle\<close>

text \<open>
  C19. Shutting a running loop down through its handle: when the loop is polling a drained
  command channel the request is accepted, the task's next poll ends it with status
  \<open>Disconnected\<close>, and \<open>shutdown_with_timeout\<close> answers \<open>Ok\<close>.
\<close>

theorem handle_shutdown_completes:
  assumes t: "t = task_run (plain_body H R send) ops (spawn_managed_ws_loop h r)"
    and "task t = Running" and "polls_commands (phase (body t))" and "queue (cmd t) = []"
  shows "case shutdown_begin closed_text t of (answer, t1) \<Rightarrow>
    let t2 = task_poll (plain_body H R send) clk t1; (result, t3) = shutdown_end limit False t2
    in answer = Inr () \<and> result = Inr () \<and> task t3 = Finished \<and> status_snapshot t2 = Disconnected"
proof -
  obtain answer t1 where b: "shutdown_begin closed_text t = (answer, t1)" by fastforce
  have "task_ok (plain_body H R send) t" unfolding t by (rule plain_task_ok)
  then have 1: "answer = Inr ()" "task (task_poll (plain_body H R send) clk t1) = Finished"
    "shared_status (task_poll (plain_body H R send) clk t1)
       = status (managed_step H R send (loop_event.Command (Some ManagedWsCommand.Shutdown)) (body t))"
    using plain.poll_shutdown [OF _ assms(2) _ assms(4) b, of H R send clk] assms(3)
    by (simp_all add: plain_body_def)
  have "status_ok (managed_step H R send (loop_event.Command (Some ManagedWsCommand.Shutdown)) (body t))"
    unfolding t by (intro status_ok_step plain_status_ok)
  moreover have "phase (managed_step H R send (loop_event.Command (Some ManagedWsCommand.Shutdown)) (body t)) = Returned"
    by (rule step_shutdown [OF assms(3)]) (simp add: ends_loop_def)
  ultimately have "status_snapshot (task_poll (plain_body H R send) clk t1) = Disconnected"
    by (simp add: 1 status_snapshot_def status_ok_def ws_status_from_u8_def)
  with b 1 show ?thesis
    by (simp add: shutdown_end_def Let_def drop_handle_detached)
qed

theorem handle_shutdown_completes_witness:
  "case shutdown_begin ''channel closed''
     (task_run (plain_body test_endpoint fast_reconnect mock_writer_send)
       [Start, LoopEvent (ConnectResult (Inr fresh_mock_writer))]
       (spawn_managed_ws_loop (test_endpoint_auth_gated ''AUTH'') ())) of (answer, t1) \<Rightarrow>
    let t2 = task_poll (plain_body test_endpoint fast_reconnect mock_writer_send) (\<lambda>_. 0) t1;
        (result, t3) = shutdown_end (from_secs 1) False t2
    in answer = Inr () \<and> result = Inr () \<and> task t3 = Finished \<and> status_snapshot t2 = Disconnected"
  by (rule handle_shutdown_completes [OF refl])
     (simp_all add: task_defs loop_defs fixture_defs polls_commands_def)

definition restless :: "(TestEndpoint, Observed, string, unit) WsEndpointHandler" where
  "restless = test_endpoint\<lparr>classify_disconnect := \<lambda>_ _. ImmediateReconnect\<rparr>"

text \<open>
  C40. When the time runs out, \<open>shutdown_with_timeout\<close> gives up the task without aborting it:
  a loop that reconnects at once and whose connects keep failing goes on running, holds the
  \<open>Shutdown\<close> it never receives and outlives its handle, while dropping the same handle would
  have aborted it.
\<close>

theorem shutdown_timeout_detaches:
  assumes "\<forall>h cause. classify_disconnect H h cause = ImmediateReconnect"
    and "list_all keeps_failing ops" and "list_all keeps_failing ops'" and "list_all keeps_failing ops''"
    and t: "t = task_run (plain_body H R send) (Start # ops) (spawn_managed_ws_loop h r)"
    and "shutdown_begin closed_text t = (answer, t1)"
    and "shutdown_end limit True (task_run (plain_body H R send) ops' t1) = (result, t2)"
  shows "answer = Inr ()
    \<and> result = Inl (''websocket loop did not stop within '' @ show_nat (as_millis limit) @ '' ms'')
    \<and> task (task_run (plain_body H R send) ops'' t2) = Running
    \<and> task (drop_handle t) = Aborted"
proof -
  let ?run = "task_run (plain_body H R send)"
  have t': "t = ?run ops (task_op_step (plain_body H R send) Start (spawn_managed_ws_loop h r))"
    by (simp add: t task_run_def)
  have c: "connecting t" "task t = Running" and l: "loop_handle t"
    using connecting_running [OF assms(1,2) plain_started, of R send H R send h r]
    by (simp_all only: t' loop_handle_run loop_handle_step)
       (simp add: spawn_managed_ws_loop_def spawn_managed_ws_task_def)
  have "task_ok (plain_body H R send) t" unfolding t by (rule plain_task_ok)
  then have a: "answer = Inr ()" "t1 = t\<lparr>cmd := cmd t1\<rparr>"
    using assms(6) c(2) by (auto simp: shutdown_begin_def task_ok_def channel_send_def)
  have "connecting t1" "task t1 = Running" "loop_handle t1"
    using c l by (subst a(2), simp add: connecting_def)+
  then have d: "connecting (?run ops' t1)" "task (?run ops' t1) = Running" "loop_handle (?run ops' t1)"
    using connecting_running [OF assms(1,3), of t1 R send] by simp_all
  then have "connecting t2" "task t2 = Running"
    using assms(7) by (auto simp: shutdown_end_def Let_def connecting_def drop_handle_detached)
  then have "task (?run ops'' t2) = Running" using connecting_running [OF assms(1,4)] by blast
  moreover have "result = Inl (''websocket loop did not stop within '' @ show_nat (as_millis limit) @ '' ms'')"
    using shutdown_end_detaches(1) [OF d(2,3), of limit] assms(7) by simp
  moreover have "task (drop_handle t) = Aborted" using drop_handle_aborts [OF l] c(2) by simp
  ultimately show ?thesis using a(1) by blast
qed

theorem shutdown_timeout_detaches_witness:
  "\<exists>t t1 t2 answer result.
     shutdown_begin ''channel closed'' t = (answer, t1)
     \<and> shutdown_end (from_secs 5) True (task_run (plain_body restless fast_reconnect mock_writer_send)
          [PollCommands (\<lambda>_. 0)] t1) = (result, t2)
     \<and> answer = Inr ()
     \<and> result = Inl (''websocket loop did not stop within '' @ show_nat (as_millis (from_secs 5)) @ '' ms'')
     \<and> task (task_run (plain_body restless fast_reconnect mock_writer_send) [PollCommands (\<lambda>_. 0)] t2) = Running
     \<and> task (drop_handle t) = Aborted"
proof -
  let ?B = "plain_body restless fast_reconnect mock_writer_send"
  let ?refused = "LoopEvent (ConnectResult (Inl (ConnectionFailed ''refused'')))"
  let ?t = "task_run ?B [Start, ?refused] (spawn_managed_ws_loop (test_endpoint_new None) ())"
  obtain answer t1 where b: "shutdown_begin ''channel closed'' ?t = (answer, t1)" by fastforce
  obtain result t2 where e: "shutdown_end (from_secs 5) True
      (task_run ?B [PollCommands (\<lambda>_. 0)] t1) = (result, t2)" by fastforce
  have "\<forall>h cause. classify_disconnect restless h cause = ImmediateReconnect" by (simp add: restless_def)
  moreover have "list_all keeps_failing [?refused]" "list_all keeps_failing [PollCommands (\<lambda>_. 0)]"
    by (simp_all add: keeps_failing_def)
  ultimately show ?thesis
    using b e shutdown_timeout_detaches [of restless "[?refused]" "[PollCommands (\<lambda>_. 0)]"
      "[PollCommands (\<lambda>_. 0)]", OF _ _ _ _ refl b e] by blast
qed

text \<open>
  \<open>shutdown_with_timeout\<close> fails on a loop that has already stopped by itself: once the
  loop has returned, the request is always answered with an error.
\<close>

theorem stopped_loop_shutdown_errors:
  assumes "t = task_run (plain_body H R send) ops (spawn_managed_ws_loop h r)"
    and "task t = Finished"
  shows "fst (shutdown_begin closed_text t) = Inl (''failed to enqueue websocket shutdown: '' @ closed_text)"
  using plain_task_ok [of H R send ops h r] assms
  by (simp add: task_ok_def shutdown_begin_def channel_send_def)

theorem stopped_loop_shutdown_errors_witness:
  "fst (shutdown_begin ''channel closed''
     (task_run (plain_body test_endpoint no_reconnect mock_writer_send)
       [Start, LoopEvent (ConnectResult (Inl (ConnectionFailed ''refused'')))]
       (spawn_managed_ws_loop (test_endpoint_new None) ())))
   = Inl (''failed to enqueue websocket shutdown: '' @ ''channel closed'')"
  by (rule stopped_loop_shutdown_errors [OF refl])
     (simp add: task_defs loop_defs fixture_defs no_reconnect_def)

end
