(* ===== verification/Mock_Server.thy ===== *)
theory Mock_Server
  imports Mock_Transport
begin

text \<open>
  The two in-memory transports of \<^verbatim>\<open>src/src/testing.rs\<close> with the server ends their tests
  drive.  A socket is the pair of channels between a client and its mock server; the client
  holds the sending end of \<open>sent\<close> and the receiving end of \<open>inbound\<close>, the server the other
  two.  Operations are atomic: one call, or one poll, is one step.
\<close>

section \<open>One socket and its ends\<close>

record mock_socket =
  sent :: "WsFrame channel"
  inbound :: "WsFrame channel"
  inbound_tx :: bool

fun mock_server_error_text :: "MockServerError \<Rightarrow> string" where
  "mock_server_error_text SocketDropped = ''mock socket already dropped''"
| "mock_server_error_text ChannelClosed = ''mock actor channel is closed''"

text \<open>The client's ends: \<open>MockReader\<close> and \<open>MockWriter\<close>.\<close>

definition mock_reader_poll_next ::
  "'z mock_socket_scheme \<Rightarrow> (WebSocketError + WsFrame) option Poll \<times> 'z mock_socket_scheme" where
  "mock_reader_poll_next s =
     (let (p, c) = channel_recv (inbound s)
      in ((case p of
             Ready (Some frame) \<Rightarrow> Ready (Some (Inr frame))
           | Ready None \<Rightarrow> Ready None
           | Pending \<Rightarrow> Pending),
          s\<lparr>inbound := c\<rparr>))"

definition mock_writer_poll_ready :: "MockWriter \<Rightarrow> (WebSocketError + unit) Poll \<times> MockWriter" where
  "mock_writer_poll_ready w = (Ready (Inr ()), w)"

definition mock_writer_poll_flush :: "MockWriter \<Rightarrow> (WebSocketError + unit) Poll \<times> MockWriter" where
  "mock_writer_poll_flush w = (Ready (Inr ()), w)"

definition mock_writer_poll_close :: "MockWriter \<Rightarrow> (WebSocketError + unit) Poll \<times> MockWriter" where
  "mock_writer_poll_close w = (Ready (Inr ()), w)"

definition socket_write ::
  "WsFrame \<Rightarrow> 'z mock_socket_scheme \<Rightarrow> (WebSocketError + unit) \<times> 'z mock_socket_scheme" where
  "socket_write f s =
     (let (r, w) = mock_writer_send f \<lparr>sent_tx = sent s\<rparr> in (r, s\<lparr>sent := sent_tx w\<rparr>))"

section \<open>The single-connection transport\<close>

text \<open>\<open>inbound_rx\<close>: the receiver is still in the transport's mutex.\<close>

record MockTransport = mock_socket +
  inbound_rx :: bool

definition mock_channel_pair :: MockTransport where
  "mock_channel_pair =
     \<lparr>sent = channel_new, inbound = channel_new, inbound_tx = True, inbound_rx = True\<rparr>"

text \<open>The clone of the sender made by a failing call is dropped with its future.\<close>

definition mock_connect ::
  "string \<Rightarrow> WebSocketBufferConfig \<Rightarrow> MockTransport \<Rightarrow> (WebSocketError + unit) \<times> MockTransport" where
  "mock_connect url buffers s =
     (let s = s\<lparr>sent := clone_sender (sent s)\<rparr>
      in if inbound_rx s then (Inr (), s\<lparr>inbound_rx := False\<rparr>)
         else (Inl (InvalidState ''mock transport only supports a single active connection''),
               s\<lparr>sent := drop_sender (sent s)\<rparr>))"

definition recv_outbound :: "MockTransport \<Rightarrow> WsFrame option Poll \<times> MockTransport" where
  "recv_outbound s = (let (p, c) = channel_recv (sent s) in (p, s\<lparr>sent := c\<rparr>))"

definition recv_outbound_timeout :: "MockTransport \<Rightarrow> WsFrame option \<times> MockTransport" where
  "recv_outbound_timeout s = (let (r, c) = recv_or_timeout (sent s) in (r, s\<lparr>sent := c\<rparr>))"

definition send_inbound :: "WsFrame \<Rightarrow> MockTransport \<Rightarrow> (MockServerError + unit) \<times> MockTransport" where
  "send_inbound frame s =
     (if \<not> inbound_tx s then (Inl SocketDropped, s)
      else let (ok, c) = channel_send frame (inbound s)
           in (if ok then Inr () else Inl ChannelClosed, s\<lparr>inbound := c\<rparr>))"

definition send_text :: "string \<Rightarrow> MockTransport \<Rightarrow> (MockServerError + unit) \<times> MockTransport" where
  "send_text txt s = send_inbound (into_ws_message (str_bytes txt)) s"

definition drop_socket :: "MockTransport \<Rightarrow> MockTransport" where
  "drop_socket s =
     (if inbound_tx s then s\<lparr>inbound_tx := False, inbound := drop_sender (inbound s)\<rparr> else s)"

section \<open>The reconnecting transport\<close>

record ReconnectableMockConnection = mock_socket +
  rc_conn_id :: u64

text \<open>The connections made so far, oldest first, and the channel on which the server accepts
  them (as positions in that list).\<close>

record ReconnectableMockTransport =
  conn_seq :: u64
  server_chan :: "nat channel"
  connections :: "ReconnectableMockConnection list"

definition reconnectable_channel_pair :: ReconnectableMockTransport where
  "reconnectable_channel_pair = \<lparr>conn_seq = 0, server_chan = channel_new, connections = []\<rparr>"

text \<open>A refused connection loses its channels with the returned \<open>SendError\<close>.\<close>

definition reconnectable_connect ::
  "string \<Rightarrow> WebSocketBufferConfig \<Rightarrow> ReconnectableMockTransport
     \<Rightarrow> (WebSocketError + nat) \<times> ReconnectableMockTransport" where
  "reconnectable_connect url buffers t =
     (let id = conn_seq t + 1;
          t = t\<lparr>conn_seq := conn_seq t + 1\<rparr>;
          conn = \<lparr>sent = channel_new, inbound = channel_new, inbound_tx = True, rc_conn_id = id\<rparr>;
          (ok, c) = channel_send (length (connections t)) (server_chan t)
      in if ok then (Inr (length (connections t)),
                     t\<lparr>server_chan := c, connections := connections t @ [conn]\<rparr>)
         else (Inl (InvalidState ''reconnectable mock server receiver dropped''),
               t\<lparr>server_chan := c\<rparr>))"

definition accept_connection ::
  "ReconnectableMockTransport \<Rightarrow> nat option Poll \<times> ReconnectableMockTransport" where
  "accept_connection t = (let (p, c) = channel_recv (server_chan t) in (p, t\<lparr>server_chan := c\<rparr>))"

definition accept_connection_timeout ::
  "ReconnectableMockTransport \<Rightarrow> nat option \<times> ReconnectableMockTransport" where
  "accept_connection_timeout t =
     (let (r, c) = recv_or_timeout (server_chan t) in (r, t\<lparr>server_chan := c\<rparr>))"

definition conn_id :: "ReconnectableMockConnection \<Rightarrow> u64" where
  "conn_id c = rc_conn_id c"

definition conn_recv_outbound ::
  "ReconnectableMockConnection \<Rightarrow> WsFrame option Poll \<times> ReconnectableMockConnection" where
  "conn_recv_outbound s = (let (p, c) = channel_recv (sent s) in (p, s\<lparr>sent := c\<rparr>))"

definition conn_recv_outbound_timeout ::
  "ReconnectableMockConnection \<Rightarrow> WsFrame option \<times> ReconnectableMockConnection" where
  "conn_recv_outbound_timeout s = (let (r, c) = recv_or_timeout (sent s) in (r, s\<lparr>sent := c\<rparr>))"

definition conn_send_inbound ::
  "WsFrame \<Rightarrow> ReconnectableMockConnection \<Rightarrow> (MockServerError + unit) \<times> ReconnectableMockConnection" where
  "conn_send_inbound frame s =
     (if \<not> inbound_tx s then (Inl SocketDropped, s)
      else let (ok, c) = channel_send frame (inbound s)
           in (if ok then Inr () else Inl ChannelClosed, s\<lparr>inbound := c\<rparr>))"

definition conn_send_text ::
  "string \<Rightarrow> ReconnectableMockConnection \<Rightarrow> (MockServerError + unit) \<times> ReconnectableMockConnection" where
  "conn_send_text txt s = conn_send_inbound (into_ws_message (str_bytes txt)) s"

definition conn_drop_socket :: "ReconnectableMockConnection \<Rightarrow> ReconnectableMockConnection" where
  "conn_drop_socket s =
     (if inbound_tx s then s\<lparr>inbound_tx := False, inbound := drop_sender (inbound s)\<rparr> else s)"

section \<open>Runs of a transport and its server\<close>

text \<open>One step of the client side or of the server side, with the frames each side has handed
  over and taken so far.  The client's ends exist once a connection was made.\<close>

datatype mock_op =
    Connect
  | ClientSend WsFrame
  | ClientPoll
  | ServerRecv
  | ServerSend WsFrame
  | ServerDrop

record mock_history =
  to_client :: "WsFrame list"
  at_client :: "WsFrame list"
  to_server :: "WsFrame list"
  at_server :: "WsFrame list"

fun mock_op_step :: "mock_op \<Rightarrow> MockTransport \<times> mock_history \<Rightarrow> MockTransport \<times> mock_history" where
  "mock_op_step Connect (s, h) = (snd (mock_connect [] default_buffer_config s), h)"
| "mock_op_step (ClientSend f) (s, h) =
     (if inbound_rx s then (s, h)
      else case socket_write f s of
             (Inr _, s) \<Rightarrow> (s, h\<lparr>to_server := to_server h @ [f]\<rparr>)
           | (Inl _, s) \<Rightarrow> (s, h))"
| "mock_op_step ClientPoll (s, h) =
     (if inbound_rx s then (s, h)
      else let (p, s) = mock_reader_poll_next s
           in (s, h\<lparr>at_client := at_client h @
                  (case p of Ready (Some (Inr f)) \<Rightarrow> [f] | _ \<Rightarrow> [])\<rparr>))"
| "mock_op_step ServerRecv (s, h) =
     (let (p, s) = recv_outbound s in (s, h\<lparr>at_server := at_server h @ taken p\<rparr>))"
| "mock_op_step (ServerSend f) (s, h) =
     (case send_inbound f s of
        (Inr _, s) \<Rightarrow> (s, h\<lparr>to_client := to_client h @ [f]\<rparr>)
      | (Inl _, s) \<Rightarrow> (s, h))"
| "mock_op_step ServerDrop (s, h) = (drop_socket s, h)"

definition mock_start :: "MockTransport \<times> mock_history" where
  "mock_start = (mock_channel_pair, \<lparr>to_client = [], at_client = [], to_server = [], at_server = []\<rparr>)"

definition mock_run :: "mock_op list \<Rightarrow> MockTransport \<times> mock_history" where
  "mock_run ops = fold mock_op_step ops mock_start"

definition mock_flows :: "MockTransport \<times> mock_history \<Rightarrow> bool" where
  "mock_flows = (\<lambda>(s, h). chan.flows (to_client h) (at_client h) (inbound s)
                       \<and> chan.flows (to_server h) (at_server h) (sent s))"

lemma mock_flows_step: "mock_flows sh \<Longrightarrow> mock_flows (mock_op_step op sh)"
proof (cases sh; cases op)
  fix s h f assume "mock_flows sh" and sh: "sh = (s, h)" and "op = ClientSend f"
  then show ?thesis
    using chan.flows_put [of "to_server h" "at_server h" "sent s" f]
    by (auto simp: mock_flows_def socket_write_def mock_writer_send_def split: prod.split sum.split)
next
  fix s h assume "mock_flows sh" and "sh = (s, h)" and "op = ClientPoll"
  then show ?thesis
    using flows_taken [of "to_client h" "at_client h" "inbound s"]
    by (auto simp: mock_flows_def mock_reader_poll_next_def taken_def
          split: prod.split Poll.splits option.splits)
next
  fix s h assume "mock_flows sh" and "sh = (s, h)" and "op = ServerRecv"
  then show ?thesis
    using flows_taken [of "to_server h" "at_server h" "sent s"]
    by (auto simp: mock_flows_def recv_outbound_def split: prod.split)
next
  fix s h f assume "mock_flows sh" and "sh = (s, h)" and "op = ServerSend f"
  then show ?thesis
    using chan.flows_put [of "to_client h" "at_client h" "inbound s" f]
    by (auto simp: mock_flows_def send_inbound_def split: prod.split sum.split)
qed (auto simp: mock_flows_def mock_connect_def drop_socket_def Let_def)

lemma mock_flows_run: "mock_flows (mock_run ops)"
  unfolding mock_run_def
  by (rule fold_invariant [where P = mock_flows])
     (simp_all add: mock_flows_step, simp add: mock_flows_def mock_start_def mock_channel_pair_def
        channel_new_def chan.flows_def)

text \<open>The receiver leaves the transport once.\<close>

lemma inbound_rx_step: "\<not> inbound_rx (fst sh) \<Longrightarrow> \<not> inbound_rx (fst (mock_op_step op sh))"
  by (cases sh; cases op)
     (auto simp: mock_connect_def socket_write_def mock_reader_poll_next_def recv_outbound_def
        send_inbound_def drop_socket_def Let_def split: prod.split sum.split)

section \<open>Numbered connections\<close>

definition reconnectable_run :: "nat \<Rightarrow> ReconnectableMockTransport \<Rightarrow> ReconnectableMockTransport" where
  "reconnectable_run n t = ((\<lambda>t. snd (reconnectable_connect [] default_buffer_config t)) ^^ n) t"

lemma reconnectable_run_state:
  "conn_seq (reconnectable_run n reconnectable_channel_pair) = word_of_nat n \<and>
   queue (server_chan (reconnectable_run n reconnectable_channel_pair)) = [0..<n] \<and>
   rx_alive (server_chan (reconnectable_run n reconnectable_channel_pair)) \<and>
   map conn_id (connections (reconnectable_run n reconnectable_channel_pair)) = map word_of_nat [1..<n + 1]"
proof (induction n)
  case 0
  show ?case by (simp add: reconnectable_run_def reconnectable_channel_pair_def channel_new_def)
next
  case (Suc n)
  let ?t = "reconnectable_run n reconnectable_channel_pair"
  have step: "reconnectable_run (Suc n) reconnectable_channel_pair
                = snd (reconnectable_connect [] default_buffer_config ?t)"
    by (simp add: reconnectable_run_def)
  have "length (connections ?t) = n" using Suc by (metis length_map length_upt add_diff_cancel_right')
  with Suc show ?case
    unfolding step by (simp add: reconnectable_connect_def channel_send_def Let_def conn_id_def)
qed

end
