(* ===== verification/Mock_Session.thy ===== *)
theory Mock_Session
  imports Managed_Safety Mock_Server
begin

text \<open>
  The plain loop of \<^verbatim>\<open>ws/managed.rs\<close> on the reconnecting mock transport of \<^verbatim>\<open>testing.rs\<close>,
  as the tests of the module run it: one state holds the loop, every connection made so far and
  the command channel, and a step is a turn of the loop, of the server or of the owner of the
  channel.  The two ends of a connection share its channels, so before a turn of the loop its
  writer is loaded from the connection and afterwards stored back; the reader and the writer
  are locals of one iteration of the loop and are dropped when it ends, after the delay.
\<close>

section \<open>The writer after a turn\<close>

definition setup_writer ::
  "('h, 'm, 's, 'v) WsEndpointHandler \<Rightarrow> 'w sink \<Rightarrow> 'w \<Rightarrow> ('h, 'r, 'w, 's) managed_loop \<Rightarrow> 'w" where
  "setup_writer H send w s =
     (let h = announce_open H (is_reconnect s) (handler s)
      in case send_auth H send (h, w) of
           (Inl _, _, w) \<Rightarrow> w
         | (Inr _, h, w) \<Rightarrow>
             if session_mode H h = Public then snd (snd (replay_subscriptions H send (h, w))) else w)"

definition arm_writer ::
  "(('h, 'w, 's) connection \<Rightarrow> loop_control \<times> ('h, 'w, 's) connection) \<Rightarrow> 'w \<Rightarrow> bool
     \<Rightarrow> ('h, 'r, 'w, 's) managed_loop \<Rightarrow> 'w" where
  "arm_writer arm w auth s =
     conn_writer (snd (arm \<lparr>conn_handler = handler s, conn_writer = w, session_authenticated = auth,
                            pending_auth_commands = pending_commands s\<rparr>))"

definition last_writer ::
  "('h, 'm, 's, 'v) WsEndpointHandler \<Rightarrow> 'w sink \<Rightarrow> ('w, 's) loop_event
     \<Rightarrow> ('h, 'r, 'w, 's) managed_loop \<Rightarrow> 'w \<Rightarrow> 'w" where
  "last_writer H send ev s w =
     (case (phase s, ev) of
        (AwaitConnect, ConnectResult (Inr w)) \<Rightarrow> setup_writer H send w s
      | (AwaitEvent w auth, Command command) \<Rightarrow> arm_writer (on_command H send command) w auth s
      | (AwaitEvent w auth, Read maybe_frame) \<Rightarrow> arm_writer (on_read H send maybe_frame) w auth s
      | _ \<Rightarrow> w)"

text \<open>It is the writer of the phase whenever the connection stays open.\<close>

lemma last_writer_open:
  assumes "phase (managed_step H R send ev s) = AwaitEvent w' a"
    and "\<And>v b. phase s = AwaitEvent v b \<Longrightarrow> v = w"
  shows "last_writer H send ev s w = w'"
  using assms
  by (cases "phase s"; cases ev)
     (auto simp: managed_step.simps last_writer_def setup_writer_def arm_writer_def on_connected_def
        in_connection_def Let_def disconnect_not_open retry_connect_def enter_connect_def
        split: prod.splits sum.splits if_splits loop_control.splits)

context writer_invariant
begin

lemma setup_writer_keeps: "P w \<Longrightarrow> P (setup_writer H send w s)"
  using replay_keeps [of _ H]
  by (auto simp: setup_writer_def send_auth_def Let_def split: option.splits prod.splits sum.splits
        dest: send_payload_keepsD)

lemma last_writer_keeps:
  assumes "P w" and "\<And>v b. phase s = AwaitEvent v b \<Longrightarrow> v = w"
    and "\<And>v. ev = ConnectResult (Inr v) \<Longrightarrow> v = w"
  shows "P (last_writer H send ev s w)"
  using assms
  by (auto simp: last_writer_def arm_writer_def setup_writer_keeps on_command_keeps on_read_keeps
        split: loop_phase.split loop_event.split sum.split)

end

section \<open>The joint state\<close>

type_synonym ('h, 'r, 's) mock_loop = "('h, 'r, ReconnectableMockConnection, 's) managed_loop"

text \<open>\<open>link\<close>: the connection whose reader and writer the current iteration of the loop holds.\<close>

record ('h, 'r, 's) session =
  loop :: "('h, 'r, 's) mock_loop"
  net :: ReconnectableMockTransport
  link :: "nat option"
  commands :: "'s ManagedWsCommand channel"

text \<open>What has passed over each connection: frames the server handed over and the loop read,
  frames the loop wrote and the server received.\<close>

record traffic =
  offered :: "nat \<Rightarrow> WsFrame list"
  read_in :: "nat \<Rightarrow> WsFrame list"
  written :: "nat \<Rightarrow> WsFrame list"
  received :: "nat \<Rightarrow> WsFrame list"

definition session_start :: "'h \<Rightarrow> 'r \<Rightarrow> ('h, 'r, 's) session \<times> traffic" where
  "session_start h r =
     (\<lparr>loop = start_managed_ws_loop h r, net = reconnectable_channel_pair, link = None,
       commands = channel_new\<rparr>,
      \<lparr>offered = (\<lambda>_. []), read_in = (\<lambda>_. []), written = (\<lambda>_. []), received = (\<lambda>_. [])\<rparr>)"

abbreviation conn_at :: "nat \<Rightarrow> ('h, 'r, 's) session \<Rightarrow> ReconnectableMockConnection" where
  "conn_at i s \<equiv> connections (net s) ! i"

definition set_conn ::
  "nat \<Rightarrow> ReconnectableMockConnection \<Rightarrow> ReconnectableMockTransport \<Rightarrow> ReconnectableMockTransport" where
  "set_conn i c t = t\<lparr>connections := (connections t)[i := c]\<rparr>"

text \<open>The reader and the writer are dropped.\<close>

definition hang_up :: "ReconnectableMockConnection \<Rightarrow> ReconnectableMockConnection" where
  "hang_up c = c\<lparr>sent := drop_sender (sent c), inbound := drop_receiver (inbound c)\<rparr>"

definition load :: "'w \<Rightarrow> ('h, 'r, 'w, 's) managed_loop \<Rightarrow> ('h, 'r, 'w, 's) managed_loop" where
  "load w l = (case phase l of AwaitEvent _ a \<Rightarrow> l\<lparr>phase := AwaitEvent w a\<rparr> | _ \<Rightarrow> l)"

definition holds_socket :: "'w loop_phase \<Rightarrow> bool" where
  "holds_socket p = (case p of AwaitEvent _ _ \<Rightarrow> True | AwaitDelay \<Rightarrow> True | _ \<Rightarrow> False)"

text \<open>The end of the loop drops the receiver of the commands.\<close>

definition close_commands :: "('h, 'r, 's) session \<Rightarrow> ('h, 'r, 's) session" where
  "close_commands s =
     (if phase (loop s) = Returned then s\<lparr>commands := drop_receiver (commands s)\<rparr> else s)"

definition loop_turn ::
  "('h, 'm, 's, 'v) WsEndpointHandler \<Rightarrow> 'r WsReconnectStrategy
     \<Rightarrow> (ReconnectableMockConnection, 's) loop_event
     \<Rightarrow> ('h, 'r, 's) session \<times> traffic \<Rightarrow> ('h, 'r, 's) session \<times> traffic" where
  "loop_turn H R ev st =
     (let (s, t) = st
      in case link s of
           None \<Rightarrow> (close_commands (s\<lparr>loop := managed_step H R socket_write ev (loop s)\<rparr>), t)
         | Some i \<Rightarrow>
             let c = conn_at i s; l = load c (loop s);
                 l' = managed_step H R socket_write ev l;
                 c' = last_writer H socket_write ev l c;
                 new = drop (length (queue (sent c))) (queue (sent c'));
                 holds = holds_socket (phase l')
             in (close_commands
                   (s\<lparr>loop := l', net := set_conn i (if holds then c' else hang_up c') (net s),
                      link := (if holds then Some i else None)\<rparr>),
                 t\<lparr>written := (written t)(i := written t i @ new)\<rparr>))"

section \<open>Steps\<close>

datatype 's session_op =
    ConnectTurn
  | ReadTurn
  | CommandTurn
  | DelayTurn
  | ServerAccept
  | ServerReceive nat
  | ServerOffer nat WsFrame
  | ServerHangUp nat
  | Issue "'s ManagedWsCommand"

definition read_frames :: "(WebSocketError + WsFrame) option \<Rightarrow> WsFrame list" where
  "read_frames m = (case m of Some (Inr f) \<Rightarrow> [f] | _ \<Rightarrow> [])"

fun session_step ::
  "('h, 'm, 's, 'v) WsEndpointHandler \<Rightarrow> 'r WsReconnectStrategy \<Rightarrow> 's session_op
     \<Rightarrow> ('h, 'r, 's) session \<times> traffic \<Rightarrow> ('h, 'r, 's) session \<times> traffic" where
  "session_step H R ConnectTurn (s, t) =
     (if phase (loop s) = AwaitConnect
      then (case reconnectable_connect ''ws://example.invalid'' default_buffer_config (net s) of
              (Inl e, n) \<Rightarrow> loop_turn H R (ConnectResult (Inl e)) (s\<lparr>net := n\<rparr>, t)
            | (Inr i, n) \<Rightarrow>
                loop_turn H R (ConnectResult (Inr (connections n ! i))) (s\<lparr>net := n, link := Some i\<rparr>, t))
      else (s, t))"
| "session_step H R ReadTurn (s, t) =
     (case (phase (loop s), link s) of
        (AwaitEvent _ _, Some i) \<Rightarrow>
          (case mock_reader_poll_next (conn_at i s) of
             (Ready m, c) \<Rightarrow>
               loop_turn H R (Read m)
                 (s\<lparr>net := set_conn i c (net s)\<rparr>, t\<lparr>read_in := (read_in t)(i := read_in t i @ read_frames m)\<rparr>)
           | (Pending, _) \<Rightarrow> (s, t))
      | _ \<Rightarrow> (s, t))"
| "session_step H R CommandTurn (s, t) =
     (if polls_commands (phase (loop s))
      then (case channel_recv (commands s) of
              (Ready command, q) \<Rightarrow> loop_turn H R (Command command) (s\<lparr>commands := q\<rparr>, t)
            | (Pending, _) \<Rightarrow> (s, t))
      else (s, t))"
| "session_step H R DelayTurn (s, t) =
     (if phase (loop s) = AwaitDelay then loop_turn H R DelayElapsed (s, t) else (s, t))"
| "session_step H R ServerAccept (s, t) = (s\<lparr>net := snd (accept_connection (net s))\<rparr>, t)"
| "session_step H R (ServerReceive i) (s, t) =
     (if i < length (connections (net s))
      then let (p, c) = conn_recv_outbound (conn_at i s)
           in (s\<lparr>net := set_conn i c (net s)\<rparr>, t\<lparr>received := (received t)(i := received t i @ taken p)\<rparr>)
      else (s, t))"
| "session_step H R (ServerOffer i f) (s, t) =
     (if i < length (connections (net s))
      then (case conn_send_inbound f (conn_at i s) of
              (Inr _, c) \<Rightarrow>
                (s\<lparr>net := set_conn i c (net s)\<rparr>, t\<lparr>offered := (offered t)(i := offered t i @ [f])\<rparr>)
            | (Inl _, c) \<Rightarrow> (s\<lparr>net := set_conn i c (net s)\<rparr>, t))
      else (s, t))"
| "session_step H R (ServerHangUp i) (s, t) =
     (if i < length (connections (net s))
      then (s\<lparr>net := set_conn i (conn_drop_socket (conn_at i s)) (net s)\<rparr>, t) else (s, t))"
| "session_step H R (Issue command) (s, t) = (s\<lparr>commands := snd (channel_send command (commands s))\<rparr>, t)"

definition session_run ::
  "('h, 'm, 's, 'v) WsEndpointHandler \<Rightarrow> 'r WsReconnectStrategy \<Rightarrow> 's session_op list
     \<Rightarrow> ('h, 'r, 's) session \<times> traffic \<Rightarrow> ('h, 'r, 's) session \<times> traffic" where
  "session_run H R ops st = fold (session_step H R) ops st"

section \<open>Delivery\<close>

text \<open>A turn of the loop only adds data frames to the channel it writes to.\<close>

definition grown :: "ReconnectableMockConnection \<Rightarrow> ReconnectableMockConnection \<Rightarrow> bool" where
  "grown c c' \<longleftrightarrow>
     (\<exists>fs. list_all data_frame fs \<and> c' = c\<lparr>sent := (sent c)\<lparr>queue := queue (sent c) @ fs\<rparr>\<rparr>)"

lemma grown_refl [simp]: "grown c c"
  unfolding grown_def by (intro exI [of _ "[]"]) simp

interpretation growing: writer_invariant socket_write "grown c"
  for c :: ReconnectableMockConnection
proof
  fix c' f
  assume "grown c c'" and f: "data_frame f"
  then obtain fs where fs: "list_all data_frame fs" "c' = c\<lparr>sent := (sent c)\<lparr>queue := queue (sent c) @ fs\<rparr>\<rparr>"
    by (auto simp: grown_def)
  have "snd (socket_write f c') = c' \<or> snd (socket_write f c') = c\<lparr>sent := (sent c)\<lparr>queue := queue (sent c) @ fs @ [f]\<rparr>\<rparr>"
    by (auto simp: fs(2) socket_write_def mock_writer_send_def channel_send_def Let_def)
  then show "grown c (snd (socket_write f c'))"
  proof
    assume "snd (socket_write f c') = c'"
    with \<open>grown c c'\<close> show ?thesis by simp
  next
    assume "snd (socket_write f c') = c\<lparr>sent := (sent c)\<lparr>queue := queue (sent c) @ fs @ [f]\<rparr>\<rparr>"
    with fs(1) f show ?thesis unfolding grown_def by (intro exI [of _ "fs @ [f]"]) simp
  qed
qed

text \<open>The connection \<open>i\<close> and its traffic agree.\<close>

definition conn_ok :: "traffic \<Rightarrow> nat \<Rightarrow> ReconnectableMockConnection \<Rightarrow> bool" where
  "conn_ok t i c \<longleftrightarrow>
     (if rx_alive (inbound c) then chan.flows (offered t i) (read_in t i) (inbound c)
      else prefix (read_in t i) (offered t i))
     \<and> chan.flows (written t i) (received t i) (sent c) \<and> list_all data_frame (written t i)"

definition silent :: "traffic \<Rightarrow> nat \<Rightarrow> bool" where
  "silent t i \<longleftrightarrow> offered t i = [] \<and> read_in t i = [] \<and> written t i = [] \<and> received t i = []"

definition traffic_ok :: "('h, 'r, 's) session \<times> traffic \<Rightarrow> bool" where
  "traffic_ok st \<longleftrightarrow>
     (case st of (s, t) \<Rightarrow>
        (\<forall>i. if i < length (connections (net s)) then conn_ok t i (conn_at i s) else silent t i)
        \<and> (\<forall>i. link s = Some i \<longrightarrow> i < length (connections (net s)) \<and> rx_alive (inbound (conn_at i s))))"

lemma close_commands_fields [simp]:
  "net (close_commands s) = net s" "link (close_commands s) = link s"
  by (simp_all add: close_commands_def)

lemma traffic_ok_update:
  assumes "traffic_ok (s, t)" and "i < length (connections (net s))" and "conn_ok t' i c'"
    and "\<And>j. j \<noteq> i \<Longrightarrow> offered t' j = offered t j \<and> read_in t' j = read_in t j
           \<and> written t' j = written t j \<and> received t' j = received t j"
    and "net s' = set_conn i c' (net s)" and "link s' = link s \<or> link s' = None"
    and "link s' = Some i \<Longrightarrow> rx_alive (inbound c')"
  shows "traffic_ok (s', t')"
proof -
  have same: "conn_ok t' j c = conn_ok t j c" "silent t' j = silent t j" if "j \<noteq> i" for j c
    using assms(4) [OF that] by (simp_all add: conn_ok_def silent_def)
  have conns: "connections (net s') = (connections (net s))[i := c']" using assms(5) by (simp add: set_conn_def)
  have "if j < length (connections (net s')) then conn_ok t' j (conn_at j s') else silent t' j" for j
    using assms(1-3) same [of j] by (cases "j = i") (auto simp: conns traffic_ok_def)
  moreover have "j < length (connections (net s')) \<and> rx_alive (inbound (conn_at j s'))"
    if "link s' = Some j" for j
    using that assms(1,2,6,7) by (cases "j = i") (auto simp: conns traffic_ok_def)
  ultimately show ?thesis by (simp add: traffic_ok_def)
qed

lemma loop_turn_ok:
  assumes ok: "traffic_ok (s, t)"
    and connect: "\<And>v. ev = ConnectResult (Inr v) \<Longrightarrow> \<exists>i. link s = Some i \<and> v = conn_at i s"
  shows "traffic_ok (loop_turn H R ev (s, t))"
proof (cases "link s")
  case None
  then show ?thesis using ok by (simp add: loop_turn_def traffic_ok_def)
next
  case (Some i)
  let ?c = "conn_at i s"
  let ?l = "load ?c (loop s)"
  let ?c' = "last_writer H socket_write ev ?l ?c"
  let ?l' = "managed_step H R socket_write ev ?l"
  let ?new = "drop (length (queue (sent ?c))) (queue (sent ?c'))"
  let ?t = "t\<lparr>written := (written t)(i := written t i @ ?new)\<rparr>"
  have i: "i < length (connections (net s))" "rx_alive (inbound ?c)" "conn_ok t i ?c"
    using ok Some by (auto simp: traffic_ok_def)
  have "grown ?c ?c'"
    using connect Some
    by (intro growing.last_writer_keeps) (auto simp: load_def split: loop_phase.splits)
  then obtain fs where "list_all data_frame fs"
    and c': "?c' = ?c\<lparr>sent := (sent ?c)\<lparr>queue := queue (sent ?c) @ fs\<rparr>\<rparr>"
    by (auto simp: grown_def)
  then have "conn_ok ?t i ?c'" "conn_ok ?t i (hang_up ?c')"
    using i(2,3)
    by (auto simp: conn_ok_def chan.flows_def hang_up_def drop_sender_def drop_receiver_def)
  moreover have "rx_alive (inbound ?c')" using i(2) by (subst c') simp
  ultimately have "traffic_ok (close_commands (s\<lparr>loop := ?l', net := set_conn i (if holds then ?c' else hang_up ?c') (net s),
      link := if holds then Some i else None\<rparr>), ?t)" for holds
    using Some by (cases holds) (rule traffic_ok_update [OF ok i(1)]; simp)+
  then show ?thesis using Some by (simp add: loop_turn_def Let_def)
qed

lemma connect_ok:
  assumes ok: "traffic_ok (s, t)" and c: "reconnectable_connect url buffers (net s) = (r, n)"
  shows "case r of Inl _ \<Rightarrow> traffic_ok (s\<lparr>net := n\<rparr>, t)
    | Inr i \<Rightarrow> i < length (connections n) \<and> traffic_ok (s\<lparr>net := n, link := Some i\<rparr>, t)"
proof (cases r)
  case (Inl e)
  then have "connections n = connections (net s)"
    using c by (auto simp: reconnectable_connect_def channel_send_def Let_def split: if_splits)
  with Inl ok show ?thesis by (simp add: traffic_ok_def)
next
  case (Inr i)
  let ?conn = "\<lparr>sent = channel_new, inbound = channel_new, inbound_tx = True, rc_conn_id = conn_seq (net s) + 1\<rparr>"
  have n: "i = length (connections (net s))" "connections n = connections (net s) @ [?conn]"
    using c Inr by (auto simp: reconnectable_connect_def channel_send_def Let_def split: if_splits)
  have "silent t i" using ok by (auto simp: traffic_ok_def n(1) dest: spec [of _ "length (connections (net s))"])
  then have "conn_ok t i ?conn"
    by (simp add: silent_def conn_ok_def chan.flows_def channel_new_def)
  then have "if j < length (connections n) then conn_ok t j (connections n ! j) else silent t j" for j
    using ok by (auto simp: traffic_ok_def n nth_append less_Suc_eq)
  moreover have "i < length (connections n)" "rx_alive (inbound (connections n ! i))"
    by (simp_all add: n channel_new_def)
  ultimately show ?thesis using Inr by (simp add: traffic_ok_def)
qed

text \<open>What one operation on a connection does to its two channels.\<close>

lemma conn_ok_read:
  assumes "conn_ok t i c" and "rx_alive (inbound c)" and "channel_recv (inbound c) = (p, q)"
  shows "conn_ok (t\<lparr>read_in := (read_in t)(i := read_in t i @ taken p)\<rparr>) i (c\<lparr>inbound := q\<rparr>)"
    and "rx_alive q"
  using assms flows_taken [OF _ assms(3), of "offered t i" "read_in t i"]
  by (auto simp: conn_ok_def channel_recv_def split: list.splits if_splits)

lemma conn_ok_receive:
  assumes "conn_ok t i c" and "conn_recv_outbound c = (p, c')"
  shows "conn_ok (t\<lparr>received := (received t)(i := received t i @ taken p)\<rparr>) i c'"
    and "inbound c' = inbound c"
  using assms flows_taken [of "written t i" "received t i" "sent c" p]
  by (auto simp: conn_ok_def conn_recv_outbound_def split: prod.splits)

lemma conn_ok_offer:
  assumes "conn_ok t i c" and "conn_send_inbound f c = (r, c')"
  shows "conn_ok (case r of Inr _ \<Rightarrow> t\<lparr>offered := (offered t)(i := offered t i @ [f])\<rparr> | Inl _ \<Rightarrow> t) i c'"
    and "rx_alive (inbound c') = rx_alive (inbound c)"
  using assms
  by (auto simp: conn_ok_def conn_send_inbound_def channel_send_def chan.flows_def Let_def
        split: if_splits)

lemma conn_ok_hang_up:
  "conn_ok t i (conn_drop_socket c) = conn_ok t i c"
  "rx_alive (inbound (conn_drop_socket c)) = rx_alive (inbound c)"
  by (simp_all add: conn_ok_def conn_drop_socket_def drop_sender_def chan.flows_def)

lemma session_step_ok:
  assumes ok: "traffic_ok st"
  shows "traffic_ok (session_step H R op st)"
proof -
  obtain s t where st: "st = (s, t)" by (cases st)
  note ok = ok [unfolded st]
  have conn: "conn_ok t i (conn_at i s)" if "i < length (connections (net s))" for i
    using ok that by (auto simp: traffic_ok_def dest: spec [of _ i])
  have linked: "rx_alive (inbound (conn_at i s))" "i < length (connections (net s))" if "link s = Some i" for i
    using ok that by (auto simp: traffic_ok_def)
  note update = traffic_ok_update [OF ok]
  show ?thesis
  proof (cases op)
    case ConnectTurn
    obtain r n where c: "reconnectable_connect ''ws://example.invalid'' default_buffer_config (net s) = (r, n)"
      by fastforce
    show ?thesis
      using connect_ok [OF ok c] c ok by (cases r) (auto simp: st ConnectTurn intro!: loop_turn_ok)
  next
    case ReadTurn
    show ?thesis
    proof (cases "phase (loop s)"; cases "link s")
      fix w a i assume open_conn: "phase (loop s) = AwaitEvent w a" "link s = Some i"
      obtain p q where q: "channel_recv (inbound (conn_at i s)) = (p, q)" by fastforce
      note r = conn_ok_read [OF conn linked(1) q, OF linked(2), OF open_conn(2) open_conn(2)]
      have "traffic_ok (s\<lparr>net := set_conn i (conn_at i s\<lparr>inbound := q\<rparr>) (net s)\<rparr>,
              t\<lparr>read_in := (read_in t)(i := read_in t i @ taken p)\<rparr>)"
        using r by (intro update [OF linked(2), OF open_conn(2), where c' = "conn_at i s\<lparr>inbound := q\<rparr>"]) simp_all
      then show ?thesis
        using q open_conn ok
        by (auto simp: st ReadTurn mock_reader_poll_next_def read_frames_def taken_def
              split: Poll.splits option.splits intro!: loop_turn_ok)
    qed (use ok in \<open>simp_all add: st ReadTurn\<close>)
  next
    case (ServerReceive i)
    obtain p c' where r: "conn_recv_outbound (conn_at i s) = (p, c')" by fastforce
    show ?thesis
      using ok r conn_ok_receive [OF conn r] linked
      by (auto simp: st ServerReceive intro!: update [where c' = c'])
  next
    case (ServerOffer i f)
    obtain r c' where r: "conn_send_inbound f (conn_at i s) = (r, c')" by fastforce
    show ?thesis
      using ok r conn_ok_offer [OF conn r] linked
      by (cases r) (auto simp: st ServerOffer intro!: update [where c' = c'])
  next
    case (ServerHangUp i)
    show ?thesis
      using ok conn linked
      by (auto simp: st ServerHangUp conn_ok_hang_up intro!: update [where c' = "conn_drop_socket (conn_at i s)"])
  next
    case CommandTurn
    have "traffic_ok (s\<lparr>commands := q\<rparr>, t)" for q using ok by (simp add: traffic_ok_def)
    then show ?thesis
      using ok by (auto simp: st CommandTurn split: prod.split Poll.split intro!: loop_turn_ok)
  next
    case ServerAccept
    then show ?thesis using ok by (simp add: st traffic_ok_def accept_connection_def split: prod.split)
  next
    case (Issue c)
    then show ?thesis using ok by (simp add: st traffic_ok_def)
  qed (use ok in \<open>auto simp: st intro!: loop_turn_ok\<close>)
qed

lemma session_run_ok: "traffic_ok (session_run H R ops (session_start h r))"
  unfolding session_run_def
  by (rule fold_invariant [where P = traffic_ok])
     (simp_all add: session_step_ok, simp add: traffic_ok_def session_start_def silent_def
        reconnectable_channel_pair_def)

end
