(* ===== verification/Session_Properties.thy ===== *)
theory Session_Properties
  imports Mock_Session
begin

text \<open>What holds of a whole session of the loop over the reconnecting mock transport.\<close>


end
