(* ===== verification/Server_Handle.thy ===== *)
theory Server_Handle
  imports Server_Types
begin

text \<open>
  The state the server shares with its handle and the operations of the handle
  (\<^verbatim>\<open>src/src/ws/server/handle.rs\<close>).  The broadcast channel is tokio's: its state is the type
  parameter and its \<open>send\<close> an argument, with \<^const>\<open>None\<close> when there is no subscriber.
\<close>

record 'b ServerShared =
  command_tx :: 'b
  status_tx :: ManagedWsServerStatus
  shutdown_tx :: bool
  terminal :: "ManagedWsServerTerminalError option"
  active :: nat
  next_id :: u64

definition set_status :: "ManagedWsServerStatus \<Rightarrow> 'b ServerShared \<Rightarrow> 'b ServerShared" where
  "set_status st s = (if terminal s \<noteq> None \<and> st \<noteq> Terminal then s else s\<lparr>status_tx := st\<rparr>)"

text \<open>\<open>OnceLock::set\<close> keeps the first value.\<close>

definition set_terminal :: "ManagedWsServerTerminalError \<Rightarrow> 'b ServerShared \<Rightarrow> 'b ServerShared" where
  "set_terminal error s =
     s\<lparr>terminal := (case terminal s of None \<Rightarrow> Some error | Some e \<Rightarrow> Some e), status_tx := Terminal\<rparr>"

text \<open>\<open>fetch_add\<close> wraps.\<close>

definition next_connection_id :: "'b ServerShared \<Rightarrow> u64 \<times> 'b ServerShared" where
  "next_connection_id s = (next_id s, s\<lparr>next_id := next_id s + 1\<rparr>)"

text \<open>\<open>dispatch\<close> reads the terminal cause, the status and, when that is \<open>Terminal\<close>, the cause
  again; the server may move between the readings, so each is an argument.\<close>

definition dispatch ::
  "('c \<Rightarrow> 'b \<Rightarrow> nat option \<times> 'b) \<Rightarrow> 'c \<Rightarrow> ManagedWsServerTerminalError option
     \<Rightarrow> ManagedWsServerStatus \<Rightarrow> ManagedWsServerTerminalError option \<Rightarrow> 'b
     \<Rightarrow> (ManagedWsServerDispatchError + nat) \<times> 'b" where
  "dispatch bsend command first st second b =
     (case first of
        Some error \<Rightarrow> (Inl (Terminated error), b)
      | None \<Rightarrow>
          if st = ShuttingDown \<or> st = Stopped then (Inl StoppedError, b)
          else if st = Terminal
          then (case second of
                  Some error \<Rightarrow> (Inl (Terminated error), b)
                | None \<Rightarrow> (Inl StoppedError, b))
          else (case bsend command b of
                  (Some delivered, b) \<Rightarrow> (Inr delivered, b)
                | (None, b) \<Rightarrow> (Inr 0, b)))"

text \<open>\<open>wait_for_status\<close>: the statuses its loop reads before the timeout, and whether the sender
  was gone after the last of them.\<close>

fun wait_loop ::
  "ManagedWsServerStatus \<Rightarrow> ManagedWsServerStatus list \<Rightarrow> bool
     \<Rightarrow> (ManagedWsServerStatusError + unit) option" where
  "wait_loop expected [] gone = None"
| "wait_loop expected (current # rest) gone =
     (if current = expected then Some (Inr ())
      else if is_final current then Some (Inl (Settled expected current))
      else if rest = [] \<and> gone then Some (Inl (Settled expected current))
      else wait_loop expected rest gone)"

definition wait_for_status ::
  "ManagedWsServerStatus \<Rightarrow> duration \<Rightarrow> ManagedWsServerStatus list \<Rightarrow> bool \<Rightarrow> ManagedWsServerStatus
     \<Rightarrow> ManagedWsServerStatusError + unit" where
  "wait_for_status expected timeout reads gone snapshot =
     (case wait_loop expected reads gone of
        Some result \<Rightarrow> result
      | None \<Rightarrow> Inl (StatusTimeout expected snapshot timeout))"

definition request_shutdown :: "'b ServerShared \<Rightarrow> 'b ServerShared" where
  "request_shutdown s = s\<lparr>shutdown_tx := True\<rparr>"

section \<open>The terminal cause and the status agree\<close>

definition cause_ok :: "'b ServerShared \<Rightarrow> bool" where
  "cause_ok s \<longleftrightarrow> (terminal s \<noteq> None \<longleftrightarrow> status_tx s = Terminal)"

lemma cause_ok_ops [simp]:
  "cause_ok s \<Longrightarrow> st \<noteq> Terminal \<Longrightarrow> cause_ok (set_status st s)"
  "cause_ok (set_terminal e s)"
  "cause_ok s \<Longrightarrow> cause_ok (request_shutdown s)"
  "cause_ok s \<Longrightarrow> cause_ok (snd (next_connection_id s))"
  by (auto simp: cause_ok_def set_status_def set_terminal_def request_shutdown_def
        next_connection_id_def split: option.split)

end
