(* ===== verification/Server_Runtime.thy ===== *)
theory Server_Runtime
  imports Server_Handle
begin

text \<open>
  The life of the server task (\<^verbatim>\<open>src/src/ws/server/runtime.rs\<close>): bind and rebind with
  backoff, the accept loop, admission under the connection cap, reaping, draining and abort.
  A step is one completed await of the server task, the end of a connection task, or a call
  through the handle, so every interleaving of them is a list of events.  Counters wrap, as
  they do in a release build.
\<close>

section \<open>Data\<close>

datatype FailureOrigin = Bind | Accept

datatype ErrorKind =
    ConnectionAborted
  | ConnectionReset
  | Interrupted
  | WouldBlock
  | TimedOut
  | OtherKind

record io_error =
  io_kind :: ErrorKind
  raw_os_error :: "int option"
  io_text :: string

definition is_transient_accept_error :: "io_error \<Rightarrow> bool" where
  "is_transient_accept_error e \<longleftrightarrow>
     io_kind e \<in> {ConnectionAborted, ConnectionReset, Interrupted, WouldBlock, TimedOut}
     \<or> raw_os_error e = Some 23 \<or> raw_os_error e = Some 24"

record ServerFaults =
  terminal_accept_failure_after :: "u64 option"

text \<open>A connection task of the \<open>JoinSet\<close>: its context and whether it has finished.\<close>

type_synonym client_task = "WsServerConnectionContext \<times> bool"

datatype server_phase =
    AtTop
  | Accepting SocketAddr u64
  | Backoff
  | Draining
  | Finished
  | Aborted

record 'b server =
  shared :: "'b ServerShared"
  srv_phase :: server_phase
  backoff :: duration
  consecutive_failures :: u32
  origin :: FailureOrigin
  clients :: "client_task list"

datatype server_event =
    BindResult "string + (string + SocketAddr)"
  | AcceptResult "io_error + SocketAddr"
  | Joined nat
  | ObserveShutdown
  | Slept
  | DrainTimeout
  | TaskEnds nat
  | RequestShutdown
  | HandleDropped

section \<open>Starting\<close>

definition spawn_with_faults ::
  "bool \<Rightarrow> 'b \<Rightarrow> WsServerConfig \<Rightarrow> WsServerRetryPolicy \<Rightarrow> ManagedWsServerStartError + 'b server" where
  "spawn_with_faults runtime_available channel config retry =
     (case config_validate config of
        Inl e \<Rightarrow> Inl e
      | Inr _ \<Rightarrow>
          (case retry_validate retry of
             Inl e \<Rightarrow> Inl e
           | Inr _ \<Rightarrow>
               if runtime_available
               then Inr \<lparr>shared = \<lparr>command_tx = channel, status_tx = Starting, shutdown_tx = False,
                                   terminal = None, active = 0, next_id = 0\<rparr>,
                         srv_phase = AtTop, backoff = initial_backoff retry,
                         consecutive_failures = 0, origin = Bind, clients = []\<rparr>
               else Inl RuntimeUnavailable))"

section \<open>Connection slots\<close>

definition try_acquire :: "nat \<Rightarrow> nat \<Rightarrow> nat option" where
  "try_acquire current limit = (if limit \<le> current then None else Some (current + 1))"

definition release_slot :: "'b ServerShared \<Rightarrow> 'b ServerShared" where
  "release_slot s = s\<lparr>active := active s - 1\<rparr>"

text \<open>A task's end drops its \<open>ConnectionSlot\<close>.\<close>

definition task_ends :: "nat \<Rightarrow> 'b server \<Rightarrow> 'b server" where
  "task_ends i s =
     (if i < length (clients s) \<and> \<not> snd (clients s ! i)
      then s\<lparr>clients := (clients s)[i := (fst (clients s ! i), True)], shared := release_slot (shared s)\<rparr>
      else s)"

definition remove_task :: "nat \<Rightarrow> client_task list \<Rightarrow> client_task list" where
  "remove_task i ts = take i ts @ drop (Suc i) ts"

definition abort_clients :: "'b server \<Rightarrow> 'b server" where
  "abort_clients s =
     s\<lparr>clients := [], shared := ((release_slot ^^ length (filter (\<lambda>t. \<not> snd t) (clients s))) (shared s))\<rparr>"

definition admit_connection :: "WsServerConfig \<Rightarrow> SocketAddr \<Rightarrow> SocketAddr \<Rightarrow> 'b server \<Rightarrow> 'b server" where
  "admit_connection config peer local s =
     (case try_acquire (active (shared s)) (max_connections config) of
        None \<Rightarrow> s
      | Some n \<Rightarrow>
          (let (cid, sh) = next_connection_id (shared s\<lparr>active := n\<rparr>)
           in s\<lparr>shared := sh,
                clients := clients s @ [(\<lparr>connection_id = cid, peer_addr = peer, local_addr = local\<rparr>, False)]\<rparr>))"

section \<open>The lifecycle loop\<close>

definition publish :: "ManagedWsServerStatus \<Rightarrow> 'b server \<Rightarrow> 'b server" where
  "publish st s = s\<lparr>shared := set_status st (shared s)\<rparr>"

definition fail_terminal :: "ManagedWsServerTerminalError \<Rightarrow> 'b server \<Rightarrow> 'b server" where
  "fail_terminal error s =
     (abort_clients (s\<lparr>shared := set_terminal error (shared s)\<rparr>))\<lparr>srv_phase := Finished\<rparr>"

text \<open>The end of \<open>run_server\<close>: the drain completes as soon as no task is left.\<close>

definition finish_if_drained :: "'b server \<Rightarrow> 'b server" where
  "finish_if_drained s =
     (if clients s = [] then (publish Stopped s)\<lparr>srv_phase := Finished\<rparr> else s\<lparr>srv_phase := Draining\<rparr>)"

definition begin_drain :: "'b server \<Rightarrow> 'b server" where
  "begin_drain s = finish_if_drained (publish ShuttingDown s)"

definition fail_and_retry :: "WsServerConfig \<Rightarrow> WsServerRetryPolicy \<Rightarrow> string \<Rightarrow> 'b server \<Rightarrow> 'b server" where
  "fail_and_retry config retry failure s =
     (let s = s\<lparr>consecutive_failures := consecutive_failures s + 1\<rparr>
      in if is_exhausted retry (consecutive_failures s)
         then fail_terminal
                (case origin s of
                   Bind \<Rightarrow> BindRetryExhausted (bind_addr config) (consecutive_failures s) failure
                 | Accept \<Rightarrow> AcceptRetryExhausted (bind_addr config) (consecutive_failures s) failure) s
         else (publish Retrying s)\<lparr>srv_phase := Backoff\<rparr>)"

text \<open>The head of the accept loop, with its injected fault.\<close>

definition accept_head :: "ServerFaults \<Rightarrow> SocketAddr \<Rightarrow> u64 \<Rightarrow> 'b server \<Rightarrow> 'b server" where
  "accept_head faults local accepted s =
     (case terminal_accept_failure_after faults of
        Some threshold \<Rightarrow>
          if threshold \<le> accepted
          then fail_terminal
                 (InternalLoopFailure (''injected accept-loop fault after '' @ show_nat (unat accepted)
                    @ '' accepted connections'')) s
          else s\<lparr>srv_phase := Accepting local accepted\<rparr>
      | None \<Rightarrow> s\<lparr>srv_phase := Accepting local accepted\<rparr>)"

definition on_bind ::
  "WsServerConfig \<Rightarrow> WsServerRetryPolicy \<Rightarrow> ServerFaults \<Rightarrow> string + (string + SocketAddr)
     \<Rightarrow> 'b server \<Rightarrow> 'b server" where
  "on_bind config retry faults result s =
     (if shutdown_tx (shared s) then begin_drain s
      else case result of
             Inl error \<Rightarrow> fail_and_retry config retry error s
           | Inr local_result \<Rightarrow>
               (let s = publish Listening
                          (s\<lparr>consecutive_failures := 0, backoff := initial_backoff retry, origin := Accept\<rparr>)
                in case local_result of
                     Inl error \<Rightarrow> fail_and_retry config retry error s
                   | Inr local \<Rightarrow> accept_head faults local 0 s))"

definition on_accept ::
  "WsServerConfig \<Rightarrow> WsServerRetryPolicy \<Rightarrow> ServerFaults \<Rightarrow> SocketAddr \<Rightarrow> u64 \<Rightarrow> io_error + SocketAddr
     \<Rightarrow> 'b server \<Rightarrow> 'b server" where
  "on_accept config retry faults local accepted incoming s =
     (case incoming of
        Inl error \<Rightarrow>
          if is_transient_accept_error error then accept_head faults local accepted s
          else fail_and_retry config retry (io_text error) s
      | Inr peer \<Rightarrow> accept_head faults local (accepted + 1) (admit_connection config peer local s))"

definition joinable :: "nat \<Rightarrow> 'b server \<Rightarrow> bool" where
  "joinable i s \<longleftrightarrow> i < length (clients s) \<and> snd (clients s ! i)"

fun server_step ::
  "WsServerConfig \<Rightarrow> WsServerRetryPolicy \<Rightarrow> ServerFaults \<Rightarrow> server_event \<Rightarrow> 'b server \<Rightarrow> 'b server" where
  "server_step config retry faults ev s =
     (case ev of
        RequestShutdown \<Rightarrow> s\<lparr>shared := request_shutdown (shared s)\<rparr>
      | TaskEnds i \<Rightarrow> task_ends i s
      | HandleDropped \<Rightarrow>
          if srv_phase s = Finished then s\<lparr>shared := request_shutdown (shared s)\<rparr>
          else (abort_clients (s\<lparr>shared := request_shutdown (shared s)\<rparr>))\<lparr>srv_phase := Aborted\<rparr>
      | _ \<Rightarrow>
          (case (srv_phase s, ev) of
             (AtTop, BindResult result) \<Rightarrow> on_bind config retry faults result s
           | (Accepting local accepted, ObserveShutdown) \<Rightarrow>
               if shutdown_tx (shared s) then begin_drain s else s
           | (Accepting local accepted, Joined i) \<Rightarrow>
               if joinable i s
               then accept_head faults local accepted (s\<lparr>clients := remove_task i (clients s)\<rparr>) else s
           | (Accepting local accepted, AcceptResult incoming) \<Rightarrow>
               on_accept config retry faults local accepted incoming s
           | (Backoff, Slept) \<Rightarrow> s\<lparr>backoff := next_backoff retry (backoff s), srv_phase := AtTop\<rparr>
           | (Backoff, ObserveShutdown) \<Rightarrow> if shutdown_tx (shared s) then begin_drain s else s
           | (Draining, Joined i) \<Rightarrow>
               if joinable i s then finish_if_drained (s\<lparr>clients := remove_task i (clients s)\<rparr>) else s
           | (Draining, DrainTimeout) \<Rightarrow> finish_if_drained (abort_clients s)
           | _ \<Rightarrow> s))"

declare server_step.simps [simp del]

definition server_run ::
  "WsServerConfig \<Rightarrow> WsServerRetryPolicy \<Rightarrow> ServerFaults \<Rightarrow> server_event list \<Rightarrow> 'b server \<Rightarrow> 'b server" where
  "server_run config retry faults evs s = fold (server_step config retry faults) evs s"

end
