(* ===== verification/Server_Connection.thy ===== *)
theory Server_Connection
  imports Server_Types Transport
begin

text \<open>
  One connection of the managed server (\<^verbatim>\<open>src/src/ws/server/runtime.rs\<close>,
  \<open>run_connection\<close> to \<open>finish_connection\<close>).  The socket is a writer \<open>ws\<close> with its \<open>send\<close> and
  \<open>close\<close>; what the \<open>select!\<close> of the loop delivers is the list of its completed branches.
\<close>

section \<open>Close codes\<close>

definition CLOSE_GOING_AWAY :: u16 where "CLOSE_GOING_AWAY = 1001"

definition CLOSE_POLICY_VIOLATION :: u16 where "CLOSE_POLICY_VIOLATION = 1008"

definition CLOSE_INTERNAL_ERROR :: u16 where "CLOSE_INTERNAL_ERROR = 1011"

section \<open>Actions\<close>

fun send_frames :: "'w sink \<Rightarrow> WsFrame list \<Rightarrow> 'w \<Rightarrow> WsServerCloseCause option \<times> 'w" where
  "send_frames send [] ws = (None, ws)"
| "send_frames send (f # fs) ws =
     (case send f ws of
        (Inl error, ws) \<Rightarrow> (Some (WsServerCloseCause.TransportError (ws_error_to_string error)), ws)
      | (Inr _, ws) \<Rightarrow> send_frames send fs ws)"

fun apply_action :: "'w sink \<Rightarrow> WsServerEndpointAction \<Rightarrow> 'w \<Rightarrow> WsServerCloseCause option \<times> 'w" where
  "apply_action send NoAction ws = (None, ws)"
| "apply_action send (Send frame) ws =
     (case send frame ws of
        (Inr _, ws) \<Rightarrow> (None, ws)
      | (Inl error, ws) \<Rightarrow> (Some (WsServerCloseCause.TransportError (ws_error_to_string error)), ws))"
| "apply_action send (SendBatch batch) ws = send_frames send (fst (batch_drain batch)) ws"
| "apply_action send (WsServerEndpointAction.Close frame) ws =
     (Some HandlerRequested, snd (send (WsFrame.Close frame) ws))"

text \<open>Deliver one event to the handler and apply its action; \<^const>\<open>Some\<close> ends the loop.\<close>

definition deliver ::
  "('e, 'c) WsServerEndpoint \<Rightarrow> 'w sink \<Rightarrow> 'c WsServerEndpointEvent \<Rightarrow> 'e \<times> 'w
     \<Rightarrow> WsServerCloseCause option \<times> 'e \<times> 'w" where
  "deliver F send ev ew =
     (let (e, ws) = ew; (res, e) = on_event F ev e
      in case res of
           Inl error \<Rightarrow> (Some (HandlerError error), e, ws)
         | Inr action \<Rightarrow> (let (cause, ws) = apply_action send action ws in (cause, e, ws)))"

section \<open>The event loop\<close>

datatype 'c recv_result = RecvOk 'c | RecvLagged u64 | RecvClosed

datatype 'c branch =
    OnShutdown
  | OnIncoming "(WebSocketError + WsFrame) option"
  | OnCommand "'c recv_result"
  | OnTick

fun on_incoming ::
  "('e, 'c) WsServerEndpoint \<Rightarrow> 'w sink \<Rightarrow> (WebSocketError + WsFrame) option \<Rightarrow> 'e \<times> 'w
     \<Rightarrow> WsServerCloseCause option \<times> 'e \<times> 'w" where
  "on_incoming F send None ew = (Some ClientClosed, ew)"
| "on_incoming F send (Some (Inl error)) ew =
     (Some (WsServerCloseCause.TransportError (ws_error_to_string error)), ew)"
| "on_incoming F send (Some (Inr frame)) ew =
     (case frame of
        WsFrame.Close _ \<Rightarrow> (Some ClientClosed, ew)
      | Ping payload \<Rightarrow>
          (case send (Pong payload) (snd ew) of
             (Inl error, ws) \<Rightarrow>
               (Some (WsServerCloseCause.TransportError (ws_error_to_string error)), fst ew, ws)
           | (Inr _, ws) \<Rightarrow> (None, fst ew, ws))
      | Pong _ \<Rightarrow> (None, ew)
      | application \<Rightarrow> deliver F send (Frame application) ew)"

fun on_branch ::
  "('e, 'c) WsServerEndpoint \<Rightarrow> 'w sink \<Rightarrow> 'c branch \<Rightarrow> 'e \<times> 'w
     \<Rightarrow> WsServerCloseCause option \<times> 'e \<times> 'w" where
  "on_branch F send OnShutdown ew = (Some ServerShutdown, ew)"
| "on_branch F send (OnIncoming incoming) ew = on_incoming F send incoming ew"
| "on_branch F send (OnCommand (RecvOk command)) ew = deliver F send (Command command) ew"
| "on_branch F send (OnCommand (RecvLagged missed)) ew = (Some (Lagged missed), ew)"
| "on_branch F send (OnCommand RecvClosed) ew = (Some ServerShutdown, ew)"
| "on_branch F send OnTick ew = deliver F send Tick ew"

text \<open>\<^const>\<open>None\<close>: the loop is still waiting after the branches given.\<close>

fun connection_loop ::
  "('e, 'c) WsServerEndpoint \<Rightarrow> 'w sink \<Rightarrow> 'c branch list \<Rightarrow> 'e \<times> 'w
     \<Rightarrow> WsServerCloseCause option \<times> 'e \<times> 'w" where
  "connection_loop F send [] ew = (None, ew)"
| "connection_loop F send (b # bs) ew =
     (case on_branch F send b ew of
        (Some cause, ew) \<Rightarrow> (Some cause, ew)
      | (None, ew) \<Rightarrow> connection_loop F send bs ew)"

definition run_connection_loop ::
  "('e, 'c) WsServerEndpoint \<Rightarrow> 'w sink \<Rightarrow> WsServerConnectionContext \<Rightarrow> 'c branch list \<Rightarrow> 'e \<times> 'w
     \<Rightarrow> WsServerCloseCause option \<times> 'e \<times> 'w" where
  "run_connection_loop F send ctx bs ew =
     (case deliver F send (WsServerEndpointEvent.Connected ctx) ew of
        (Some cause, ew) \<Rightarrow> (Some cause, ew)
      | (None, ew) \<Rightarrow> connection_loop F send bs ew)"

section \<open>Closing\<close>

fun close_frame_for :: "WsServerCloseCause \<Rightarrow> WsCloseFrame option" where
  "close_frame_for (Lagged _) =
     Some \<lparr>close_code = CLOSE_POLICY_VIOLATION,
           close_reason = str_bytes ''client lagged; reconnect for an authoritative snapshot''\<rparr>"
| "close_frame_for (HandlerError _) =
     Some \<lparr>close_code = CLOSE_INTERNAL_ERROR, close_reason = str_bytes ''endpoint handler error''\<rparr>"
| "close_frame_for ServerShutdown =
     Some \<lparr>close_code = CLOSE_GOING_AWAY, close_reason = str_bytes ''server shutting down''\<rparr>"
| "close_frame_for _ = None"

definition finish_connection ::
  "('e, 'c) WsServerEndpoint \<Rightarrow> 'w sink \<Rightarrow> ('w \<Rightarrow> 'w) \<Rightarrow> WsServerCloseCause \<Rightarrow> 'e \<times> 'w \<Rightarrow> 'e \<times> 'w" where
  "finish_connection F send close cause ew =
     (let (e, ws) = ew;
          (_, e) = on_event F (Closed cause) e;
          ws = (case close_frame_for cause of
                  Some frame \<Rightarrow> snd (send (WsFrame.Close (Some frame)) ws)
                | None \<Rightarrow> ws)
      in (e, close ws))"

text \<open>The whole connection.  \<open>handshake\<close> is the socket after a successful upgrade within the
  timeout, \<^const>\<open>None\<close> for a malformed or slow one, which never calls the factory.\<close>

datatype ('e, 'w) connection_end =
    Rejected
  | Waiting 'e 'w
  | Ended WsServerCloseCause 'e 'w

definition run_connection ::
  "('e, 'c) WsServerEndpoint \<Rightarrow> 'w sink \<Rightarrow> ('w \<Rightarrow> 'w) \<Rightarrow> WsServerConnectionContext \<Rightarrow> 'w option
     \<Rightarrow> 'c branch list \<Rightarrow> ('e, 'w) connection_end" where
  "run_connection F send close ctx handshake bs =
     (case handshake of
        None \<Rightarrow> Rejected
      | Some ws \<Rightarrow>
          (case run_connection_loop F send ctx bs (create_endpoint F ctx, ws) of
             (None, e, ws) \<Rightarrow> Waiting e ws
           | (Some cause, ew) \<Rightarrow>
               (let (e, ws) = finish_connection F send close cause ew in Ended cause e ws)))"

section \<open>The events a handler sees\<close>

text \<open>An endpoint that also keeps the events it was given.\<close>

definition traced ::
  "('e, 'c) WsServerEndpoint \<Rightarrow> ('c WsServerEndpointEvent list \<times> 'e, 'c) WsServerEndpoint" where
  "traced F =
     \<lparr>on_event = (\<lambda>ev (tr, e). let (res, e) = on_event F ev e in (res, tr @ [ev], e)),
      create_endpoint = (\<lambda>ctx. ([], create_endpoint F ctx))\<rparr>"

text \<open>An event of the middle of a connection's life: no control frame, no \<open>Connected\<close>, no
  \<open>Closed\<close>.\<close>

fun inner_event :: "'c WsServerEndpointEvent \<Rightarrow> bool" where
  "inner_event (Frame (Text _)) = True"
| "inner_event (Frame (Binary _)) = True"
| "inner_event (Command _) = True"
| "inner_event Tick = True"
| "inner_event _ = False"

lemma traced_deliver:
  "deliver (traced F) send ev ((tr, e), ws) = (c, (tr', e'), ws') \<longleftrightarrow>
     tr' = tr @ [ev] \<and> deliver F send ev (e, ws) = (c, e', ws')"
  by (auto simp: deliver_def traced_def Let_def split: prod.splits sum.splits)

text \<open>A branch gives the handler at most one event, and only an inner one.\<close>

lemma traced_branch:
  assumes "on_branch (traced F) send b ((tr, e), ws) = (c, (tr', e'), ws')"
  shows "\<exists>evs. tr' = tr @ evs \<and> list_all inner_event evs \<and> on_branch F send b (e, ws) = (c, e', ws')"
proof (cases b)
  case (OnIncoming m)
  show ?thesis
  proof (cases "\<exists>f. m = Some (Inr f)")
    case True
    then obtain f where m: "m = Some (Inr f)" by blast
    show ?thesis
      using assms OnIncoming m
      by (cases f) (auto simp: traced_deliver split: prod.splits sum.splits)
  next
    case False
    then show ?thesis using assms OnIncoming by (cases m) (auto split: sum.splits elim!: on_incoming.elims)
  qed
next
  case (OnCommand r)
  then show ?thesis using assms by (cases r) (auto simp: traced_deliver)
qed (use assms in \<open>auto simp: traced_deliver\<close>)

lemma traced_loop:
  "connection_loop (traced F) send bs ((tr, e), ws) = (c, (tr', e'), ws') \<Longrightarrow>
     \<exists>evs. tr' = tr @ evs \<and> list_all inner_event evs \<and> connection_loop F send bs (e, ws) = (c, e', ws')"
proof (induction bs arbitrary: tr e ws)
  case (Cons b bs)
  obtain c1 tr1 e1 ws1 where b: "on_branch (traced F) send b ((tr, e), ws) = (c1, (tr1, e1), ws1)"
    by (metis prod.exhaust)
  obtain evs where evs: "tr1 = tr @ evs" "list_all inner_event evs"
      "on_branch F send b (e, ws) = (c1, e1, ws1)"
    using traced_branch [OF b] by blast
  show ?case
  proof (cases c1)
    case None
    then have "connection_loop (traced F) send bs ((tr1, e1), ws1) = (c, (tr', e'), ws')"
      using Cons.prems b by simp
    from Cons.IH [OF this] show ?thesis using evs None by fastforce
  next
    case (Some cause)
    then show ?thesis using Cons.prems b evs by auto
  qed
qed simp

end
