(* ===== verification/Server_Safety.thy ===== *)
theory Server_Safety
  imports Server_Runtime Server_Connection
begin

text \<open>
  Invariants of the server task over every interleaving of its own steps, the ends of its
  connection tasks and the calls of the handle's owner.
\<close>

section \<open>Slots\<close>

definition live :: "client_task list \<Rightarrow> nat" where
  "live ts = length (filter (\<lambda>t. \<not> snd t) ts)"

lemma live_simps [simp]:
  "live [] = 0" "live (t # ts) = (if snd t then 0 else 1) + live ts" "live (ts @ us) = live ts + live us"
  by (simp_all add: live_def)

definition slots_ok :: "WsServerConfig \<Rightarrow> 'b server \<Rightarrow> bool" where
  "slots_ok config s \<longleftrightarrow> active (shared s) = live (clients s) \<and> live (clients s) \<le> max_connections config"

lemma split_task: "i < length ts \<Longrightarrow> ts = take i ts @ ts ! i # drop (Suc i) ts"
  by (simp add: id_take_nth_drop)

lemma live_finish:
  assumes "i < length ts" and "\<not> snd (ts ! i)"
  shows "live (ts[i := (c, True)]) = live ts - 1" and "0 < live ts"
proof -
  have l: "live ts = live (take i ts) + Suc (live (drop (Suc i) ts))"
    using arg_cong [OF split_task [OF assms(1)], of live] assms(2) by simp
  show "live (ts[i := (c, True)]) = live ts - 1"
    using assms(1) l by (simp add: upd_conv_take_nth_drop)
  show "0 < live ts" using l by simp
qed

lemma live_remove: "i < length ts \<Longrightarrow> snd (ts ! i) \<Longrightarrow> live (remove_task i ts) = live ts"
  using arg_cong [OF split_task [of i ts], of live] by (simp add: remove_task_def)

lemma release_slots:
  "active ((release_slot ^^ n) sh) = active sh - n" "status_tx ((release_slot ^^ n) sh) = status_tx sh"
  "terminal ((release_slot ^^ n) sh) = terminal sh" "shutdown_tx ((release_slot ^^ n) sh) = shutdown_tx sh"
  by (induction n) (simp_all add: release_slot_def)

lemma abort_fields [simp]:
  "clients (abort_clients s) = []" "srv_phase (abort_clients s) = srv_phase s"
  "backoff (abort_clients s) = backoff s" "consecutive_failures (abort_clients s) = consecutive_failures s"
  "status_tx (shared (abort_clients s)) = status_tx (shared s)"
  "terminal (shared (abort_clients s)) = terminal (shared s)"
  "shutdown_tx (shared (abort_clients s)) = shutdown_tx (shared s)"
  "active (shared (abort_clients s)) = active (shared s) - live (clients s)"
  by (simp_all add: abort_clients_def release_slots live_def)

lemma set_status_fields [simp]:
  "active (set_status st sh) = active sh" "terminal (set_status st sh) = terminal sh"
  "shutdown_tx (set_status st sh) = shutdown_tx sh"
  by (simp_all add: set_status_def)

lemma set_terminal_fields [simp]:
  "active (set_terminal e sh) = active sh" "status_tx (set_terminal e sh) = Terminal"
  "shutdown_tx (set_terminal e sh) = shutdown_tx sh"
  by (simp_all add: set_terminal_def)

lemma publish_fields [simp]:
  "clients (publish st s) = clients s" "active (shared (publish st s)) = active (shared s)"
  "srv_phase (publish st s) = srv_phase s" "backoff (publish st s) = backoff s"
  "consecutive_failures (publish st s) = consecutive_failures s" "origin (publish st s) = origin s"
  "shutdown_tx (shared (publish st s)) = shutdown_tx (shared s)"
  "terminal (shared (publish st s)) = terminal (shared s)"
  by (simp_all add: publish_def)

lemma slots_ok_cong:
  "clients s' = clients s \<Longrightarrow> active (shared s') = active (shared s) \<Longrightarrow> slots_ok config s' = slots_ok config s"
  by (simp add: slots_ok_def)

lemma slots_ok_phase [simp]:
  "slots_ok config (s\<lparr>srv_phase := p\<rparr>) = slots_ok config s"
  "slots_ok config (s\<lparr>backoff := d\<rparr>) = slots_ok config s"
  "slots_ok config (s\<lparr>consecutive_failures := n\<rparr>) = slots_ok config s"
  "slots_ok config (s\<lparr>origin := r\<rparr>) = slots_ok config s"
  "slots_ok config (publish st s) = slots_ok config s"
  "slots_ok config (s\<lparr>shared := request_shutdown (shared s)\<rparr>) = slots_ok config s"
  "slots_ok config (s\<lparr>shared := set_terminal e (shared s)\<rparr>) = slots_ok config s"
  by (simp_all add: slots_ok_def request_shutdown_def)

lemma slots_ok_abort: "slots_ok config s \<Longrightarrow> slots_ok config (abort_clients s)"
  by (simp add: slots_ok_def)

lemma slots_ok_fail_terminal: "slots_ok config s \<Longrightarrow> slots_ok config (fail_terminal e s)"
  by (simp add: fail_terminal_def slots_ok_abort)

lemma slots_ok_retry: "slots_ok config s \<Longrightarrow> slots_ok config (fail_and_retry config' retry e s)"
  by (simp add: fail_and_retry_def Let_def slots_ok_fail_terminal)

lemma slots_ok_head: "slots_ok config s \<Longrightarrow> slots_ok config (accept_head faults l n s)"
  by (simp add: accept_head_def slots_ok_fail_terminal split: option.split)

lemma slots_ok_drain: "slots_ok config s \<Longrightarrow> slots_ok config (finish_if_drained s)"
  by (simp add: finish_if_drained_def)

lemma slots_ok_admit: "slots_ok config s \<Longrightarrow> slots_ok config (admit_connection config p l s)"
  by (auto simp: admit_connection_def try_acquire_def next_connection_id_def slots_ok_def Let_def
           split: option.split)

lemma slots_ok_remove:
  "slots_ok config s \<Longrightarrow> joinable i s \<Longrightarrow> slots_ok config (s\<lparr>clients := remove_task i (clients s)\<rparr>)"
  by (simp add: slots_ok_def joinable_def live_remove)

lemma slots_ok_task_ends: "slots_ok config s \<Longrightarrow> slots_ok config (task_ends i s)"
  using live_finish [of i "clients s"]
  by (auto simp: slots_ok_def task_ends_def release_slot_def)

lemma slots_ok_bind: "slots_ok config s \<Longrightarrow> slots_ok config (on_bind config retry faults r s)"
  by (auto simp: on_bind_def begin_drain_def Let_def
           intro!: slots_ok_drain slots_ok_retry slots_ok_head split: sum.split)

lemma slots_ok_accept: "slots_ok config s \<Longrightarrow> slots_ok config (on_accept config retry faults l n r s)"
  by (auto simp: on_accept_def intro!: slots_ok_retry slots_ok_head slots_ok_admit split: sum.split)

lemma slots_ok_step: "slots_ok config s \<Longrightarrow> slots_ok config (server_step config retry faults ev s)"
  by (auto simp: server_step.simps begin_drain_def
           intro!: slots_ok_bind slots_ok_accept slots_ok_head slots_ok_drain slots_ok_remove
                   slots_ok_task_ends slots_ok_abort
           split: server_event.split server_phase.split)

section \<open>Status and terminal cause\<close>

definition phase_matches :: "'b server \<Rightarrow> bool" where
  "phase_matches s =
     (case srv_phase s of
        AtTop \<Rightarrow> status_tx (shared s) \<in> {Starting, Retrying}
      | Accepting _ _ \<Rightarrow> status_tx (shared s) = Listening
      | Backoff \<Rightarrow> status_tx (shared s) = Retrying
      | Draining \<Rightarrow> status_tx (shared s) = ShuttingDown \<and> clients s \<noteq> []
      | Finished \<Rightarrow> is_final (status_tx (shared s)) \<and> clients s = []
      | Aborted \<Rightarrow> status_tx (shared s) \<notin> {Stopped, Terminal} \<and> clients s = [])"

definition lifecycle_ok :: "'b server \<Rightarrow> bool" where
  "lifecycle_ok s \<longleftrightarrow> cause_ok (shared s) \<and> phase_matches s"

text \<open>The server is running: no terminal cause, and a status that is not final.\<close>

definition running :: "'b server \<Rightarrow> bool" where
  "running s \<longleftrightarrow> terminal (shared s) = None \<and> \<not> is_final (status_tx (shared s))"

lemma lifecycle_running:
  "lifecycle_ok s \<Longrightarrow> srv_phase s \<noteq> Finished \<Longrightarrow> running s"
  by (cases "srv_phase s") (auto simp: lifecycle_ok_def phase_matches_def cause_ok_def running_def is_final_def)

lemma publish_running: "running s \<Longrightarrow> status_tx (shared (publish st s)) = st"
  by (simp add: running_def publish_def set_status_def)

lemma running_updates [simp]:
  "running (s\<lparr>srv_phase := p\<rparr>) = running s" "running (s\<lparr>backoff := d\<rparr>) = running s"
  "running (s\<lparr>consecutive_failures := n\<rparr>) = running s" "running (s\<lparr>origin := r\<rparr>) = running s"
  "running (s\<lparr>clients := ts\<rparr>) = running s"
  by (simp_all add: running_def)

lemma running_publish [simp]: "running s \<Longrightarrow> \<not> is_final st \<Longrightarrow> running (publish st s)"
  by (simp add: running_def publish_def set_status_def)

lemma lifecycle_fail_terminal: "lifecycle_ok (fail_terminal e s)"
  by (simp add: fail_terminal_def lifecycle_ok_def phase_matches_def cause_ok_def is_final_def set_terminal_def
        split: option.split)

lemma lifecycle_retry: "running s \<Longrightarrow> lifecycle_ok (fail_and_retry config retry e s)"
  by (auto simp: fail_and_retry_def Let_def lifecycle_fail_terminal)
     (simp add: lifecycle_ok_def phase_matches_def cause_ok_def publish_running, simp add: running_def)

lemma lifecycle_head:
  "running s \<Longrightarrow> status_tx (shared s) = Listening \<Longrightarrow> lifecycle_ok (accept_head faults l n s)"
  by (auto simp: accept_head_def lifecycle_fail_terminal split: option.split)
     (simp_all add: lifecycle_ok_def phase_matches_def cause_ok_def running_def)

lemma lifecycle_drained:
  "running s \<Longrightarrow> status_tx (shared s) = ShuttingDown \<Longrightarrow> lifecycle_ok (finish_if_drained s)"
  by (auto simp: finish_if_drained_def lifecycle_ok_def phase_matches_def cause_ok_def publish_running)
     (simp_all add: running_def is_final_def)

lemma lifecycle_begin_drain: "running s \<Longrightarrow> lifecycle_ok (begin_drain s)"
  by (simp add: begin_drain_def lifecycle_drained publish_running is_final_def)

lemma lifecycle_bind: "running s \<Longrightarrow> lifecycle_ok (on_bind config retry faults r s)"
  by (auto simp: on_bind_def Let_def publish_running is_final_def
           intro!: lifecycle_begin_drain lifecycle_retry lifecycle_head split: sum.split)

lemma admit_keeps [simp]:
  "running (admit_connection config p l s) = running s"
  "status_tx (shared (admit_connection config p l s)) = status_tx (shared s)"
  by (simp_all add: running_def admit_connection_def next_connection_id_def Let_def split: option.split)

lemma lifecycle_accept:
  "running s \<Longrightarrow> status_tx (shared s) = Listening \<Longrightarrow> lifecycle_ok (on_accept config retry faults l n r s)"
  by (auto simp: on_accept_def intro!: lifecycle_retry lifecycle_head split: sum.split)

lemma lifecycle_task_ends: "lifecycle_ok s \<Longrightarrow> lifecycle_ok (task_ends i s)"
  by (auto simp: lifecycle_ok_def phase_matches_def cause_ok_def task_ends_def release_slot_def
           split: server_phase.splits)

lemma lifecycle_step:
  assumes "lifecycle_ok s"
  shows "lifecycle_ok (server_step config retry faults ev s)"
proof -
  have run: "running s" if "srv_phase s \<noteq> Finished" using lifecycle_running [OF assms that] .
  have m: "phase_matches s" using assms by (simp add: lifecycle_ok_def)
  consider "ev = RequestShutdown" | i where "ev = TaskEnds i" | "ev = HandleDropped"
    | (own) "\<And>i. ev \<noteq> TaskEnds i" "ev \<noteq> RequestShutdown" "ev \<noteq> HandleDropped" by blast
  then show ?thesis
  proof cases
    case 1
    then show ?thesis
      using assms
      by (auto simp: server_step.simps lifecycle_ok_def phase_matches_def cause_ok_def request_shutdown_def
               split: server_phase.splits)
  next
    case 2
    then show ?thesis using lifecycle_task_ends [OF assms] by (simp add: server_step.simps)
  next
    case 3
    show ?thesis
    proof (cases "srv_phase s = Finished")
      case True
      then show ?thesis
        using assms 3
        by (simp add: server_step.simps lifecycle_ok_def phase_matches_def cause_ok_def request_shutdown_def)
    next
      case False
      then show ?thesis
        using run 3
        by (auto simp: server_step.simps lifecycle_ok_def phase_matches_def cause_ok_def running_def
              is_final_def request_shutdown_def)
    qed
  next
    case own
    then show ?thesis
      using assms m run
      by (cases ev; cases "srv_phase s")
         (auto simp: server_step.simps phase_matches_def intro!: lifecycle_bind lifecycle_begin_drain
               lifecycle_accept lifecycle_head lifecycle_drained,
          auto simp: lifecycle_ok_def phase_matches_def cause_ok_def running_def is_final_def)
  qed
qed

section \<open>Retry budget and backoff\<close>

definition retry_ok :: "WsServerRetryPolicy \<Rightarrow> bool" where
  "retry_ok retry \<longleftrightarrow> retry_validate retry = Inr () \<and> max_backoff retry \<le> DURATION_MAX"

lemma retry_ok_facts:
  assumes "retry_ok retry"
  shows "0 < initial_backoff retry" "initial_backoff retry \<le> max_backoff retry"
    "max_backoff retry \<le> DURATION_MAX" "max_attempts retry \<noteq> Some 0"
  using assms by (auto simp: retry_ok_def retry_validate_def split: if_splits)

definition backoff_ok :: "WsServerRetryPolicy \<Rightarrow> duration \<Rightarrow> bool" where
  "backoff_ok retry d \<longleftrightarrow> initial_backoff retry \<le> d \<and> d \<le> max_backoff retry"

lemma next_backoff_eq:
  "retry_ok retry \<Longrightarrow> next_backoff retry d = min (2 * d) (max_backoff retry)"
  using retry_ok_facts(3) [of retry] by (auto simp: next_backoff_def duration_saturating_mul_def min_def)

lemma backoff_ok_next: "retry_ok retry \<Longrightarrow> backoff_ok retry d \<Longrightarrow> backoff_ok retry (next_backoff retry d)"
  using retry_ok_facts(2) [of retry] by (auto simp: next_backoff_eq backoff_ok_def)

definition budget_ok :: "WsServerRetryPolicy \<Rightarrow> 'b server \<Rightarrow> bool" where
  "budget_ok retry s \<longleftrightarrow> backoff_ok retry (backoff s)
     \<and> (srv_phase s \<notin> {Finished, Aborted} \<longrightarrow> \<not> is_exhausted retry (consecutive_failures s))"

lemma not_exhausted_zero: "retry_ok retry \<Longrightarrow> \<not> is_exhausted retry 0"
  using retry_ok_facts(4) [of retry] by (auto simp: is_exhausted_def split: option.split)

lemma budget_finished: "backoff_ok retry (backoff s) \<Longrightarrow> budget_ok retry (fail_terminal e s)"
  by (simp add: budget_ok_def fail_terminal_def)

lemma budget_retry: "backoff_ok retry (backoff s) \<Longrightarrow> budget_ok retry (fail_and_retry config retry e s)"
  by (auto simp: fail_and_retry_def Let_def intro!: budget_finished) (simp add: budget_ok_def)

lemma budget_head:
  "backoff_ok retry (backoff s) \<Longrightarrow> \<not> is_exhausted retry (consecutive_failures s)
     \<Longrightarrow> budget_ok retry (accept_head faults l n s)"
  by (auto simp: accept_head_def budget_finished split: option.split) (simp_all add: budget_ok_def)

lemma budget_drain:
  "backoff_ok retry (backoff s) \<Longrightarrow> \<not> is_exhausted retry (consecutive_failures s)
     \<Longrightarrow> budget_ok retry (finish_if_drained s)"
  by (simp add: finish_if_drained_def budget_ok_def)

lemma admit_budget [simp]:
  "backoff (admit_connection config p l s) = backoff s"
  "consecutive_failures (admit_connection config p l s) = consecutive_failures s"
  by (simp_all add: admit_connection_def Let_def split: option.split prod.split)

lemma budget_step:
  assumes r: "retry_ok retry" and b: "budget_ok retry s"
  shows "budget_ok retry (server_step config retry faults ev s)"
proof -
  have d: "backoff_ok retry (backoff s)" using b by (simp add: budget_ok_def)
  have i: "backoff_ok retry (initial_backoff retry)" using retry_ok_facts(2) [OF r] by (simp add: backoff_ok_def)
  have e: "srv_phase s \<notin> {Finished, Aborted} \<Longrightarrow> \<not> is_exhausted retry (consecutive_failures s)"
    using b by (simp add: budget_ok_def)
  show ?thesis
  proof (cases "srv_phase s")
    case AtTop
    then show ?thesis
      using b d i e not_exhausted_zero [OF r]
      by (cases ev)
         (auto simp: server_step.simps on_bind_def begin_drain_def Let_def task_ends_def
               intro!: budget_drain budget_retry budget_head split: sum.split,
          auto simp: budget_ok_def)
  next
    case (Accepting l n)
    then show ?thesis
      using b d e
      by (cases ev)
         (auto simp: server_step.simps on_accept_def begin_drain_def task_ends_def
               intro!: budget_drain budget_retry budget_head split: sum.split,
          auto simp: budget_ok_def)
  next
    case Backoff
    then show ?thesis
      using b d e backoff_ok_next [OF r d]
      by (cases ev)
         (auto simp: server_step.simps begin_drain_def task_ends_def intro!: budget_drain,
          auto simp: budget_ok_def)
  next
    case Draining
    then show ?thesis
      using b d e
      by (cases ev)
         (auto simp: server_step.simps task_ends_def intro!: budget_drain, auto simp: budget_ok_def)
  qed (use b in \<open>cases ev; auto simp: server_step.simps budget_ok_def task_ends_def\<close>)+
qed

section \<open>Runs\<close>

lemma server_run_simps [simp]:
  "server_run config retry faults [] s = s"
  "server_run config retry faults (ev # evs) s
     = server_run config retry faults evs (server_step config retry faults ev s)"
  by (simp_all add: server_run_def)

lemma server_run_append:
  "server_run config retry faults (evs @ evs') s
     = server_run config retry faults evs' (server_run config retry faults evs s)"
  by (simp add: server_run_def)

lemma server_run_invariant:
  "(\<And>ev s. I s \<Longrightarrow> I (server_step config retry faults ev s)) \<Longrightarrow> I s
     \<Longrightarrow> I (server_run config retry faults evs s)"
  by (induction evs arbitrary: s) auto

lemma spawn_inv:
  assumes "spawn_with_faults rt ch config retry = Inr s"
  shows "slots_ok config s" and "lifecycle_ok s" and "retry_validate retry = Inr ()"
    and "srv_phase s = AtTop" and "consecutive_failures s = 0" and "backoff s = initial_backoff retry"
    and "origin s = Bind" and "shutdown_tx (shared s) = False"
  using assms
  by (auto simp: spawn_with_faults_def slots_ok_def lifecycle_ok_def cause_ok_def phase_matches_def
           split: sum.splits if_splits)

lemma spawn_budget:
  "spawn_with_faults rt ch config retry = Inr s \<Longrightarrow> retry_ok retry \<Longrightarrow> budget_ok retry s"
  using spawn_inv(5,6) [of rt ch config retry s] not_exhausted_zero [of retry] retry_ok_facts(2) [of retry]
  by (simp add: budget_ok_def backoff_ok_def)

end
