(* ===== verification/Server_Task.thy ===== *)
theory Server_Task
  imports Server_Safety
begin

text \<open>
  The server task as its handle owns it (\<^verbatim>\<open>src/src/ws/server/handle.rs\<close>): spawning, the
  snapshots, \<open>shutdown_with_timeout\<close> and \<open>Drop\<close>, and the two waits of \<^verbatim>\<open>runtime.rs\<close> that
  read a channel or a socket.  As tokio documents, aborting the server task drops its
  \<open>JoinSet\<close> and with it every connection task, and a task that has ended ignores an abort.
\<close>

section \<open>Spawning\<close>

record 'b ManagedWsServerHandle =
  handle_server :: "'b server"
  handle_task :: bool

definition server_handle_new :: "'b server \<Rightarrow> 'b ManagedWsServerHandle" where
  "server_handle_new s = \<lparr>handle_server = s, handle_task = True\<rparr>"

definition default_server_faults :: ServerFaults where
  "default_server_faults = \<lparr>terminal_accept_failure_after = None\<rparr>"

record WsServerTestFaults =
  test_terminal_accept_failure_after :: "u64 option"

definition faults_from :: "WsServerTestFaults \<Rightarrow> ServerFaults" where
  "faults_from faults = \<lparr>terminal_accept_failure_after = test_terminal_accept_failure_after faults\<rparr>"

text \<open>The second component is the faults the task runs with, an argument of every step.\<close>

definition spawn_managed_ws_server_task_with_faults ::
  "bool \<Rightarrow> 'b \<Rightarrow> WsServerConfig \<Rightarrow> WsServerRetryPolicy \<Rightarrow> WsServerTestFaults
     \<Rightarrow> (ManagedWsServerStartError + 'b ManagedWsServerHandle) \<times> ServerFaults" where
  "spawn_managed_ws_server_task_with_faults rt channel config retry faults =
     (map_sum id server_handle_new (spawn_with_faults rt channel config retry), faults_from faults)"

definition spawn_managed_ws_server_task ::
  "bool \<Rightarrow> 'b \<Rightarrow> WsServerConfig \<Rightarrow> WsServerRetryPolicy
     \<Rightarrow> (ManagedWsServerStartError + 'b ManagedWsServerHandle) \<times> ServerFaults" where
  "spawn_managed_ws_server_task rt channel config retry =
     (map_sum id server_handle_new (spawn_with_faults rt channel config retry), default_server_faults)"

section \<open>Snapshots\<close>

definition server_status_snapshot :: "'b ManagedWsServerHandle \<Rightarrow> ManagedWsServerStatus" where
  "server_status_snapshot t = status_tx (shared (handle_server t))"

definition active_connection_count :: "'b ManagedWsServerHandle \<Rightarrow> nat" where
  "active_connection_count t = active (shared (handle_server t))"

definition terminal_error :: "'b ManagedWsServerHandle \<Rightarrow> ManagedWsServerTerminalError option" where
  "terminal_error t = terminal (shared (handle_server t))"

section \<open>Shutdown and drop\<close>

definition abort_server :: "'b server \<Rightarrow> 'b server" where
  "abort_server s = (if srv_phase s = Finished then s else (abort_clients s)\<lparr>srv_phase := Aborted\<rparr>)"

definition drop_server_handle :: "'b ManagedWsServerHandle \<Rightarrow> 'b ManagedWsServerHandle" where
  "drop_server_handle t =
     (let s = handle_server t; s = s\<lparr>shared := request_shutdown (shared s)\<rparr>
      in if handle_task t then \<lparr>handle_server = abort_server s, handle_task = False\<rparr>
         else t\<lparr>handle_server := s\<rparr>)"

text \<open>\<open>shutdown_with_timeout\<close>: the request and the taking of the task; then, once the timeout
  has elapsed or the task has ended, the answer and the drop of what is left of the handle.  A
  handle without a task answers at once.\<close>

definition server_shutdown_begin :: "'b ManagedWsServerHandle \<Rightarrow> bool \<times> 'b ManagedWsServerHandle" where
  "server_shutdown_begin t =
     (let s = handle_server t; s = s\<lparr>shared := request_shutdown (shared s)\<rparr>
      in (handle_task t, \<lparr>handle_server = s, handle_task = False\<rparr>))"

definition server_shutdown_end ::
  "duration \<Rightarrow> bool \<Rightarrow> bool \<times> 'b ManagedWsServerHandle
     \<Rightarrow> (ManagedWsServerShutdownError + unit) \<times> 'b ManagedWsServerHandle" where
  "server_shutdown_end limit elapsed waiting =
     (case waiting of
        (False, t) \<Rightarrow> (Inr (), drop_server_handle t)
      | (True, t) \<Rightarrow>
          if elapsed
          then (Inl (ShutdownTimeout limit),
                drop_server_handle (t\<lparr>handle_server := abort_server (handle_server t)\<rparr>))
          else (Inr (), drop_server_handle t))"

section \<open>Waiting for the shutdown request\<close>

text \<open>The values the loop reads, and whether the sender was gone after the last of them;
  \<^const>\<open>False\<close>: it is still waiting.\<close>

fun wait_for_shutdown :: "bool list \<Rightarrow> bool \<Rightarrow> bool" where
  "wait_for_shutdown [] gone = False"
| "wait_for_shutdown (flag # rest) gone =
     (if flag then True else if rest = [] then gone else wait_for_shutdown rest gone)"

lemma wait_for_shutdown_iff:
  "wait_for_shutdown reads gone \<longleftrightarrow> True \<in> set reads \<or> (reads \<noteq> [] \<and> gone)"
  by (induction reads gone rule: wait_for_shutdown.induct) auto

section \<open>Binding\<close>

text \<open>The socket calls are the operating system's, over a state of their own.\<close>

record ('s, 'l, 'o) socket_api =
  new_v4 :: "'o \<Rightarrow> (io_error + 's) \<times> 'o"
  new_v6 :: "'o \<Rightarrow> (io_error + 's) \<times> 'o"
  set_reuseaddr :: "'s \<Rightarrow> bool \<Rightarrow> 'o \<Rightarrow> (io_error + unit) \<times> 'o"
  bind_socket :: "'s \<Rightarrow> SocketAddr \<Rightarrow> 'o \<Rightarrow> (io_error + unit) \<times> 'o"
  listen_socket :: "'s \<Rightarrow> u32 \<Rightarrow> 'o \<Rightarrow> (io_error + 'l) \<times> 'o"

definition bind_listener ::
  "('s, 'l, 'o) socket_api \<Rightarrow> SocketAddr \<Rightarrow> u32 \<Rightarrow> 'o \<Rightarrow> (io_error + 'l) \<times> 'o" where
  "bind_listener A addr len w =
     (case (case addr of V4 _ _ \<Rightarrow> new_v4 A w | V6 _ _ _ _ \<Rightarrow> new_v6 A w) of
        (Inl e, w) \<Rightarrow> (Inl e, w)
      | (Inr socket, w) \<Rightarrow>
          (case set_reuseaddr A socket True w of
             (Inl e, w) \<Rightarrow> (Inl e, w)
           | (Inr _, w) \<Rightarrow>
               (case bind_socket A socket addr w of
                  (Inl e, w) \<Rightarrow> (Inl e, w)
                | (Inr _, w) \<Rightarrow> listen_socket A socket len w)))"

section \<open>What the handle releases\<close>

text \<open>A server in which no connection is left and no slot is held.\<close>

definition released :: "'b server \<Rightarrow> bool" where
  "released s \<longleftrightarrow> clients s = [] \<and> active (shared s) = 0 \<and> srv_phase s \<in> {Finished, Aborted}"

lemma released_request [simp]:
  "released (s\<lparr>shared := request_shutdown (shared s)\<rparr>) = released s"
  by (simp add: released_def request_shutdown_def)

lemma released_finished:
  "slots_ok config s \<Longrightarrow> lifecycle_ok s \<Longrightarrow> srv_phase s = Finished \<Longrightarrow> released s"
  by (simp add: released_def slots_ok_def lifecycle_ok_def phase_matches_def)

lemma released_abort:
  assumes "slots_ok config s" and "lifecycle_ok s"
  shows "released (abort_server s)"
proof (cases "srv_phase s = Finished")
  case False
  then show ?thesis
    using slots_ok_abort [OF assms(1)] by (simp add: abort_server_def released_def slots_ok_def)
qed (use released_finished [OF assms] in \<open>simp add: abort_server_def\<close>)

text \<open>Taking the handle apart keeps the two invariants.\<close>

lemma request_ok [simp]:
  "slots_ok config (s\<lparr>shared := request_shutdown (shared s)\<rparr>) = slots_ok config s"
  "lifecycle_ok (s\<lparr>shared := request_shutdown (shared s)\<rparr>) = lifecycle_ok s"
  by (simp_all add: slots_ok_def lifecycle_ok_def phase_matches_def cause_ok_def request_shutdown_def
        split: server_phase.split)

lemma released_run:
  "released s \<Longrightarrow> released (server_run config retry faults evs s)"
proof (induction evs arbitrary: s)
  case (Cons ev evs)
  have "released (server_step config retry faults ev s)"
    using Cons.prems
    by (cases ev) (auto simp: server_step.simps released_def task_ends_def request_shutdown_def
      abort_clients_def)
  with Cons.IH show ?case by (simp add: server_run_def)
qed (simp add: server_run_def)

end
