(* ===== verification/Server_Properties.thy ===== *)
theory Server_Properties
  imports Server_Task
begin

text \<open>
  The properties of the managed server: its lifecycle, its retry budget, the events a
  connection's handler sees, and the operations of the handle.
\<close>

section \<open>Instances used by the witnesses\<close>

definition demo_addr :: SocketAddr where
  "demo_addr = V4 2130706433 9001"

definition demo_retry :: WsServerRetryPolicy where
  "demo_retry = default_retry_policy\<lparr>max_attempts := Some 2\<rparr>"

definition no_faults :: ServerFaults where
  "no_faults = \<lparr>terminal_accept_failure_after = None\<rparr>"

definition demo_server :: "unit server" where
  "demo_server =
     \<lparr>shared = \<lparr>command_tx = (), status_tx = Starting, shutdown_tx = False, terminal = None,
                active = 0, next_id = 0\<rparr>,
      srv_phase = AtTop, backoff = from_millis 100, consecutive_failures = 0, origin = Bind, clients = []\<rparr>"

lemma demo_spawn: "spawn_with_faults True () (server_config_new demo_addr) demo_retry = Inr demo_server"
  by (simp add: spawn_with_faults_def config_validate_def server_config_new_def demo_retry_def
        default_retry_policy_def retry_validate_def demo_server_def from_secs_def from_millis_def)

lemma demo_retry_ok: "retry_ok demo_retry"
  by (simp add: retry_ok_def demo_retry_def default_retry_policy_def retry_validate_def from_secs_def
        from_millis_def DURATION_MAX_def)

definition quiet_endpoint :: "WsServerEndpointAction \<Rightarrow> (unit, unit) WsServerEndpoint" where
  "quiet_endpoint reply =
     \<lparr>on_event = (\<lambda>ev e. (Inr (case ev of Closed _ \<Rightarrow> reply | _ \<Rightarrow> NoAction), e)),
      create_endpoint = (\<lambda>_. ())\<rparr>"

definition keep_frames :: "(WsFrame list) sink" where
  "keep_frames f w = (Inr (), w @ [f])"

definition demo_ctx :: WsServerConnectionContext where
  "demo_ctx = \<lparr>connection_id = 0, peer_addr = demo_addr, local_addr = demo_addr\<rparr>"

section \<open>Lifecycle\<close>



lemma finished_step:
  assumes "lifecycle_ok s" and "is_final (status_tx (shared s))"
  shows "status_tx (shared (server_step config retry faults ev s)) = status_tx (shared s)
     \<and> terminal (shared (server_step config retry faults ev s)) = terminal (shared s)"
proof -
  have f: "srv_phase s = Finished"
    using assms lifecycle_running [OF assms(1)] by (auto simp: running_def)
  then have "clients s = []" using assms(1) by (simp add: lifecycle_ok_def phase_matches_def)
  then show ?thesis
    using f by (cases ev) (simp_all add: server_step.simps request_shutdown_def task_ends_def)
qed

lemma finished_run:
  assumes "lifecycle_ok s" and "is_final (status_tx (shared s))"
  shows "status_tx (shared (server_run config retry faults evs s)) = status_tx (shared s)
     \<and> terminal (shared (server_run config retry faults evs s)) = terminal (shared s)"
  using assms
proof (induction evs arbitrary: s)
  case (Cons ev evs)
  then show ?case using finished_step [OF Cons.prems] lifecycle_step [OF Cons.prems(1)] by simp
qed simp

text \<open>
  A final status is final: once the server is \<open>Stopped\<close> or \<open>Terminal\<close> nothing changes
  its status or its terminal cause, and a stopped server has no cause.
\<close>

theorem final_status_is_final:
  assumes "spawn_with_faults rt ch config retry = Inr s"
    and "is_final (status_tx (shared (server_run config retry faults evs s)))"
  shows "status_tx (shared (server_run config retry faults (evs @ evs') s))
           = status_tx (shared (server_run config retry faults evs s))
     \<and> terminal (shared (server_run config retry faults (evs @ evs') s))
           = terminal (shared (server_run config retry faults evs s))
     \<and> (terminal (shared (server_run config retry faults evs s)) = None)
           = (status_tx (shared (server_run config retry faults evs s)) = Stopped)"
proof -
  have l: "lifecycle_ok (server_run config retry faults evs s)"
    using spawn_inv(2) [OF assms(1)] lifecycle_step by (rule server_run_invariant [rotated])
  then show ?thesis
    using finished_run [OF l assms(2)] assms(2)
    by (auto simp: server_run_append lifecycle_ok_def cause_ok_def is_final_def)
qed

theorem final_status_is_final_witness:
  "status_tx (shared (server_run (server_config_new demo_addr) demo_retry no_faults
      ([RequestShutdown, BindResult (Inl ''busy'')] @ [HandleDropped]) demo_server)) = Stopped"
  using final_status_is_final [OF demo_spawn, of no_faults "[RequestShutdown, BindResult (Inl ''busy'')]"
          "[HandleDropped]"]
  by (simp add: server_step.simps on_bind_def begin_drain_def finish_if_drained_def publish_def
        set_status_def request_shutdown_def demo_server_def is_final_def)



section \<open>Binding\<close>

definition failed_rounds :: "string \<Rightarrow> nat \<Rightarrow> server_event list" where
  "failed_rounds e k = concat (replicate k [BindResult (Inl e), Slept])"

lemma failed_rounds_Suc: "failed_rounds e (Suc k) = failed_rounds e k @ [BindResult (Inl e), Slept]"
  by (induction k) (simp_all add: failed_rounds_def)

definition within_budget :: "WsServerRetryPolicy \<Rightarrow> nat \<Rightarrow> bool" where
  "within_budget retry k \<longleftrightarrow> (case max_attempts retry of Some m \<Rightarrow> k < unat m | None \<Rightarrow> True)"

lemma unat_of_nat_u32: "k < unat (m :: u32) \<Longrightarrow> unat (word_of_nat k :: u32) = k"
  using unat_less_2p [of m] by (simp add: unat_of_nat take_bit_nat_eq_self)

lemma within_budget_not_exhausted:
  "within_budget retry k \<Longrightarrow> \<not> is_exhausted retry (word_of_nat k)"
  by (auto simp: within_budget_def is_exhausted_def word_le_nat_alt unat_of_nat_u32 split: option.splits)

lemma failed_rounds_state:
  assumes "spawn_with_faults rt ch config retry = Inr s" and "retry_ok retry" and "within_budget retry k"
  shows "let t = server_run config retry faults (failed_rounds e k) s
         in srv_phase t = AtTop \<and> running t \<and> origin t = Bind \<and> \<not> shutdown_tx (shared t)
            \<and> consecutive_failures t = word_of_nat k \<and> clients t = clients s
            \<and> backoff t = min (2 ^ k * initial_backoff retry) (max_backoff retry)"
  using assms(3)
proof (induction k)
  case 0
  then show ?case
    using spawn_inv [OF assms(1)] lifecycle_running [of s] retry_ok_facts(2) [OF assms(2)]
    by (simp add: failed_rounds_def Let_def)
next
  case (Suc k)
  let ?t = "server_run config retry faults (failed_rounds e k) s"
  have w: "within_budget retry k" using Suc.prems by (auto simp: within_budget_def split: option.splits)
  have "\<not> is_exhausted retry (1 + word_of_nat k)"
    using within_budget_not_exhausted [OF Suc.prems] by simp
  moreover note Suc.IH [OF w]
  ultimately show ?case
    by (simp add: failed_rounds_Suc server_run_append Let_def server_step.simps on_bind_def
          fail_and_retry_def next_backoff_eq [OF assms(2)] add.commute is_final_def)
qed

text \<open>
  While binding fails within the retry budget the server stays \<open>Retrying\<close> and the delay
  after the \<open>k\<close>-th failure is the initial backoff doubled each time, capped at the maximum.
\<close>

theorem bind_backoff_doubles:
  assumes "spawn_with_faults rt ch config retry = Inr s" and "retry_ok retry" and "within_budget retry (Suc k)"
  shows "let t = server_run config retry faults (failed_rounds e k @ [BindResult (Inl e)]) s
         in status_tx (shared t) = Retrying \<and> srv_phase t = Backoff
            \<and> backoff t = min (2 ^ k * initial_backoff retry) (max_backoff retry)"
proof -
  have w: "within_budget retry k" using assms(3) by (auto simp: within_budget_def split: option.splits)
  have "\<not> is_exhausted retry (1 + word_of_nat k)"
    using within_budget_not_exhausted [OF assms(3)] by simp
  then show ?thesis
    using failed_rounds_state [OF assms(1,2) w, of faults e]
    by (simp add: server_run_append Let_def server_step.simps on_bind_def fail_and_retry_def
          publish_running add.commute)
qed

theorem bind_backoff_doubles_witness:
  "let t = server_run (server_config_new demo_addr) demo_retry no_faults
             (failed_rounds ''busy'' 0 @ [BindResult (Inl ''busy'')]) demo_server
   in status_tx (shared t) = Retrying \<and> srv_phase t = Backoff
      \<and> backoff t = min (2 ^ 0 * initial_backoff demo_retry) (max_backoff demo_retry)"
  by (rule bind_backoff_doubles [OF demo_spawn demo_retry_ok])
     (simp add: within_budget_def demo_retry_def)

text \<open>
  C11. With a budget of \<open>m\<close> attempts, \<open>m\<close> consecutive bind failures, and no fewer, end the
  server in \<open>Terminal\<close> with the address, the number of attempts and the last error stored.
\<close>

theorem bind_budget_exhausted:
  assumes "spawn_with_faults rt ch config retry = Inr s" and "retry_ok retry"
    and "max_attempts retry = Some m" and "unat m = Suc k"
  shows "let t = server_run config retry faults (failed_rounds e k @ [BindResult (Inl e)]) s
         in status_tx (shared t) = Terminal
            \<and> terminal (shared t) = Some (BindRetryExhausted (bind_addr config) m e)
            \<and> running (server_run config retry faults (failed_rounds e k) s)"
proof -
  have w: "within_budget retry k" using assms(3,4) by (simp add: within_budget_def)
  have m: "1 + word_of_nat k = m"
  proof -
    have "word_of_nat (Suc k) = m" unfolding assms(4) [symmetric] by simp
    then show ?thesis by simp
  qed
  show ?thesis
    using failed_rounds_state [OF assms(1,2) w, of faults e] assms(3)
    by (simp add: server_run_append Let_def server_step.simps on_bind_def fail_and_retry_def
          m add.commute [of _ "1 :: u32"] is_exhausted_def fail_terminal_def)
       (simp add: set_terminal_def running_def)
qed

theorem bind_budget_exhausted_witness:
  "let t = server_run (server_config_new demo_addr) demo_retry no_faults
             (failed_rounds ''busy'' 1 @ [BindResult (Inl ''busy'')]) demo_server
   in status_tx (shared t) = Terminal
      \<and> terminal (shared t) = Some (BindRetryExhausted (bind_addr (server_config_new demo_addr)) 2 ''busy'')
      \<and> running (server_run (server_config_new demo_addr) demo_retry no_faults (failed_rounds ''busy'' 1) demo_server)"
  by (rule bind_budget_exhausted [OF demo_spawn demo_retry_ok]) (simp_all add: demo_retry_def)

section \<open>Connections\<close>

text \<open>
  C4. The handler of a connection that ends saw \<open>Connected\<close> first, \<open>Closed\<close> with the cause last
  and exactly once, and in between only commands, ticks and text or binary frames: control
  frames never reach it.  Keeping the events changes nothing else of the connection.
\<close>

theorem connection_event_order:
  assumes "run_connection (traced F) send close ctx handshake bs = Ended cause (tr, e) ws"
  shows "\<exists>mid. tr = WsServerEndpointEvent.Connected ctx # mid @ [Closed cause] \<and> list_all inner_event mid
     \<and> run_connection F send close ctx handshake bs = Ended cause e ws"
proof -
  obtain w where h: "handshake = Some w" using assms by (cases handshake) (auto simp: run_connection_def)
  have c: "create_endpoint (traced F) ctx = ([], create_endpoint F ctx)" by (simp add: traced_def)
  obtain c1 tr1 e1 w1 where d: "deliver (traced F) send (WsServerEndpointEvent.Connected ctx)
      (([], create_endpoint F ctx), w) = (c1, (tr1, e1), w1)"
    by (metis prod.exhaust)
  then have tr1: "tr1 = [WsServerEndpointEvent.Connected ctx]"
    and d': "deliver F send (WsServerEndpointEvent.Connected ctx) (create_endpoint F ctx, w) = (c1, e1, w1)"
    by (simp_all add: traced_deliver)
  obtain mid e2 w2 where loop: "run_connection_loop (traced F) send ctx bs (([], create_endpoint F ctx), w)
        = (Some cause, (tr1 @ mid, e2), w2)" "list_all inner_event mid"
      "run_connection_loop F send ctx bs (create_endpoint F ctx, w) = (Some cause, e2, w2)"
      "finish_connection (traced F) send close cause ((tr1 @ mid, e2), w2) = ((tr, e), ws)"
  proof (cases c1)
    case None
    obtain c2 tr2 e2 w2 where l: "connection_loop (traced F) send bs ((tr1, e1), w1) = (c2, (tr2, e2), w2)"
      by (metis prod.exhaust)
    from traced_loop [OF l] obtain mid where "tr2 = tr1 @ mid" "list_all inner_event mid"
        "connection_loop F send bs (e1, w1) = (c2, e2, w2)" by blast
    then show thesis
      using that assms h c d d' l None
      by (cases c2) (auto simp: run_connection_def run_connection_loop_def Let_def split: prod.splits)
  next
    case (Some cause')
    then show thesis
      using that [of "[]" e1 w1] assms h c d d'
      by (auto simp: run_connection_def run_connection_loop_def Let_def split: prod.splits)
  qed
  then show ?thesis
    using h tr1 by (auto simp: run_connection_def finish_connection_def traced_def Let_def split: prod.splits)
qed

theorem connection_event_order_witness:
  "\<exists>mid. ([WsServerEndpointEvent.Connected demo_ctx, Frame (Binary [1]), Closed ClientClosed]
           :: unit WsServerEndpointEvent list) = WsServerEndpointEvent.Connected demo_ctx # mid @ [Closed ClientClosed] \<and> list_all inner_event mid
     \<and> run_connection (quiet_endpoint NoAction) keep_frames (\<lambda>w. w) demo_ctx (Some [])
         [OnIncoming (Some (Inr (Ping [5]))), OnIncoming (Some (Inr (Binary [1]))), OnIncoming None]
       = Ended ClientClosed () [Pong [5]]"
  by (rule connection_event_order)
     (simp add: run_connection_def run_connection_loop_def deliver_def traced_def quiet_endpoint_def
        keep_frames_def finish_connection_def)

text \<open>
  What the handler answers to \<open>Closed\<close> has no effect on the socket, a close frame included:
  two handlers with the same state changes close a connection in the same way whatever they
  answer.
\<close>

theorem closed_answer_ignored:
  assumes "\<forall>ev e. snd (on_event F ev e) = snd (on_event G ev e)"
  shows "finish_connection F send close cause ew = finish_connection G send close cause ew"
  using assms by (simp add: finish_connection_def Let_def split_beta)

theorem closed_answer_ignored_witness:
  "finish_connection (quiet_endpoint (WsServerEndpointAction.Close (Some \<lparr>close_code = 4000, close_reason = []\<rparr>)))
     keep_frames (\<lambda>w. w) ClientClosed ((), [])
   = finish_connection (quiet_endpoint NoAction) keep_frames (\<lambda>w. w) ClientClosed ((), [])"
  by (rule closed_answer_ignored) (simp add: quiet_endpoint_def)

section \<open>The handle\<close>

text \<open>
  A dispatch that reads the status \<open>Terminal\<close> always reports the terminal cause, even when
  the server failed between its first reading of the cause and its reading of the status: it
  never mistakes a failure for a normal stop.
\<close>

theorem dispatch_reports_terminal_cause:
  assumes "spawn_with_faults rt ch config retry = Inr s"
    and "status_tx (shared (server_run config retry faults evs s)) = Terminal"
  shows "\<exists>cause. fst (dispatch bsend c first Terminal
           (terminal (shared (server_run config retry faults (evs @ evs') s))) b) = Inl (Terminated cause)"
proof -
  have l: "lifecycle_ok (server_run config retry faults evs s)"
    using spawn_inv(2) [OF assms(1)] lifecycle_step by (rule server_run_invariant [rotated])
  then have "terminal (shared (server_run config retry faults evs s)) \<noteq> None"
    using assms(2) by (simp add: lifecycle_ok_def cause_ok_def)
  then show ?thesis
    using finished_run [OF l, of config retry faults evs'] assms(2)
    by (auto simp: dispatch_def server_run_append is_final_def split: option.split)
qed

theorem dispatch_reports_terminal_cause_witness:
  "\<exists>cause. fst (dispatch (\<lambda>c b. (None, b)) () None Terminal
     (terminal (shared (server_run (server_config_new demo_addr) demo_retry
        \<lparr>terminal_accept_failure_after = Some 0\<rparr> ([BindResult (Inr (Inr demo_addr))] @ [HandleDropped])
        demo_server))) ()) = Inl (Terminated cause)"
  by (rule dispatch_reports_terminal_cause [OF demo_spawn])
     (simp add: server_step.simps on_bind_def accept_head_def fail_terminal_def demo_server_def Let_def)

lemma wait_loop_reached:
  "wait_loop expected reads gone = Some (Inr ()) \<longleftrightarrow>
     (\<exists>pre post. reads = pre @ expected # post \<and> list_all (\<lambda>st. \<not> is_final st) pre)"
proof (induction reads)
  case (Cons st reads)
  show ?case
  proof (cases "st = expected")
    case True
    then show ?thesis by (auto intro: exI [of _ "[]"])
  next
    case False
    have "(\<exists>pre post. st # reads = pre @ expected # post \<and> list_all (\<lambda>st. \<not> is_final st) pre)
        \<longleftrightarrow> \<not> is_final st \<and> (\<exists>pre post. reads = pre @ expected # post \<and> list_all (\<lambda>st. \<not> is_final st) pre)"
    proof
      assume "\<exists>pre post. st # reads = pre @ expected # post \<and> list_all (\<lambda>st. \<not> is_final st) pre"
      then show "\<not> is_final st \<and> (\<exists>pre post. reads = pre @ expected # post \<and> list_all (\<lambda>st. \<not> is_final st) pre)"
        using False by (auto simp: Cons_eq_append_conv)
    next
      assume "\<not> is_final st \<and> (\<exists>pre post. reads = pre @ expected # post \<and> list_all (\<lambda>st. \<not> is_final st) pre)"
      then obtain pre post where "reads = pre @ expected # post" "list_all (\<lambda>st. \<not> is_final st) (st # pre)"
        by auto
      then show "\<exists>pre post. st # reads = pre @ expected # post \<and> list_all (\<lambda>st. \<not> is_final st) pre"
        by (intro exI [of _ "st # pre"] exI [of _ post]) simp
    qed
    then show ?thesis using False Cons.IH by auto
  qed
qed simp

text \<open>
  Waiting for a status succeeds exactly when that status is read before the timeout and
  before any other final status.
\<close>

theorem wait_for_status_exact:
  "(wait_for_status expected timeout reads gone snapshot = Inr ()) =
     (\<exists>pre post. reads = pre @ expected # post \<and> list_all (\<lambda>st. \<not> is_final st) pre)"
  unfolding wait_loop_reached [of expected reads gone, symmetric] wait_for_status_def
  by (auto split: option.split)

section \<open>Batches and configuration\<close>

text \<open>
  A frame batch gives back exactly the first four frames it was built from, in order, and
  is empty afterwards; pushing onto a full batch returns the frame.
\<close>

theorem batch_roundtrip:
  "batch_drain (batch_from_iter fs) = (take 4 fs, batch_new)
     \<and> fst (batch_push f (batch_from_iter fs)) = (if length fs < 4 then Inr () else Inl f)"
proof -
  have "batch_from_iter fs = batch_of (take 4 fs)"
    using batch_extend_of [of "[]" fs]
    by (simp add: batch_from_iter_def batch_new_of WS_SERVER_FRAME_BATCH_CAPACITY_def)
  then show ?thesis
    using batch_drain_of [of "take 4 fs"] batch_push_of [of f "take 4 fs"]
    by (simp add: WS_SERVER_FRAME_BATCH_CAPACITY_def)
qed

text \<open>
  Spawning succeeds exactly for a configuration and a retry policy whose limits are all
  usable, inside a runtime.
\<close>

theorem spawn_accepts_exactly:
  "(\<exists>s. spawn_with_faults rt ch config retry = Inr s) =
     (backlog config \<noteq> 0 \<and> 0 < max_connections config \<and> 0 < handshake_timeout config
      \<and> 0 < endpoint_tick_interval config \<and> 0 < shutdown_timeout config
      \<and> 0 < retained_commands_per_client config \<and> 0 < initial_backoff retry
      \<and> initial_backoff retry \<le> max_backoff retry \<and> max_attempts retry \<noteq> Some 0 \<and> rt)"
  by (auto simp: spawn_with_faults_def config_validate_def retry_validate_def)

section \<open>The handle and its task\<close>





end
