(* ===== verification/Server_Lifecycle.thy ===== *)
theory Server_Lifecycle
  imports Server_Safety
begin

text \<open>
  The lifecycle of a managed server as \<^verbatim>\<open>src/src/ws/server/mod.rs\<close> promises it, as an
  abstract machine on the published status, and the refinement: every step of the server task
  publishes a path of that machine.
\<close>

section \<open>The machine\<close>

definition before_shutdown :: "ManagedWsServerStatus \<Rightarrow> bool" where
  "before_shutdown st \<longleftrightarrow> st = Starting \<or> st = Retrying \<or> st = Listening"

inductive lifecycle_move :: "ManagedWsServerStatus \<Rightarrow> ManagedWsServerStatus \<Rightarrow> bool" where
  bound: "st = Starting \<or> st = Retrying \<Longrightarrow> lifecycle_move st Listening"
| backing_off: "before_shutdown st \<Longrightarrow> lifecycle_move st Retrying"
| draining: "before_shutdown st \<Longrightarrow> lifecycle_move st ShuttingDown"
| drained: "lifecycle_move ShuttingDown Stopped"
| failed: "before_shutdown st \<Longrightarrow> lifecycle_move st Terminal"

inductive_cases lifecycle_from_final: "lifecycle_move Stopped st" "lifecycle_move Terminal st"
inductive_cases lifecycle_from_draining: "lifecycle_move ShuttingDown st"
inductive_cases lifecycle_to_starting: "lifecycle_move st Starting"
inductive_simps lifecycle_into: "lifecycle_move st Listening" "lifecycle_move st ShuttingDown"
  "lifecycle_move st Terminal" "lifecycle_move st Stopped"

lemmas before_shutdown_simps [simp] =
  before_shutdown_def [of Starting, simplified] before_shutdown_def [of Retrying, simplified]
  before_shutdown_def [of Listening, simplified] before_shutdown_def [of ShuttingDown, simplified]
  before_shutdown_def [of Stopped, simplified] before_shutdown_def [of Terminal, simplified]

text \<open>What a path of the machine excludes, by rule induction.\<close>

lemma path_from_draining:
  "lifecycle_move\<^sup>*\<^sup>* st st' \<Longrightarrow> st = ShuttingDown \<Longrightarrow> st' = ShuttingDown \<or> st' = Stopped"
  by (induction rule: rtranclp_induct) (auto elim: lifecycle_from_draining lifecycle_from_final)

lemma path_from_final: "lifecycle_move\<^sup>*\<^sup>* st st' \<Longrightarrow> is_final st \<Longrightarrow> st' = st"
  by (induction rule: rtranclp_induct) (auto simp: is_final_def elim: lifecycle_from_final)

lemma path_to_starting: "lifecycle_move\<^sup>*\<^sup>* st st' \<Longrightarrow> st' = Starting \<Longrightarrow> st = Starting"
  by (induction rule: rtranclp_induct) (auto elim: lifecycle_to_starting)

text \<open>A server that stopped drained first.\<close>

lemma path_to_stopped:
  "lifecycle_move\<^sup>*\<^sup>* st Stopped \<Longrightarrow> st \<noteq> Stopped \<Longrightarrow> lifecycle_move\<^sup>*\<^sup>* st ShuttingDown"
  by (erule rtranclp.cases) (auto simp: lifecycle_into)

section \<open>The refinement\<close>

abbreviation status_of :: "'b server \<Rightarrow> ManagedWsServerStatus" where
  "status_of s \<equiv> status_tx (shared s)"

lemma status_fail_terminal: "running s \<Longrightarrow> status_of (fail_terminal e s) = Terminal"
  by (simp add: fail_terminal_def running_def set_terminal_def)

lemma path_fail_terminal:
  "running s \<Longrightarrow> before_shutdown (status_of s) \<Longrightarrow> lifecycle_move\<^sup>*\<^sup>* (status_of s) (status_of (fail_terminal e s))"
  by (simp add: status_fail_terminal r_into_rtranclp failed)

lemma path_retry:
  "running s \<Longrightarrow> before_shutdown (status_of s)
     \<Longrightarrow> lifecycle_move\<^sup>*\<^sup>* (status_of s) (status_of (fail_and_retry config retry e s))"
  using path_fail_terminal [of "s\<lparr>consecutive_failures := consecutive_failures s + 1\<rparr>"]
  by (simp add: fail_and_retry_def Let_def publish_running r_into_rtranclp backing_off)

lemma path_head:
  "running s \<Longrightarrow> before_shutdown (status_of s)
     \<Longrightarrow> lifecycle_move\<^sup>*\<^sup>* (status_of s) (status_of (accept_head faults l n s))"
  by (auto simp: accept_head_def path_fail_terminal split: option.split)

lemma path_drained:
  "running s \<Longrightarrow> status_of s = ShuttingDown
     \<Longrightarrow> lifecycle_move\<^sup>*\<^sup>* ShuttingDown (status_of (finish_if_drained s))"
  by (simp add: finish_if_drained_def publish_running r_into_rtranclp drained)

lemma path_begin_drain:
  assumes "running s" and "before_shutdown (status_of s)"
  shows "lifecycle_move\<^sup>*\<^sup>* (status_of s) (status_of (begin_drain s))"
proof -
  have "lifecycle_move (status_of s) ShuttingDown" using assms(2) by (rule draining)
  also have "lifecycle_move\<^sup>*\<^sup>* ShuttingDown (status_of (begin_drain s))"
    unfolding begin_drain_def using assms(1) by (intro path_drained) (simp_all add: publish_running is_final_def)
  finally show ?thesis .
qed

lemma path_bind:
  assumes "running s" and st: "status_of s = Starting \<or> status_of s = Retrying"
  shows "lifecycle_move\<^sup>*\<^sup>* (status_of s) (status_of (on_bind config retry faults r s))"
proof -
  let ?s = "publish Listening (s\<lparr>consecutive_failures := 0, backoff := initial_backoff retry, origin := Accept\<rparr>)"
  have up: "running ?s" "status_of ?s = Listening" using assms(1) by (simp_all add: publish_running is_final_def)
  have before: "before_shutdown (status_of s)" using st by auto
  have "lifecycle_move\<^sup>*\<^sup>* (status_of s) (status_of ?s)" using up(2) st by (simp add: r_into_rtranclp bound)
  then have "lifecycle_move\<^sup>*\<^sup>* (status_of s) (status_of (fail_and_retry config retry e ?s))"
    "lifecycle_move\<^sup>*\<^sup>* (status_of s) (status_of (accept_head faults l n ?s))" for e l n
    using path_retry [of ?s config retry e] path_head [of ?s faults l n] up
    by (auto intro: rtranclp_trans)
  then show ?thesis
    using path_begin_drain [OF assms(1) before] path_retry [OF assms(1) before]
    by (auto simp: on_bind_def Let_def split: sum.split)
qed

lemma path_accept:
  "running s \<Longrightarrow> status_of s = Listening
     \<Longrightarrow> lifecycle_move\<^sup>*\<^sup>* Listening (status_of (on_accept config retry faults l n r s))"
  using path_retry [of s] path_head [of s] path_head [of "admit_connection config p l s" for p]
  by (auto simp: on_accept_def split: sum.split)

lemma path_step:
  assumes ok: "lifecycle_ok s"
  shows "lifecycle_move\<^sup>*\<^sup>* (status_of s) (status_of (server_step config retry faults ev s))"
proof -
  have run: "running s" if "srv_phase s \<noteq> Finished" using lifecycle_running [OF ok that] .
  have m: "phase_matches s" using ok by (simp add: lifecycle_ok_def)
  show ?thesis
  proof (cases "srv_phase s")
    case AtTop
    then show ?thesis
      using m run path_bind [of s]
      by (cases ev) (auto simp: server_step.simps phase_matches_def request_shutdown_def task_ends_def release_slot_def)
  next
    case (Accepting l n)
    then show ?thesis
      using m run path_accept [of s] path_begin_drain [of s]
        path_head [of "s\<lparr>clients := remove_task i (clients s)\<rparr>" for i]
      by (cases ev) (auto simp: server_step.simps phase_matches_def request_shutdown_def task_ends_def release_slot_def)
  next
    case Backoff
    then show ?thesis
      using m run path_begin_drain [of s]
      by (cases ev) (auto simp: server_step.simps phase_matches_def request_shutdown_def task_ends_def release_slot_def)
  next
    case Draining
    then show ?thesis
      using m run path_drained [of "s\<lparr>clients := remove_task i (clients s)\<rparr>" for i] path_drained [of "abort_clients s"]
      by (cases ev) (auto simp: server_step.simps phase_matches_def request_shutdown_def task_ends_def
          release_slot_def running_def)
  qed (cases ev; simp add: server_step.simps request_shutdown_def task_ends_def release_slot_def)+
qed

lemma path_run:
  "lifecycle_ok s \<Longrightarrow> lifecycle_move\<^sup>*\<^sup>* (status_of s) (status_of (server_run config retry faults evs s))"
proof (induction evs arbitrary: s)
  case (Cons ev evs)
  have "lifecycle_ok (server_step config retry faults ev s)" using Cons.prems by (rule lifecycle_step)
  with Cons.IH have "lifecycle_move\<^sup>*\<^sup>* (status_of (server_step config retry faults ev s))
      (status_of (server_run config retry faults (ev # evs) s))" by simp
  with path_step [OF Cons.prems] show ?case by (rule rtranclp_trans)
qed simp

section \<open>Observing the status\<close>

text \<open>What a receiver of the status channel reads at the given points of a run.\<close>

definition observations ::
  "WsServerConfig \<Rightarrow> WsServerRetryPolicy \<Rightarrow> ServerFaults \<Rightarrow> server_event list \<Rightarrow> nat list
     \<Rightarrow> 'b server \<Rightarrow> ManagedWsServerStatus list" where
  "observations config retry faults evs ks s =
     map (\<lambda>k. status_of (server_run config retry faults (take k evs) s)) ks"

lemma observed_path:
  assumes "lifecycle_ok s" and "j \<le> k"
  shows "lifecycle_move\<^sup>*\<^sup>* (status_of (server_run config retry faults (take j evs) s))
           (status_of (server_run config retry faults (take k evs) s))"
proof -
  have "take k evs = take j evs @ take (k - j) (drop j evs)"
    using assms(2) by (metis le_add_diff_inverse take_add)
  moreover have "lifecycle_ok (server_run config retry faults (take j evs) s)"
    using lifecycle_step assms(1) by (rule server_run_invariant)
  ultimately show ?thesis by (simp add: server_run_append path_run)
qed

lemma observations_sorted:
  "lifecycle_ok s \<Longrightarrow> sorted ks \<Longrightarrow> sorted_wrt lifecycle_move\<^sup>*\<^sup>* (observations config retry faults evs ks s)"
  unfolding observations_def sorted_wrt_map
  by (rule sorted_wrt_mono_rel [of _ "(\<le>)"]) (auto intro: observed_path)

text \<open>Reads along a path settle on the final status among them.\<close>

lemma wait_loop_settles:
  assumes "sorted_wrt lifecycle_move\<^sup>*\<^sup>* reads" and "st \<in> set reads" and "is_final st"
  shows "wait_loop expected reads gone
    = Some (if expected \<in> set reads then Inr () else Inl (Settled expected st))"
  using assms
proof (induction reads)
  case (Cons r reads)
  show ?case
  proof (cases "is_final r")
    case True
    then have "\<forall>x \<in> set reads. x = r" using Cons.prems(1) path_from_final by auto
    then show ?thesis using True Cons.prems(2,3) by auto
  next
    case False
    then have "st \<in> set reads" using Cons.prems(2,3) by auto
    with False Cons show ?thesis by auto
  qed
qed simp

end
