(* ===== verification/Lifecycle_Properties.thy ===== *)
theory Lifecycle_Properties
  imports Server_Lifecycle Server_Properties
begin

text \<open>The published lifecycle of the server, and what an observer of it is told.\<close>

text \<open>
  C8. The server publishes the lifecycle its documentation promises: between any two points of
  a run the status moves along the documented machine.  So the server never starts again, a
  shutdown in progress can only end as \<open>Stopped\<close> (never as a terminal failure), and a final
  status is kept.
\<close>

theorem server_follows_lifecycle:
  assumes "spawn_with_faults rt ch config retry = Inr s"
  shows "let a = status_of (server_run config retry faults evs s);
             b = status_of (server_run config retry faults (evs @ evs') s)
         in lifecycle_move\<^sup>*\<^sup>* a b \<and> (b = Starting \<longrightarrow> a = Starting)
            \<and> (a = ShuttingDown \<longrightarrow> b = ShuttingDown \<or> b = Stopped) \<and> (is_final a \<longrightarrow> b = a)"
proof -
  have "lifecycle_ok (server_run config retry faults evs s)"
    using lifecycle_step spawn_inv(2) [OF assms] by (rule server_run_invariant)
  then have path: "lifecycle_move\<^sup>*\<^sup>* (status_of (server_run config retry faults evs s))
      (status_of (server_run config retry faults (evs @ evs') s))"
    by (simp add: server_run_append path_run)
  then show ?thesis
    using path_to_starting [OF path] path_from_draining [OF path] path_from_final [OF path]
    unfolding Let_def by blast
qed

definition draining_events :: "server_event list" where
  "draining_events = [BindResult (Inr (Inr demo_addr)), AcceptResult (Inr demo_addr), RequestShutdown, ObserveShutdown]"

lemma demo_draining:
  "status_of (server_run (server_config_new demo_addr) demo_retry no_faults draining_events demo_server) = ShuttingDown"
  by (simp add: draining_events_def server_step.simps on_bind_def accept_head_def no_faults_def on_accept_def
        admit_connection_def try_acquire_def next_connection_id_def publish_def set_status_def
        begin_drain_def finish_if_drained_def request_shutdown_def demo_server_def server_config_new_def
        is_final_def)

theorem server_follows_lifecycle_witness:
  "status_of (server_run (server_config_new demo_addr) demo_retry no_faults
      (draining_events @ [BindResult (Inl ''busy''), DrainTimeout]) demo_server) \<in> {ShuttingDown, Stopped}"
  using server_follows_lifecycle [OF demo_spawn, of no_faults draining_events "[BindResult (Inl ''busy''), DrainTimeout]"]
  by (simp add: demo_draining Let_def)

text \<open>
  C16. Waiting for a status agrees with the lifecycle: an observer that reads the status at
  increasing points of a run and among them sees a final one is always answered, never timed
  out: with success exactly when the status it waits for was among its reads, and otherwise with
  the final status the server settled on.
\<close>

theorem status_wait_agrees:
  assumes "spawn_with_faults rt ch config retry = Inr s" and "sorted ks"
    and "st \<in> set (observations config retry faults evs ks s)" and "is_final st"
  shows "wait_for_status expected limit (observations config retry faults evs ks s) gone snapshot
    = (if expected \<in> set (observations config retry faults evs ks s) then Inr ()
       else Inl (Settled expected st))"
  using wait_loop_settles [OF observations_sorted assms(3,4)] spawn_inv(2) [OF assms(1)] assms(2)
  by (simp add: wait_for_status_def)

theorem status_wait_agrees_witness:
  "wait_for_status Terminal 5
     (observations (server_config_new demo_addr) demo_retry no_faults (draining_events @ [DrainTimeout])
        [0, 1, 4, 5] demo_server) False Listening
   = Inl (Settled Terminal Stopped)"
proof -
  have reads: "observations (server_config_new demo_addr) demo_retry no_faults (draining_events @ [DrainTimeout])
      [0, 1, 4, 5] demo_server = [Starting, Listening, ShuttingDown, Stopped]"
    by (simp add: observations_def draining_events_def server_step.simps on_bind_def accept_head_def
        no_faults_def on_accept_def admit_connection_def try_acquire_def next_connection_id_def publish_def
        set_status_def begin_drain_def finish_if_drained_def abort_clients_def release_slot_def
        request_shutdown_def demo_server_def server_config_new_def is_final_def numeral_eq_Suc)
  show ?thesis
    using status_wait_agrees [OF demo_spawn, of "[0, 1, 4, 5]" Stopped no_faults
        "draining_events @ [DrainTimeout]" Terminal 5 False Listening]
    unfolding reads by (simp add: is_final_def)
qed

end
