(* ===== verification/Server_Fanout.thy ===== *)
theory Server_Fanout
  imports Server_Connection Server_Handle "HOL-Library.Sublist"
begin

text \<open>
  Command fanout of the managed server: \<open>dispatch\<close> of the handle, the broadcast channel, the
  subscription made in \<open>admit_connection\<close>, and the connection loops that receive.  The locale
  \<open>broadcast_reads\<close> is what a connection relies on of \<open>tokio::sync::broadcast\<close>; the channel
  itself is modelled as documented.
\<close>

section \<open>The broadcast channel\<close>

text \<open>Everything sent so far, how many values the channel retains, and its live receivers.  A
  receiver is the number of values it is past.\<close>

record 'c broadcast =
  bc_log :: "'c list"
  bc_window :: nat
  bc_receivers :: nat

definition broadcast_new :: "nat \<Rightarrow> 'c broadcast" where
  "broadcast_new capacity = \<lparr>bc_log = [], bc_window = capacity, bc_receivers = 0\<rparr>"

definition broadcast_subscribe :: "'c broadcast \<Rightarrow> nat \<times> 'c broadcast" where
  "broadcast_subscribe b = (length (bc_log b), b\<lparr>bc_receivers := bc_receivers b + 1\<rparr>)"

definition broadcast_drop :: "'c broadcast \<Rightarrow> 'c broadcast" where
  "broadcast_drop b = b\<lparr>bc_receivers := bc_receivers b - 1\<rparr>"

text \<open>A value sent without a receiver is returned to the sender.\<close>

definition broadcast_send :: "'c \<Rightarrow> 'c broadcast \<Rightarrow> nat option \<times> 'c broadcast" where
  "broadcast_send c b =
     (if bc_receivers b = 0 then (None, b)
      else (Some (bc_receivers b), b\<lparr>bc_log := bc_log b @ [c]\<rparr>))"

text \<open>A receiver that fell behind is told how many values it missed and moved to the oldest
  retained one; \<^const>\<open>None\<close>: it waits.\<close>

definition broadcast_recv :: "'c broadcast \<Rightarrow> nat \<Rightarrow> 'c recv_result option \<times> nat" where
  "broadcast_recv b p =
     (let n = length (bc_log b)
      in if p + bc_window b < n
         then (Some (RecvLagged (word_of_nat (n - bc_window b - p))), n - bc_window b)
         else if p < n then (Some (RecvOk (bc_log b ! p)), p + 1)
         else (None, p))"

section \<open>What a connection relies on\<close>

fun received :: "'c branch list \<Rightarrow> 'c list" where
  "received [] = []"
| "received (OnCommand (RecvOk c) # bs) = c # received bs"
| "received (_ # bs) = received bs"

lemma received_append [simp]: "received (bs @ bs') = received bs @ received bs'"
  by (induction bs rule: received.induct) simp_all

lemma prefix_next:
  assumes "prefix xs (drop k ys)" and "k + length xs < length ys"
  shows "prefix (xs @ [ys ! (k + length xs)]) (drop k ys)"
proof -
  have "xs = take (length xs) (drop k ys)" using assms(1) by (auto simp: prefix_def)
  then have "xs @ [ys ! (k + length xs)] = take (Suc (length xs)) (drop k ys)"
    using assms(2) by (simp add: take_Suc_conv_app_nth)
  then show ?thesis by (metis take_is_prefix)
qed

lemma prefix_drop_append: "prefix xs (drop k ys) \<Longrightarrow> k \<le> length ys \<Longrightarrow> prefix xs (drop k (ys @ zs))"
  by (auto simp: prefix_def)

definition lagged :: "'c branch list \<Rightarrow> bool" where
  "lagged bs = list_ex (\<lambda>x. case x of OnCommand (RecvLagged _) \<Rightarrow> True | _ \<Rightarrow> False) bs"

lemma lagged_simps [simp]: "\<not> lagged []" "lagged (bs @ bs') \<longleftrightarrow> lagged bs \<or> lagged bs'"
  "lagged [OnCommand (RecvLagged m)]" "\<not> lagged [OnCommand (RecvOk c)]"
  by (simp_all add: lagged_def)

lemma not_lagged_other: "(\<And>r. b \<noteq> OnCommand r) \<Longrightarrow> \<not> lagged [b] \<and> received [b] = []"
  by (cases b) (auto simp: lagged_def)

lemma in_lagged: "OnCommand (RecvLagged m) \<in> set bs \<Longrightarrow> lagged bs"
  by (force simp: lagged_def list_ex_iff)

locale broadcast_reads =
  fixes recv :: "'b \<Rightarrow> nat \<Rightarrow> 'c recv_result option \<times> nat"
    and history :: "'b \<Rightarrow> 'c list"
    and window :: "'b \<Rightarrow> nat"
  assumes recv_value: "recv b p = (Some (RecvOk c), p') \<Longrightarrow> p < length (history b) \<and> c = history b ! p \<and> p' = Suc p"
    and recv_lag: "recv b p = (Some (RecvLagged m), p') \<Longrightarrow>
          \<exists>n > 0. m = word_of_nat n \<and> p + n + window b = length (history b)"
    and recv_open: "recv b p \<noteq> (Some RecvClosed, p')"
begin

text \<open>Where a connection stands: the values it received are the first ones sent after it
  subscribed, and \<open>p\<close> is the next one; unless it lagged, by a number that is then accounted for.\<close>

definition in_step :: "'b \<Rightarrow> nat \<Rightarrow> nat \<Rightarrow> 'c branch list \<Rightarrow> bool" where
  "in_step b from p bs \<longleftrightarrow>
     from \<le> length (history b) \<and> prefix (received bs) (drop from (history b))
     \<and> (\<not> lagged bs \<longrightarrow> p = from + length (received bs))
     \<and> (\<forall>m. OnCommand (RecvLagged m) \<in> set bs \<longrightarrow>
          (\<exists>n > 0. m = word_of_nat n \<and> from + length (received bs) + n + window b \<le> length (history b)))"

lemma in_step_start: "in_step b (length (history b)) (length (history b)) []"
  by (simp add: in_step_def)

lemma in_step_other: "in_step b from p bs \<Longrightarrow> (\<And>r. x \<noteq> OnCommand r) \<Longrightarrow> in_step b from p (bs @ [x])"
  using not_lagged_other [of x] by (auto simp: in_step_def)

lemma in_step_recv:
  assumes "in_step b from p bs" and "\<not> lagged bs" and "recv b p = (Some r, p')"
  shows "in_step b from p' (bs @ [OnCommand r])"
proof (cases r)
  case (RecvOk c)
  then show ?thesis
    using assms recv_value [of b p c p'] prefix_next [of "received bs" "from" "history b"]
    by (auto simp: in_step_def dest: in_lagged)
next
  case (RecvLagged m)
  then show ?thesis
    using assms recv_lag [of b p m p'] by (fastforce simp: in_step_def dest: in_lagged)
next
  case RecvClosed
  then show ?thesis using assms(3) recv_open by blast
qed

lemma in_step_grow:
  assumes "in_step b from p bs" and "history b' = history b @ xs" and "window b' = window b"
  shows "in_step b' from p bs"
  using assms prefix_drop_append [of "received bs" "from" "history b" xs]
  by (fastforce simp: in_step_def)

end

interpretation bc: broadcast_reads broadcast_recv bc_log bc_window
  by unfold_locales (auto simp: broadcast_recv_def Let_def split: if_splits intro!: exI [of _ "length _ - _ - _"])

section \<open>Connections and commands\<close>

text \<open>A connection from its admission on: \<open>fan_upgrade\<close> is the outcome of the handshake once it
  is known, \<open>fan_from\<close> the point of its subscription, \<open>fan_branches\<close> what its loop completed.\<close>

record ('c, 'w) fan_conn =
  fan_ctx :: WsServerConnectionContext
  fan_upgrade :: "'w option option"
  fan_from :: nat
  fan_pos :: nat
  fan_branches :: "'c branch list"

record ('c, 'w) fanout =
  fan_chan :: "'c broadcast"
  fan_conns :: "('c, 'w) fan_conn list"

definition conn_state ::
  "('e, 'c) WsServerEndpoint \<Rightarrow> 'w sink \<Rightarrow> ('w \<Rightarrow> 'w) \<Rightarrow> ('c, 'w) fan_conn \<Rightarrow> ('e, 'w) connection_end option" where
  "conn_state F send close c =
     map_option (\<lambda>handshake. run_connection F send close (fan_ctx c) handshake (fan_branches c)) (fan_upgrade c)"

definition waiting ::
  "('e, 'c) WsServerEndpoint \<Rightarrow> 'w sink \<Rightarrow> ('w \<Rightarrow> 'w) \<Rightarrow> ('c, 'w) fan_conn \<Rightarrow> bool" where
  "waiting F send close c = (case conn_state F send close c of Some (Waiting _ _) \<Rightarrow> True | _ \<Rightarrow> False)"

text \<open>The task of the connection, and with it the receiver, is still there.\<close>

definition subscribed ::
  "('e, 'c) WsServerEndpoint \<Rightarrow> 'w sink \<Rightarrow> ('w \<Rightarrow> 'w) \<Rightarrow> ('c, 'w) fan_conn \<Rightarrow> bool" where
  "subscribed F send close c \<longleftrightarrow> fan_upgrade c = None \<or> waiting F send close c"

definition put_conn ::
  "('e, 'c) WsServerEndpoint \<Rightarrow> 'w sink \<Rightarrow> ('w \<Rightarrow> 'w) \<Rightarrow> nat \<Rightarrow> ('c, 'w) fan_conn
     \<Rightarrow> ('c, 'w) fanout \<Rightarrow> ('c, 'w) fanout" where
  "put_conn F send close i c s =
     s\<lparr>fan_conns := (fan_conns s)[i := c],
       fan_chan := (if subscribed F send close c then fan_chan s else broadcast_drop (fan_chan s))\<rparr>"

datatype ('c, 'w) fan_op =
    Admit WsServerConnectionContext
  | Upgrade nat "'w option"
  | TakeCommand nat
  | TakeOther nat "'c branch"
  | Dispatch 'c "ManagedWsServerTerminalError option" ManagedWsServerStatus "ManagedWsServerTerminalError option"

definition is_command :: "'c branch \<Rightarrow> bool" where
  "is_command b = (case b of OnCommand _ \<Rightarrow> True | _ \<Rightarrow> False)"

fun fan_step ::
  "('e, 'c) WsServerEndpoint \<Rightarrow> 'w sink \<Rightarrow> ('w \<Rightarrow> 'w) \<Rightarrow> ('c, 'w) fan_op \<Rightarrow> ('c, 'w) fanout \<Rightarrow> ('c, 'w) fanout" where
  "fan_step F send close (Admit ctx) s =
     (let (p, b) = broadcast_subscribe (fan_chan s)
      in s\<lparr>fan_chan := b,
           fan_conns := fan_conns s @
             [\<lparr>fan_ctx = ctx, fan_upgrade = None, fan_from = p, fan_pos = p, fan_branches = []\<rparr>]\<rparr>)"
| "fan_step F send close (Upgrade i handshake) s =
     (if i < length (fan_conns s) \<and> fan_upgrade (fan_conns s ! i) = None
      then put_conn F send close i ((fan_conns s ! i)\<lparr>fan_upgrade := Some handshake\<rparr>) s else s)"
| "fan_step F send close (TakeCommand i) s =
     (if i < length (fan_conns s) \<and> waiting F send close (fan_conns s ! i)
      then let c = fan_conns s ! i
           in case broadcast_recv (fan_chan s) (fan_pos c) of
                (Some r, p) \<Rightarrow>
                  put_conn F send close i (c\<lparr>fan_pos := p, fan_branches := fan_branches c @ [OnCommand r]\<rparr>) s
              | (None, _) \<Rightarrow> s
      else s)"
| "fan_step F send close (TakeOther i b) s =
     (if i < length (fan_conns s) \<and> waiting F send close (fan_conns s ! i) \<and> \<not> is_command b
      then let c = fan_conns s ! i
           in put_conn F send close i (c\<lparr>fan_branches := fan_branches c @ [b]\<rparr>) s
      else s)"
| "fan_step F send close (Dispatch command first st second) s =
     s\<lparr>fan_chan := snd (dispatch broadcast_send command first st second (fan_chan s))\<rparr>"

definition fan_start :: "nat \<Rightarrow> ('c, 'w) fanout" where
  "fan_start capacity = \<lparr>fan_chan = broadcast_new capacity, fan_conns = []\<rparr>"

definition fan_run ::
  "('e, 'c) WsServerEndpoint \<Rightarrow> 'w sink \<Rightarrow> ('w \<Rightarrow> 'w) \<Rightarrow> ('c, 'w) fan_op list \<Rightarrow> ('c, 'w) fanout \<Rightarrow> ('c, 'w) fanout" where
  "fan_run F send close ops s = fold (fan_step F send close) ops s"

section \<open>The commands a handler sees\<close>

fun commands_of :: "'c WsServerEndpointEvent list \<Rightarrow> 'c list" where
  "commands_of [] = []"
| "commands_of (Command c # evs) = c # commands_of evs"
| "commands_of (_ # evs) = commands_of evs"

lemma commands_of_append [simp]: "commands_of (evs @ evs') = commands_of evs @ commands_of evs'"
  by (induction evs rule: commands_of.induct) simp_all

lemma branch_commands:
  assumes "on_branch (traced F) send b ((tr, e), ws) = (c, (tr', e'), ws')"
  shows "commands_of tr' = commands_of tr @ received [b]"
proof (cases b)
  case (OnIncoming m)
  show ?thesis
  proof (cases "\<exists>f. m = Some (Inr f)")
    case True
    then obtain f where m: "m = Some (Inr f)" by blast
    show ?thesis
      using assms OnIncoming m by (cases f) (auto simp: traced_deliver split: prod.splits sum.splits)
  next
    case False
    then show ?thesis using assms OnIncoming by (cases m) (auto split: sum.splits elim!: on_incoming.elims)
  qed
next
  case (OnCommand r)
  then show ?thesis using assms by (cases r) (auto simp: traced_deliver)
qed (use assms in \<open>auto simp: traced_deliver\<close>)

lemma loop_commands:
  "connection_loop (traced F) send bs ((tr, e), ws) = (None, (tr', e'), ws') \<Longrightarrow>
     commands_of tr' = commands_of tr @ received bs"
proof (induction bs arbitrary: tr e ws)
  case (Cons b bs)
  obtain c1 tr1 e1 ws1 where b: "on_branch (traced F) send b ((tr, e), ws) = (c1, (tr1, e1), ws1)"
    by (metis prod.exhaust)
  with Cons.prems have "c1 = None" by (cases c1) simp_all
  with Cons b have "commands_of tr' = commands_of tr1 @ received bs" by simp
  with branch_commands [OF b] show ?case using received_append [of "[b]" bs] by simp
qed simp

lemma loop_snoc:
  "connection_loop F send bs ew = (None, ew') \<Longrightarrow>
     connection_loop F send (bs @ [b]) ew = on_branch F send b ew'"
  by (induction bs arbitrary: ew) (auto split: prod.splits option.splits)

text \<open>Only a lagging receiver closes a connection as lagged.\<close>

lemma deliver_cause: "deliver F send ev ew = (Some (Lagged m), ew') \<Longrightarrow> False"
proof -
  have frames: "fst (send_frames send fs ws) \<noteq> Some (Lagged m)" for fs ws
    by (induction fs arbitrary: ws) (auto split: prod.splits sum.splits)
  have "fst (apply_action send a ws) \<noteq> Some (Lagged m)" for a ws
    using frames by (cases a) (auto split: prod.splits sum.splits)
  then show "deliver F send ev ew = (Some (Lagged m), ew') \<Longrightarrow> False"
    by (auto simp: deliver_def Let_def split: prod.splits sum.splits) (metis fst_conv)
qed

lemma branch_cause: "on_branch F send b ew = (Some (Lagged m), ew') \<Longrightarrow> b = OnCommand (RecvLagged m)"
proof (induction F send b ew rule: on_branch.induct)
  case (2 F send incoming ew)
  then show ?case
    by (cases "(F, send, incoming, ew)" rule: on_incoming.cases)
       (auto split: WsFrame.splits prod.splits sum.splits dest: deliver_cause)
qed (auto dest: deliver_cause)

section \<open>The invariant\<close>

lemma loop_not_lagged: "connection_loop F send bs ew = (None, ew') \<Longrightarrow> \<not> lagged bs"
proof (induction bs arbitrary: ew)
  case (Cons b bs)
  then obtain ew1 where b: "on_branch F send b ew = (None, ew1)" and rest: "connection_loop F send bs ew1 = (None, ew')"
    by (auto split: prod.splits option.splits)
  from b have "\<not> lagged [b]" by (auto simp: lagged_def split: branch.splits recv_result.splits)
  with Cons.IH [OF rest] show ?case using lagged_simps(2) [of "[b]" bs] by simp
qed simp

lemma waitingD:
  assumes "waiting F send close c"
  obtains ws ew ew' where "fan_upgrade c = Some (Some ws)"
    and "deliver F send (WsServerEndpointEvent.Connected (fan_ctx c)) (create_endpoint F (fan_ctx c), ws) = (None, ew)"
    and "connection_loop F send (fan_branches c) ew = (None, ew')"
  using assms
  by (auto simp: waiting_def conn_state_def run_connection_def run_connection_loop_def Let_def
      split: option.splits prod.splits connection_end.splits)

text \<open>A connection agrees with the channel, and its loop completed nothing after it ended.\<close>

definition conn_inv ::
  "('e, 'c) WsServerEndpoint \<Rightarrow> 'w sink \<Rightarrow> ('w \<Rightarrow> 'w) \<Rightarrow> 'c broadcast \<Rightarrow> ('c, 'w) fan_conn \<Rightarrow> bool" where
  "conn_inv F send close b c \<longleftrightarrow>
     bc.in_step b (fan_from c) (fan_pos c) (fan_branches c)
     \<and> (fan_branches c = [] \<or> waiting F send close (c\<lparr>fan_branches := butlast (fan_branches c)\<rparr>))"

definition fan_inv ::
  "('e, 'c) WsServerEndpoint \<Rightarrow> 'w sink \<Rightarrow> ('w \<Rightarrow> 'w) \<Rightarrow> ('c, 'w) fanout \<Rightarrow> bool" where
  "fan_inv F send close s \<longleftrightarrow>
     (\<forall>c \<in> set (fan_conns s). conn_inv F send close (fan_chan s) c)
     \<and> bc_receivers (fan_chan s) = length (filter (subscribed F send close) (fan_conns s))"

lemma conn_inv_grow:
  "conn_inv F send close b c \<Longrightarrow> bc_log b' = bc_log b @ xs \<Longrightarrow> bc_window b' = bc_window b \<Longrightarrow> conn_inv F send close b' c"
  by (auto simp: conn_inv_def intro: bc.in_step_grow)

lemma broadcast_drop_fields [simp]:
  "bc_log (broadcast_drop b) = bc_log b" "bc_window (broadcast_drop b) = bc_window b"
  by (simp_all add: broadcast_drop_def)

lemma filter_update:
  assumes "i < length xs" and "P (xs ! i)"
  shows "length (filter P (xs[i := y])) = (if P y then length (filter P xs) else length (filter P xs) - 1)"
proof -
  have "filter P xs = filter P (take i xs) @ xs ! i # filter P (drop (Suc i) xs)"
    using assms by (subst id_take_nth_drop [OF assms(1)]) simp
  then show ?thesis using assms(1) by (simp add: upd_conv_take_nth_drop)
qed

lemma put_conn_inv:
  assumes inv: "fan_inv F send close s" and i: "i < length (fan_conns s)"
    and old: "subscribed F send close (fan_conns s ! i)" and new: "conn_inv F send close (fan_chan s) c"
  shows "fan_inv F send close (put_conn F send close i c s)"
proof -
  let ?b = "if subscribed F send close c then fan_chan s else broadcast_drop (fan_chan s)"
  have "conn_inv F send close ?b c'" if "conn_inv F send close (fan_chan s) c'" for c'
    using conn_inv_grow [OF that, of ?b "[]"] by simp
  moreover have "conn_inv F send close (fan_chan s) c'" if "c' \<in> set ((fan_conns s)[i := c])" for c'
    using that inv new set_update_subset_insert [of "fan_conns s" i c] by (auto simp: fan_inv_def)
  moreover have "bc_receivers ?b = length (filter (subscribed F send close) ((fan_conns s)[i := c]))"
    using inv filter_update [of i "fan_conns s" "subscribed F send close" c, OF i old]
    by (simp add: fan_inv_def broadcast_drop_def)
  ultimately show ?thesis by (simp add: fan_inv_def put_conn_def)
qed

lemma conn_inv_take:
  assumes "conn_inv F send close b c" and w: "waiting F send close c"
  shows "broadcast_recv b (fan_pos c) = (Some r, p) \<Longrightarrow>
      conn_inv F send close b (c\<lparr>fan_pos := p, fan_branches := fan_branches c @ [OnCommand r]\<rparr>)"
    and "\<not> is_command x \<Longrightarrow> conn_inv F send close b (c\<lparr>fan_branches := fan_branches c @ [x]\<rparr>)"
proof -
  obtain ws ew ew' where "connection_loop F send (fan_branches c) ew = (None, ew')"
    using waitingD [OF w] by metis
  then have "\<not> lagged (fan_branches c)" by (rule loop_not_lagged)
  moreover have same: "waiting F send close (c\<lparr>fan_pos := q, fan_branches := fan_branches c\<rparr>)" for q
    using w by (simp add: waiting_def conn_state_def)
  ultimately show "broadcast_recv b (fan_pos c) = (Some r, p) \<Longrightarrow>
      conn_inv F send close b (c\<lparr>fan_pos := p, fan_branches := fan_branches c @ [OnCommand r]\<rparr>)"
    using assms(1) bc.in_step_recv [of b "fan_from c" "fan_pos c" "fan_branches c" r p]
    by (auto simp: conn_inv_def)
  show "\<not> is_command x \<Longrightarrow> conn_inv F send close b (c\<lparr>fan_branches := fan_branches c @ [x]\<rparr>)"
    using assms same [of "fan_pos c"] by (auto simp: conn_inv_def is_command_def intro!: bc.in_step_other)
qed

lemma dispatch_chan:
  "snd (dispatch broadcast_send command first st second b) = b
   \<or> snd (dispatch broadcast_send command first st second b) = b\<lparr>bc_log := bc_log b @ [command]\<rparr>"
  by (auto simp: dispatch_def broadcast_send_def split: option.splits)

lemma fan_step_inv:
  assumes inv: "fan_inv F send close s"
  shows "fan_inv F send close (fan_step F send close op s)"
proof -
  have conn: "conn_inv F send close (fan_chan s) (fan_conns s ! i)" if "i < length (fan_conns s)" for i
    using inv that by (simp add: fan_inv_def)
  show ?thesis
  proof (cases op)
    case (Admit ctx)
    let ?b = "fan_chan s\<lparr>bc_receivers := bc_receivers (fan_chan s) + 1\<rparr>"
    have "conn_inv F send close ?b c" if "conn_inv F send close (fan_chan s) c" for c
      using conn_inv_grow [OF that, of ?b "[]"] by simp
    moreover have "bc.in_step ?b (length (bc_log ?b)) (length (bc_log ?b)) []" by (rule bc.in_step_start)
    ultimately show ?thesis
      using inv by (auto simp: Admit fan_inv_def broadcast_subscribe_def conn_inv_def subscribed_def)
  next
    case (Upgrade i handshake)
    have "conn_inv F send close (fan_chan s) ((fan_conns s ! i)\<lparr>fan_upgrade := Some handshake\<rparr>)"
      if "i < length (fan_conns s)" "fan_upgrade (fan_conns s ! i) = None"
      using conn [OF that(1)] that(2) by (auto simp: conn_inv_def waiting_def conn_state_def)
    then show ?thesis
      using inv by (auto simp: Upgrade subscribed_def intro!: put_conn_inv)
  next
    case (TakeCommand i)
    have "conn_inv F send close (fan_chan s) ((fan_conns s ! i)\<lparr>fan_pos := p,
        fan_branches := fan_branches (fan_conns s ! i) @ [OnCommand r]\<rparr>)"
      if "i < length (fan_conns s)" "waiting F send close (fan_conns s ! i)"
        "broadcast_recv (fan_chan s) (fan_pos (fan_conns s ! i)) = (Some r, p)" for r p
      by (rule conn_inv_take(1) [OF conn [OF that(1)] that(2,3)])
    then show ?thesis
      using inv
      by (auto simp: TakeCommand Let_def subscribed_def split: prod.split option.split intro!: put_conn_inv)
  next
    case (TakeOther i b)
    have "conn_inv F send close (fan_chan s)
        ((fan_conns s ! i)\<lparr>fan_branches := fan_branches (fan_conns s ! i) @ [b]\<rparr>)"
      if "i < length (fan_conns s)" "waiting F send close (fan_conns s ! i)" "\<not> is_command b"
      by (rule conn_inv_take(2) [OF conn [OF that(1)] that(2,3)])
    then show ?thesis
      using inv by (auto simp: TakeOther Let_def subscribed_def intro!: put_conn_inv)
  next
    case (Dispatch command first st second)
    let ?b = "snd (dispatch broadcast_send command first st second (fan_chan s))"
    obtain xs where "bc_log ?b = bc_log (fan_chan s) @ xs" "bc_window ?b = bc_window (fan_chan s)"
      "bc_receivers ?b = bc_receivers (fan_chan s)"
      using dispatch_chan [of command first st second "fan_chan s"] by force
    then show ?thesis using inv conn_inv_grow by (fastforce simp: Dispatch fan_inv_def)
  qed
qed

lemma fan_run_inv: "fan_inv F send close (fan_run F send close ops (fan_start capacity))"
proof -
  have "fan_inv F send close s \<Longrightarrow> fan_inv F send close (fold (fan_step F send close) ops s)" for s
    by (induction ops arbitrary: s) (simp_all add: fan_step_inv)
  then show ?thesis
    by (simp add: fan_run_def fan_start_def fan_inv_def broadcast_new_def)
qed

lemma fan_run_window: "bc_window (fan_chan (fan_run F send close ops (fan_start capacity))) = capacity"
proof -
  have "bc_window (snd (dispatch broadcast_send command first st second b)) = bc_window b"
    for command :: 'a and first st second b
    using dispatch_chan [of command first st second b] by auto
  then have "bc_window (fan_chan (fan_step F send close op s)) = bc_window (fan_chan s)" for op s
    by (cases op) (simp_all add: broadcast_subscribe_def put_conn_def Let_def split: prod.split option.split)
  then have "bc_window (fan_chan (fold (fan_step F send close) ops s)) = bc_window (fan_chan s)" for s
    by (induction ops arbitrary: s) simp_all
  then show ?thesis by (simp add: fan_run_def fan_start_def broadcast_new_def)
qed

text \<open>What the handler of a connection was told, in terms of what its loop completed.\<close>

lemma finish_commands:
  "finish_connection (traced F) send close cause ((tr, e), ws) = ((tr', e'), ws') \<Longrightarrow> commands_of tr' = commands_of tr"
  by (auto simp: finish_connection_def traced_def Let_def split: prod.splits)

lemma loop_end_commands:
  assumes "bs = [] \<or> fst (connection_loop (traced F) send (butlast bs) ((tr, e), ws)) = None"
    and "connection_loop (traced F) send bs ((tr, e), ws) = (c, (tr', e'), ws')"
  shows "commands_of tr' = commands_of tr @ received bs"
    and "c = Some (Lagged m) \<Longrightarrow> OnCommand (RecvLagged m) \<in> set bs"
proof -
  have "commands_of tr' = commands_of tr @ received bs \<and> (c = Some (Lagged m) \<longrightarrow> OnCommand (RecvLagged m) \<in> set bs)"
  proof (cases "bs = []")
    case False
    then obtain bs0 b where bs: "bs = bs0 @ [b]" by (metis rev_exhaust)
    then obtain tr0 e0 ws0 where pre: "connection_loop (traced F) send bs0 ((tr, e), ws) = (None, (tr0, e0), ws0)"
      using assms(1) by (metis butlast_snoc prod.collapse snoc_eq_iff_butlast)
    then have final: "on_branch (traced F) send b ((tr0, e0), ws0) = (c, (tr', e'), ws')"
      using assms(2) loop_snoc [OF pre, of b] bs by simp
    show ?thesis
      using loop_commands [OF pre] branch_commands [OF final] final bs by (auto dest: branch_cause)
  qed (use assms(2) in simp)
  then show "commands_of tr' = commands_of tr @ received bs"
    and "c = Some (Lagged m) \<Longrightarrow> OnCommand (RecvLagged m) \<in> set bs" by simp_all
qed

lemma traced_commands:
  assumes inv: "conn_inv (traced F) send close b c" and up: "conn_state (traced F) send close c = Some st"
  shows "case st of
      Rejected \<Rightarrow> True
    | Waiting (tr, e) ws \<Rightarrow> commands_of tr = received (fan_branches c)
    | Ended cause (tr, e) ws \<Rightarrow> commands_of tr = received (fan_branches c)
        \<and> (\<forall>m. cause = Lagged m \<longrightarrow> OnCommand (RecvLagged m) \<in> set (fan_branches c))"
proof (cases "\<exists>ws. fan_upgrade c = Some (Some ws)")
  case True
  then obtain ws where u: "fan_upgrade c = Some (Some ws)" by blast
  let ?bs = "fan_branches c"
  let ?ends = "run_connection_loop (traced F) send (fan_ctx c)"
  let ?start = "(create_endpoint (traced F) (fan_ctx c), ws)"
  obtain c0 tr0 e0 ws0 where first: "deliver (traced F) send (WsServerEndpointEvent.Connected (fan_ctx c)) ?start
      = (c0, (tr0, e0), ws0)" by (metis prod.exhaust)
  then have tr0: "commands_of tr0 = []"
    using traced_deliver [of F send _ "[]" "create_endpoint F (fan_ctx c)" ws] by (auto simp: traced_def)
  have butlast: "?bs = [] \<or> fst (?ends (butlast ?bs) ?start) = None"
    using inv u by (auto simp: conn_inv_def waiting_def conn_state_def run_connection_def Let_def
        split: option.splits prod.splits)
  obtain c1 tr1 e1 ws1 where loop: "?ends ?bs ?start = (c1, (tr1, e1), ws1)" by (metis prod.exhaust)
  have told: "commands_of tr1 = received ?bs" "c1 = Some (Lagged m) \<Longrightarrow> OnCommand (RecvLagged m) \<in> set ?bs" for m
    using loop butlast first tr0 loop_end_commands [of ?bs F send tr0 e0 ws0 c1 tr1 e1 ws1] deliver_cause
    by (cases c0; force simp: run_connection_loop_def)+
  show ?thesis
  proof (cases c1)
    case None
    then show ?thesis using up u loop told by (auto simp: conn_state_def run_connection_def)
  next
    case (Some cause)
    obtain tr2 e2 ws2 where "finish_connection (traced F) send close cause ((tr1, e1), ws1) = ((tr2, e2), ws2)"
      by (metis prod.exhaust)
    with finish_commands [OF this] show ?thesis
      using up u loop told Some by (auto simp: conn_state_def run_connection_def)
  qed
qed (use up in \<open>auto simp: conn_state_def run_connection_def split: option.splits\<close>)

end
