(* ===== verification/Fanout_Properties.thy ===== *)
theory Fanout_Properties
  imports Server_Fanout
begin

text \<open>What the fanout of commands guarantees to every connection.\<close>



end
