(* ===== verification/Fixture.thy ===== *)
theory Fixture
  imports Fixture_Policy
begin

text \<open>
  Captured websocket fixtures on disk (\<^verbatim>\<open>src/src/fixture.rs\<close>): reading and writing a
  \<open>WsFixture\<close>, and the bounded unwrapping of texts that were JSON-encoded more than once.
  The two JSON libraries are arguments: \<open>sonic_rs\<close> for reading, \<open>serde_json\<close> for writing,
  whose values appear with the constructors the source matches on.
\<close>

record WsFixture =
  source :: string
  captured_at_ms :: u64
  capture_command :: string
  exchange_env :: string
  fixture_text :: string

section \<open>The JSON libraries\<close>

record 'v SonicJson = "'v JsonReader" +
  json_is_array :: "'v \<Rightarrow> bool"
  json_is_object :: "'v \<Rightarrow> bool"
  json_to_string :: "'v \<Rightarrow> string + string"
  from_str_value :: "string \<Rightarrow> string + 'v"
  from_str_string :: "string \<Rightarrow> string + string"

datatype 'x SerdeValue =
    Object 'x
  | Array 'x
  | String string
  | Number u64
  | Scalar 'x

record 'x SerdeJson =
  serde_from_str :: "string \<Rightarrow> string + 'x SerdeValue"
  serde_object :: "(string \<times> 'x SerdeValue) list \<Rightarrow> 'x SerdeValue"
  to_vec_pretty :: "'x SerdeValue \<Rightarrow> string + bytes"

section \<open>Reading\<close>

definition quoted :: "string \<Rightarrow> string" where
  "quoted t = CHR 0x22 # t @ [CHR 0x22]"

text \<open>One round of the loop of \<open>decode_embedded_json_value\<close>: \<^const>\<open>None\<close> is \<open>break\<close>.\<close>

definition decode_value_round :: "'v SonicJson \<Rightarrow> string \<Rightarrow> string option" where
  "decode_value_round J text =
     (let rewrap = (case from_str_string J (quoted text) of
                      Inl _ \<Rightarrow> None
                    | Inr decoded \<Rightarrow> if decoded = text then None else Some decoded)
      in case from_str_value J text of
           Inl _ \<Rightarrow> rewrap
         | Inr decoded \<Rightarrow>
             if json_is_array J decoded \<or> json_is_object J decoded then None
             else case json_as_str J decoded of
                    None \<Rightarrow> rewrap
                  | Some inner \<Rightarrow> if inner = text then None else Some inner)"

fun decode_value_loop :: "'v SonicJson \<Rightarrow> nat \<Rightarrow> string \<Rightarrow> string" where
  "decode_value_loop J 0 text = text"
| "decode_value_loop J (Suc n) text =
     (case decode_value_round J text of None \<Rightarrow> text | Some t \<Rightarrow> decode_value_loop J n t)"

definition decode_embedded_json_value ::
  "'v SonicJson \<Rightarrow> 'v \<Rightarrow> string \<Rightarrow> WebSocketError + string" where
  "decode_embedded_json_value J v path =
     (let start = (if json_is_array J v \<or> json_is_object J v
                   then (case json_to_string J v of Inl err \<Rightarrow> Inl (ParseFailed err) | Inr t \<Rightarrow> Inr t)
                   else (case json_as_str J v of
                           None \<Rightarrow> Inl (InvalidState (''websocket fixture '' @ path @
                                     '' text must be a JSON string, object, or array''))
                         | Some t \<Rightarrow> Inr t))
      in case start of
           Inl e \<Rightarrow> Inl e
         | Inr t \<Rightarrow> Inr (decode_value_loop J 4 t))"

definition fixture_read ::
  "'v SonicJson \<Rightarrow> FileSystem \<Rightarrow> string \<Rightarrow> WebSocketError + WsFixture" where
  "fixture_read J fs path =
     (case read_file fs path of
        Inl err \<Rightarrow> Inl (InvalidState (''failed to read websocket fixture '' @ path @ '': '' @ err))
      | Inr bs \<Rightarrow>
          (case from_slice J bs of
             Inl err \<Rightarrow> Inl (ParseFailed (''failed to parse websocket fixture '' @ path @ '': '' @ err))
           | Inr doc \<Rightarrow>
               (case json_get J doc ''text'' of
                  None \<Rightarrow> Inl (InvalidState (''websocket fixture '' @ path @ '' missing text''))
                | Some text \<Rightarrow>
                    (case decode_embedded_json_value J text path of
                       Inl e \<Rightarrow> Inl e
                     | Inr t \<Rightarrow> Inr
                         \<lparr>source = get_str J doc ''source'' ''unknown'',
                          captured_at_ms = get_u64 J doc ''captured_at_ms'',
                          capture_command = get_str J doc ''capture_command'' [],
                          exchange_env = get_str J doc ''exchange_env'' [],
                          fixture_text = t\<rparr>))))"

section \<open>Writing\<close>

fun decode_string_loop :: "'x SerdeJson \<Rightarrow> nat \<Rightarrow> string \<Rightarrow> string" where
  "decode_string_loop S 0 current = current"
| "decode_string_loop S (Suc n) current =
     (case serde_from_str S current of
        Inr (String inner) \<Rightarrow>
          if inner = current then current else decode_string_loop S n inner
      | _ \<Rightarrow> current)"

definition decode_embedded_json_string :: "'x SerdeJson \<Rightarrow> string \<Rightarrow> string" where
  "decode_embedded_json_string S raw = decode_string_loop S 4 raw"

definition encode_embedded_json_value :: "'x SerdeJson \<Rightarrow> string \<Rightarrow> string + 'x SerdeValue" where
  "encode_embedded_json_value S raw =
     (let normalized = decode_embedded_json_string S raw
      in case serde_from_str S normalized of
           Inl err \<Rightarrow> Inl err
         | Inr (Object x) \<Rightarrow> Inr (Object x)
         | Inr (Array x) \<Rightarrow> Inr (Array x)
         | Inr _ \<Rightarrow> Inr (String normalized))"

definition fixture_fields :: "WsFixture \<Rightarrow> 'x SerdeValue \<Rightarrow> (string \<times> 'x SerdeValue) list" where
  "fixture_fields f text =
     [(''capture_command'', String (capture_command f)),
      (''captured_at_ms'', Number (captured_at_ms f)),
      (''exchange_env'', String (exchange_env f)),
      (''source'', String (source f)),
      (''text'', text)]"

text \<open>\<open>std::fs::write\<close>: it replaces the file's contents, or fails and leaves the file system
  as \<open>failure\<close> says.\<close>

definition fs_write ::
  "(string \<times> FileSystem) option \<Rightarrow> string \<Rightarrow> bytes \<Rightarrow> FileSystem \<Rightarrow> (string + unit) \<times> FileSystem" where
  "fs_write failure path bs fs =
     (case failure of
        Some (err, fs') \<Rightarrow> (Inl err, fs')
      | None \<Rightarrow> (Inr (), fs\<lparr>read_file := (read_file fs)(path := Inr bs),
                           path_exists := (path_exists fs)(path := True)\<rparr>))"

definition fixture_write ::
  "'x SerdeJson \<Rightarrow> (string \<times> FileSystem) option \<Rightarrow> WsFixture \<Rightarrow> string \<Rightarrow> FileSystem
     \<Rightarrow> (WebSocketError + unit) \<times> FileSystem" where
  "fixture_write S failure f path fs =
     (case encode_embedded_json_value S (fixture_text f) of
        Inl err \<Rightarrow> (Inl (InvalidState err), fs)
      | Inr text \<Rightarrow>
          (case to_vec_pretty S (serde_object S (fixture_fields f text)) of
             Inl err \<Rightarrow> (Inl (ParseFailed err), fs)
           | Inr bs \<Rightarrow>
               (case fs_write failure path bs fs of
                  (Inl err, fs) \<Rightarrow>
                    (Inl (InvalidState (''failed to write websocket fixture '' @ path @ '': '' @ err)), fs)
                | (Inr _, fs) \<Rightarrow> (Inr (), fs))))"

section \<open>How the libraries see each other's documents\<close>

text \<open>What a reader sees of a written value: a string as that string, a number as that number,
  an object or array as a value with that kind and with the compact text \<open>rendering\<close> gives.\<close>

definition sees :: "'v SonicJson \<Rightarrow> ('x SerdeValue \<Rightarrow> string) \<Rightarrow> 'x SerdeValue \<Rightarrow> 'v \<Rightarrow> bool" where
  "sees J rendering x v \<longleftrightarrow>
     (case x of
        String s \<Rightarrow> json_as_str J v = Some s \<and> \<not> json_is_array J v \<and> \<not> json_is_object J v
      | Number n \<Rightarrow> json_as_u64 J v = Some n
      | Object _ \<Rightarrow> json_is_object J v \<and> json_to_string J v = Inr (rendering x)
      | Array _ \<Rightarrow> json_is_array J v \<and> json_to_string J v = Inr (rendering x)
      | Scalar _ \<Rightarrow> True)"

text \<open>The bytes are a document of an object with these fields.\<close>

definition document ::
  "'v SonicJson \<Rightarrow> ('x SerdeValue \<Rightarrow> string) \<Rightarrow> (string \<times> 'x SerdeValue) list \<Rightarrow> bytes \<Rightarrow> bool" where
  "document J rendering entries bs \<longleftrightarrow>
     (\<exists>doc. from_slice J bs = Inr doc \<and>
        (\<forall>(k, x)\<in>set entries. \<exists>v. json_get J doc k = Some v \<and> sees J rendering x v))"

lemma get_str_sees: "json_get J doc k = Some v \<Longrightarrow> sees J rendering (String t) v \<Longrightarrow> get_str J doc k d = t"
  by (simp add: get_str_def sees_def)

lemma get_u64_sees: "json_get J doc k = Some v \<Longrightarrow> sees J rendering (Number n) v \<Longrightarrow> get_u64 J doc k = n"
  by (simp add: get_u64_def sees_def)

lemma document_fields:
  assumes "document J rendering (fixture_fields f text) bs"
  shows "\<exists>doc v. from_slice J bs = Inr doc
    \<and> (\<forall>d. get_str J doc ''source'' d = source f) \<and> get_u64 J doc ''captured_at_ms'' = captured_at_ms f
    \<and> (\<forall>d. get_str J doc ''capture_command'' d = capture_command f)
    \<and> (\<forall>d. get_str J doc ''exchange_env'' d = exchange_env f)
    \<and> json_get J doc ''text'' = Some v \<and> sees J rendering text v"
proof -
  from assms obtain doc where doc: "from_slice J bs = Inr doc"
    and entries: "\<And>k x. (k, x) \<in> set (fixture_fields f text) \<Longrightarrow>
                    \<exists>v. json_get J doc k = Some v \<and> sees J rendering x v"
    unfolding document_def by fast
  have str: "get_str J doc k d = t" if "(k, String t) \<in> set (fixture_fields f text)" for k t d
    using entries [OF that] by (blast intro: get_str_sees)
  have num: "get_u64 J doc k = n" if "(k, Number n) \<in> set (fixture_fields f text)" for k n
    using entries [OF that] by (blast intro: get_u64_sees)
  obtain v where "json_get J doc ''text'' = Some v" "sees J rendering text v"
    using entries [of "''text''" "text"] by (auto simp: fixture_fields_def)
  moreover have "get_str J doc ''source'' d = source f"
      "get_str J doc ''capture_command'' d = capture_command f"
      "get_str J doc ''exchange_env'' d = exchange_env f" for d
    by (rule str, simp add: fixture_fields_def)+
  moreover have "get_u64 J doc ''captured_at_ms'' = captured_at_ms f"
    by (rule num) (simp add: fixture_fields_def)
  ultimately show ?thesis using doc by blast
qed

lemma fs_write_ok:
  "fs_write failure path bs fs = (Inr u, fs') \<Longrightarrow> read_file fs' path = Inr bs \<and> path_exists fs' path"
  by (auto simp: fs_write_def split: option.splits)

lemma fixture_write_ok:
  assumes "fixture_write S failure f path fs = (Inr u, fs')"
  obtains x bs where "encode_embedded_json_value S (fixture_text f) = Inr x"
    and "to_vec_pretty S (serde_object S (fixture_fields f x)) = Inr bs"
    and "read_file fs' path = Inr bs" "path_exists fs' path"
  using assms fs_write_ok [of failure path _ fs _ fs']
  by (auto simp: fixture_write_def split: sum.splits prod.splits)

text \<open>Text that is a document is a fixed point of the unwrapping loop.\<close>

lemma decode_value_loop_fixed: "decode_value_round J t = None \<Longrightarrow> decode_value_loop J n t = t"
  by (cases n) simp_all

text \<open>The loop either stops at a fixed point or has used all its rounds.\<close>

fun decode_value_rounds :: "'v SonicJson \<Rightarrow> nat \<Rightarrow> string \<Rightarrow> nat" where
  "decode_value_rounds J 0 text = 0"
| "decode_value_rounds J (Suc n) text =
     (case decode_value_round J text of None \<Rightarrow> 0 | Some t \<Rightarrow> Suc (decode_value_rounds J n t))"

lemma decode_value_loop_stops:
  "decode_value_rounds J n t \<le> n \<and>
   (decode_value_rounds J n t < n \<longrightarrow> decode_value_round J (decode_value_loop J n t) = None)"
  by (induction J n t rule: decode_value_loop.induct) (auto split: option.splits)

lemma encode_document:
  assumes "serde_from_str S t = Inr x" and "\<forall>s. x \<noteq> String s"
  shows "encode_embedded_json_value S t = Inr (case x of Object _ \<Rightarrow> x | Array _ \<Rightarrow> x | _ \<Rightarrow> String t)"
  using assms
  by (cases x)
     (simp_all add: encode_embedded_json_value_def decode_embedded_json_string_def eval_nat_numeral)

lemma encode_quoted_text_fails:
  assumes "serde_from_str S raw = Inr (String inner)" and "inner \<noteq> raw"
    and "serde_from_str S inner = Inl err"
  shows "encode_embedded_json_value S raw = Inl err"
  using assms
  by (simp add: encode_embedded_json_value_def decode_embedded_json_string_def eval_nat_numeral)

end
