(* ===== verification/Transport_Properties.thy ===== *)
theory Transport_Properties
  imports Tungstenite_Transport Fixture
begin

text \<open>
  The properties of the client, the live transport and its fixture policy.
\<close>

section \<open>The policy in front of the network\<close>

text \<open>A registry with one requirement, its file, and a JSON reader that sees a captured fixture
  in it: the concrete surroundings of the witnesses.\<close>

definition sample_requirement :: WsFixtureRequirement where
  "sample_requirement = \<lparr>contract_id = ''contract-a'', success_path = ''ok.json'', error_path = None\<rparr>"

definition sample_json :: "string SonicJson" where
  "sample_json =
     \<lparr>from_slice = (\<lambda>_. Inr []), json_get = (\<lambda>_ k. Some k),
      json_as_str = (\<lambda>v. if v = ''source'' then Some ''live_capture''
                        else if v = ''text'' then None else Some ''capture''),
      json_as_u64 = (\<lambda>_. Some 1), json_is_array = (\<lambda>_. False), json_is_object = (\<lambda>v. v = ''text''),
      json_to_string = (\<lambda>_. Inr ''{}''), from_str_value = (\<lambda>_. Inr ''text''),
      from_str_string = (\<lambda>_. Inl ''no'')\<rparr>"

definition sample_context :: "string policy_context" where
  "sample_context =
     \<lparr>policy_env = (\<lambda>_. None), policy_json = JsonReader.truncate sample_json,
      policy_fs = \<lparr>read_file = (\<lambda>_. Inr []), path_exists = (\<lambda>p. p = ''ok.json'')\<rparr>,
      policy_registry = snd (register_required_ws_contracts (Some [sample_requirement]) registry)\<rparr>"

lemma trim_capture: "trim ''capture'' = ''capture''"
  by code_simp

lemma sample_policy_passes:
  "ensure_live_ws_allowed (policy_env sample_context) (policy_json sample_context)
     (policy_fs sample_context) (policy_registry sample_context) = Some (Inr ())"
  by (simp add: sample_context_def sample_requirement_def sample_json_def registry_def
        register_required_ws_contracts_def ensure_live_ws_allowed_def fixture_capture_mode_enabled_def
        live_without_fixtures_allowed_def env_truthy_def ensure_live_capture_fixture_def get_str_def
        get_u64_def JsonReader.truncate_def trim_capture)

text \<open>
  C6. The live transport touches the network, or hands out a connection, only if one of the two
  environment overrides is set, or contracts are registered and every fixture file they name
  exists and is a captured one: marked as a live capture, with a time, a command and an
  environment.
\<close>

theorem policy_gates_live_sockets:
  assumes "transport_connect P install dflt connect_tls connect_plain split tr url buffers w = (r, w')"
    and "w' \<noteq> w \<or> r = Some (Inr conn)"
  shows "fixture_capture_mode_enabled (policy_env P) \<or> live_without_fixtures_allowed (policy_env P)
    \<or> requirements (guarded (policy_registry P)) \<noteq> []
      \<and> list_all (\<lambda>item. list_all (\<lambda>p. path_exists (policy_fs P) p \<and> live_capture (policy_json P) (policy_fs P) p)
                    (requirement_paths item)) (requirements (guarded (policy_registry P)))"
proof -
  have "ensure_live_ws_allowed (policy_env P) (policy_json P) (policy_fs P) (policy_registry P)
          = Some (Inr ())"
    using assms by (auto simp: transport_connect_def split: option.splits sum.splits)
  then show ?thesis
    by (auto simp: ensure_live_ws_allowed_def check_requirements_ok list_all_iff split: if_splits)
qed

theorem policy_gates_live_sockets_witness:
  "let P = sample_context
   in fixture_capture_mode_enabled (policy_env P) \<or> live_without_fixtures_allowed (policy_env P)
    \<or> requirements (guarded (policy_registry P)) \<noteq> []
      \<and> list_all (\<lambda>item. list_all (\<lambda>p. path_exists (policy_fs P) p \<and> live_capture (policy_json P) (policy_fs P) p)
                    (requirement_paths item)) (requirements (guarded (policy_registry P)))"
  unfolding Let_def
  by (rule policy_gates_live_sockets [where w = "\<lparr>tls_installed = False, crypto_provider = (), network = (0 :: nat)\<rparr>"
        and install = "\<lambda>p. (True, p)" and dflt = "\<lparr>tung_max_message_size = None, tung_max_frame_size = None,
          tung_write_buffer_size = 0, tung_max_write_buffer_size = 0\<rparr>"
        and connect_tls = "\<lambda>_ _ _ _ n. (Inl ''unused'', n)" and connect_plain = "\<lambda>_ _ _ n. (Inr ((), ()), n + 1)"
        and split = "\<lambda>s. (s, s)" and tr = "default_transport :: unit TungsteniteTransport"
        and url = "''wss://x''" and buffers = default_buffer_config, OF surjective_pairing])
     (simp add: transport_connect_def sample_policy_passes default_transport_def
        install_rustls_crypto_provider_def)

section \<open>Conversions\<close>



text \<open>
  C25. If the stream only yields messages whose texts and close reasons are UTF-8, as tungstenite
  promises, then every frame the client and the transport's reader hand out satisfies the
  invariant of text frames; and every frame that satisfies it is sent as such a message.
\<close>

theorem socket_frames_typed:
  assumes "\<forall>s m s'. stream_next S s = (Some (Inr m), s') \<longrightarrow> msg_ok m"
    and "\<forall>s m s'. stream_poll_next S s = (Ready (Some (Inr m)), s') \<longrightarrow> msg_ok m"
  shows "(\<forall>f c'. client_next S c = (Some (Inr f), c') \<longrightarrow> frame_ok f)
    \<and> (\<forall>f c'. client_poll_next S c = (Ready (Some (Inr f)), c') \<longrightarrow> frame_ok f)
    \<and> (\<forall>f rd rd'. reader_poll_next (close_code_into S) (stream_poll_next S) rd = (Ready (Some (Inr f)), rd')
          \<longrightarrow> frame_ok f)
    \<and> (\<forall>f. frame_ok f \<longrightarrow> msg_ok (frame_to_msg (close_code_from S) f))"
proof (intro conjI allI impI)
  show "frame_ok f" if "client_next S c = (Some (Inr f), c')" for f c'
    using that assms(1)
    by (auto simp: client_next_def result_map_err_def split: prod.splits sum.splits
          intro: msg_to_frame_ok)
  show "frame_ok f" if "client_poll_next S c = (Ready (Some (Inr f)), c')" for f c'
    using that assms(2)
    by (auto simp: client_poll_next_def split: prod.splits sum.splits Poll.splits option.splits
          intro: msg_to_frame_ok)
  show "frame_ok f"
    if "reader_poll_next (close_code_into S) (stream_poll_next S) rd = (Ready (Some (Inr f)), rd')" for f rd rd'
    using that assms(2)
    by (auto simp: reader_poll_next_def transport_msg_to_frame_eq
          split: prod.splits sum.splits Poll.splits option.splits intro: msg_to_frame_ok)
qed (rule frame_to_msg_ok)

text \<open>A stream of one text message, for the witness.\<close>

definition sample_stream :: "(nat, u16) WebSocketStream" where
  "sample_stream =
     \<lparr>stream_send = (\<lambda>_ n. (Inr (), n)), stream_next = (\<lambda>n. (Some (Inr (TungsteniteMessage.Text [0x41])), n)),
      stream_poll_next = (\<lambda>n. (Ready (Some (Inr (TungsteniteMessage.Text [0x41]))), n)),
      stream_poll_ready = (\<lambda>n. (Ready (Inr ()), n)), stream_start_send = (\<lambda>_ n. (Inr (), n)),
      stream_poll_flush = (\<lambda>n. (Ready (Inr ()), n)), stream_poll_close = (\<lambda>n. (Ready (Inr ()), n)),
      close_code_from = id, close_code_into = id\<rparr>"

theorem socket_frames_typed_witness:
  "client_next sample_stream \<lparr>inner = 0\<rparr> = (Some (Inr (WsFrame.Text (WsText [0x41]))), \<lparr>inner = 0\<rparr>)
    \<and> frame_ok (WsFrame.Text (WsText [0x41]))"
proof -
  have "client_next sample_stream \<lparr>inner = 0\<rparr>
      = (Some (Inr (WsFrame.Text (WsText [0x41]))), \<lparr>inner = 0\<rparr>)"
    by (simp add: client_next_def sample_stream_def result_map_err_def from_bytes_unchecked_def)
  moreover have "\<forall>f c'. client_next sample_stream \<lparr>inner = 0\<rparr> = (Some (Inr f), c') \<longrightarrow> frame_ok f"
    by (rule conjunct1 [OF socket_frames_typed]) (simp_all add: sample_stream_def)
  ultimately show ?thesis by blast
qed

section \<open>Fixtures on disk\<close>

text \<open>
  C21. A fixture whose text is a JSON object or array and that was written without an error is
  read back with every field unchanged and the text in the library's compact form.  Of the JSON
  libraries this uses that the reader sees in the written document the fields that were written,
  and that it reads the compact text as an object or array again.
\<close>

theorem fixture_roundtrip:
  assumes "fixture_write S failure f path fs = (Inr u, fs')"
    and "serde_from_str S (fixture_text f) = Inr x" and "x = Object y \<or> x = Array y"
    and "\<forall>bs. to_vec_pretty S (serde_object S (fixture_fields f x)) = Inr bs
           \<longrightarrow> document J rendering (fixture_fields f x) bs"
    and "from_str_value J (rendering x) = Inr v" and "json_is_array J v \<or> json_is_object J v"
  shows "fixture_read J fs' path = Inr (f\<lparr>fixture_text := rendering x\<rparr>)"
proof -
  obtain x' bs where enc: "encode_embedded_json_value S (fixture_text f) = Inr x'"
    and bs: "to_vec_pretty S (serde_object S (fixture_fields f x')) = Inr bs" "read_file fs' path = Inr bs"
    using fixture_write_ok [OF assms(1)] by metis
  have x: "x' = x" using encode_document [OF assms(2)] assms(3) enc by auto
  obtain doc w where doc: "from_slice J bs = Inr doc"
    "\<And>d. get_str J doc ''source'' d = source f" "get_u64 J doc ''captured_at_ms'' = captured_at_ms f"
    "\<And>d. get_str J doc ''capture_command'' d = capture_command f"
    "\<And>d. get_str J doc ''exchange_env'' d = exchange_env f"
    "json_get J doc ''text'' = Some w" "sees J rendering x w"
    using document_fields [of J rendering f x bs] assms(4) bs(1) x by blast
  have "decode_value_round J (rendering x) = None"
    using assms(5,6) by (simp add: decode_value_round_def)
  then have "decode_embedded_json_value J w path = Inr (rendering x)"
    using doc(7) assms(3) by (auto simp: decode_embedded_json_value_def sees_def decode_value_loop_fixed)
  then show ?thesis using doc bs(2) by (simp add: fixture_read_def)
qed

definition sample_serde :: "unit SerdeJson" where
  "sample_serde =
     \<lparr>serde_from_str = (\<lambda>_. Inr (Object ())), serde_object = (\<lambda>_. Object ()), to_vec_pretty = (\<lambda>_. Inr [])\<rparr>"

definition sample_fixture :: WsFixture where
  "sample_fixture =
     \<lparr>source = ''live_capture'', captured_at_ms = 1, capture_command = ''capture'',
      exchange_env = ''capture'', fixture_text = ''{ }''\<rparr>"

definition sample_disk :: FileSystem where
  "sample_disk = \<lparr>read_file = (\<lambda>_. Inl ''not found''), path_exists = (\<lambda>_. False)\<rparr>"

lemma sample_write:
  "fixture_write sample_serde None sample_fixture ''f.json'' sample_disk
     = (Inr (), snd (fs_write None ''f.json'' [] sample_disk))"
  by (simp add: fixture_write_def sample_serde_def encode_embedded_json_value_def fs_write_def
        decode_embedded_json_string_def eval_nat_numeral)

lemma sample_document: "document sample_json (\<lambda>_. ''{}'') (fixture_fields sample_fixture (Object ())) []"
  by (simp add: document_def fixture_fields_def sample_fixture_def sample_json_def sees_def)

theorem fixture_roundtrip_witness:
  "fixture_read sample_json (snd (fs_write None ''f.json'' [] sample_disk)) ''f.json''
     = Inr (sample_fixture\<lparr>fixture_text := ''{}''\<rparr>)"
  by (rule fixture_roundtrip [OF sample_write, of "Object ()" "()" sample_json "\<lambda>_. ''{}''" "''text''"])
     (use sample_document in \<open>simp_all add: sample_serde_def sample_fixture_def sample_json_def\<close>)

text \<open>
  The policy accepts a written fixture exactly when it says of itself that it is a live
  capture, with a time other than zero and a command and an environment that are not blank:
  what \<open>WsFixture::write\<close> records is what \<open>ensure_live_capture_fixture\<close> looks for.
\<close>

theorem written_fixture_accepted:
  assumes "fixture_write S failure f path fs = (Inr u, fs')"
    and "\<forall>x bs. encode_embedded_json_value S (fixture_text f) = Inr x
           \<and> to_vec_pretty S (serde_object S (fixture_fields f x)) = Inr bs
           \<longrightarrow> document J rendering (fixture_fields f x) bs"
  shows "ensure_live_capture_fixture J fs' path = Inr () \<longleftrightarrow>
    source f = ''live_capture'' \<and> captured_at_ms f \<noteq> 0 \<and> trim (capture_command f) \<noteq> []
      \<and> trim (exchange_env f) \<noteq> []"
proof -
  obtain x bs where bs: "encode_embedded_json_value S (fixture_text f) = Inr x"
    "to_vec_pretty S (serde_object S (fixture_fields f x)) = Inr bs" "read_file fs' path = Inr bs"
    using fixture_write_ok [OF assms(1)] by metis
  then show ?thesis
    using document_fields [of J rendering f x bs] assms(2)
    by (auto simp: ensure_live_capture_fixture_ok live_capture_def)
qed

theorem written_fixture_accepted_witness:
  "ensure_live_capture_fixture sample_json (snd (fs_write None ''f.json'' [] sample_disk)) ''f.json'' = Inr ()
    \<longleftrightarrow> source sample_fixture = ''live_capture'' \<and> captured_at_ms sample_fixture \<noteq> 0
      \<and> trim (capture_command sample_fixture) \<noteq> [] \<and> trim (exchange_env sample_fixture) \<noteq> []"
  by (rule written_fixture_accepted [OF sample_write, of sample_json "\<lambda>_. ''{}''"])
     (use sample_document in \<open>auto simp: sample_serde_def encode_embedded_json_value_def
        decode_embedded_json_string_def eval_nat_numeral\<close>)

text \<open>A text that is a JSON string is unwrapped before it is parsed again; unless what it holds
  is JSON itself, it cannot be written.\<close>

theorem quoted_text_not_writable:
  assumes "serde_from_str S (fixture_text f) = Inr (String held)" and "held \<noteq> fixture_text f"
    and "serde_from_str S held = Inl err"
  shows "fixture_write S failure f path fs = (Inl (InvalidState err), fs)"
  using encode_quoted_text_fails [OF assms] by (simp add: fixture_write_def)

end
