(* ===== verification/Trade_Logger.thy ===== *)
theory Trade_Logger
  imports Client Strings
begin

text \<open>
  The example program \<^verbatim>\<open>src/examples/bybit_trade_batch_logger.rs\<close>: argument parsing, the
  subscription it sends, and the main loop that watches trades for shared timestamps, shared
  tick buckets, repeated sequence numbers and batches.  What it prints is a list of lines.  The
  lazy JSON reader of \<open>sonic_rs\<close> is an argument; the socket is the client of \<open>Client\<close>.
\<close>

unbundle bit_operations_syntax

section \<open>Hashing and per-symbol state\<close>

definition fnv1a64 :: "bytes \<Rightarrow> u64" where
  "fnv1a64 bs = fold (\<lambda>b h. (h XOR ucast b) * 0x100000001b3) bs 0xcbf29ce484222325"

record TickState =
  last_trade_t :: int
  count_in_same_trade_t :: u32
  last_tick_bucket :: int
  count_in_same_tick_bucket :: u32
  last_seen_at :: instant
  last_seq :: "int option"
  recent_seqs :: "int set"

definition default_tick_state :: "instant \<Rightarrow> TickState" where
  "default_tick_state now =
     \<lparr>last_trade_t = 0, count_in_same_trade_t = 0, last_tick_bucket = 0,
      count_in_same_tick_bucket = 0, last_seen_at = now, last_seq = None, recent_seqs = {}\<rparr>"

section \<open>Arguments\<close>

definition newline :: string where
  "newline = [CHR 0x0A]"

definition usage :: string where
  "usage =
     ''bybit_trade_batch_logger'' @ newline @
     ''Subscribes to Bybit `publicTrade.{symbol}` and logs when:'' @ newline @
     ''- a message contains a batch of trades (data array has > 1 element)'' @ newline @
     ''- multiple trades share the same `T` timestamp (ms)'' @ newline @
     ''- multiple trades fall into the same configurable tick bucket (default 50ms)'' @ newline @
     newline @
     ''USAGE:'' @ newline @
     ''cargo run --example bybit_trade_batch_logger -- [--url <wss-url>] [--symbols <CSV>] [--tick-ms <N>] [--dump]'' @ newline @
     newline @
     ''DEFAULTS:'' @ newline @
     ''--url      wss://stream.bybit.com/v5/public/linear'' @ newline @
     ''--symbols  BTCUSDT,ETHUSDT'' @ newline @
     ''--tick-ms  50'' @ newline"

record logger_args =
  arg_url :: string
  arg_symbols :: "string list"
  arg_dump :: bool
  arg_tick_ms :: int

definition default_args :: logger_args where
  "default_args =
     \<lparr>arg_url = ''wss://stream.bybit.com/v5/public/linear'',
      arg_symbols = [''BTCUSDT'', ''ETHUSDT''], arg_dump = False, arg_tick_ms = 50\<rparr>"

definition parse_symbols :: "string \<Rightarrow> string list" where
  "parse_symbols csv = map trim (filter (\<lambda>s. trim s \<noteq> []) (split_char (CHR '','') csv))"

text \<open>An early exit is the exit code and what is printed before it.\<close>

fun parse_args_from :: "logger_args \<Rightarrow> string list \<Rightarrow> (nat \<times> string) + logger_args" where
  "parse_args_from a [] = Inr a"
| "parse_args_from a (opt # rest) =
     (if opt = ''--url'' then
        (case rest of [] \<Rightarrow> Inl (2, usage) | v # rest' \<Rightarrow> parse_args_from (a\<lparr>arg_url := v\<rparr>) rest')
      else if opt = ''--symbols'' then
        (case rest of
           [] \<Rightarrow> Inl (2, usage)
         | v # rest' \<Rightarrow>
             if parse_symbols v = [] then Inl (2, ''--symbols must not be empty'')
             else parse_args_from (a\<lparr>arg_symbols := parse_symbols v\<rparr>) rest')
      else if opt = ''--tick-ms'' then
        (case rest of
           [] \<Rightarrow> Inl (2, usage)
         | v # rest' \<Rightarrow>
             parse_args_from
               (a\<lparr>arg_tick_ms := max (case parse_i64 v of None \<Rightarrow> 50 | Some n \<Rightarrow> n) 1\<rparr>) rest')
      else if opt = ''--dump'' then parse_args_from (a\<lparr>arg_dump := True\<rparr>) rest
      else if opt = ''-h'' \<or> opt = ''--help'' then Inl (0, usage)
      else Inl (2, ''unknown arg: '' @ opt @ newline @ newline @ usage))"

definition parse_args :: "string list \<Rightarrow> (nat \<times> string) + logger_args" where
  "parse_args argv = parse_args_from default_args (drop 1 argv)"

section \<open>One trade\<close>

text \<open>The lines the program prints.\<close>

datatype log_line =
    SameT string int
  | MultiInTick string int int
  | RepeatSeq string int
  | Batch string int nat bool int int
  | MultiSymbolInData string
  | Dump string

definition show_bool :: "bool \<Rightarrow> string" where
  "show_bool b = (if b then ''true'' else ''false'')"

fun log_text :: "log_line \<Rightarrow> string" where
  "log_text (SameT symbol t) = ''[SAME_T] symbol='' @ symbol @ '' T='' @ show_int t @
     '' (multiple trades share same trade timestamp ms)''"
| "log_text (MultiInTick symbol tick_ms bucket) = ''[MULTI_IN_TICK] symbol='' @ symbol @
     '' tick_ms='' @ show_int tick_ms @ '' bucket='' @ show_int bucket @
     '' (multiple trades in same tick bucket)''"
| "log_text (RepeatSeq symbol s) = ''[REPEAT_SEQ] symbol='' @ symbol @ '' seq='' @ show_int s @ '' (seen again)''"
| "log_text (Batch topic ts n same ft lt) = ''[BATCH] topic='' @ topic @ '' ts='' @ show_int ts @
     '' data_len='' @ show_nat n @ '' all_same_T='' @ show_bool same @
     '' first_T='' @ show_int ft @ '' last_T='' @ show_int lt"
| "log_text (MultiSymbolInData topic) = ''[MULTI_SYMBOL_IN_DATA] topic='' @ topic @ '' (data contains >1 symbol)''"
| "log_text (Dump txt) = txt"

definition with_dump :: "bool \<Rightarrow> string \<Rightarrow> log_line \<Rightarrow> log_line list" where
  "with_dump dump txt line = line # (if dump then [Dump txt] else [])"

text \<open>\<open>i64\<close> division truncates towards zero.\<close>

definition trunc_div :: "int \<Rightarrow> int \<Rightarrow> int" where
  "trunc_div a b = (if a < 0 then - ((- a) div b) else a div b)"

definition observe_t :: "bool \<Rightarrow> string \<Rightarrow> string \<Rightarrow> int \<Rightarrow> TickState \<Rightarrow> log_line list \<times> TickState" where
  "observe_t dump txt symbol t st =
     (if t = last_trade_t st
      then let c = saturating_add (count_in_same_trade_t st) 1
           in (if c = 2 then with_dump dump txt (SameT symbol t) else [],
               st\<lparr>count_in_same_trade_t := c\<rparr>)
      else ([], st\<lparr>last_trade_t := t, count_in_same_trade_t := 1\<rparr>))"

definition observe_bucket ::
  "bool \<Rightarrow> string \<Rightarrow> string \<Rightarrow> int \<Rightarrow> int \<Rightarrow> TickState \<Rightarrow> log_line list \<times> TickState" where
  "observe_bucket dump txt symbol tick_ms t st =
     (let bucket = trunc_div t tick_ms
      in if bucket = last_tick_bucket st
         then let c = saturating_add (count_in_same_tick_bucket st) 1
              in (if c = 2 then with_dump dump txt (MultiInTick symbol tick_ms bucket) else [],
                  st\<lparr>count_in_same_tick_bucket := c\<rparr>)
         else ([], st\<lparr>last_tick_bucket := bucket, count_in_same_tick_bucket := 1\<rparr>))"

definition observe_seq ::
  "bool \<Rightarrow> string \<Rightarrow> string \<Rightarrow> int \<Rightarrow> TickState \<Rightarrow> log_line list \<times> TickState" where
  "observe_seq dump txt symbol sq st =
     (let line = (if sq \<in> recent_seqs st \<and> last_seq st \<noteq> Some sq
                  then with_dump dump txt (RepeatSeq symbol sq) else []);
          seqs = insert sq (recent_seqs st);
          seqs = (if 4096 < card seqs then {} else seqs)
      in (line, st\<lparr>recent_seqs := seqs, last_seq := Some sq\<rparr>))"

definition observe_trade ::
  "bool \<Rightarrow> string \<Rightarrow> int \<Rightarrow> instant \<Rightarrow> string \<Rightarrow> int \<Rightarrow> int option \<Rightarrow> TickState
     \<Rightarrow> log_line list \<times> TickState" where
  "observe_trade dump txt tick_ms now symbol t sq st =
     (let (l1, st) = (if t \<noteq> 0 then observe_t dump txt symbol t st else ([], st));
          (l2, st) = (if t \<noteq> 0 then observe_bucket dump txt symbol tick_ms t st else ([], st));
          (l3, st) = (case sq of None \<Rightarrow> ([], st) | Some s \<Rightarrow> observe_seq dump txt symbol s st)
      in (l1 @ l2 @ l3, st\<lparr>last_seen_at := now\<rparr>))"

section \<open>One message\<close>

text \<open>The lazy reader: the three pointers of the tree, typed views, the elements of an array
  (\<open>Inl ()\<close>: an element that does not parse), and a field of an element.\<close>

record 'v LazyJson =
  get_many :: "string \<Rightarrow> ('v option \<times> 'v option \<times> 'v option) option"
  lazy_as_str :: "'v \<Rightarrow> string option"
  lazy_as_i64 :: "'v \<Rightarrow> int option"
  into_array_iter :: "'v \<Rightarrow> (unit + 'v) list option"
  lazy_get :: "'v \<Rightarrow> string \<Rightarrow> 'v option"

type_synonym symbol_states = "bytes \<Rightarrow> TickState option"

record batch_summary =
  batch_n :: nat
  first_t :: "int option"
  last_t :: int
  all_same_t :: bool
  first_symbol_hash :: "u64 option"
  multi_symbol :: bool

definition empty_summary :: batch_summary where
  "empty_summary =
     \<lparr>batch_n = 0, first_t = None, last_t = 0, all_same_t = True, first_symbol_hash = None,
      multi_symbol = False\<rparr>"

definition summarize :: "int \<Rightarrow> string \<Rightarrow> batch_summary \<Rightarrow> batch_summary" where
  "summarize t symbol b =
     (let b = (case first_t b of
                 Some ft \<Rightarrow> if t \<noteq> ft then b\<lparr>all_same_t := False\<rparr> else b
               | None \<Rightarrow> b\<lparr>first_t := Some t\<rparr>);
          b = b\<lparr>last_t := t\<rparr>;
          h = fnv1a64 (str_bytes symbol)
      in case first_symbol_hash b of
           Some f \<Rightarrow> if f \<noteq> h then b\<lparr>multi_symbol := True\<rparr> else b
         | None \<Rightarrow> b\<lparr>first_symbol_hash := Some h\<rparr>)"

text \<open>The fields of one element: \<^const>\<open>None\<close> is a \<open>continue\<close>.\<close>

definition trade_of :: "'v LazyJson \<Rightarrow> 'v \<Rightarrow> (int \<times> string \<times> int option) option" where
  "trade_of J elem =
     (let t = (case Option.bind (lazy_get J elem ''T'') (lazy_as_i64 J) of None \<Rightarrow> 0 | Some t \<Rightarrow> t)
      in case lazy_get J elem ''s'' of
           None \<Rightarrow> None
         | Some s_lv \<Rightarrow>
             (case lazy_as_str J s_lv of
                None \<Rightarrow> None
              | Some s \<Rightarrow> Some (t, s, Option.bind (lazy_get J elem ''seq'') (lazy_as_i64 J))))"

text \<open>The loop over the data array; the clock is read for a new symbol and after each trade.
  \<open>n.saturating_add\<close> cannot saturate on an array that fits in memory.\<close>

fun scan_data ::
  "'v LazyJson \<Rightarrow> bool \<Rightarrow> string \<Rightarrow> int \<Rightarrow> clock \<Rightarrow> (unit + 'v) list \<Rightarrow> symbol_states \<Rightarrow> batch_summary
     \<Rightarrow> log_line list \<times> symbol_states \<times> batch_summary" where
  "scan_data J dump txt tick_ms clk [] m b = ([], m, b)"
| "scan_data J dump txt tick_ms clk (Inl _ # rest) m b = ([], m, b)"
| "scan_data J dump txt tick_ms clk (Inr elem # rest) m b =
     (case trade_of J elem of
        None \<Rightarrow> scan_data J dump txt tick_ms clk rest m b
      | Some (t, symbol, sq) \<Rightarrow>
          let b = summarize t symbol b;
              key = str_bytes symbol;
              st = (case m key of Some st \<Rightarrow> st | None \<Rightarrow> default_tick_state (clk 0));
              (ls, st) = observe_trade dump txt tick_ms (clk 1) symbol t sq st;
              (ls', m, b) = scan_data J dump txt tick_ms (\<lambda>i. clk (i + 2)) rest (m(key \<mapsto> st))
                              (b\<lparr>batch_n := batch_n b + 1\<rparr>)
          in (ls @ ls', m, b))"

definition batch_lines :: "bool \<Rightarrow> string \<Rightarrow> string \<Rightarrow> int \<Rightarrow> batch_summary \<Rightarrow> log_line list" where
  "batch_lines dump txt topic ts b =
     (if 1 < batch_n b
      then [Batch topic ts (batch_n b) (all_same_t b)
              (case first_t b of None \<Rightarrow> 0 | Some t \<Rightarrow> t) (last_t b)]
           @ (if multi_symbol b then [MultiSymbolInData topic] else [])
           @ (if dump then [Dump txt] else [])
      else [])"

definition on_text ::
  "'v LazyJson \<Rightarrow> bool \<Rightarrow> int \<Rightarrow> clock \<Rightarrow> string \<Rightarrow> symbol_states \<Rightarrow> log_line list \<times> symbol_states" where
  "on_text J dump tick_ms clk txt m =
     (if \<not> str_contains txt ([CHR 0x22] @ ''topic'' @ [CHR 0x22] @ '':'' @ [CHR 0x22] @ ''publicTrade.'')
      then ([], m)
      else case get_many J txt of
             None \<Rightarrow> ([], m)
           | Some (v0, v1, v2) \<Rightarrow>
               (case Option.bind v0 (lazy_as_str J) of
                  None \<Rightarrow> ([], m)
                | Some topic \<Rightarrow>
                    (let ts = (case Option.bind v1 (lazy_as_i64 J) of None \<Rightarrow> 0 | Some t \<Rightarrow> t)
                     in case Option.bind v2 (into_array_iter J) of
                          None \<Rightarrow> ([], m)
                        | Some it \<Rightarrow>
                            let (ls, m, b) = scan_data J dump txt tick_ms clk it m empty_summary
                            in (ls @ batch_lines dump txt topic ts b, m))))"

section \<open>The program\<close>

definition topics :: "string list \<Rightarrow> string list" where
  "topics symbols = map (\<lambda>s. ''publicTrade.'' @ s) symbols"

fun join :: "string \<Rightarrow> string list \<Rightarrow> string" where
  "join sep [] = []"
| "join sep [x] = x"
| "join sep (x # y # ys) = x @ sep @ join sep (y # ys)"

definition subscription :: "string list \<Rightarrow> string" where
  "subscription symbols =
     [CHR 0x7B, CHR 0x22] @ ''op'' @ [CHR 0x22] @ '':'' @ [CHR 0x22] @ ''subscribe'' @ [CHR 0x22] @ '',''
     @ [CHR 0x22] @ ''args'' @ [CHR 0x22] @ '':['' @
     join '','' (map (\<lambda>a. [CHR 0x22] @ a @ [CHR 0x22]) (topics symbols)) @ '']'' @ [CHR 0x7D]"

definition ping_text :: string where
  "ping_text =
     [CHR 0x7B, CHR 0x22] @ ''op'' @ [CHR 0x22] @ '':'' @ [CHR 0x22] @ ''ping'' @ [CHR 0x22] @ [CHR 0x7D]"

record 's logger_state =
  client :: "'s WsClient"
  last_ping :: instant
  symbols_seen :: symbol_states

text \<open>One turn of the loop: the ping when twenty seconds have passed (its result is ignored),
  then the next frame.  The outcome says whether the program goes on, ends, or fails.  The text
  of a frame is its bytes.\<close>

datatype logger_control = GoOn | Ended | Failed WebSocketError

definition logger_turn ::
  "('s, 'c) WebSocketStream \<Rightarrow> 'v LazyJson \<Rightarrow> bool \<Rightarrow> int \<Rightarrow> clock \<Rightarrow> 's logger_state
     \<Rightarrow> logger_control \<times> log_line list \<times> 's logger_state" where
  "logger_turn S J dump tick_ms clk s =
     (let s = (if from_secs 20 \<le> clk 0 - last_ping s
               then s\<lparr>client := snd (client_send S (text_static ping_text) (client s)),
                      last_ping := clk 1\<rparr>
               else s);
          (r, c) = client_next S (client s);
          s = s\<lparr>client := c\<rparr>
      in case r of
           None \<Rightarrow> (Ended, [], s)
         | Some (Inl e) \<Rightarrow> (Failed e, [], s)
         | Some (Inr frame) \<Rightarrow>
             (case frame of
                WsFrame.Text t \<Rightarrow>
                  let (ls, m) = on_text J dump tick_ms (\<lambda>i. clk (i + 2))
                                  (map (char_of \<circ> unat) (as_bytes t)) (symbols_seen s)
                  in (GoOn, ls, s\<lparr>symbols_seen := m\<rparr>)
              | _ \<Rightarrow> (GoOn, [], s)))"

text \<open>The start: connect, subscribe, and one state per symbol.\<close>

definition logger_start ::
  "('p \<Rightarrow> bool \<times> 'p) \<Rightarrow> (string \<Rightarrow> 'n \<Rightarrow> (string + 's \<times> 'resp) \<times> 'n) \<Rightarrow> ('s, 'c) WebSocketStream
     \<Rightarrow> logger_args \<Rightarrow> clock \<Rightarrow> ('p, 'n) world \<Rightarrow> (WebSocketError + 's logger_state) \<times> ('p, 'n) world" where
  "logger_start install_default connect S a clk w =
     (case connect_async install_default connect (arg_url a) w of
        (Inl e, w) \<Rightarrow> (Inl e, w)
      | (Inr ws, w) \<Rightarrow>
          (case client_send S (into_ws_frame (str_bytes (subscription (arg_symbols a)))) ws of
             (Inl e, ws) \<Rightarrow> (Inl e, w)
           | (Inr _, ws) \<Rightarrow>
               (Inr \<lparr>client = ws, last_ping = clk 0,
                     symbols_seen = fold (\<lambda>(i, s) m. m(str_bytes s \<mapsto> default_tick_state (clk (i + 1))))
                                      (enumerate 0 (arg_symbols a)) Map.empty\<rparr>,
                w)))"

section \<open>Accepted arguments\<close>

definition args_ok :: "logger_args \<Rightarrow> bool" where
  "args_ok a \<longleftrightarrow> 1 \<le> arg_tick_ms a \<and> arg_symbols a \<noteq> []"

lemma parse_args_from_ok: "args_ok a \<Longrightarrow> parse_args_from a argv = Inr a' \<Longrightarrow> args_ok a'"
proof (induction a argv rule: parse_args_from.induct)
  case (2 a opt rest)
  consider (url) "opt = ''--url''" | (symbols) "opt = ''--symbols''" | (tick) "opt = ''--tick-ms''"
    | (dump) "opt = ''--dump''"
    | (other) "opt \<noteq> ''--url''" "opt \<noteq> ''--symbols''" "opt \<noteq> ''--tick-ms''" "opt \<noteq> ''--dump''"
    by blast
  then show ?case
  proof cases
    case url
    then show ?thesis using 2 by (cases rest) (simp_all add: args_ok_def)
  next
    case symbols
    then show ?thesis using 2 by (cases rest) (simp_all add: args_ok_def split: if_splits)
  next
    case tick
    then show ?thesis using 2 by (cases rest) (simp_all add: args_ok_def)
  next
    case dump
    then show ?thesis using 2 by (simp add: args_ok_def)
  next
    case other
    then show ?thesis using "2.prems"(2) by (simp split: if_splits)
  qed
qed simp

lemma default_args_ok: "args_ok default_args"
  by (simp add: args_ok_def default_args_def)

section \<open>Shared timestamps are reported once per run\<close>

text \<open>For each trade of one symbol, whether the shared-timestamp line is printed.\<close>

fun same_t_flags :: "int list \<Rightarrow> TickState \<Rightarrow> bool list" where
  "same_t_flags [] st = []"
| "same_t_flags (t # ts) st =
     (let (ls, st) = observe_t False [] [] t st in (ls \<noteq> []) # same_t_flags ts st)"

text \<open>The same with an unbounded counter.\<close>

fun run_flags :: "int \<Rightarrow> nat \<Rightarrow> int list \<Rightarrow> bool list" where
  "run_flags p k [] = []"
| "run_flags p k (t # ts) =
     (if t = p then (k = 1) # run_flags p (k + 1) ts else False # run_flags t 1 ts)"

lemma same_t_flags_unbounded:
  assumes "unat (count_in_same_trade_t st) = min k (2 ^ 32 - 1)"
  shows "same_t_flags ts st = run_flags (last_trade_t st) k ts"
  using assms
proof (induction ts arbitrary: st k)
  case (Cons t ts)
  let ?c = "saturating_add (count_in_same_trade_t st) 1 :: u32"
  have c: "unat ?c = min (k + 1) (2 ^ 32 - 1)"
    using Cons.prems by (simp add: unat_saturating_add)
  have "?c = 2 \<longleftrightarrow> unat ?c = 2" by (simp add: word_unat_eq_iff)
  then have "?c = 2 \<longleftrightarrow> k = 1" unfolding c by auto
  with Cons.IH [of "st\<lparr>count_in_same_trade_t := ?c\<rparr>" "k + 1"]
    Cons.IH [of "st\<lparr>last_trade_t := t, count_in_same_trade_t := 1\<rparr>" 1] c
  show ?case by (simp add: observe_t_def with_dump_def Let_def)
qed simp

definition second_of_run :: "'a list \<Rightarrow> nat \<Rightarrow> bool" where
  "second_of_run xs j \<longleftrightarrow>
     1 \<le> j \<and> xs ! j = xs ! (j - 1) \<and> (2 \<le> j \<longrightarrow> xs ! (j - 2) \<noteq> xs ! (j - 1))"

lemma length_run_flags [simp]: "length (run_flags p k ts) = length ts"
  by (induction p k ts rule: run_flags.induct) auto

lemma run_flags_nth:
  "1 \<le> k \<Longrightarrow> i < length ts \<Longrightarrow> run_flags p k ts ! i \<longleftrightarrow> second_of_run (replicate k p @ ts) (k + i)"
proof (induction ts arbitrary: p k i)
  case (Cons t ts)
  show ?case
  proof (cases "t = p")
    case True
    then have same: "replicate k p @ t # ts = replicate (k + 1) p @ ts"
      by (simp add: replicate_app_Cons_same)
    show ?thesis
    proof (cases i)
      case 0
      then show ?thesis
        using True Cons.prems by (auto simp: second_of_run_def nth_append nth_Cons' split: if_splits)
    next
      case (Suc j)
      then show ?thesis using Cons.IH [of "k + 1" j p] Cons.prems True unfolding same by simp
    qed
  next
    case False
    show ?thesis
    proof (cases i)
      case 0
      then show ?thesis using False Cons.prems by (auto simp: second_of_run_def nth_append)
    next
      case (Suc j)
      have "second_of_run (replicate 1 t @ ts) (1 + j) = second_of_run (replicate k p @ t # ts) (k + 1 + j)"
        using False Cons.prems(1)
        by (cases j) (auto simp: second_of_run_def nth_append nth_Cons')
      then show ?thesis using Cons.IH [of 1 j t] Cons.prems False Suc by simp
    qed
  qed
qed simp

lemma run_flags_start:
  assumes "0 \<notin> set ts" and "i < length ts"
  shows "run_flags 0 0 ts ! i \<longleftrightarrow> second_of_run ts i"
proof (cases ts)
  case (Cons t ts')
  then have "run_flags 0 0 ts = False # run_flags t 1 ts'" using assms(1) by auto
  then show ?thesis
    using run_flags_nth [of 1 _ ts' t] assms(2) Cons by (cases i) (auto simp: second_of_run_def)
qed (use assms in simp)

end
