(* ===== verification/Testing_Properties.thy ===== *)
theory Testing_Properties
  imports Json_Rpc Mock_Server Trade_Logger
begin

text \<open>
  The properties of the test support of \<^verbatim>\<open>src/src/testing.rs\<close> and of the trade logger.
\<close>

section \<open>The request id scanner\<close>

text \<open>
  C22. The scanner for a JSON-RPC request id returns on every input, although its outer loop
  re-enters without the usual increment after a key that is not followed by a colon.
\<close>

theorem jsonrpc_id_terminates: "\<exists>r. parse_jsonrpc_id data = Some r"
  unfolding parse_jsonrpc_id_def by (rule scan_id_returns)

text \<open>
  C23. The scanner reads back the number a client wrote: the first quoted \<open>id\<close>, any white space,
  a colon, any white space and the decimal digits of a 64-bit number that no further digit
  follows give that number, whatever surrounds them.
\<close>

theorem jsonrpc_id_roundtrip:
  assumes "\<not> sublist id_key (pre @ [0x22, 0x69, 0x64])"
    and "list_all is_ws ws1" and "list_all is_ws ws2"
    and "post = [] \<or> \<not> is_digit (hd post)" and "n < 2 ^ 64"
  shows "parse_jsonrpc_id (pre @ id_key @ ws1 @ [0x3A] @ ws2 @ str_bytes (show_nat n) @ post)
    = Some (Some (word_of_nat n))"
proof -
  have "list_all is_digit (str_bytes (show_nat n))"
    by (auto simp: str_bytes_def list_all_iff is_digit_byte dest: show_nat_digits)
  moreover have "str_bytes (show_nat n) \<noteq> []" by (simp add: str_bytes_def)
  ultimately show ?thesis
    using parse_jsonrpc_id_first [OF assms(1-3) _ _ assms(4)] assms(5) by (simp add: parse_slice_show_nat)
qed

theorem jsonrpc_id_roundtrip_witness:
  "parse_jsonrpc_id ([0x7B] @ id_key @ [0x20] @ [0x3A] @ [] @ str_bytes (show_nat 42) @ [0x7D])
    = Some (Some (word_of_nat 42))"
  by (rule jsonrpc_id_roundtrip)
     (simp_all add: sublist_Cons_right is_ws_def is_digit_def is_ascii_digit_def)

text \<open>
  The matcher returns on every input, the cheap test in front of it never hides a match, and
  a match is an error exactly when the message contains the quoted word \<open>error\<close>.
\<close>

theorem request_match_prefilter:
  "\<exists>r. match_request_response data = Some r
    \<and> (case r of
         None \<Rightarrow> True
       | Some m \<Rightarrow> maybe_request_response data \<and> parse_jsonrpc_id data = Some (Some (request_id m))
                  \<and> (match_result m = Inl ''endpoint rejected'' \<longleftrightarrow> sublist error_key data)
                  \<and> (match_result m = Inr () \<longleftrightarrow> \<not> sublist error_key data))"
proof -
  obtain i where i: "parse_jsonrpc_id data = Some i"
    unfolding parse_jsonrpc_id_def using scan_id_returns by blast
  show ?thesis
  proof (cases i)
    case None
    with i show ?thesis by (simp add: match_request_response_def)
  next
    case (Some n)
    then have "memmem data id_key"
      using i scan_id_key [of data 0 n] by (simp add: parse_jsonrpc_id_def memmem_sublist)
    with i Some show ?thesis
      by (simp add: match_request_response_def maybe_request_response_def memmem_sublist)
  qed
qed

section \<open>The mock transport\<close>

text \<open>
  Over every interleaving of what a client and a mock server do with one in-memory socket,
  each side has received, in order and without gaps, a prefix of what the other has sent; the
  rest is what the channel still holds.
\<close>

theorem mock_transport_fifo:
  "case mock_run ops of (s, h) \<Rightarrow>
     to_client h = at_client h @ queue (inbound s) \<and> to_server h = at_server h @ queue (sent s)"
  using mock_flows_run [of ops] by (simp add: mock_flows_def chan.flows_def split: prod.split)

text \<open>A transport hands out its receiver once: after a connection every further \<open>connect\<close>
  fails.\<close>

theorem mock_connects_once:
  assumes "\<not> inbound_rx (fst (mock_run ops))"
  shows "fst (mock_connect url buffers (fst (mock_run (ops @ ops'))))
    = Inl (InvalidState ''mock transport only supports a single active connection'')"
proof -
  have "\<not> inbound_rx (fst (fold mock_op_step ops' (mock_run ops)))"
    by (rule fold_invariant [where P = "\<lambda>sh. \<not> inbound_rx (fst sh)"])
       (simp_all add: assms inbound_rx_step)
  then show ?thesis by (simp add: mock_connect_def mock_run_def Let_def)
qed

text \<open>The reconnecting transport numbers its connections from one and queues them for the
  server in order.\<close>

theorem reconnects_numbered:
  "map conn_id (connections (reconnectable_run n reconnectable_channel_pair)) = map word_of_nat [1..<n + 1]
   \<and> queue (server_chan (reconnectable_run n reconnectable_channel_pair)) = [0..<n]"
  using reconnectable_run_state by blast

section \<open>The trade logger\<close>

text \<open>
  The arguments the logger accepts have a tick of at least one millisecond, so that the
  division into tick buckets is defined and cannot overflow, and at least one symbol.
\<close>

theorem accepted_args_well_formed:
  assumes "parse_args argv = Inr a"
  shows "1 \<le> arg_tick_ms a \<and> arg_symbols a \<noteq> []"
  using parse_args_from_ok [OF default_args_ok, of "drop 1 argv" a] assms
  by (simp add: parse_args_def args_ok_def)

theorem accepted_args_well_formed_witness:
  "1 \<le> arg_tick_ms (default_args\<lparr>arg_tick_ms := 1, arg_dump := True\<rparr>)
    \<and> arg_symbols (default_args\<lparr>arg_tick_ms := 1, arg_dump := True\<rparr>) \<noteq> []"
  by (rule accepted_args_well_formed [of "[''logger'', ''--tick-ms'', ''-7'', ''--dump'']"])
     (simp add: parse_args_def parse_i64_def byte_of_def is_ascii_digit_def)

text \<open>
  For the trades of one symbol, all with a timestamp, the shared-timestamp line is printed at
  the second trade of every run of equal timestamps and nowhere else, however long the run is.
\<close>

theorem shared_timestamp_reported_once:
  assumes "0 \<notin> set ts" and "i < length ts"
  shows "same_t_flags ts (default_tick_state now) ! i \<longleftrightarrow> second_of_run ts i"
proof -
  have "same_t_flags ts (default_tick_state now) = run_flags 0 0 ts"
    using same_t_flags_unbounded [of "default_tick_state now" 0 ts] by (simp add: default_tick_state_def)
  then show ?thesis using run_flags_start [OF assms] by simp
qed

theorem shared_timestamp_reported_once_witness:
  "same_t_flags [7, 7, 7, 9] (default_tick_state 0) ! 1 \<longleftrightarrow> second_of_run [7, 7, 7, 9 :: int] 1"
  by (rule shared_timestamp_reported_once) simp_all

end
