(* ===== verification/Core_Tests.thy ===== *)
theory Core_Tests
  imports Connection_Policy Managed_Health Reconnect
begin

text \<open>
  The unit tests of \<^verbatim>\<open>core/ping.rs\<close>, \<^verbatim>\<open>core/connection_policy.rs\<close> and
  \<^verbatim>\<open>core/health.rs\<close>, each as the conjunction of its assertions along the states it
  goes through.  A test that reads the clock takes its readings as an argument, so that it is
  shown to pass for every timing it can rely on, its sleeps included, and not for one run.
\<close>

section \<open>Ping strategies\<close>

text \<open>\<open>Instant::now() - Duration::from_secs(20)\<close> panics on a clock that is younger.\<close>

definition protocol_reports_rtt_and_replies :: "clock \<Rightarrow> bool" where
  "protocol_reports_rtt_and_replies clk =
     (let (ping, p) = protocol_create_ping clk (protocol_new (from_secs 5) (from_secs 10));
          (answer, p) = protocol_handle_inbound (later 1 clk) (Ping (str_bytes ''payload'')) p;
          (result, p) = protocol_handle_inbound (later 1 clk) (Pong []) p;
          late = p\<lparr>last_ping := Some (clk 3 - from_secs 20), last_pong := None\<rparr>
      in (\<exists>b. ping = Some (Ping b))
         \<and> answer = Reply (Pong (str_bytes ''payload''))
         \<and> (\<exists>rtt. result = PongReceived (Some rtt))
         \<and> \<not> protocol_is_stale (clk 2) p
         \<and> from_secs 20 \<le> clk 3 \<and> protocol_is_stale (clk 4) late
         \<and> \<not> protocol_is_stale (clk 5) (protocol_reset late))"

definition server_driven_replies_without_ping :: "clock \<Rightarrow> bool" where
  "server_driven_replies_without_ping clk =
     (let P = server_driven_ping_pong; p = \<lparr>check_interval = from_secs 20\<rparr>;
          (ping, p) = create_ping P clk p;
          (answer, p) = handle_inbound P clk (Ping (str_bytes ''binance'')) p
      in ping = None \<and> answer = Reply (Pong (str_bytes ''binance''))
         \<and> \<not> ping_is_stale P (clk 0) p \<and> ping_interval P p = from_secs 20)"

text \<open>The closures the two application tests share: a counter in the keys, and the payload's text
  as the key of a pong.\<close>

definition counted_key :: "nat \<Rightarrow> (bytes \<times> string) \<times> nat" where
  "counted_key n = ((str_bytes (''req-'' @ show_nat n), ''req-'' @ show_nat n), n + 1)"

definition utf8_key :: "bytes \<Rightarrow> string option" where
  "utf8_key bs = (if utf8_valid bs then Some (map (char_of \<circ> unat) bs) else None)"

definition application_tracks_pending :: "clock \<Rightarrow> bool" where
  "application_tracks_pending clk =
     (let (outbound, p) = app_create_ping counted_key clk
            (with_max_pending 1 (app_new (from_secs 1) (from_secs 2) 0));
          (second, q) = app_create_ping counted_key (later 2 clk) p
      in case outbound of
           None \<Rightarrow> False
         | Some frame \<Rightarrow>
             (let (result, r) = app_handle_inbound utf8_key (later 3 clk) frame q
              in length (pending_pings p) = 1 \<and> second = None
                 \<and> (case frame of WsFrame.Text _ \<Rightarrow> True | Binary _ \<Rightarrow> True | _ \<Rightarrow> False)
                 \<and> (\<exists>rtt. result = PongReceived (Some rtt))
                 \<and> length (pending_pings r) = 0 \<and> \<not> app_is_stale (clk 4) r
                 \<and> pending_pings (app_reset r) = [] \<and> oldest_pending (app_reset r) = None))"

definition application_cleans_up_stale :: "clock \<Rightarrow> bool" where
  "application_cleans_up_stale clk =
     (let p = snd (app_create_ping counted_key clk (app_new (from_millis 5) (from_millis 10) 0));
          q = snd (app_create_ping counted_key (later 3 clk) p)
      in length (pending_pings p) = 1 \<and> app_is_stale (clk 2) p
         \<and> length (pending_pings q) = 1 \<and> \<not> app_is_stale (clk 5) q
         \<and> pending_pings (app_reset q) = [] \<and> oldest_pending (app_reset q) = None)"

lemma protocol_reports_rtt_passes:
  "mono clk \<Longrightarrow> from_secs 20 \<le> clk 3 \<Longrightarrow> protocol_reports_rtt_and_replies clk"
  using monoD [of clk 0 1] monoD [of clk 3 4]
  by (auto simp: protocol_reports_rtt_and_replies_def protocol_new_def heartbeat_defs later_def from_secs_def)

lemma server_driven_replies_passes: "server_driven_replies_without_ping clk"
  by (simp add: server_driven_replies_without_ping_def heartbeat_defs)

lemma counted_key_0: "counted_key 0 = (([0x72, 0x65, 0x71, 0x2D, 0x30], ''req-0''), 1)"
  and counted_key_1: "counted_key 1 = (([0x72, 0x65, 0x71, 0x2D, 0x31], ''req-1''), 2)"
  and utf8_key_0: "utf8_key [0x72, 0x65, 0x71, 0x2D, 0x30] = Some ''req-0''"
  and counted_frame: "into_ws_frame [0x72, 0x65, 0x71, 0x2D, 0x30] = WsFrame.Text (WsText [0x72, 0x65, 0x71, 0x2D, 0x30])"
  by code_simp+

lemma application_tracks_pending_passes:
  assumes "clk 2 \<le> clk 1 + from_secs 2"
  shows "application_tracks_pending clk"
proof -
  have "clk 2 - clk (Suc 0) \<le> from_secs 2" "clk (Suc (Suc 0)) - clk (Suc 0) \<le> from_secs 2"
    using assms by (simp_all add: numeral_2_eq_2)
  then show ?thesis
    by (simp add: application_tracks_pending_def heartbeat_defs app_new_def with_max_pending_def
        counted_key_0 counted_frame utf8_key_0 later_def)
qed

lemma application_cleans_up_stale_passes:
  assumes "mono clk" and "clk 1 + from_millis 15 \<le> clk 2" and "clk 5 \<le> clk 4 + from_millis 10"
  shows "application_cleans_up_stale clk"
proof -
  have "clk 2 \<le> clk 3" using assms(1) by (simp add: monoD)
  then have "\<not> clk 2 - clk (Suc 0) \<le> from_millis 10" "\<not> clk 3 - clk (Suc 0) \<le> from_millis 10"
    "\<not> from_millis 10 < clk 5 - clk 4"
    using assms(2,3) by (simp_all add: from_millis_def)
  then show ?thesis
    by (simp add: application_cleans_up_stale_def heartbeat_defs app_new_def counted_key_0
        counted_key_1 [unfolded One_nat_def] later_def)
qed

section \<open>The circuit breaker and the jitter\<close>

definition breaker_transitions_through_states :: "clock \<Rightarrow> bool" where
  "breaker_transitions_through_states clk =
     (case breaker_run [AskProceed (clk 0), Failure (clk 1), Failure (clk 2), AskProceed (clk 3)]
             (breaker_new 2 1 (from_millis 30)) of
        None \<Rightarrow> False
      | Some (oks, b) \<Rightarrow>
          oks = [True, False]
          \<and> (case time_until_retry (clk 4) b of None \<Rightarrow> False | Some wait \<Rightarrow> wait \<le> from_millis 30)
          \<and> map_option fst (breaker_run
               [AskProceed (clk 5), Success, AskProceed (clk 6),
                Failure (clk 7), Failure (clk 8), AskProceed (clk 9),
                AskProceed (clk 10), Failure (clk 11), AskProceed (clk 12)] b)
            = Some [True, True, False, True, False])"

text \<open>The random factors of the hundred calls are the argument.\<close>

definition jitter_respects_bounds :: "rat list \<Rightarrow> bool" where
  "jitter_respects_bounds js =
     (list_all (\<lambda>j. from_millis 50 \<le> jitter_delay j (from_millis 100)
                  \<and> jitter_delay j (from_millis 100) \<le> from_millis 100) js
      \<and> jitter_delay (hd js) (from_millis 0) = from_millis 0)"

lemma jitter_respects_bounds_passes:
  assumes "list_all (\<lambda>j. 1 / 2 \<le> j \<and> j \<le> 1) js"
  shows "jitter_respects_bounds js"
proof -
  have "50000000 \<le> jitter_delay j 100000000 \<and> jitter_delay j 100000000 \<le> 100000000"
    if "1 / 2 \<le> j" "j \<le> 1" for j
    using jitter_delay_bounds [of 100000000 j] that by simp
  then have "list_all (\<lambda>j. 50000000 \<le> jitter_delay j 100000000 \<and> jitter_delay j 100000000 \<le> 100000000) js"
    using assms by (auto simp: list_all_iff)
  then show ?thesis by (simp add: jitter_respects_bounds_def from_millis_def jitter_delay_def)
qed

text \<open>What the test relies on: at most 30 ms pass between tripping the breaker and asking it, and
  the two sleeps last 35 ms.\<close>

definition breaker_timing :: "clock \<Rightarrow> bool" where
  "breaker_timing clk \<longleftrightarrow>
     clk 3 < clk 2 + from_millis 30 \<and> clk 2 \<le> clk 4 \<and> clk 4 \<le> clk 2 + from_millis 30
     \<and> clk 4 + from_millis 35 \<le> clk 5 \<and> clk 9 < clk 8 + from_millis 30
     \<and> clk 8 \<le> clk 9 \<and> clk 9 + from_millis 35 \<le> clk 10 \<and> clk 12 < clk 11 + from_millis 30
     \<and> clk 2 + from_millis 30 \<le> INSTANT_MAX \<and> clk 8 + from_millis 30 \<le> INSTANT_MAX
     \<and> clk 11 + from_millis 30 \<le> INSTANT_MAX"

lemma breaker_transitions_passes:
  assumes "breaker_timing clk"
  shows "breaker_transitions_through_states clk"
proof -
  note t = assms [unfolded breaker_timing_def]
  have sat: "saturating_add 0 1 = (1 :: u32)" "saturating_add 1 1 = (2 :: u32)"
    "max 2 1 = (2 :: u32)" "\<not> (2 :: u32) \<le> 1"
    by (simp_all add: saturating_add_def word_le_nat_alt)
  have first: "breaker_run [AskProceed (clk 0), Failure (clk 1), Failure (clk 2), AskProceed (clk 3)]
      (breaker_new 2 1 (from_millis 30))
    = Some ([True, False], \<lparr>state = Open (clk 2 + from_millis 30), failure_threshold = 2,
        success_threshold = 1, timeout = from_millis 30, failures = 0, successes = 0\<rparr>)"
    using t by (simp add: breaker_new_def breaker_defs sat instant_add_def)
  have "clk 2 + from_millis 30 \<le> clk 5" "clk 8 + from_millis 30 \<le> clk 10"
    using t by (simp_all add: from_millis_def)
  with t have second: "map_option fst (breaker_run
      [AskProceed (clk 5), Success, AskProceed (clk 6), Failure (clk 7), Failure (clk 8),
       AskProceed (clk 9), AskProceed (clk 10), Failure (clk 11), AskProceed (clk 12)]
      \<lparr>state = Open (clk 2 + from_millis 30), failure_threshold = 2,
        success_threshold = 1, timeout = from_millis 30, failures = 0, successes = 0\<rparr>)
    = Some [True, True, False, True, False]"
    by (simp add: breaker_defs sat instant_add_def)
  show ?thesis
    unfolding breaker_transitions_through_states_def first option.case prod.case second
    using t by (auto simp: time_until_retry_def checked_duration_since_def)
qed

section \<open>The health monitor\<close>

text \<open>
  What two assertions on percentiles rely on, as \<open>hdrhistogram\<close> documents them: a histogram of
  three significant digits keeps values up to 1000 exactly, and the value at a percentile is the
  smallest recorded one that this share of the samples does not exceed.
\<close>

definition nearest_rank :: "rat \<Rightarrow> u64 list \<Rightarrow> u64" where
  "nearest_rank p vs = sort vs ! (nat \<lceil>p * of_nat (length vs) / 100\<rceil> - 1)"

definition hist_exact :: "'g histogram_ops \<Rightarrow> bool" where
  "hist_exact ops \<longleftrightarrow>
     (\<forall>g vs p. new_latency_histogram ops = Some g \<and> vs \<noteq> [] \<and> 0 < p \<and> p \<le> 100
        \<and> (\<forall>v \<in> set vs. 1 \<le> v \<and> v \<le> 1000)
        \<longrightarrow> hist_value_at_percentile ops p (fold (hist_record ops) vs g) = nearest_rank p vs)"

definition monitor_of :: "'g histogram_ops \<Rightarrow> clock \<Rightarrow> ('g WsHealthMonitor \<Rightarrow> bool) \<Rightarrow> bool" where
  "monitor_of ops clk test = (case health_new ops (clk 0) (from_secs 5) of None \<Rightarrow> False | Some m \<Rightarrow> test m)"

definition records_rtt_and_percentiles :: "'g histogram_ops \<Rightarrow> clock \<Rightarrow> bool" where
  "records_rtt_and_percentiles ops clk =
     monitor_of ops clk (\<lambda>m.
       let m = record_rtt ops (300 * 1000) (record_rtt ops (200 * 1000) (record_rtt ops (100 * 1000) m));
           stats = get_stats ops (later 1 clk) m
       in latency_samples stats = 3 \<and> p50_latency_us stats = 200 \<and> p99_latency_us stats = 300
          \<and> rtt_clamped_samples stats = 0)"

definition clamps_rtt_to_bounds :: "'g histogram_ops \<Rightarrow> clock \<Rightarrow> bool" where
  "clamps_rtt_to_bounds ops clk =
     monitor_of ops clk (\<lambda>m.
       let m = record_rtt ops (from_secs (365 * 24 * 60 * 60)) (record_rtt ops 0 m);
           stats = get_stats ops (later 1 clk) m
       in latency_samples stats = 2 \<and> rtt_clamped_samples stats = 2
          \<and> MIN_RTT_US \<le> p50_latency_us stats \<and> p99_latency_us stats \<le> MAX_RTT_US)"

definition reset_clears_stats :: "'g histogram_ops \<Rightarrow> clock \<Rightarrow> bool" where
  "reset_clears_stats ops clk =
     monitor_of ops clk (\<lambda>m.
       let m = record_rtt ops (123 * 1000)
                 (record_server_error (clk 2) (Some 1) ''server error'' (record_message (clk 1) m));
           before = get_stats ops (later 3 clk) m
       in 0 < latency_samples before \<and> 0 < messages before \<and> 0 < errors before
          \<and> 0 < recent_server_errors before
          \<and> (case reset_connection ops (clk 5) m of
               None \<Rightarrow> False
             | Some m \<Rightarrow>
                 (let stats = get_stats ops (later 6 clk) m
                  in messages stats = 0 \<and> errors stats = 0 \<and> recent_server_errors stats = 0
                     \<and> recent_internal_errors stats = 0 \<and> latency_samples stats = 0
                     \<and> rtt_clamped_samples stats = 0)))"

definition truncates_error_buffers :: "'g histogram_ops \<Rightarrow> clock \<Rightarrow> bool" where
  "truncates_error_buffers ops clk =
     monitor_of ops clk (\<lambda>m.
       let m = fold (\<lambda>i. record_server_error (clk (Suc i)) (Some (word_of_nat i)) ''server error'') [0..<105] m;
           c = clear_error_buffers m;
           e = fold (\<lambda>i. record_internal_error (clk (106 + i)) ''ctx'' (''error-'' @ show_nat i)) [0..<105] c
       in cb_len (server_errors m) = 100
          \<and> map_option se_code (cb_front (server_errors m)) = Some (Some 5)
          \<and> error_count m = 105 \<and> cb_is_empty (server_errors c)
          \<and> cb_len (internal_errors e) = 100
          \<and> map_option ie_error (cb_front (internal_errors e)) = Some ''error-5''
          \<and> error_count e = 210)"

text \<open>\<open>checked_sub(..).unwrap()\<close> panics on a clock that is younger.\<close>

definition detects_stale_connections :: "'g histogram_ops \<Rightarrow> clock \<Rightarrow> bool" where
  "detects_stale_connections ops clk =
     (case health_new ops (clk 0) (from_secs 1) of
        None \<Rightarrow> False
      | Some m \<Rightarrow>
          \<not> health_is_stale (clk 1) m \<and> from_secs 10 \<le> last_message_received m
          \<and> health_is_stale (clk 2)
               (m\<lparr>last_message_received := last_message_received m - from_secs 10\<rparr>))"

definition caps_error_string_sizes :: "'g histogram_ops \<Rightarrow> clock \<Rightarrow> bool" where
  "caps_error_string_sizes ops clk =
     monitor_of ops clk (\<lambda>m.
       let huge = replicate (MAX_ERROR_TEXT_BYTES + 10) (CHR ''x'');
           m = record_server_error (clk 1) None huge m
       in map_option (length \<circ> se_message) (cb_front (server_errors m)) = Some MAX_ERROR_TEXT_BYTES)"

text \<open>The histogram of a new monitor, and what two or three samples make of it.\<close>

lemma hist_lawsE:
  assumes "hist_laws ops good"
  obtains g where "new_latency_histogram ops = Some g" and "hist_len ops g = 0" and "good g"
    and "\<And>d g. good g \<Longrightarrow> good (hist_record ops (clamp_rtt d) g)
           \<and> hist_len ops (hist_record ops (clamp_rtt d) g) = saturating_add (hist_len ops g) 1"
    and "\<And>p g. good g \<Longrightarrow> hist_len ops g \<noteq> 0 \<Longrightarrow> 1 \<le> hist_value_at_percentile ops p g"
  using assms clamp_rtt_range that
  by (auto simp: hist_laws_def new_latency_histogram_def MIN_RTT_US_def MAX_RTT_US_def)

lemma saturating_u64:
  "saturating_add 0 1 = (1 :: u64)" "saturating_add 1 1 = (2 :: u64)" "saturating_add 2 1 = (3 :: u64)"
  by (simp_all add: saturating_add_def)

lemma monitor_of_new:
  assumes "new_latency_histogram ops = Some g"
  shows "monitor_of ops clk test = test (the (health_new ops (clk 0) (from_secs 5)))"
  using assms by (simp add: monitor_of_def health_new_def)

lemma clamps_rtt_to_bounds_passes:
  assumes "hist_laws ops good"
  shows "clamps_rtt_to_bounds ops clk"
proof -
  obtain g where g: "new_latency_histogram ops = Some g" "hist_len ops g = 0" "good g"
    and rec: "\<And>d g. good g \<Longrightarrow> good (hist_record ops (clamp_rtt d) g)
           \<and> hist_len ops (hist_record ops (clamp_rtt d) g) = saturating_add (hist_len ops g) 1"
    and low: "\<And>p g. good g \<Longrightarrow> hist_len ops g \<noteq> 0 \<Longrightarrow> 1 \<le> hist_value_at_percentile ops p g"
    using hist_lawsE [OF assms] by metis
  have range: "rtt_out_of_range 0" "rtt_out_of_range (from_secs 31536000)"
    by (simp_all add: rtt_out_of_range_def as_micros_def from_secs_def)
  show ?thesis
    using g rec low
    by (simp add: clamps_rtt_to_bounds_def monitor_of_new health_new_def record_rtt_clamps range
        get_stats_def saturating_u64 MIN_RTT_US_def MAX_RTT_US_def)
qed

lemma reset_clears_stats_passes:
  assumes "hist_laws ops good"
  shows "reset_clears_stats ops clk"
proof -
  obtain g where g: "new_latency_histogram ops = Some g" "hist_len ops g = 0" "good g"
    and rec: "\<And>d g. good g \<Longrightarrow> good (hist_record ops (clamp_rtt d) g)
           \<and> hist_len ops (hist_record ops (clamp_rtt d) g) = saturating_add (hist_len ops g) 1"
    using hist_lawsE [OF assms] by metis
  have "\<not> rtt_out_of_range 123000" by (simp add: rtt_out_of_range_def as_micros_def)
  then show ?thesis
    using g rec
    by (simp add: reset_clears_stats_def monitor_of_new health_new_def record_rtt_clamps reset_connection_def
        get_stats_def saturating_u64 health_defs cb_len_def cb_push_def cb_new_def cb_clear_def MAX_RECENT_ERRORS_def)
qed

lemma records_rtt_passes:
  assumes "hist_laws ops good" and "hist_exact ops"
  shows "records_rtt_and_percentiles ops clk"
proof -
  obtain g where g: "new_latency_histogram ops = Some g" "hist_len ops g = 0" "good g"
    and rec: "\<And>d g. good g \<Longrightarrow> good (hist_record ops (clamp_rtt d) g)
           \<and> hist_len ops (hist_record ops (clamp_rtt d) g) = saturating_add (hist_len ops g) 1"
    using hist_lawsE [OF assms(1)] by metis
  have clamp: "clamp_rtt 100000 = 100" "clamp_rtt 200000 = 200" "clamp_rtt 300000 = 300"
    "\<not> rtt_out_of_range 100000" "\<not> rtt_out_of_range 200000" "\<not> rtt_out_of_range 300000"
    by (simp_all add: clamp_rtt_def rtt_out_of_range_def as_micros_def)
  have "good (hist_record ops 100 g)" "good (hist_record ops 200 (hist_record ops 100 g))"
    "hist_len ops (hist_record ops 100 g) = 1"
    "hist_len ops (hist_record ops 200 (hist_record ops 100 g)) = 2"
    "hist_len ops (hist_record ops 300 (hist_record ops 200 (hist_record ops 100 g))) = 3"
    using g rec [of g 100000] rec [of "hist_record ops 100 g" 200000]
      rec [of "hist_record ops 200 (hist_record ops 100 g)" 300000]
    by (simp_all add: clamp saturating_u64)
  moreover have "hist_value_at_percentile ops p (fold (hist_record ops) [100, 200, 300] g)
      = nearest_rank p [100, 200, 300]" if "0 < p" "p \<le> 100" for p
  proof -
    have "[100, 200, 300 :: u64] \<noteq> []" "\<forall>v \<in> set [100, 200, 300 :: u64]. 1 \<le> v \<and> v \<le> 1000"
      by (simp_all add: word_le_nat_alt)
    with assms(2) g(1) that show ?thesis unfolding hist_exact_def by blast
  qed
  moreover have "\<lceil>3 / 2 :: rat\<rceil> = 2" "\<lceil>297 / 100 :: rat\<rceil> = 3" by (simp_all add: ceiling_eq_iff)
  then have "nearest_rank 50 [100, 200, 300] = 200" "nearest_rank 99 [100, 200, 300] = 300"
    by (simp_all add: nearest_rank_def word_le_nat_alt)
  ultimately show ?thesis
    using g
    by (simp add: records_rtt_and_percentiles_def monitor_of_new health_new_def record_rtt_clamps
        clamp get_stats_def MAX_RTT_US_def)
qed

lemma detects_stale_passes:
  assumes "hist_laws ops good" and "mono clk" and "from_secs 10 \<le> clk 0" and "clk 1 \<le> clk 0 + from_secs 1"
  shows "detects_stale_connections ops clk"
proof -
  obtain g where "new_latency_histogram ops = Some g" using hist_lawsE [OF assms(1)] by metis
  moreover have "clk 0 \<le> clk 2" using assms(2) by (simp add: monoD)
  ultimately show ?thesis
    using assms(3,4) by (auto simp: detects_stale_connections_def health_new_def health_is_stale_def from_secs_def)
qed

lemma count_up_Suc:
  "((\<lambda>n. saturating_add n 1) ^^ k) (saturating_add w 1) = saturating_add (((\<lambda>n. saturating_add n 1) ^^ k) w) 1"
  using funpow_swap1 [of "\<lambda>n. saturating_add n 1" k w] by simp

text \<open>A run of errors: every one is counted, and the log is the one of their records.\<close>

lemma fold_server_errors:
  "server_errors (fold (\<lambda>i. record_server_error (t i) (c i) msg) xs m)
     = fold cb_push (map (\<lambda>i. \<lparr>se_timestamp = t i, se_code = c i, se_message = truncate_string msg\<rparr>) xs)
         (server_errors m)"
  "internal_errors (fold (\<lambda>i. record_server_error (t i) (c i) msg) xs m) = internal_errors m"
  "error_count (fold (\<lambda>i. record_server_error (t i) (c i) msg) xs m)
     = ((\<lambda>n. saturating_add n 1) ^^ length xs) (error_count m)"
  by (induction xs arbitrary: m) (simp_all add: health_defs count_up_Suc)

lemma fold_internal_errors:
  "internal_errors (fold (\<lambda>i. record_internal_error (t i) ctx (e i)) xs m)
     = fold cb_push (map (\<lambda>i. \<lparr>ie_timestamp = t i, ie_context = truncate_string ctx,
         ie_error = truncate_string (e i)\<rparr>) xs) (internal_errors m)"
  "error_count (fold (\<lambda>i. record_internal_error (t i) ctx (e i)) xs m)
     = ((\<lambda>n. saturating_add n 1) ^^ length xs) (error_count m)"
  by (induction xs arbitrary: m) (simp_all add: health_defs count_up_Suc)

lemma unat_count_up:
  "unat (((\<lambda>n. saturating_add n 1) ^^ k) w) = min (unat w + k) (2 ^ 64 - 1)" for w :: u64
proof (induction k)
  case 0
  show ?case using unat_less_2p [of w] by simp
qed (simp add: unat_saturating_add)

lemma take_last_upt:
  "k + n = m \<Longrightarrow> 0 < n \<Longrightarrow> \<exists>rest. take_last n (map f [0..<m]) = f k # rest \<and> length rest = n - 1"
  by (intro exI [of _ "map f [Suc k..<m]"]) (auto simp: take_last_def drop_map upt_conv_Cons [of k])

lemma last_hundred: "\<exists>rest. take_last 100 (map f [0..<105]) = f 5 # rest \<and> length rest = 99"
  using take_last_upt [of 5 100 105 f] by simp

lemma truncates_error_buffers_passes:
  assumes "hist_laws ops good"
  shows "truncates_error_buffers ops clk"
proof -
  obtain g where g: "new_latency_histogram ops = Some g" using hist_lawsE [OF assms] by metis
  let ?m = "the (health_new ops (clk 0) (from_secs 5))"
  let ?s = "fold (\<lambda>i. record_server_error (clk (Suc i)) (Some (word_of_nat i)) ''server error'') [0..<105] ?m"
  let ?c = "clear_error_buffers ?s"
  let ?e = "fold (\<lambda>i. record_internal_error (clk (106 + i)) ''ctx'' (''error-'' @ show_nat i)) [0..<105] ?c"
  have m: "server_errors ?m = cb_new 100" "internal_errors ?m = cb_new 100" "error_count ?m = 0"
    using g by (simp_all add: health_new_def MAX_RECENT_ERRORS_def)
  have "server_errors ?s = fold cb_push (map (\<lambda>i. \<lparr>se_timestamp = clk (Suc i), se_code = Some (word_of_nat i),
      se_message = truncate_string ''server error''\<rparr>) [0..<105]) (cb_new 100)"
    by (simp add: fold_server_errors m del: upt_Suc)
  then have s: "\<exists>rest. buffer (server_errors ?s) = \<lparr>se_timestamp = clk (Suc 5), se_code = Some 5,
      se_message = truncate_string ''server error''\<rparr> # rest \<and> length rest = 99"
    using last_hundred [of "\<lambda>i. \<lparr>se_timestamp = clk (Suc i), se_code = Some (word_of_nat i),
      se_message = truncate_string ''server error''\<rparr>"]
    by (simp only: cb.contents_of_created of_nat_numeral)
  have "internal_errors ?e = fold cb_push (map (\<lambda>i. \<lparr>ie_timestamp = clk (106 + i), ie_context = truncate_string ''ctx'',
      ie_error = truncate_string (''error-'' @ show_nat i)\<rparr>) [0..<105]) (cb_new 100)"
    by (simp add: fold_internal_errors fold_server_errors clear_error_buffers_def cb_clear_def cb_new_def m del: upt_Suc)
  then have e: "\<exists>rest. buffer (internal_errors ?e) = \<lparr>ie_timestamp = clk (106 + 5), ie_context = truncate_string ''ctx'',
      ie_error = truncate_string (''error-'' @ show_nat 5)\<rparr> # rest \<and> length rest = 99"
    using last_hundred [of "\<lambda>i. \<lparr>ie_timestamp = clk (106 + i), ie_context = truncate_string ''ctx'',
      ie_error = truncate_string (''error-'' @ show_nat i)\<rparr>"]
    by (simp only: cb.contents_of_created)
  have "unat (error_count ?s) = 105" "unat (error_count ?e) = 210"
    by (simp_all add: fold_server_errors fold_internal_errors clear_error_buffers_def m unat_count_up del: upt_Suc)
  then have "error_count ?s = 105" "error_count ?e = 210" by (simp_all add: word_unat_eq_iff)
  moreover have "''error-'' @ show_nat 5 = ''error-5''" by code_simp
  then have "truncate_string (''error-'' @ show_nat 5) = ''error-5''"
    by (simp add: truncate_string_def MAX_ERROR_TEXT_BYTES_def)
  moreover have "cb_is_empty (server_errors ?c)"
    by (simp add: clear_error_buffers_def cb_clear_def cb_is_empty_def)
  ultimately show ?thesis
    using s e
    by (auto simp: truncates_error_buffers_def monitor_of_new [OF g] Let_def cb_len_def cb_front_def simp del: upt_Suc)
qed

lemma caps_error_string_passes:
  assumes "hist_laws ops good"
  shows "caps_error_string_sizes ops clk"
proof -
  obtain g where g: "new_latency_histogram ops = Some g" using hist_lawsE [OF assms] by metis
  let ?huge = "replicate (MAX_ERROR_TEXT_BYTES + 10) (CHR ''x'')"
  have "is_char_boundary (str_bytes ?huge) 1024"
    by (simp add: str_bytes_def is_char_boundary_def is_cont_def MAX_ERROR_TEXT_BYTES_def)
  then have "1024 \<le> floor_boundary (str_bytes ?huge) 1024" by (rule floor_boundary_greatest) simp
  then have "length (truncate_string ?huge) = 1024"
    using floor_boundary_le [of "str_bytes ?huge" 1024]
    by (simp add: truncate_string_def MAX_ERROR_TEXT_BYTES_def)
  then show ?thesis
    using g
    by (simp add: caps_error_string_sizes_def monitor_of_new health_new_def health_defs cb_push_def
        cb_new_def cb_front_def MAX_RECENT_ERRORS_def MAX_ERROR_TEXT_BYTES_def)
qed

end
