(* ===== verification/Managed_Tests.thy ===== *)
theory Managed_Tests
  imports Mock_Session Managed_Fixture
begin

text \<open>
  The tests of the plain loop in \<^verbatim>\<open>ws/managed.rs\<close> and of the reconnecting transport in
  \<^verbatim>\<open>testing.rs\<close>, played in the model: a test is a script of what it does and asserts, and
  \<^const>\<open>None\<close> is a failed assertion.  An await of the test lets the loop run until it waits
  for the server or the test; a reconnect delay elapses unless a command ends it.  Accepting a
  connection checks its number, which only one of the tests asserts.
\<close>

section \<open>Playing a test\<close>

definition client_turn ::
  "('h, 'm, 's, 'v) WsEndpointHandler \<Rightarrow> 'r WsReconnectStrategy
     \<Rightarrow> ('h, 'r, 's) session \<times> traffic \<Rightarrow> ('h, 'r, 's) session \<times> traffic" where
  "client_turn H R st =
     (let s = fst st; idle = (queue (commands s) = [])
      in case phase (loop s) of
           AwaitConnect \<Rightarrow> session_step H R ConnectTurn st
         | AwaitDelay \<Rightarrow> session_step H R (if idle then DelayTurn else CommandTurn) st
         | AwaitEvent _ _ \<Rightarrow> session_step H R (if idle then ReadTurn else CommandTurn) st
         | _ \<Rightarrow> st)"

text \<open>Six turns are enough for the longest wait of the tests.\<close>

definition settle ::
  "('h, 'm, 's, 'v) WsEndpointHandler \<Rightarrow> 'r WsReconnectStrategy
     \<Rightarrow> ('h, 'r, 's) session \<times> traffic \<Rightarrow> ('h, 'r, 's) session \<times> traffic" where
  "settle H R st =
     (let turn = client_turn H R in turn (turn (turn (turn (turn (turn st))))))"

datatype 's test_line =
    AcceptId u64
  | Outbound nat bytes
  | NoOutbound nat
  | SendInbound nat WsFrame
  | DropSocket nat
  | SendCommand "'s ManagedWsCommand"
  | Sleep
  | Join

fun play_line ::
  "('h, 'm, 's, 'v) WsEndpointHandler \<Rightarrow> 'r WsReconnectStrategy \<Rightarrow> 's test_line
     \<Rightarrow> ('h, 'r, 's) session \<times> traffic \<Rightarrow> (('h, 'r, 's) session \<times> traffic) option" where
  "play_line H R (AcceptId n) st =
     (case settle H R st of (s, t) \<Rightarrow>
        (case accept_connection_timeout (net s) of
           (Some i, n') \<Rightarrow> if conn_id (connections n' ! i) = n then Some (s\<lparr>net := n'\<rparr>, t) else None
         | (None, _) \<Rightarrow> None))"
| "play_line H R (Outbound i b) st =
     (case settle H R st of (s, t) \<Rightarrow>
        (case fst (conn_recv_outbound_timeout (conn_at i s)) of
           Some f \<Rightarrow>
             if message_bytes f = Some b then Some (session_step H R (ServerReceive i) (s, t)) else None
         | None \<Rightarrow> None))"
| "play_line H R (NoOutbound i) st =
     (case settle H R st of (s, t) \<Rightarrow>
        if fst (conn_recv_outbound_timeout (conn_at i s)) = None then Some (s, t) else None)"
| "play_line H R (SendInbound i f) st =
     (if fst (conn_send_inbound f (conn_at i (fst st))) = Inr ()
      then Some (session_step H R (ServerOffer i f) st) else None)"
| "play_line H R (DropSocket i) st = Some (session_step H R (ServerHangUp i) st)"
| "play_line H R (SendCommand c) st =
     (if fst (channel_send c (commands (fst st))) then Some (session_step H R (Issue c) st) else None)"
| "play_line H R Sleep st = Some (settle H R st)"
| "play_line H R Join st =
     (case settle H R st of (s, t) \<Rightarrow> if phase (loop s) = Returned then Some (s, t) else None)"

fun play ::
  "('h, 'm, 's, 'v) WsEndpointHandler \<Rightarrow> 'r WsReconnectStrategy \<Rightarrow> 's test_line list
     \<Rightarrow> ('h, 'r, 's) session \<times> traffic \<Rightarrow> (('h, 'r, 's) session \<times> traffic) option" where
  "play H R [] st = Some st"
| "play H R (line # rest) st =
     (case play_line H R line st of None \<Rightarrow> None | Some st' \<Rightarrow> play H R rest st')"

definition play_test ::
  "TestEndpoint \<Rightarrow> string test_line list \<Rightarrow> ((TestEndpoint, unit, string) session \<times> traffic) option" where
  "play_test h script = play test_endpoint fast_reconnect script (session_start h ())"

section \<open>The tests\<close>

definition reconnects_and_emits_lifecycle_events :: bool where
  "reconnects_and_emits_lifecycle_events =
     (case play_test (test_endpoint_new None)
             [AcceptId 1, DropSocket 0, AcceptId 2, SendCommand Shutdown, Join] of
        None \<Rightarrow> False
      | Some (s, _) \<Rightarrow>
          events (handler (loop s)) = [Open False, Disconnected_obs True, Open True]
          \<and> ws_status_from_u8 (status (loop s)) = Disconnected)"

definition replays_public_subscriptions :: bool where
  "replays_public_subscriptions =
     (play_test (test_endpoint_new (Some ''SUB''))
        [AcceptId 1, Outbound 0 (str_bytes ''SUB''), DropSocket 0,
         AcceptId 2, Outbound 1 (str_bytes ''SUB''), SendCommand Shutdown, Join] \<noteq> None)"

definition endpoint_reconnect_restores_flow :: bool where
  "endpoint_reconnect_restores_flow =
     (case play_test (test_endpoint_new None)
             [AcceptId 1, SendInbound 0 (into_ws_message (str_bytes ''reconnect'')),
              AcceptId 2, SendInbound 1 (into_ws_message (str_bytes ''data'')), Sleep,
              SendCommand Shutdown, Join] of
        None \<Rightarrow> False
      | Some (s, _) \<Rightarrow> Message_obs ''frame'' \<in> set (events (handler (loop s))))"

definition sends_outbound_command :: bool where
  "sends_outbound_command =
     (play_test (test_endpoint_new None)
        [AcceptId 1, SendCommand (ManagedWsCommand.Send (str_bytes ''RAW'')), Outbound 0 (str_bytes ''RAW''),
         SendCommand Shutdown, Join] \<noteq> None)"

definition applies_subscription_update :: bool where
  "applies_subscription_update =
     (play_test (test_endpoint_new None)
        [AcceptId 1, SendCommand (UpdateSubscriptions (Add [''SUB''])), Outbound 0 (str_bytes ''SUB''),
         SendCommand Shutdown, Join] \<noteq> None)"

definition auth_gates_outbound :: bool where
  "auth_gates_outbound =
     (play_test (test_endpoint_auth_gated ''AUTH'')
        [AcceptId 1, Outbound 0 (str_bytes ''AUTH''),
         SendCommand (ManagedWsCommand.Send (str_bytes ''RAW'')),
         SendCommand (UpdateSubscriptions (Add [''SUB''])), NoOutbound 0,
         SendInbound 0 (into_ws_message (str_bytes ''auth-ok'')),
         Outbound 0 (str_bytes ''RAW''), Outbound 0 (str_bytes ''SUB''),
         SendCommand Shutdown, Join] \<noteq> None)"

text \<open>The transport's own test has no loop: one connection of it, from the call of \<open>connect\<close> to
  the last line about it.\<close>

definition exercise_connection ::
  "u64 \<Rightarrow> string \<Rightarrow> string \<Rightarrow> ReconnectableMockTransport \<Rightarrow> (nat \<times> ReconnectableMockTransport) option" where
  "exercise_connection n hello answer t =
     (case reconnectable_connect ''ws://mock.invalid'' default_buffer_config t of
        (Inl _, _) \<Rightarrow> None
      | (Inr i, t) \<Rightarrow>
          (case accept_connection_timeout t of
             (None, _) \<Rightarrow> None
           | (Some j, t) \<Rightarrow>
               (let (written, c) = socket_write (into_ws_message (str_bytes hello)) (connections t ! i);
                    (outbound, c) = conn_recv_outbound_timeout c;
                    (answered, c) = conn_send_text answer c;
                    (polled, c) = mock_reader_poll_next c
                in if j = i \<and> conn_id (connections t ! i) = n \<and> written = Inr () \<and> outbound \<noteq> None
                      \<and> answered = Inr () \<and> (\<exists>m. polled = Ready (Some m))
                   then Some (i, set_conn i c t) else None)))"

definition supports_sequential_connections :: bool where
  "supports_sequential_connections =
     (case exercise_connection 1 ''{\"hello\":\"one\"}'' ''{\"server\":\"one\"}'' reconnectable_channel_pair of
        None \<Rightarrow> False
      | Some (i, t) \<Rightarrow>
          exercise_connection 2 ''{\"hello\":\"two\"}'' ''{\"server\":\"two\"}''
            (set_conn i (hang_up (conn_drop_socket (connections t ! i))) t) \<noteq> None)"

section \<open>They pass\<close>

lemmas session_defs =
  settle_def client_turn_def session_start_def loop_turn_def load_def holds_socket_def hang_up_def
  set_conn_def close_commands_def last_writer_def setup_writer_def arm_writer_def read_frames_def
  socket_write_def reconnectable_connect_def reconnectable_channel_pair_def accept_connection_timeout_def
  recv_or_timeout_def mock_reader_poll_next_def conn_recv_outbound_def conn_recv_outbound_timeout_def
  conn_send_inbound_def conn_drop_socket_def conn_id_def channel_recv_def channel_new_def
  drop_sender_def drop_receiver_def taken_def polls_commands_def play_test_def

lemma text_bytes:
  "str_bytes ''SUB'' = [0x53, 0x55, 0x42]"
  "str_bytes ''RAW'' = [0x52, 0x41, 0x57]"
  "str_bytes ''AUTH'' = [0x41, 0x55, 0x54, 0x48]"
  "str_bytes ''auth-ok'' = [0x61, 0x75, 0x74, 0x68, 0x2D, 0x6F, 0x6B]"
  "str_bytes ''reconnect'' = [0x72, 0x65, 0x63, 0x6F, 0x6E, 0x6E, 0x65, 0x63, 0x74]"
  "str_bytes ''data'' = [0x64, 0x61, 0x74, 0x61]"
  by code_simp+

lemma text_frames:
  "into_ws_message [0x53, 0x55, 0x42] = WsFrame.Text (WsText [0x53, 0x55, 0x42])"
  "into_ws_message [0x52, 0x41, 0x57] = WsFrame.Text (WsText [0x52, 0x41, 0x57])"
  "into_ws_message [0x41, 0x55, 0x54, 0x48] = WsFrame.Text (WsText [0x41, 0x55, 0x54, 0x48])"
  "into_ws_message [0x61, 0x75, 0x74, 0x68, 0x2D, 0x6F, 0x6B] = WsFrame.Text (WsText [0x61, 0x75, 0x74, 0x68, 0x2D, 0x6F, 0x6B])"
  "into_ws_message [0x72, 0x65, 0x63, 0x6F, 0x6E, 0x6E, 0x65, 0x63, 0x74] = WsFrame.Text (WsText [0x72, 0x65, 0x63, 0x6F, 0x6E, 0x6E, 0x65, 0x63, 0x74])"
  "into_ws_message [0x64, 0x61, 0x74, 0x61] = WsFrame.Text (WsText [0x64, 0x61, 0x74, 0x61])"
  by code_simp+

lemmas test_evaluation =
  session_defs loop_defs fixture_defs text_bytes text_frames from_millis_def ws_status_from_u8_def
  message_bytes_def

lemma reconnects_and_emits_lifecycle_events_passes: "reconnects_and_emits_lifecycle_events"
  unfolding reconnects_and_emits_lifecycle_events_def by (simp add: test_evaluation cong: let_weak_cong)

lemma replays_public_subscriptions_passes: "replays_public_subscriptions"
  unfolding replays_public_subscriptions_def by (simp add: test_evaluation cong: let_weak_cong)

lemma endpoint_reconnect_restores_flow_passes: "endpoint_reconnect_restores_flow"
  unfolding endpoint_reconnect_restores_flow_def by (simp add: test_evaluation cong: let_weak_cong)

lemma sends_outbound_command_passes: "sends_outbound_command"
  unfolding sends_outbound_command_def by (simp add: test_evaluation cong: let_weak_cong)

lemma applies_subscription_update_passes: "applies_subscription_update"
  unfolding applies_subscription_update_def by (simp add: test_evaluation cong: let_weak_cong)

lemma auth_gates_outbound_passes: "auth_gates_outbound"
  unfolding auth_gates_outbound_def by (simp add: test_evaluation cong: let_weak_cong)

lemma supports_sequential_connections_passes: "supports_sequential_connections"
  unfolding supports_sequential_connections_def exercise_connection_def
  by (simp add: session_defs conn_send_text_def mock_writer_send_def channel_send_def Let_def)

end
