(* ===== verification/Health_Loop_Tests.thy ===== *)
theory Health_Loop_Tests
  imports Managed_Health Managed_Tests
begin

text \<open>
  The two tests of the health-checked loop in \<^verbatim>\<open>ws/managed.rs\<close>: the loop over one
  connection of the reconnecting mock transport, event by event.  The histogram and the clock
  are arguments, and a sleep completes exactly on time.
\<close>

section \<open>Playing a test\<close>

type_synonym 'g health_test =
  "(TestEndpoint, unit, ReconnectableMockConnection, string, ProtocolPingPong, 'g) health_loop"

definition test_env :: "'g histogram_ops \<Rightarrow> (ProtocolPingPong, 'g) health_env" where
  "test_env ops = \<lparr>strategy = protocol_ping_pong, hist = ops, sleep_deadline = (+)\<rparr>"

abbreviation test_step ::
  "'g histogram_ops \<Rightarrow> (ReconnectableMockConnection, string) health_event \<Rightarrow> 'g health_test \<Rightarrow> 'g health_test" where
  "test_step ops \<equiv> health_loop_step test_endpoint fast_reconnect (test_env ops) socket_write"

text \<open>The loop is spawned, connects, and the server accepts.\<close>

definition accepted ::
  "'g histogram_ops \<Rightarrow> clock \<Rightarrow> duration \<Rightarrow> duration \<Rightarrow> duration \<Rightarrow> 'g health_test option" where
  "accepted ops clk every limit threshold =
     (case required_health_new (test_env ops) (clk 0) (protocol_new every limit) threshold of
        None \<Rightarrow> None
      | Some health \<Rightarrow>
          (case reconnectable_connect ''ws://example.invalid'' default_buffer_config reconnectable_channel_pair of
             (Inl _, _) \<Rightarrow> None
           | (Inr i, t) \<Rightarrow>
               if fst (accept_connection_timeout t) = Some i
               then Some (test_step ops (HConnect (later 1 clk) (Inr (connections t ! i)))
                            (start_health_loop (test_endpoint_new None) () health))
               else None))"

text \<open>What the test does with its end of the connection the loop holds.\<close>

definition at_server ::
  "(ReconnectableMockConnection \<Rightarrow> 'a \<times> ReconnectableMockConnection) \<Rightarrow> 'g health_test
     \<Rightarrow> ('a \<times> 'g health_test) option" where
  "at_server f s =
     (case phase s of
        AwaitEvent c auth \<Rightarrow> (let (a, c) = f c in Some (a, s\<lparr>phase := AwaitEvent c auth\<rparr>))
      | _ \<Rightarrow> None)"

text \<open>The loop reads the next frame.\<close>

definition read_turn :: "'g histogram_ops \<Rightarrow> clock \<Rightarrow> 'g health_test \<Rightarrow> 'g health_test option" where
  "read_turn ops clk s =
     (case at_server mock_reader_poll_next s of
        Some (Ready m, s) \<Rightarrow> Some (test_step ops (HRead clk m) s)
      | _ \<Rightarrow> None)"

definition joins :: "'g histogram_ops \<Rightarrow> clock \<Rightarrow> 'g health_test \<Rightarrow> bool" where
  "joins ops clk s = (phase (test_step ops (HCommand clk (Some ManagedWsCommand.Shutdown)) s) = Returned)"

section \<open>The tests\<close>

definition sends_protocol_ping_and_accepts_pong :: "'g histogram_ops \<Rightarrow> clock \<Rightarrow> bool" where
  "sends_protocol_ping_and_accepts_pong ops clk =
     (case accepted ops clk (from_millis 10) (from_secs 1) (from_secs 1) of
        None \<Rightarrow> False
      | Some s \<Rightarrow>
          (case at_server conn_recv_outbound_timeout (test_step ops (HPing (later 4 clk)) s) of
             None \<Rightarrow> False
           | Some (outbound, s) \<Rightarrow>
               (\<exists>b. outbound = Some (Ping b))
               \<and> (case at_server (conn_send_inbound (Pong [])) s of
                    None \<Rightarrow> False
                  | Some (answered, s) \<Rightarrow>
                      answered = Inr ()
                      \<and> (case read_turn ops (later 11 clk) s of
                           None \<Rightarrow> False
                         | Some s \<Rightarrow>
                             (case at_server conn_recv_outbound_timeout s of
                                None \<Rightarrow> False
                              | Some (outbound, s) \<Rightarrow> outbound = None \<and> joins ops (later 15 clk) s)))))"

definition replies_to_server_protocol_ping :: "'g histogram_ops \<Rightarrow> clock \<Rightarrow> bool" where
  "replies_to_server_protocol_ping ops clk =
     (case accepted ops clk (from_secs 60) (from_secs 60) (from_secs 60) of
        None \<Rightarrow> False
      | Some s \<Rightarrow>
          (case at_server (conn_send_inbound (Ping (str_bytes ''binance''))) s of
             None \<Rightarrow> False
           | Some (asked, s) \<Rightarrow>
               asked = Inr ()
               \<and> (case read_turn ops (later 4 clk) s of
                    None \<Rightarrow> False
                  | Some s \<Rightarrow>
                      (case at_server conn_recv_outbound_timeout s of
                         None \<Rightarrow> False
                       | Some (outbound, s) \<Rightarrow>
                           outbound = Some (Pong (str_bytes ''binance''))
                           \<and> events (handler s) = [Open False] \<and> joins ops (later 8 clk) s))))"

text \<open>The timing the first test relies on: its ping is due, and nothing is stale by then.\<close>

definition ping_due :: "clock \<Rightarrow> bool" where
  "ping_due clk \<longleftrightarrow>
     clk 3 + from_millis 10 \<le> clk 4 \<and> clk 6 \<le> clk 1 + from_secs 1 \<and> clk 10 + from_millis 10 \<le> INSTANT_MAX"

section \<open>They pass\<close>

lemmas health_test_defs =
  accepted_def at_server_def read_turn_def joins_def test_env_def required_health_new_def health_new_def
  reconnectable_connect_def reconnectable_channel_pair_def accept_connection_timeout_def recv_or_timeout_def
  channel_recv_def channel_new_def start_health_loop_def health_enter_def enter_connect_def
  health_on_connected_def connection_of_def health_after_arm_def health_loop_step.simps
  health_on_ping_def health_on_read_def health_on_frame_def health_on_command_def put_hw_def Managed_Health.sent_def
  socket_write_def conn_recv_outbound_timeout_def conn_send_inbound_def mock_reader_poll_next_def

lemma replies_to_server_protocol_ping_passes:
  assumes "hist_laws ops good"
  shows "replies_to_server_protocol_ping ops clk"
proof -
  obtain g where "new_latency_histogram ops = Some g"
    using assms by (auto simp: hist_laws_def new_latency_histogram_def MIN_RTT_US_def MAX_RTT_US_def)
  then show ?thesis
    by (simp add: replies_to_server_protocol_ping_def health_test_defs heartbeat_defs loop_defs fixture_defs
        reset_connection_def protocol_new_def cong: let_weak_cong)
qed

lemma sends_protocol_ping_passes:
  assumes "hist_laws ops good" and "ping_due clk"
  shows "sends_protocol_ping_and_accepts_pong ops clk"
proof -
  obtain g where "new_latency_histogram ops = Some g"
    using assms(1) by (auto simp: hist_laws_def new_latency_histogram_def MIN_RTT_US_def MAX_RTT_US_def)
  moreover have "clk 3 + from_millis 10 \<le> clk 4" "clk 6 - clk (Suc 0) \<le> from_secs 1"
    "clk 10 + from_millis 10 \<le> INSTANT_MAX"
    using assms(2) by (auto simp: ping_due_def)
  ultimately show ?thesis
    by (simp add: sends_protocol_ping_and_accepts_pong_def health_test_defs heartbeat_defs loop_defs fixture_defs
        reset_connection_def protocol_new_def health_is_stale_def health_defs later_def instant_add_def
        record_rtt_clamps cong: let_weak_cong)
qed

end
