(* ===== verification/Policy_Tests.thy ===== *)
theory Policy_Tests
  imports Fixture Tungstenite_Transport
begin

text \<open>
  The tests of \<^verbatim>\<open>fixture_policy.rs\<close>, and the one of the transport's limits, as the
  conjunction of their assertions.  The JSON library, the directory of temporary files (with its
  separator), the process id and the initial state of the environment, the files and the
  registry are arguments.
\<close>

section \<open>Set-up\<close>

record ('v, 'x) policy_test =
  test_json :: "'v SonicJson"
  sonic_to_vec :: "(string \<times> 'x SerdeValue) list \<Rightarrow> string + bytes"
  temp_dir :: string
  process_id :: nat
  test_env_vars :: environment
  test_fs :: FileSystem
  test_registry :: "WsFixtureRegistry Mutex"

definition temp_path :: "('v, 'x) policy_test \<Rightarrow> string \<Rightarrow> string" where
  "temp_path T name =
     temp_dir T @ ''shared-ws-fixture-policy-'' @ show_nat (process_id T) @ ''-'' @ name"

definition policy_fields :: "string \<Rightarrow> (string \<times> 'x SerdeValue) list" where
  "policy_fields src =
     [(''source'', String src),
      (''captured_at_ms'', Number (if src = ''live_capture'' then 1 else 0)),
      (''capture_command'', String (if src = ''live_capture'' then ''capture'' else [])),
      (''exchange_env'', String (if src = ''live_capture'' then ''deribit_testnet'' else [])),
      (''text'', String ''{}'')]"

text \<open>\<^const>\<open>None\<close>: one of its two \<open>expect\<close>s panics.\<close>

definition write_fixture ::
  "('v, 'x) policy_test \<Rightarrow> string \<Rightarrow> string \<Rightarrow> FileSystem \<Rightarrow> FileSystem option" where
  "write_fixture T path src fs =
     (case sonic_to_vec T (policy_fields src) of
        Inl _ \<Rightarrow> None
      | Inr body \<Rightarrow>
          (case fs_write None path body fs of (Inl _, _) \<Rightarrow> None | (Inr _, fs) \<Rightarrow> Some fs))"

text \<open>\<open>std::fs::remove_file\<close>, whose only failure in these tests is that the file is not there.\<close>

definition remove_file :: "string \<Rightarrow> FileSystem \<Rightarrow> FileSystem" where
  "remove_file path fs =
     fs\<lparr>read_file := (read_file fs)(path := Inl ''not found''), path_exists := (path_exists fs)(path := False)\<rparr>"

definition without_overrides :: "environment \<Rightarrow> environment" where
  "without_overrides env =
     env(SHARED_WS_FIXTURE_CAPTURE_MODE_ENV := None, SHARED_WS_ALLOW_LIVE_WITHOUT_FIXTURES_ENV := None)"

definition contract_a :: "string \<Rightarrow> string \<Rightarrow> WsFixtureRequirement" where
  "contract_a success err = \<lparr>contract_id = ''contract-a'', success_path = success, error_path = Some err\<rparr>"

definition fails_with :: "WebSocketError + unit \<Rightarrow> string \<Rightarrow> bool" where
  "fails_with r t = (case r of Inl e \<Rightarrow> sublist t (ws_error_to_string e) | Inr _ \<Rightarrow> False)"

text \<open>Both files are removed and then written with the given sources.\<close>

definition two_fixtures ::
  "('v, 'x) policy_test \<Rightarrow> string \<Rightarrow> string \<Rightarrow> string \<Rightarrow> string \<Rightarrow> FileSystem option" where
  "two_fixtures T success src err src' =
     (case write_fixture T success src (remove_file err (remove_file success (test_fs T))) of
        None \<Rightarrow> None
      | Some fs \<Rightarrow> write_fixture T err src' fs)"

section \<open>The tests\<close>

definition live_ws_requires_registered_contracts :: "('v, 'x) policy_test \<Rightarrow> bool" where
  "live_ws_requires_registered_contracts T =
     (case clear_required_ws_contracts_for_tests (test_registry T) of
        (None, _) \<Rightarrow> False
      | (Some _, m) \<Rightarrow>
          (case ensure_live_ws_allowed (without_overrides (test_env_vars T)) (test_json T) (test_fs T) m of
             None \<Rightarrow> False
           | Some r \<Rightarrow> fails_with r ''no required fixture contracts registered''))"

text \<open>The two tests on captured files differ in the source of the first one and in the verdict.\<close>

definition live_verdict ::
  "('v, 'x) policy_test \<Rightarrow> string \<Rightarrow> string \<Rightarrow> string \<Rightarrow> (WebSocketError + unit) option" where
  "live_verdict T success src err =
     (case two_fixtures T success src err ''live_capture'' of
        None \<Rightarrow> None
      | Some fs \<Rightarrow>
          (case clear_required_ws_contracts_for_tests (test_registry T) of
             (None, _) \<Rightarrow> None
           | (Some _, m) \<Rightarrow>
               (case register_required_ws_contracts (Some [contract_a success err]) m of
                  (None, _) \<Rightarrow> None
                | (Some _, m) \<Rightarrow>
                    ensure_live_ws_allowed (without_overrides (test_env_vars T)) (test_json T) fs m)))"

definition live_ws_rejects_non_live_capture_fixtures :: "('v, 'x) policy_test \<Rightarrow> bool" where
  "live_ws_rejects_non_live_capture_fixtures T =
     (case live_verdict T (temp_path T ''success.json'') ''synthesized'' (temp_path T ''error.json'') of
        None \<Rightarrow> False
      | Some r \<Rightarrow> fails_with r ''not compliant live-capture provenance'')"

definition live_ws_accepts_live_capture_fixtures :: "('v, 'x) policy_test \<Rightarrow> bool" where
  "live_ws_accepts_live_capture_fixtures T =
     (live_verdict T (temp_path T ''good-success.json'') ''live_capture'' (temp_path T ''good-error.json'')
      = Some (Inr ()))"

definition validator_requires_registered_contracts :: "('v, 'x) policy_test \<Rightarrow> bool" where
  "validator_requires_registered_contracts T =
     fails_with (validate_required_ws_contracts (test_json T) (test_fs T) []) ''no fixture contracts registered''"

definition validator_rejects_missing_fixture_files :: "('v, 'x) policy_test \<Rightarrow> bool" where
  "validator_rejects_missing_fixture_files T =
     (let success = temp_path T ''validator-missing-success.json'';
          err = temp_path T ''validator-missing-error.json'';
          fs = remove_file err (remove_file success (test_fs T))
      in fails_with (validate_required_ws_contracts (test_json T) fs [contract_a success err])
           ''missing fixture files'')"

definition validator_accepts_live_capture_fixtures :: "('v, 'x) policy_test \<Rightarrow> bool" where
  "validator_accepts_live_capture_fixtures T =
     (let success = temp_path T ''validator-good-success.json'';
          err = temp_path T ''validator-good-error.json''
      in case two_fixtures T success ''live_capture'' err ''live_capture'' of
           None \<Rightarrow> False
         | Some fs \<Rightarrow> validate_required_ws_contracts (test_json T) fs [contract_a success err] = Inr ())"

definition live_ws_allows_deployed_override :: "('v, 'x) policy_test \<Rightarrow> bool" where
  "live_ws_allows_deployed_override T =
     (case clear_required_ws_contracts_for_tests (test_registry T) of
        (None, _) \<Rightarrow> False
      | (Some _, m) \<Rightarrow>
          ensure_live_ws_allowed
            ((test_env_vars T)(SHARED_WS_FIXTURE_CAPTURE_MODE_ENV := None,
                               SHARED_WS_ALLOW_LIVE_WITHOUT_FIXTURES_ENV := Some ''1''))
            (test_json T) (test_fs T) m = Some (Inr ()))"

definition tungstenite_limits_reflect_buffer_config :: "'z WebSocketConfig_scheme \<Rightarrow> bool" where
  "tungstenite_limits_reflect_buffer_config dflt =
     (let buffers = \<lparr>write_buffer_bytes = 111, max_write_buffer_bytes = 222,
                     max_message_bytes = 2 * 2 ^ 20, max_frame_bytes = 3 * 2 ^ 20\<rparr>;
          cfg = build_ws_config dflt buffers
      in tung_max_message_size cfg = Some (2 * 2 ^ 20) \<and> tung_max_frame_size cfg = Some (3 * 2 ^ 20)
         \<and> tung_write_buffer_size cfg = 111 \<and> tung_max_write_buffer_size cfg = 222)"

section \<open>They pass\<close>

text \<open>What is needed of \<open>sonic_rs\<close>: it reads back the two documents the tests write.\<close>

definition reads_back :: "('v, 'x) policy_test \<Rightarrow> bool" where
  "reads_back T \<longleftrightarrow>
     (\<forall>src \<in> {''live_capture'', ''synthesized''}.
        let entries = policy_fields src
        in \<exists>bs. sonic_to_vec T entries = Inr bs \<and> document (test_json T) (\<lambda>_. []) entries bs)"

lemma temp_path_inj: "temp_path T a = temp_path T b \<longleftrightarrow> a = b"
  by (simp add: temp_path_def)

lemma no_override:
  "\<not> fixture_capture_mode_enabled (without_overrides env)"
  "\<not> live_without_fixtures_allowed (without_overrides env)"
  by (simp_all add: fixture_capture_mode_enabled_def live_without_fixtures_allowed_def env_truthy_def
        without_overrides_def)

lemma policy_document:
  fixes T :: "('v, 'x) policy_test"
  assumes "reads_back T" and "src \<in> {''live_capture'', ''synthesized''}"
  obtains bs doc where "sonic_to_vec T (policy_fields src) = Inr bs" and "from_slice (test_json T) bs = Inr doc"
    and "get_str (test_json T) doc ''source'' [] = src"
    and "get_u64 (test_json T) doc ''captured_at_ms'' = (if src = ''live_capture'' then 1 else 0)"
    and "get_str (test_json T) doc ''capture_command'' [] = (if src = ''live_capture'' then ''capture'' else [])"
    and "get_str (test_json T) doc ''exchange_env'' [] = (if src = ''live_capture'' then ''deribit_testnet'' else [])"
proof -
  let ?J = "test_json T"
  let ?es = "policy_fields src :: (string \<times> 'x SerdeValue) list"
  obtain bs where bs: "sonic_to_vec T ?es = Inr bs" and "document ?J (\<lambda>_. []) ?es bs"
    using bspec [OF assms(1) [unfolded reads_back_def] assms(2)] unfolding Let_def by metis
  then obtain doc where doc: "from_slice ?J bs = Inr doc"
    and entries: "\<And>k x. (k, x) \<in> set ?es \<Longrightarrow> \<exists>v. json_get ?J doc k = Some v \<and> sees ?J (\<lambda>_. []) x v"
    unfolding document_def by fast
  have str: "get_str ?J doc k [] = t" if "(k, String t) \<in> set ?es" for k t
    using entries [OF that] by (blast intro: get_str_sees)
  have num: "get_u64 ?J doc k = n" if "(k, Number n) \<in> set ?es" for k n
    using entries [OF that] by (blast intro: get_u64_sees)
  have fields: "(''source'', String src) \<in> set ?es"
    "(''captured_at_ms'', Number (if src = ''live_capture'' then 1 else 0)) \<in> set ?es"
    "(''capture_command'', String (if src = ''live_capture'' then ''capture'' else [])) \<in> set ?es"
    "(''exchange_env'', String (if src = ''live_capture'' then ''deribit_testnet'' else [])) \<in> set ?es"
    by (simp_all only: policy_fields_def list.set insert_iff simp_thms)
  show thesis
    by (rule that [OF bs doc str [OF fields(1)] num [OF fields(2)] str [OF fields(3)] str [OF fields(4)]])
qed

lemma trim_words: "trim ''capture'' = ''capture''" "trim ''deribit_testnet'' = ''deribit_testnet''"
  by code_simp+

lemma trim_one: "trim ''1'' = ''1''"
  by code_simp

text \<open>The check of a file a test has written, whatever else is on the disk.\<close>

lemma live_fixture_check:
  assumes "reads_back T"
  shows "\<exists>bs. sonic_to_vec T (policy_fields ''live_capture'') = Inr bs
    \<and> (\<forall>fs path. read_file fs path = Inr bs \<longrightarrow> ensure_live_capture_fixture (test_json T) fs path = Inr ())"
  by (rule policy_document [OF assms, of "''live_capture''"])
     (auto simp: ensure_live_capture_fixture_def trim_words Let_def)

definition provenance_error :: "string \<Rightarrow> WebSocketError" where
  "provenance_error path =
     InvalidState (''live websocket blocked: fixture '' @ path @ '' is not compliant live-capture provenance'')"

lemma synthesized_fixture_check:
  assumes "reads_back T"
  shows "\<exists>bs. sonic_to_vec T (policy_fields ''synthesized'') = Inr bs
    \<and> (\<forall>fs path. read_file fs path = Inr bs
         \<longrightarrow> ensure_live_capture_fixture (test_json T) fs path = Inl (provenance_error path))"
  by (rule policy_document [OF assms, of "''synthesized''"])
     (auto simp: ensure_live_capture_fixture_def provenance_error_def Let_def)

lemma provenance_error_text: "sublist ''not compliant live-capture provenance'' (ws_error_to_string (provenance_error path))"
  unfolding provenance_error_def sublist_def
  by (intro exI [of _ "''Invalid state: live websocket blocked: fixture '' @ path @ '' is ''"] exI [of _ "[]"]) simp

lemmas policy_test_defs =
  two_fixtures_def write_fixture_def fs_write_def remove_file_def contract_a_def fails_with_def
  clear_required_ws_contracts_for_tests_def register_required_ws_contracts_def ensure_live_ws_allowed_def
  validate_required_ws_contracts_def no_override temp_path_inj

lemma accepting_policy_tests_pass:
  assumes "reads_back T" and "\<not> poisoned (test_registry T)"
  shows "live_ws_accepts_live_capture_fixtures T" and "validator_accepts_live_capture_fixtures T"
  using live_fixture_check [OF assms(1)] assms(2)
  by (auto simp: live_ws_accepts_live_capture_fixtures_def validator_accepts_live_capture_fixtures_def
      live_verdict_def policy_test_defs)

lemma rejecting_policy_test_passes:
  assumes "reads_back T" and "\<not> poisoned (test_registry T)"
  shows "live_ws_rejects_non_live_capture_fixtures T"
  using live_fixture_check [OF assms(1)] synthesized_fixture_check [OF assms(1)] assms(2)
  by (auto simp: live_ws_rejects_non_live_capture_fixtures_def live_verdict_def policy_test_defs
      provenance_error_text)

lemma contains_part: "whole = pre @ part @ post \<Longrightarrow> sublist part whole"
  by (auto simp: sublist_def)

lemma unregistered_text:
  "sublist ''no required fixture contracts registered''
     ''Invalid state: live websocket blocked: no required fixture contracts registered''"
  by (rule contains_part [where pre = "''Invalid state: live websocket blocked: ''" and post = "[]"]) simp

lemma unvalidated_text:
  "sublist ''no fixture contracts registered''
     ''Invalid state: required websocket fixture validation failed: no fixture contracts registered''"
  by (rule contains_part [where pre = "''Invalid state: required websocket fixture validation failed: ''" and post = "[]"])
     simp

lemma missing_files_text:
  "sublist ''missing fixture files'' (ws_error_to_string (InvalidState
     (missing_text ''required websocket fixture validation failed'' (contract_a a b))))"
  unfolding missing_text_def
  by (rule contains_part [where pre = "''Invalid state: required websocket fixture validation failed: ''"
        and post = "'' for contract=contract-a success='' @ a @ '' error='' @ b"])
     (simp add: contract_a_def)

lemma registry_policy_tests_pass:
  assumes "\<not> poisoned (test_registry T)"
  shows "live_ws_requires_registered_contracts T" and "live_ws_allows_deployed_override T"
proof -
  show "live_ws_requires_registered_contracts T"
    using assms by (simp add: live_ws_requires_registered_contracts_def policy_test_defs unregistered_text)
  show "live_ws_allows_deployed_override T"
    using assms
    by (simp add: live_ws_allows_deployed_override_def policy_test_defs live_without_fixtures_allowed_def
        env_truthy_def trim_one)
qed

lemma validator_policy_tests_pass:
  "validator_requires_registered_contracts T" "validator_rejects_missing_fixture_files T"
proof -
  show "validator_requires_registered_contracts T"
    by (simp add: validator_requires_registered_contracts_def validate_required_ws_contracts_def fails_with_def
        unvalidated_text)
  have missing: "check_requirements ''required websocket fixture validation failed'' J (remove_file e (remove_file p fs))
      [contract_a p e] = Inl (InvalidState (missing_text ''required websocket fixture validation failed'' (contract_a p e)))"
    for J :: "'v SonicJson" and e p fs
    by (simp add: contract_a_def remove_file_def)
  show "validator_rejects_missing_fixture_files T"
    unfolding validator_rejects_missing_fixture_files_def Let_def validate_required_ws_contracts_def fails_with_def
    by (simp del: check_requirements.simps ws_error_to_string.simps add: missing missing_files_text)
qed

lemma limits_test_passes: "tungstenite_limits_reflect_buffer_config dflt"
  by (simp add: tungstenite_limits_reflect_buffer_config_def build_ws_config_def)

end
