(* ===== verification/Test_Properties.thy ===== *)
theory Test_Properties
  imports Core_Tests Health_Loop_Tests Policy_Tests
begin

text \<open>The crate's unit tests pass, whatever the clock, the histogram, the JSON library and the
  state of the process they run in, as far as the tests rely on these.\<close>

section \<open>Surroundings that meet what the tests rely on\<close>

text \<open>A histogram that keeps its samples.\<close>

definition list_percentile :: "rat \<Rightarrow> u64 list \<Rightarrow> u64" where
  "list_percentile p vs =
     (if vs = [] then 0 else if 0 < p \<and> p \<le> 100 then nearest_rank p vs else last (sort vs))"

definition list_len :: "u64 list \<Rightarrow> u64" where
  "list_len vs = word_of_nat (min (length vs) (2 ^ 64 - 1))"

definition list_histogram :: "(u64 list) histogram_ops" where
  "list_histogram =
     \<lparr>hist_new_with_bounds = (\<lambda>lo hi digits. Some []), hist_record = (\<lambda>v vs. vs @ [v]),
      hist_len = list_len, hist_value_at_percentile = list_percentile\<rparr>"

lemma unat_list_len: "unat (list_len vs) = min (length vs) (2 ^ 64 - 1)"
  unfolding list_len_def by (rule unat_word_of_nat_u64) simp

lemma list_len_append: "list_len (vs @ [v]) = saturating_add (list_len vs) 1"
  unfolding word_unat_eq_iff unat_saturating_add unat_list_len by simp

lemma rank_in_range:
  assumes "vs \<noteq> []" and "0 < p" and "p \<le> 100"
  shows "nat \<lceil>p * of_nat (length vs) / 100\<rceil> - 1 < length vs"
proof -
  have "p * of_nat (length vs) \<le> 100 * of_nat (length vs)" using assms(3) by (intro mult_right_mono) simp_all
  then have "\<lceil>p * of_nat (length vs) / 100\<rceil> \<le> int (length vs)" by (simp add: ceiling_le_iff)
  then show ?thesis using assms(1) by (cases vs) auto
qed

lemma percentile_in:
  assumes "vs \<noteq> []"
  shows "list_percentile p vs \<in> set vs"
proof -
  have "sort vs \<noteq> []" using assms by (metis length_0_conv length_sort)
  then have "last (sort vs) \<in> set vs" using last_in_set by fastforce
  moreover have "nearest_rank p vs \<in> set vs" if "0 < p" "p \<le> 100"
    unfolding nearest_rank_def
    using nth_mem [of "nat \<lceil>p * of_nat (length vs) / 100\<rceil> - 1" "sort vs"] rank_in_range [OF assms that] by simp
  ultimately show ?thesis using assms by (simp add: list_percentile_def)
qed

lemma list_histogram_laws: "hist_laws list_histogram (\<lambda>vs. \<forall>v \<in> set vs. 1 \<le> v)"
proof -
  have "1 \<le> list_percentile p vs" if "\<forall>v \<in> set vs. 1 \<le> v" "list_len vs \<noteq> 0" for p vs
    using that percentile_in [of vs p] by (cases vs) (auto simp: list_len_def)
  then show ?thesis by (simp add: hist_laws_def list_histogram_def list_len_append) (simp add: list_len_def)
qed

lemma list_histogram_fold: "fold (hist_record list_histogram) vs g = g @ vs"
  by (induction vs arbitrary: g) (simp_all add: list_histogram_def)

lemma list_histogram_exact: "hist_exact list_histogram"
  unfolding hist_exact_def list_histogram_fold
  by (simp add: list_histogram_def new_latency_histogram_def list_percentile_def)

text \<open>A JSON library that writes and reads the two documents, one byte each.\<close>

definition tiny_lookup :: "string \<Rightarrow> string \<Rightarrow> (unit SerdeValue) option" where
  "tiny_lookup src k = map_of (policy_fields src) k"

definition tiny_json :: "(string + unit SerdeValue) SonicJson" where
  "tiny_json =
     \<lparr>from_slice = (\<lambda>bs. Inr (Inl (if bs = [1] then ''live_capture'' else ''synthesized''))),
      json_get = (\<lambda>d k. case d of Inl src \<Rightarrow> map_option Inr (tiny_lookup src k) | Inr _ \<Rightarrow> None),
      json_as_str = (\<lambda>d. case d of Inr (String s) \<Rightarrow> Some s | _ \<Rightarrow> None),
      json_as_u64 = (\<lambda>d. case d of Inr (Number n) \<Rightarrow> Some n | _ \<Rightarrow> None),
      json_is_array = (\<lambda>_. False), json_is_object = (\<lambda>_. False), json_to_string = (\<lambda>_. Inl ''''),
      from_str_value = (\<lambda>_. Inl ''''), from_str_string = (\<lambda>_. Inl '''')\<rparr>"

definition tiny_test :: "(string + unit SerdeValue, unit) policy_test" where
  "tiny_test =
     \<lparr>test_json = tiny_json,
      sonic_to_vec = (\<lambda>es. Inr (if es = policy_fields ''live_capture'' then [1] else [0])),
      temp_dir = ''/tmp/'', process_id = 7, test_env_vars = (\<lambda>_. None),
      test_fs = \<lparr>read_file = (\<lambda>_. Inl ''not found''), path_exists = (\<lambda>_. False)\<rparr>,
      test_registry = registry\<rparr>"

lemma tiny_reads_back: "reads_back tiny_test"
  by (simp add: reads_back_def Let_def tiny_test_def document_def tiny_json_def policy_fields_def tiny_lookup_def
      sees_def)

section \<open>The tests\<close>

text \<open>The timing of the tests without a sleep, and of the one that outwaits a ping.\<close>

definition steady :: "clock \<Rightarrow> bool" where
  "steady clk \<longleftrightarrow>
     mono clk \<and> from_secs 20 \<le> clk 0 \<and> clk 1 \<le> clk 0 + from_secs 1 \<and> clk 2 \<le> clk 1 + from_secs 2"

definition outwaits_ping :: "clock \<Rightarrow> bool" where
  "outwaits_ping clk \<longleftrightarrow> mono clk \<and> clk 1 + from_millis 15 \<le> clk 2 \<and> clk 5 \<le> clk 4 + from_millis 10"

text \<open>
  C32. The unit tests of the ping strategies, the circuit breaker, the jitter and the health
  monitor pass on every clock with the sleeps they ask for and without the delays they exclude,
  for every random factor, and for every histogram that behaves as documented.
\<close>

theorem core_tests_pass:
  assumes "steady clk" and "outwaits_ping slow" and "breaker_timing trip"
    and "list_all (\<lambda>j. 1 / 2 \<le> j \<and> j \<le> 1) js" and "hist_laws ops good" and "hist_exact ops"
  shows "protocol_reports_rtt_and_replies clk \<and> server_driven_replies_without_ping clk
    \<and> application_tracks_pending clk \<and> application_cleans_up_stale slow
    \<and> breaker_transitions_through_states trip \<and> jitter_respects_bounds js
    \<and> records_rtt_and_percentiles ops clk \<and> clamps_rtt_to_bounds ops clk \<and> reset_clears_stats ops clk
    \<and> truncates_error_buffers ops clk \<and> detects_stale_connections ops clk
    \<and> caps_error_string_sizes ops clk"
proof (intro conjI)
  have m: "mono clk" "from_secs 20 \<le> clk 0" "clk 1 \<le> clk 0 + from_secs 1" "clk 2 \<le> clk 1 + from_secs 2"
    using assms(1) by (simp_all add: steady_def)
  then have late: "from_secs 20 \<le> clk 3" "from_secs 10 \<le> clk 0"
    using monoD [OF m(1), of 0 3] by (simp_all add: from_secs_def)
  show "protocol_reports_rtt_and_replies clk" by (rule protocol_reports_rtt_passes [OF m(1) late(1)])
  show "detects_stale_connections ops clk" by (rule detects_stale_passes [OF assms(5) m(1) late(2) m(3)])
  show "application_tracks_pending clk" by (rule application_tracks_pending_passes [OF m(4)])
  show "application_cleans_up_stale slow"
    using assms(2) by (intro application_cleans_up_stale_passes) (simp_all add: outwaits_ping_def)
qed (rule server_driven_replies_passes breaker_transitions_passes [OF assms(3)]
      jitter_respects_bounds_passes [OF assms(4)] records_rtt_passes [OF assms(5,6)]
      clamps_rtt_to_bounds_passes [OF assms(5)] reset_clears_stats_passes [OF assms(5)]
      truncates_error_buffers_passes [OF assms(5)] caps_error_string_passes [OF assms(5)])+

definition slow_clock :: clock where
  "slow_clock i = 20000000000 + (if 2 \<le> i then 15000000 else 0)"

definition trip_clock :: clock where
  "trip_clock i = (if 5 \<le> i then 35000000 else 0) + (if 10 \<le> i then 35000000 else 0)"

theorem core_tests_pass_witness:
  "breaker_transitions_through_states trip_clock \<and> application_cleans_up_stale slow_clock
   \<and> records_rtt_and_percentiles list_histogram (\<lambda>_. 20000000000)"
proof -
  have "steady (\<lambda>_. 20000000000)" by (simp add: steady_def from_secs_def mono_def)
  moreover have "outwaits_ping slow_clock"
    by (auto simp: outwaits_ping_def slow_clock_def from_millis_def mono_def)
  moreover have "breaker_timing trip_clock"
    by (simp add: breaker_timing_def trip_clock_def from_millis_def INSTANT_MAX_def)
  moreover have "list_all (\<lambda>j. 1 / 2 \<le> j \<and> j \<le> 1) [3 / 4 :: rat]" by simp
  ultimately show ?thesis
    using core_tests_pass [OF _ _ _ _ list_histogram_laws list_histogram_exact] by blast
qed



text \<open>
  C33. The tests of the fixture policy pass in every environment, on every disk and with every
  registry that is not poisoned, provided the JSON library reads back the two documents they
  write; and so does the test of the transport's limits.
\<close>

theorem policy_tests_pass:
  assumes "reads_back T" and "\<not> poisoned (test_registry T)"
  shows "live_ws_requires_registered_contracts T \<and> live_ws_rejects_non_live_capture_fixtures T
    \<and> live_ws_accepts_live_capture_fixtures T \<and> validator_requires_registered_contracts T
    \<and> validator_rejects_missing_fixture_files T \<and> validator_accepts_live_capture_fixtures T
    \<and> live_ws_allows_deployed_override T \<and> tungstenite_limits_reflect_buffer_config dflt"
  using registry_policy_tests_pass [OF assms(2)] accepting_policy_tests_pass [OF assms]
    rejecting_policy_test_passes [OF assms] validator_policy_tests_pass [of T] limits_test_passes [of dflt]
  by blast

theorem policy_tests_pass_witness:
  "live_ws_rejects_non_live_capture_fixtures tiny_test \<and> live_ws_accepts_live_capture_fixtures tiny_test"
proof -
  have "\<not> poisoned (test_registry tiny_test)" by (simp add: tiny_test_def registry_def)
  from policy_tests_pass [OF tiny_reads_back this] show ?thesis by blast
qed

end
