(* ===== verification/Delegated.thy ===== *)
theory Delegated
  imports Core_Types
begin

text \<open>
  Delegated requests (\<^verbatim>\<open>src/src/ws/delegated.rs\<close>): the request a caller hands to the
  socket's owner, the outcomes, and the deadline helper.  Nothing under \<^verbatim>\<open>src/\<close>
  interprets them; the theory fixes their vocabulary and what the constructors record.
\<close>

datatype WsConfirmMode = Sent | Confirmed

record WsDelegatedRequest =
  req_request_id :: u64
  req_fingerprint :: u64
  req_frame :: WsFrame
  confirm_deadline :: instant
  confirm_mode :: WsConfirmMode

definition delegated_sent ::
  "u64 \<Rightarrow> u64 \<Rightarrow> WsFrame \<Rightarrow> instant \<Rightarrow> WsDelegatedRequest" where
  "delegated_sent rid fingerprint frame deadline =
     \<lparr>req_request_id = rid, req_fingerprint = fingerprint, req_frame = frame,
      confirm_deadline = deadline, confirm_mode = Sent\<rparr>"

definition delegated_confirmed ::
  "u64 \<Rightarrow> u64 \<Rightarrow> WsFrame \<Rightarrow> instant \<Rightarrow> WsDelegatedRequest" where
  "delegated_confirmed rid fingerprint frame deadline =
     \<lparr>req_request_id = rid, req_fingerprint = fingerprint, req_frame = frame,
      confirm_deadline = deadline, confirm_mode = Confirmed\<rparr>"

record WsDelegatedOk =
  ok_request_id :: u64
  ok_confirmed :: bool
  ok_rate_limit_feedback :: "WsRateLimitFeedback option"

datatype WsDelegatedError =
    NotDelivered u64 string
  | Unconfirmed u64 string
  | PayloadMismatch u64
  | TooManyPending nat
  | EndpointRejected u64 string "WsRateLimitFeedback option"

definition not_delivered :: "u64 \<Rightarrow> string \<Rightarrow> WsDelegatedError" where
  "not_delivered rid message = NotDelivered rid message"

definition unconfirmed :: "u64 \<Rightarrow> string \<Rightarrow> WsDelegatedError" where
  "unconfirmed rid message = Unconfirmed rid message"

definition endpoint_rejected ::
  "u64 \<Rightarrow> string \<Rightarrow> WsRateLimitFeedback option \<Rightarrow> WsDelegatedError" where
  "endpoint_rejected rid message feedback = EndpointRejected rid message feedback"

record WsDelegatedTimeout =
  deadline :: instant

text \<open>\<open>Instant::now() + d\<close> panics when the sum is not representable.\<close>

definition delegated_after :: "instant \<Rightarrow> duration \<Rightarrow> WsDelegatedTimeout option" where
  "delegated_after now d = map_option (\<lambda>t. \<lparr>deadline = t\<rparr>) (instant_add now d)"

end
