(* ===== verification/Spec2Isabelle.thy ===== *)
theory Spec2Isabelle
  imports Core_Properties Reconnect_Properties Managed_Properties Managed_Health_Properties
    Composition_Properties Session_Properties Server_Properties Lifecycle_Properties Fanout_Properties
    Transport_Properties Testing_Properties Test_Properties Delegated
begin

text \<open>
  A verification development for the Rust crate \<open>shared-ws\<close>: a WebSocket client library
  whose parts are a transport-neutral core (\<^verbatim>\<open>src/src/core\<close>), the managed client loops
  and the managed server (\<^verbatim>\<open>src/src/ws\<close>), transports (\<^verbatim>\<open>src/src/transport\<close>,
  \<^verbatim>\<open>src/src/client.rs\<close>), the fixtures that gate live connections
  (\<^verbatim>\<open>src/src/fixture.rs\<close>, \<^verbatim>\<open>src/src/fixture_policy.rs\<close>), test support
  (\<^verbatim>\<open>src/src/testing.rs\<close>) and an example program (\<^verbatim>\<open>src/examples\<close>).

  \<^bold>\<open>Conventions.\<close>  A \<open>Duration\<close> or \<open>Instant\<close> is a number of nanoseconds; every reading of
  the clock is an input, and an addition to an \<open>Instant\<close> that overflows is a panic.  Machine
  integers are words, with saturating addition written out.  A Rust \<open>String\<close> is a string of
  its UTF-8 bytes.  A trait is a record of functions over the implementor's state; an error
  of an application-defined type is its text.  A panic is the value \<open>None\<close> or the phase
  \<open>Panicked\<close>.  Code of other crates (the histogram, tokio's timers, the socket, the JSON
  libraries) is an
  argument of the definitions that use it, with what is relied on as a hypothesis.

  \<^bold>\<open>Theories.\<close>
  \<^item> \<open>Prelude\<close>, \<open>Utf8\<close>: words, time, UTF-8 validity and character boundaries.
  \<^item> \<open>Frame\<close>, \<open>Core_Types\<close>: \<^verbatim>\<open>core/frame.rs\<close> and \<^verbatim>\<open>core/types.rs\<close>; frames, errors,
    causes, actions and the traits \<open>WsEndpointHandler\<close> and \<open>WsReconnectStrategy\<close>.
  \<^item> \<open>Circular_Buffer\<close>: \<^verbatim>\<open>core/circular_buffer.rs\<close>.  The locale \<open>bounded_log\<close> is what the
    health monitor relies on; \<open>retain\<close> is shown equal to a stateful filter.
  \<^item> \<open>Connection_Policy\<close>: the circuit breaker of \<^verbatim>\<open>core/connection_policy.rs\<close>, its invariant
    and its refinement of an abstract guard with unbounded counters.
  \<^item> \<open>Health\<close>: \<^verbatim>\<open>core/health.rs\<close>, bounded logs, truncation of texts, clamped samples.
  \<^item> \<open>Heartbeat\<close>: \<^verbatim>\<open>core/ping.rs\<close>.  The locale \<open>ping_strategy\<close> is the contract of a
    strategy; all three strategies interpret it.
  \<^item> \<open>Float64\<close>, \<open>Reconnect\<close>, \<open>Reconnect_Properties\<close>: 64-bit floats as rationals with
    rounding to nearest even, the exponential backoff of \<^verbatim>\<open>core/reconnect.rs\<close> and
    \<open>jitter_delay\<close>.  The locale \<open>reconnect_strategy\<close> is the contract of a strategy; the
    backoff and the two strategies of the tests interpret it.
  \<^item> \<open>Strings\<close>, \<open>Channels\<close>: what the code uses of \<open>str\<close>, and tokio's unbounded channel; the
    locale \<open>fifo_channel\<close> says that what was received is a prefix of what was sent.
  \<^item> \<open>Transport\<close>, \<open>Mock_Transport\<close>: the locale \<open>ws_sink\<close>, the contract of a connection's
    writer, and its interpretation on the mock writer of \<^verbatim>\<open>testing.rs\<close>.
  \<^item> \<open>Client\<close>, \<open>Tungstenite_Transport\<close>: \<^verbatim>\<open>client.rs\<close>, \<^verbatim>\<open>tls.rs\<close> and
    \<^verbatim>\<open>transport/tungstenite.rs\<close>, with tungstenite's own functions as arguments; the live
    writer is a \<open>ws_sink\<close>.  \<open>Fixture\<close>, \<open>Fixture_Policy\<close>: \<^verbatim>\<open>fixture.rs\<close> and
    \<^verbatim>\<open>fixture_policy.rs\<close>.  \<open>Transport_Properties\<close>: their properties.
  \<^item> \<open>Mock_Server\<close>, \<open>Json_Rpc\<close>: the mock transports and the JSON-RPC endpoint of
    \<^verbatim>\<open>testing.rs\<close>; \<open>Trade_Logger\<close>: \<^verbatim>\<open>examples/bybit_trade_batch_logger.rs\<close>;
    \<open>Testing_Properties\<close>: their properties.
  \<^item> \<open>Delegated\<close>: the records of \<^verbatim>\<open>ws/delegated.rs\<close>.
  \<^item> \<open>Managed\<close>: \<open>run_managed_ws_loop\<close> and its helpers in \<^verbatim>\<open>ws/managed.rs\<close>.  The state is the
    one between two awaits, a step is the completion of one await; \<open>Managed_Safety\<close> holds
    the lemmas over all event sequences and \<open>Managed_Properties\<close> the properties.  The locale
    \<open>writer_invariant\<close> carries any property of a writer that data frames keep through a whole
    run; \<open>ws_sink\<close> is an instance of it, and so is the growth of a mock connection.
  \<^item> \<open>Mock_Session\<close>, \<open>Session_Properties\<close>: the plain loop over the reconnecting mock transport,
    with the server and the sender of commands interleaved in any order.
  \<^item> \<open>Managed_Health\<close>, \<open>Managed_Health_Properties\<close>: \<open>run_health_checked_managed_ws_loop\<close>,
    whose state extends the plain loop's, and its simulation by the plain loop.
  \<^item> \<open>Managed_Fixture\<close>: the endpoint of the module's own tests, used by the witnesses.
  \<^item> \<open>Managed_Handle\<close>: the handle of a loop and its task.  The locale \<open>managed_body\<close> is what
    the handle relies on; both loops interpret it.  \<open>Managed_Composition\<close> and
    \<open>Composition_Properties\<close>: the loop with its strategy, the live writer and its handle.
  \<^item> \<open>Server_Types\<close>, \<open>Server_Handle\<close>: \<^verbatim>\<open>ws/server/types.rs\<close>, \<^verbatim>\<open>config.rs\<close> and
    \<^verbatim>\<open>handle.rs\<close>; \<open>Server_Connection\<close>: one connection of \<^verbatim>\<open>runtime.rs\<close>;
    \<open>Server_Runtime\<close>: its lifecycle and accept loop, one step per await, task end or handle
    call; \<open>Server_Task\<close>: the handle as the owner of the server task; \<open>Server_Safety\<close>,
    \<open>Server_Properties\<close>: the invariants and the properties.  \<open>Server_Lifecycle\<close>: the lifecycle
    \<^verbatim>\<open>ws/server/mod.rs\<close> documents as an inductive relation on statuses, which every run
    refines, and what an observer of the status reads; \<open>Lifecycle_Properties\<close>: its properties.
    \<open>Server_Fanout\<close>, \<open>Fanout_Properties\<close>: \<open>dispatch\<close>, the broadcast channel as documented, and
    all connections of a server; the locale \<open>broadcast_reads\<close> is what a connection relies on.
  \<^item> \<open>Core_Tests\<close>, \<open>Managed_Tests\<close>, \<open>Health_Loop_Tests\<close>, \<open>Policy_Tests\<close>: the modules' own tests,
    with the clock, the random factors, the histogram, the JSON library and the state of the
    process as arguments; \<open>Test_Properties\<close>: they pass.
  \<^item> \<open>Core_Properties\<close>: the properties of the core.

  \<^bold>\<open>What is shown.\<close>  For the loops, over every sequence of connect results, commands, inbound
  frames, timer ticks and delays: the published status is the one of the loop's phase; a
  session that is not authenticated is unaffected by commands except for a queue in arrival
  order, and on authentication the wire receives the replayed subscriptions and then that
  queue; only data frames are written; shutdown ends the loop wherever commands are polled.
  The health-checked loop does what the plain one does while the heartbeat is quiet, answers
  pings without parsing them, and keeps its monitor bounded and consistent.  The server, over
  every interleaving, keeps its active count equal to the slots held and within the cap, never
  leaves a final status, stores a terminal cause exactly in \<open>Terminal\<close>, publishes the documented
  lifecycle and nothing else, answers every observer that reads a final status, spends exactly
  its retry budget, and gives each handler its events in order, control frames excluded, and
  the dispatched commands without a gap.  A server
  handle that is dropped or shut down leaves no connection behind.  A live socket is opened only
  when the fixture policy holds; frames survive the conversions of the live transport, and a
  loop on it sends only valid text and binary messages; over the reconnecting mock transport each
  side receives what the other sent on the same connection, in order.  The backoff never panics, grows
  monotonically from its base to its cap and, with a factor of at least one and a half, reaches
  it.  A written fixture is read back, the mock transport delivers in order, and the scanner for
  request ids returns on every input and reads back what was written.  The tests of the core, of
  both loops, of the reconnecting transport and of the fixture policy pass on every clock and in
  every surrounding they can rely on.

  Eight theorems record behaviour that looks unintended: the answer to a connection's last event
  is dropped although documented otherwise, a command received in the reconnect delay is lost,
  a loop that reconnects immediately cannot be shut down while \<open>connect\<close> fails, a shutdown of
  a loop that times out leaves its task running, a loop that has stopped cannot be shut down
  without an error, a peer that never answers pings is not detected when the interval does not
  exceed the timeout, a reused ping key makes a connection look stale, and a fixture whose text
  is a JSON string of ordinary text cannot be written.

  \<^bold>\<open>Fuel and bounds.\<close>  No definition uses fuel.  The loops are step functions folded over a
  list of events, so every prefix of an infinite execution is covered, and the inner
  \<open>for\<close> and \<open>while\<close> loops recurse over lists.  The scanner for request ids, whose index does
  not grow in every round, is a partial function with a proof that it returns; the decoding of
  embedded JSON runs its four rounds.  The properties of the backoff are for delays below
  \<open>2^22\<close> seconds, where a number of seconds still determines its nanoseconds.

  \<^bold>\<open>Not modelled.\<close>  Module re-exports, \<open>Debug\<close> output, the informational lines the example
  prints after subscribing, and the inside of other crates: sockets and handshakes, TLS, JSON
  parsing, the task scheduler.  Of the modules' own tests: the two of \<^verbatim>\<open>fixture.rs\<close>, which
  assert the output of the JSON libraries, the size of \<open>WsText\<close> in memory, and those of the
  server in their own file.
\<close>

end
